(* ===== verification/Prelude.thy ===== *)
theory Prelude
  imports Main "HOL-Library.Sublist"
begin

text \<open>
  Shared library of the development: the operations of \<^verbatim>\<open>std::string\<close> and of the C
  character library that the scanner uses, as executable functions on \<^typ>\<open>char list\<close>, and
  the generic lemmas on them.

  \<^item> \<^verbatim>\<open>std::string\<close>, \<^verbatim>\<open>std::vector<unsigned char>\<close> and \<^verbatim>\<open>char*\<close>
    buffers are \<^typ>\<open>string\<close>s: a \<^typ>\<open>char\<close> of HOL is one byte.
  \<^item> A position is a \<^typ>\<open>nat\<close>; \<^verbatim>\<open>std::string::npos\<close> is \<^const>\<open>None\<close>.
  \<^item> The collection \<open>str_simps\<close> rewrites the search and trimming operations to
    \<^const>\<open>takeWhile\<close>, \<^const>\<open>dropWhile\<close>, \<^const>\<open>take\<close> and \<^const>\<open>drop\<close>.
\<close>

named_theorems str_simps \<open>search, erase and trim operations as list functions\<close>

section \<open>Characters\<close>

definition CR :: char where "CR = char_of (13 :: nat)"
definition LF :: char where "LF = char_of (10 :: nat)"
definition TAB :: char where "TAB = char_of (9 :: nat)"
definition NUL :: char where "NUL = char_of (0 :: nat)"

abbreviation code :: "char \<Rightarrow> nat" where "code c \<equiv> of_char c"

text \<open>\<^verbatim>\<open>tolower\<close>, \<^verbatim>\<open>toupper\<close>, \<^verbatim>\<open>isdigit\<close>,
  \<^verbatim>\<open>isspace\<close> of the C locale.\<close>

definition to_lower :: "char \<Rightarrow> char" where
  "to_lower c = (if 65 \<le> code c \<and> code c \<le> 90 then char_of (code c + 32) else c)"

definition to_upper :: "char \<Rightarrow> char" where
  "to_upper c = (if 97 \<le> code c \<and> code c \<le> 122 then char_of (code c - 32) else c)"

definition is_digit :: "char \<Rightarrow> bool" where
  "is_digit c \<longleftrightarrow> 48 \<le> code c \<and> code c \<le> 57"

definition is_space :: "char \<Rightarrow> bool" where
  "is_space c \<longleftrightarrow> code c = 32 \<or> (9 \<le> code c \<and> code c \<le> 13)"

lemma code_char_of [simp]: "n < 256 \<Longrightarrow> code (char_of n) = n"
  by simp

lemma code_less_256 [simp]: "code c < 256"
  using nat_of_char_less_256 by simp

lemma to_lower_idem [simp]: "to_lower (to_lower c) = to_lower c"
  by (simp add: to_lower_def)

lemma to_upper_idem [simp]: "to_upper (to_upper c) = to_upper c"
  by (auto simp: to_upper_def)

lemma map_to_lower_idem [simp]: "map to_lower (map to_lower s) = map to_lower s"
  by simp

lemma map_to_upper_idem [simp]: "map to_upper (map to_upper s) = map to_upper s"
  by simp

section \<open>Searching a string\<close>

text \<open>\<open>find_sub p s\<close> is \<^verbatim>\<open>s.find(p)\<close>; \<open>find_sub_from p s n\<close> is
  \<^verbatim>\<open>s.find(p, n)\<close>.\<close>

fun find_sub :: "'a list \<Rightarrow> 'a list \<Rightarrow> nat option" where
  "find_sub p [] = (if p = [] then Some 0 else None)"
| "find_sub p (c # cs) =
     (if take (length p) (c # cs) = p then Some 0 else map_option Suc (find_sub p cs))"

definition find_sub_from :: "'a list \<Rightarrow> 'a list \<Rightarrow> nat \<Rightarrow> nat option" where
  "find_sub_from p s n =
     (if n \<le> length s then map_option (\<lambda>k. n + k) (find_sub p (drop n s)) else None)"

text \<open>\<open>find_idx P s\<close> is \<^verbatim>\<open>s.find_first_of(...)\<close> (or
  \<^verbatim>\<open>find_first_not_of\<close>, with the complemented predicate); \<open>find_last_idx\<close> is the
  corresponding search from the end.\<close>

fun find_idx :: "('a \<Rightarrow> bool) \<Rightarrow> 'a list \<Rightarrow> nat option" where
  "find_idx P [] = None"
| "find_idx P (c # cs) = (if P c then Some 0 else map_option Suc (find_idx P cs))"

definition find_idx_from :: "('a \<Rightarrow> bool) \<Rightarrow> 'a list \<Rightarrow> nat \<Rightarrow> nat option" where
  "find_idx_from P s n =
     (if n \<le> length s then map_option (\<lambda>k. n + k) (find_idx P (drop n s)) else None)"

definition find_last_idx :: "('a \<Rightarrow> bool) \<Rightarrow> 'a list \<Rightarrow> nat option" where
  "find_last_idx P s = map_option (\<lambda>k. length s - 1 - k) (find_idx P (rev s))"

abbreviation one_of :: "string \<Rightarrow> char \<Rightarrow> bool" where
  "one_of cs c \<equiv> c \<in> set cs"

abbreviation none_of :: "string \<Rightarrow> char \<Rightarrow> bool" where
  "none_of cs c \<equiv> c \<notin> set cs"

abbreviation contains :: "string \<Rightarrow> string \<Rightarrow> bool" where
  "contains s p \<equiv> find_sub p s \<noteq> None"

lemma find_sub_Nil [simp]: "find_sub [] s = Some 0"
  by (cases s) auto

lemma find_sub_append_self [simp]: "find_sub p (p @ b) = Some 0"
  by (cases p) auto

lemma find_sub_SomeD:
  "find_sub p s = Some n \<Longrightarrow> n + length p \<le> length s \<and> s = take n s @ p @ drop (n + length p) s"
proof (induction s arbitrary: n)
  case Nil
  then show ?case by (auto split: if_splits)
next
  case (Cons c cs)
  show ?case
  proof (cases "take (length p) (c # cs) = p")
    case True
    with Cons.prems have n0: "n = 0" by simp
    from True have "length p \<le> length (c # cs)"
      by (metis length_take min.absorb_iff1 min.commute nle_le)
    moreover have "c # cs = p @ drop (length p) (c # cs)"
      using True by (metis append_take_drop_id)
    ultimately show ?thesis using n0 by (metis add_0 append_Nil take0)
  next
    case False
    with Cons.prems obtain m where m: "n = Suc m" "find_sub p cs = Some m" by auto
    with Cons.IH [of m] show ?thesis by simp
  qed
qed

lemma find_sub_Some_length: "find_sub p s = Some n \<Longrightarrow> n + length p \<le> length s"
  using find_sub_SomeD by blast

text \<open>The position of the first occurrence depends only on what precedes its end.\<close>

lemma find_sub_replace_tail:
  "find_sub p s = Some n \<Longrightarrow> find_sub p (take n s @ p @ b) = Some n"
proof (induction s arbitrary: n)
  case Nil
  then show ?case by (auto split: if_splits)
next
  case (Cons c cs)
  show ?case
  proof (cases "take (length p) (c # cs) = p")
    case True
    with Cons.prems show ?thesis by simp
  next
    case False
    with Cons.prems obtain m where m: "n = Suc m" "find_sub p cs = Some m" by auto
    from find_sub_SomeD [OF m(2)]
    have cs: "take m cs @ p @ drop (m + length p) cs = cs" and "m + length p \<le> length cs"
      by simp_all
    have "take (length p) (c # cs) = take (length p) (c # take m cs @ p @ drop (m + length p) cs)"
      using cs by simp
    also have "\<dots> = take (length p) (c # take m cs @ p @ b)"
      by (cases "length p") simp_all
    finally show ?thesis using False m Cons.IH [OF m(2)] by simp
  qed
qed

lemma find_sub_None_append:
  assumes "find_sub p (a @ b) = None"
  shows "find_sub p a = None"
  using assms
proof (induction a)
  case Nil
  then show ?case by (cases p) (auto split: if_splits)
next
  case (Cons c a)
  from Cons.prems have tk: "take (length p) ((c # a) @ b) \<noteq> p" and rec: "find_sub p (a @ b) = None"
    by (auto split: if_splits)
  have "take (length p) (c # a) \<noteq> p"
  proof
    assume eq: "take (length p) (c # a) = p"
    then have "length p \<le> length (c # a)"
      by (metis length_take min.absorb_iff1 min.commute nle_le)
    then have "take (length p) ((c # a) @ b) = take (length p) (c # a)" by (subst take_append) simp
    with eq tk show False by simp
  qed
  with Cons.IH [OF rec] show ?case by simp
qed

lemma find_idx_conv:
  "find_idx P s = (if \<exists>x \<in> set s. P x then Some (length (takeWhile (\<lambda>x. \<not> P x) s)) else None)"
  by (induction s) auto

lemma find_idx_None_iff: "find_idx P s = None \<longleftrightarrow> (\<forall>x \<in> set s. \<not> P x)"
  by (auto simp: find_idx_conv)

lemma find_idx_SomeD:
  assumes "find_idx P s = Some n"
  shows "n < length s" "P (s ! n)" "\<forall>x \<in> set (take n s). \<not> P x"
        "take n s = takeWhile (\<lambda>x. \<not> P x) s" "drop n s = dropWhile (\<lambda>x. \<not> P x) s"
proof -
  from assms have ex: "\<exists>x \<in> set s. P x" and n: "n = length (takeWhile (\<lambda>x. \<not> P x) s)"
    by (auto simp: find_idx_conv split: if_splits)
  from ex show lt: "n < length s" unfolding n
    by (metis length_takeWhile_le nat_less_le takeWhile_eq_all_conv takeWhile_eq_take take_all_iff)
  show "P (s ! n)" using lt unfolding n by (metis (full_types) nth_length_takeWhile)
  show tk: "take n s = takeWhile (\<lambda>x. \<not> P x) s" unfolding n by (metis takeWhile_eq_take)
  show "drop n s = dropWhile (\<lambda>x. \<not> P x) s" unfolding n by (metis dropWhile_eq_drop)
  show "\<forall>x \<in> set (take n s). \<not> P x" unfolding tk by (auto dest: set_takeWhileD)
qed

lemma find_idx_append_none:
  "\<forall>x \<in> set a. \<not> P x \<Longrightarrow> find_idx P (a @ b) = map_option (\<lambda>k. length a + k) (find_idx P b)"
  by (induction a) (auto split: option.splits simp: map_option_case)

section \<open>Trimming and erasing\<close>

text \<open>\<open>str.erase(0, str.find_first_not_of(ws))\<close>: with \<^verbatim>\<open>npos\<close> everything is
  erased.  \<open>str.erase(str.find_last_not_of(ws) + 1, npos)\<close>: \<^verbatim>\<open>npos + 1\<close> wraps
  to 0, so again everything is erased.\<close>

definition erase_leading :: "string \<Rightarrow> string \<Rightarrow> string" where
  "erase_leading ws s = (case find_idx (none_of ws) s of None \<Rightarrow> [] | Some n \<Rightarrow> drop n s)"

definition erase_trailing :: "string \<Rightarrow> string \<Rightarrow> string" where
  "erase_trailing ws s = (case find_last_idx (none_of ws) s of None \<Rightarrow> [] | Some n \<Rightarrow> take (n + 1) s)"

lemma erase_leading_dropWhile [str_simps]: "erase_leading ws s = dropWhile (one_of ws) s"
proof (cases "find_idx (none_of ws) s")
  case None
  then have "\<forall>x \<in> set s. one_of ws x" by (simp add: find_idx_None_iff)
  then have "dropWhile (one_of ws) s = []" by simp
  with None show ?thesis by (simp only: erase_leading_def option.case)
next
  case (Some n)
  then show ?thesis by (simp add: erase_leading_def find_idx_SomeD(5))
qed

lemma erase_trailing_dropWhile [str_simps]:
  "erase_trailing ws s = rev (dropWhile (one_of ws) (rev s))"
proof (cases "find_idx (none_of ws) (rev s)")
  case None
  then have "\<forall>x \<in> set s. one_of ws x" by (simp add: find_idx_None_iff)
  with None show ?thesis by (simp add: erase_trailing_def find_last_idx_def)
next
  case (Some n)
  then have "n < length s" using find_idx_SomeD(1) by fastforce
  then have "length s - 1 - n + 1 = length s - n" by simp
  then have "erase_trailing ws s = take (length s - n) s"
    using Some by (simp add: erase_trailing_def find_last_idx_def)
  also have "\<dots> = rev (drop n (rev s))" by (simp add: rev_drop)
  also have "drop n (rev s) = dropWhile (one_of ws) (rev s)"
    using find_idx_SomeD(5) [OF Some] by simp
  finally show ?thesis .
qed

lemma dropWhile_hd: "dropWhile P s \<noteq> [] \<Longrightarrow> \<not> P (hd (dropWhile P s))"
  by (rule hd_dropWhile)

lemma dropWhile_idem [simp]: "dropWhile P (dropWhile P s) = dropWhile P s"
  by (induction s) auto

lemma trim_between:
  assumes "v \<noteq> []" "none_of ws (hd v)" "none_of ws (last v)" "set a \<subseteq> set ws" "set z \<subseteq> set ws"
  shows "erase_trailing ws (erase_leading ws (a @ v @ z)) = v"
proof -
  have "dropWhile (one_of ws) (a @ v @ z) = v @ z"
    using assms(1,2,4) by (subst dropWhile_append2) (auto simp: dropWhile_append1 neq_Nil_conv)
  moreover have "dropWhile (one_of ws) (rev z @ rev v) = rev v"
    using assms(1,3,5) by (subst dropWhile_append2) (auto simp: neq_Nil_conv hd_rev [symmetric] dropWhile_eq_self_iff)
  ultimately show ?thesis by (simp add: erase_leading_dropWhile erase_trailing_dropWhile)
qed

end
