(* ===== verification/CStd.thy ===== *)
theory CStd
  imports Prelude
begin

text \<open>
  What the scanner uses of the C and C++ standard library beyond string searches: number
  printing and reading, C strings, bounded comparison of raw memory, and the faults
  that undefined behaviour is mapped to.
\<close>

section \<open>Faults\<close>

text \<open>\<open>Out_of_range\<close>: an iterator or index leaves its container, or memory after it is
  read as if it belonged to it.  \<open>Assert_failed\<close>: an \<^verbatim>\<open>assert\<close> does not hold.\<close>

datatype fault = Out_of_range | Assert_failed

section \<open>C strings and raw memory\<close>

abbreviation CRLF :: string where "CRLF \<equiv> [CR, LF]"

text \<open>\<^verbatim>\<open>c_str\<close> ends at the first NUL; \<^verbatim>\<open>_stricmp\<close> compares
  ignoring case.\<close>

definition c_str :: "string \<Rightarrow> string" where
  "c_str s = takeWhile (\<lambda>c. c \<noteq> NUL) s"

text \<open>\<^verbatim>\<open>s[i]\<close> of a \<^verbatim>\<open>std::string\<close>: NUL at \<open>i = size()\<close>, the
  only out-of-range index \<open>get_port\<close> can reach.\<close>

definition char_at :: "string \<Rightarrow> nat \<Rightarrow> char" where
  "char_at s i = (if i < length s then s ! i else NUL)"

text \<open>\<^verbatim>\<open>strncmp(&mem[i], pat, strlen(pat)) == 0\<close> for a pattern without NUL.\<close>

definition matches_at :: "string \<Rightarrow> nat \<Rightarrow> string \<Rightarrow> bool" where
  "matches_at mem i pat \<longleftrightarrow> take (length pat) (drop i mem) = pat"

section \<open>Numbers\<close>

text \<open>\<^verbatim>\<open>ConvertToString\<close> on a \<^verbatim>\<open>size_t\<close>, and \<^verbatim>\<open>atoi\<close>,
  \<^verbatim>\<open>strtol(.., 16)\<close>: skip white space, an optional sign, digits; \<^verbatim>\<open>int\<close> and
  \<^verbatim>\<open>long\<close> have 32 bits on the scanner's platform and the conversion saturates.\<close>

fun ConvertToString :: "nat \<Rightarrow> string" where
  "ConvertToString n =
     (if n < 10 then [char_of (48 + n)] else ConvertToString (n div 10) @ [char_of (48 + n mod 10)])"

declare ConvertToString.simps [simp del]

definition digits_value :: "string \<Rightarrow> int" where
  "digits_value ds = foldl (\<lambda>v d. v * 10 + (int (code d) - 48)) 0 ds"

definition clamp32 :: "int \<Rightarrow> int" where
  "clamp32 v = max (- (2 ^ 31)) (min (2 ^ 31 - 1) v)"

text \<open>An optional sign in front of what \<open>f\<close> reads.\<close>

definition signed :: "(string \<Rightarrow> int) \<Rightarrow> string \<Rightarrow> int" where
  "signed f s = (case s of
      [] \<Rightarrow> f []
    | c # cs \<Rightarrow> if c = CHR ''-'' then - f cs else if c = CHR ''+'' then f cs else f s)"

definition atoi :: "string \<Rightarrow> int" where
  "atoi s = clamp32 (signed (\<lambda>t. digits_value (takeWhile is_digit t)) (dropWhile is_space s))"

definition is_xdigit :: "char \<Rightarrow> bool" where
  "is_xdigit c \<longleftrightarrow> is_digit c \<or> (97 \<le> code (to_lower c) \<and> code (to_lower c) \<le> 102)"

definition xdigit_value :: "char \<Rightarrow> int" where
  "xdigit_value c = (if is_digit c then int (code c) - 48 else int (code (to_lower c)) - 87)"

definition xdigits_value :: "string \<Rightarrow> int" where
  "xdigits_value ds = foldl (\<lambda>v d. v * 16 + xdigit_value d) 0 ds"

definition skip_0x :: "string \<Rightarrow> string" where
  "skip_0x s = (case s of
      a # b # cs \<Rightarrow> if a = CHR ''0'' \<and> to_lower b = CHR ''x'' \<and> cs \<noteq> [] \<and> is_xdigit (hd cs) then cs else s
    | _ \<Rightarrow> s)"

definition strtol16 :: "string \<Rightarrow> int" where
  "strtol16 s = clamp32 (signed (\<lambda>t. xdigits_value (takeWhile is_xdigit (skip_0x t))) (dropWhile is_space s))"

text \<open>\<^verbatim>\<open>size_t\<close> has 32 bits: a negative \<^verbatim>\<open>atoi\<close> result wraps.\<close>

definition to_size_t :: "int \<Rightarrow> nat" where
  "to_size_t v = nat (v mod 2 ^ 32)"

text \<open>An integer value converted to a 32-bit \<^verbatim>\<open>int\<close>.\<close>

definition to_int :: "int \<Rightarrow> int" where
  "to_int v = (v + 2 ^ 31) mod 2 ^ 32 - 2 ^ 31"

section \<open>Lemmas\<close>

lemma code_CR [simp]: "code CR = 13" by (simp add: CR_def)

lemma code_LF [simp]: "code LF = 10" by (simp add: LF_def)

lemma CR_LF [simp]: "CR \<noteq> LF" "LF \<noteq> CR"
  using code_CR code_LF by (metis numeral_eq_iff num.distinct(5) num.inject(1))+

lemma blank_eol: "CHR '' '' \<noteq> CR" "CHR '' '' \<noteq> LF"
  by code_simp+

lemma matches_at_append [simp]: "matches_at (a @ b) (length a) pat = matches_at b 0 pat"
  by (simp add: matches_at_def)

lemma matches_at_0_Cons [simp]: "matches_at (c # b) 0 (d # pat) = (c = d \<and> matches_at b 0 pat)"
  by (simp add: matches_at_def)

lemma matches_at_0_Nil [simp]: "matches_at b 0 []"
  by (simp add: matches_at_def)

lemma matches_at_prefix: "matches_at b 0 pat \<longleftrightarrow> prefix pat b"
  by (metis append_eq_conv_conj append_take_drop_id drop0 matches_at_def prefix_def)

lemma digits_value_snoc: "digits_value (ds @ [d]) = digits_value ds * 10 + (int (code d) - 48)"
  by (simp add: digits_value_def)

lemma ConvertToString_digits:
  "list_all is_digit (ConvertToString n) \<and> ConvertToString n \<noteq> [] \<and> digits_value (ConvertToString n) = int n"
proof (induction n rule: ConvertToString.induct)
  case (1 n)
  show ?case
  proof (cases "n < 10")
    case True
    then show ?thesis by (simp add: ConvertToString.simps [of n] is_digit_def digits_value_def)
  next
    case False
    have "n mod 10 < 10" by simp
    moreover have "int (n div 10) * 10 + int (n mod 10) = int n"
      by (metis div_mult_mod_eq of_nat_add of_nat_mult of_nat_numeral)
    ultimately show ?thesis using 1 [OF False] False
      by (simp add: ConvertToString.simps [of n] is_digit_def digits_value_snoc del: of_nat_mod of_nat_div)
  qed
qed

lemma signed_digit: "is_digit (hd s) \<Longrightarrow> s \<noteq> [] \<Longrightarrow> signed f s = f s"
  by (cases s) (auto simp: signed_def is_digit_def)

lemma atoi_digits:
  assumes "list_all is_digit ds" and "ds \<noteq> []" and "r = [] \<or> \<not> is_digit (hd r)"
  shows "atoi (ds @ r) = clamp32 (digits_value ds)"
proof -
  obtain c cs where ds: "ds = c # cs" using assms(2) by (cases ds) auto
  with assms(1) have c: "is_digit c" by simp
  then have "\<not> is_space c" by (auto simp: is_digit_def is_space_def)
  moreover have "takeWhile is_digit (ds @ r) = ds"
    using assms(1,3) by (cases r) (simp_all add: list_all_iff takeWhile_append2)
  ultimately show ?thesis using c signed_digit [of "ds @ r"] by (simp add: ds atoi_def)
qed

lemma atoi_ConvertToString:
  "n < 2 ^ 31 \<Longrightarrow> r = [] \<or> \<not> is_digit (hd r) \<Longrightarrow> atoi (ConvertToString n @ r) = int n"
  using ConvertToString_digits [of n] atoi_digits [of "ConvertToString n" r] by (simp add: clamp32_def)

end
