(* ===== verification/HttpUrl.thy ===== *)
theory HttpUrl
  imports CStd
begin

text \<open>
  URLs, request heads and request packages: the first half of
  \<^verbatim>\<open>src/scaner_test/http_tools.cpp\<close>.

  \<^item> \<open>get_url_info\<close> splits a URL into the five parts of \<open>url_info\<close>;
    \<open>format_url\<close> prints them again.  The C++ output pointers become fields; \<open>None\<close>
    is the \<^verbatim>\<open>false\<close> result on the empty string.
  \<^item> \<open>get_protocal\<close>, \<open>get_domain\<close>, \<open>get_page\<close>, \<open>get_port\<close> scan the
    URL again on their own; the lemmas relate them to \<open>get_url_info\<close>.
  \<^item> \<open>format_head\<close> and \<open>get_package\<close> build the request.
\<close>

section \<open>Data\<close>

record url_info =
  ui_protocal :: string
  ui_domain :: string
  ui_port :: string
  ui_path :: string
  ui_params :: string

datatype send_package_type = GET | POST | POST_MULTIPART

abbreviation head_ws :: string where "head_ws \<equiv> [CR, LF, CHR '' '', TAB]"

section \<open>Operations\<close>

definition get_port_by_protocal :: "string \<Rightarrow> string" where
  "get_port_by_protocal protocal =
     (let p = map to_lower protocal in
      if length p = 3 then
        (if p = ''ftp'' then ''21'' else if p = ''ssh'' then ''22'' else ''80'')
      else if length p = 4 then (if p = ''http'' then ''80'' else ''80'')
      else if length p = 5 then (if p = ''https'' then ''443'' else ''80'')
      else ''80'')"

text \<open>The four cuts of \<open>get_url_info\<close>, each returning the part cut off and the rest.\<close>

definition cut_protocal :: "string \<Rightarrow> string \<times> string" where
  "cut_protocal u = (case find_sub ''://'' u of
      Some n \<Rightarrow> (take n u, drop (n + 3) u)
    | None \<Rightarrow> (''http'', u))"

definition cut_from :: "(char \<Rightarrow> bool) \<Rightarrow> string \<Rightarrow> string \<Rightarrow> string \<times> string" where
  "cut_from P dflt d = (case find_idx P d of
      Some n \<Rightarrow> (drop n d, take n d)
    | None \<Rightarrow> (dflt, d))"

definition get_url_info :: "string \<Rightarrow> url_info option" where
  "get_url_info url =
     (if url = [] then None else
      let (strProtocal, d) = cut_protocal url;
          (prm, d) = cut_from (one_of ''?#'') [] d;
          (pth, d) = cut_from (one_of ''/'') ''/'' d;
          (prt, d) = cut_from (one_of '':'') (CHR '':'' # get_port_by_protocal strProtocal) d
      in Some \<lparr>ui_protocal = strProtocal, ui_domain = d, ui_port = prt, ui_path = pth, ui_params = prm\<rparr>)"

definition print_url_info :: "url_info \<Rightarrow> string" where
  "print_url_info i = ui_protocal i @ ''://'' @ ui_domain i @ ui_port i @ ui_path i @ ui_params i"

definition format_url :: "string \<Rightarrow> string" where
  "format_url url = (case get_url_info url of None \<Rightarrow> [] | Some i \<Rightarrow> print_url_info i)"

definition format_head :: "string \<Rightarrow> string" where
  "format_head head =
     (let head = erase_leading head_ws head;
          head = (case find_last_idx (none_of head_ws) head of
                    Some n \<Rightarrow> take (n + 1) head | None \<Rightarrow> head)
      in if head = [] then [] else head @ CRLF)"

definition get_protocal :: "string \<Rightarrow> string" where
  "get_protocal url = (case find_sub ''://'' url of
      None \<Rightarrow> ''http''
    | Some n \<Rightarrow> map to_lower (take n url))"

definition after_protocal :: "string \<Rightarrow> nat" where
  "after_protocal url = (case find_sub ''://'' url of None \<Rightarrow> 0 | Some n \<Rightarrow> n + 3)"

definition get_domain :: "string \<Rightarrow> string" where
  "get_domain url =
     (let npos = after_protocal url in
      case find_idx_from (one_of '':/?#'') url npos of
        None \<Rightarrow> drop npos url
      | Some count \<Rightarrow> take (count - npos) (drop npos url))"

definition get_page :: "string \<Rightarrow> string" where
  "get_page url =
     (case find_idx_from (one_of ''/?#'') url (after_protocal url) of
        None \<Rightarrow> url
      | Some npos \<Rightarrow> take npos url @ ''/'')"

definition is_ssl :: "string \<Rightarrow> bool" where
  "is_ssl protocal \<longleftrightarrow> map to_lower (c_str protocal) = ''https''"

definition get_port :: "string \<Rightarrow> string" where
  "get_port url =
     (case find_idx (one_of '':'') url of
        None \<Rightarrow> ''80''
      | Some npos \<Rightarrow>
          if char_at url (npos + 1) = CHR ''/'' \<and> char_at url (npos + 2) = CHR ''/'' then
            (case find_idx_from (one_of '':'') url (npos + 3) of
               None \<Rightarrow> (if is_ssl (take npos url) then ''443'' else ''80'')
             | Some n \<Rightarrow> takeWhile is_digit (drop (n + 1) url))
          else takeWhile is_digit (drop (npos + 1) url))"

definition header_if_absent :: "string \<Rightarrow> string \<Rightarrow> string \<Rightarrow> string" where
  "header_if_absent head key value =
     (if contains head key then [] else key @ '' '' @ value @ CRLF)"

definition request_line :: "send_package_type \<Rightarrow> url_info \<Rightarrow> string" where
  "request_line post i =
     (let pth = (if ui_path i = [] then ''/'' else ui_path i) in
      case post of
        POST \<Rightarrow> ''POST '' @ pth @ '' HTTP/1.1'' @ CRLF
      | _ \<Rightarrow> ''GET '' @ pth @ (if ui_params i = [] then [] else ''?'') @ ui_params i @ '' HTTP/1.1'' @ CRLF)"

definition default_headers :: "send_package_type \<Rightarrow> url_info \<Rightarrow> string \<Rightarrow> string" where
  "default_headers post i head =
     header_if_absent head ''Host:'' (ui_domain i @ ui_port i)
     @ header_if_absent head ''Accept:'' ''*/*''
     @ header_if_absent head ''Accept-Encoding:'' ''gzip, deflate''
     @ header_if_absent head ''User-Agent:''
         ''Mozilla/4.0 (compatible; MSIE 7.0; Windows NT 6.0; Trident/5.0)''
     @ header_if_absent head ''Connection:'' ''keep-Alive''
     @ (if post = POST then
          header_if_absent head ''Content-Type:'' ''application/x-www-form-urlencoded''
          @ header_if_absent head ''Content-Length:'' (ConvertToString (length (ui_params i)))
        else [])"

definition get_package :: "send_package_type \<Rightarrow> string \<Rightarrow> string \<Rightarrow> string" where
  "get_package post url head =
     (if post = POST_MULTIPART then [] else
      case get_url_info url of
        None \<Rightarrow> []
      | Some i \<Rightarrow> request_line post i @ default_headers post i head @ head @ CRLF
                  @ (if post \<noteq> GET then ui_params i else []))"

section \<open>What the parts of a URL look like\<close>

definition wf_url_info :: "url_info \<Rightarrow> bool" where
  "wf_url_info i \<longleftrightarrow>
     find_sub ''://'' (ui_protocal i @ ''://'') = Some (length (ui_protocal i)) \<and>
     list_all (none_of '':/?#'') (ui_domain i) \<and>
     ui_port i \<noteq> [] \<and> hd (ui_port i) = CHR '':'' \<and> list_all (none_of ''/?#'') (ui_port i) \<and>
     ui_path i \<noteq> [] \<and> hd (ui_path i) = CHR ''/'' \<and> list_all (none_of ''?#'') (ui_path i) \<and>
     (ui_params i = [] \<or> hd (ui_params i) \<in> set ''?#'')"

lemma cut_from_append:
  assumes "\<forall>x \<in> set d. \<not> P x" and "c \<noteq> []" and "P (hd c)"
  shows "cut_from P dflt (d @ c) = (c, d)"
proof -
  from assms(2,3) have "find_idx P c = Some 0" by (cases c) auto
  with assms(1) have "find_idx P (d @ c) = Some (length d)"
    by (simp add: find_idx_append_none)
  then show ?thesis by (simp add: cut_from_def)
qed

lemma cut_from_none: "\<forall>x \<in> set d. \<not> P x \<Longrightarrow> cut_from P dflt d = (dflt, d)"
  using find_idx_None_iff [of P d] by (simp add: cut_from_def)

lemma cut_from_cases:
  assumes "cut_from P dflt d = (c, r)"
  shows "(\<forall>x \<in> set r. \<not> P x) \<and> ((c \<noteq> [] \<and> P (hd c) \<and> d = r @ c) \<or> (c = dflt \<and> d = r))"
proof (cases "find_idx P d")
  case None
  with assms show ?thesis using find_idx_None_iff [of P d] by (auto simp: cut_from_def)
next
  case (Some n)
  with assms have c: "c = drop n d" and r: "r = take n d" by (auto simp: cut_from_def)
  from find_idx_SomeD(1-3) [OF Some] show ?thesis
    unfolding c r by (auto simp: hd_drop_conv_nth)
qed

lemma cut_from_rest: "cut_from P dflt d = (c, r) \<Longrightarrow> \<forall>x \<in> set r. \<not> P x"
  using cut_from_cases by blast

lemma cut_from_split: "cut_from P dflt d = (c, r) \<Longrightarrow> d = r @ c \<or> c = dflt \<and> d = r"
  using cut_from_cases by blast

lemma cut_from_hd: "cut_from P dflt d = (c, r) \<Longrightarrow> dflt \<noteq> [] \<Longrightarrow> P (hd dflt) \<Longrightarrow> c \<noteq> [] \<and> P (hd c)"
  using cut_from_cases by blast

lemma cut_protocal_first:
  assumes "cut_protocal u = (p, d)"
  shows "find_sub ''://'' (p @ ''://'') = Some (length p)"
proof (cases "find_sub ''://'' u")
  case None
  with assms have "p = ''http''" by (simp add: cut_protocal_def)
  then show ?thesis by simp
next
  case (Some n)
  with assms have p: "p = take n u" by (simp add: cut_protocal_def)
  from find_sub_Some_length [OF Some] have "length (take n u) = n" by simp
  with find_sub_replace_tail [OF Some, of "[]"] show ?thesis unfolding p by simp
qed

lemma get_port_by_protocal_digits: "list_all is_digit (get_port_by_protocal p)"
  by (simp add: get_port_by_protocal_def Let_def is_digit_def)

lemma get_port_by_protocal_clean: "list_all (none_of ''/?#'') (get_port_by_protocal p)"
  by (simp add: get_port_by_protocal_def Let_def)

lemma get_url_info_wf:
  assumes "get_url_info u = Some i"
  shows "wf_url_info i"
proof -
  obtain p d1 where p: "cut_protocal u = (p, d1)" by fastforce
  obtain prm d2 where prm: "cut_from (one_of ''?#'') [] d1 = (prm, d2)" by fastforce
  obtain pth d3 where pth: "cut_from (one_of ''/'') ''/'' d2 = (pth, d3)" by fastforce
  obtain prt d4 where prt: "cut_from (one_of '':'') (CHR '':'' # get_port_by_protocal p) d3 = (prt, d4)"
    by fastforce
  from assms p prm pth prt
  have i: "i = \<lparr>ui_protocal = p, ui_domain = d4, ui_port = prt, ui_path = pth, ui_params = prm\<rparr>"
    by (cases "u = []") (simp_all add: get_url_info_def)
  have d2: "list_all (none_of ''?#'') d2"
    using cut_from_rest [OF prm] by (simp add: list_all_iff)
  have prm_ok: "prm = [] \<or> hd prm \<in> set ''?#''"
    using cut_from_cases [OF prm] by blast
  have d3: "list_all (none_of ''/'') d3"
    using cut_from_rest [OF pth] by (simp add: list_all_iff)
  have pth_ok: "pth \<noteq> []" "hd pth = CHR ''/''" using cut_from_hd [OF pth] by simp_all
  have q: "list_all (none_of ''?#'') pth" "list_all (none_of ''?#'') d3"
    using d2 cut_from_split [OF pth] by (elim disjE conjE; simp)+
  have d4: "list_all (none_of '':'') d4"
    using cut_from_rest [OF prt] by (simp add: list_all_iff)
  have prt_ok: "prt \<noteq> []" "hd prt = CHR '':''" using cut_from_hd [OF prt] by simp_all
  from d3 q(2) have d3_clean: "list_all (none_of ''/?#'') d3" by (simp add: list_all_iff)
  then have r: "list_all (none_of ''/?#'') prt" "list_all (none_of ''/?#'') d4"
    using get_port_by_protocal_clean [of p] cut_from_split [OF prt] by (elim disjE conjE; simp)+
  from r(2) d4 have "list_all (none_of '':/?#'') d4" by (simp add: list_all_iff)
  with cut_protocal_first [OF p] prm_ok pth_ok q(1) prt_ok r(1) show ?thesis
    unfolding wf_url_info_def i by simp
qed

lemma cut_protocal_print:
  assumes "find_sub ''://'' (p @ ''://'') = Some (length p)"
  shows "cut_protocal (p @ ''://'' @ r) = (p, r)"
proof -
  have "find_sub ''://'' (p @ ''://'' @ r) = Some (length p)"
    using find_sub_replace_tail [OF assms, of r] by simp
  then show ?thesis by (simp add: cut_protocal_def)
qed

lemma get_url_info_print:
  assumes "wf_url_info i"
  shows "get_url_info (print_url_info i) = Some i"
proof -
  let ?rest = "ui_domain i @ ui_port i @ ui_path i"
  from assms have pr: "find_sub ''://'' (ui_protocal i @ ''://'') = Some (length (ui_protocal i))"
    and dom: "\<forall>x \<in> set (ui_domain i). x \<notin> set '':/?#''"
    and prt: "ui_port i \<noteq> []" "hd (ui_port i) \<in> set '':''" "\<forall>x \<in> set (ui_port i). x \<notin> set ''/?#''"
    and pth: "ui_path i \<noteq> []" "hd (ui_path i) \<in> set ''/''" "\<forall>x \<in> set (ui_path i). x \<notin> set ''?#''"
    and prm: "ui_params i = [] \<or> hd (ui_params i) \<in> set ''?#''"
    unfolding wf_url_info_def list_all_iff by simp_all
  have p: "cut_protocal (print_url_info i) = (ui_protocal i, ?rest @ ui_params i)"
    unfolding print_url_info_def using cut_protocal_print [OF pr] by simp
  have rest: "\<forall>x \<in> set ?rest. \<not> one_of ''?#'' x"
    using dom prt(3) pth(3) by (simp add: ball_Un)
  have c1: "cut_from (one_of ''?#'') [] (?rest @ ui_params i) = (ui_params i, ?rest)"
    using prm cut_from_none [OF rest] cut_from_append [OF rest]
    by (cases "ui_params i = []") simp_all
  have c2: "cut_from (one_of ''/'') ''/'' ((ui_domain i @ ui_port i) @ ui_path i)
               = (ui_path i, ui_domain i @ ui_port i)"
    by (rule cut_from_append) (use dom prt(3) pth(1,2) in \<open>simp_all add: ball_Un\<close>)
  have c3: "cut_from (one_of '':'') (CHR '':'' # get_port_by_protocal (ui_protocal i)) (ui_domain i @ ui_port i)
               = (ui_port i, ui_domain i)"
    by (rule cut_from_append) (use dom prt(1,2) in simp_all)
  have "print_url_info i \<noteq> []" by (simp add: print_url_info_def)
  with p c1 c2 c3 show ?thesis by (simp add: get_url_info_def)
qed

section \<open>The scanners against the parser\<close>

lemma takeWhile_takeWhile: "takeWhile P (takeWhile Q xs) = takeWhile (\<lambda>x. Q x \<and> P x) xs"
  by (induction xs) auto

lemma cut_from_snd: "snd (cut_from P dflt d) = takeWhile (\<lambda>x. \<not> P x) d"
  unfolding cut_from_def find_idx_conv
  by (auto simp: takeWhile_eq_take [symmetric] takeWhile_eq_all_conv [THEN iffD2])

lemma cut_from_sndD: "cut_from P dflt d = (c, r) \<Longrightarrow> r = takeWhile (\<lambda>x. \<not> P x) d"
  using cut_from_snd [of P dflt d] by simp

lemma cut_protocal_snd: "snd (cut_protocal u) = drop (after_protocal u) u"
  by (simp add: cut_protocal_def after_protocal_def split: option.split)

lemma cut_protocal_lower: "map to_lower (fst (cut_protocal u)) = get_protocal u"
  unfolding cut_protocal_def get_protocal_def
  by (cases "find_sub ''://'' u") (simp_all, code_simp)

lemma take_find_idx_from:
  "(case find_idx_from P s n of None \<Rightarrow> drop n s | Some c \<Rightarrow> take (c - n) (drop n s))
     = takeWhile (\<lambda>x. \<not> P x) (drop n s)"
  unfolding find_idx_from_def find_idx_conv
  by (auto simp: takeWhile_eq_take [symmetric] takeWhile_eq_all_conv [THEN iffD2])

lemma get_domain_takeWhile:
  "get_domain u = takeWhile (none_of '':/?#'') (drop (after_protocal u) u)"
  unfolding get_domain_def Let_def by (rule take_find_idx_from)

lemma get_url_info_fields:
  assumes "get_url_info u = Some i"
  shows "ui_protocal i = fst (cut_protocal u)"
    and "ui_domain i = get_domain u"
proof -
  let ?d = "snd (cut_protocal u)"
  from assms show "ui_protocal i = fst (cut_protocal u)"
    by (cases "u = []") (auto simp: get_url_info_def split: prod.splits)
  from assms have "ui_domain i = takeWhile (none_of '':'') (takeWhile (none_of ''/'') (takeWhile (none_of ''?#'') ?d))"
    by (cases "u = []") (auto simp: get_url_info_def dest!: cut_from_sndD split: prod.splits)
  also have "\<dots> = takeWhile (none_of '':/?#'') ?d"
    unfolding takeWhile_takeWhile by (rule takeWhile_cong) auto
  also have "\<dots> = get_domain u" by (simp add: get_domain_takeWhile cut_protocal_snd)
  finally show "ui_domain i = get_domain u" .
qed

lemma find_idx_from_append:
  "find_idx_from P (a @ b) (length a) = map_option (\<lambda>k. length a + k) (find_idx P b)"
  by (simp add: find_idx_from_def)

lemma find_idx_prefix:
  "\<forall>x \<in> set a. \<not> P x \<Longrightarrow> b \<noteq> [] \<Longrightarrow> P (hd b) \<Longrightarrow> find_idx P (a @ b) = Some (length a)"
  by (cases b) (simp_all add: find_idx_append_none)

lemma takeWhile_digits_path:
  "b \<noteq> [] \<Longrightarrow> \<not> P (hd b) \<Longrightarrow> takeWhile P (a @ b @ c) = takeWhile P a"
  by (induction a) (cases b, auto)

lemma get_port_print:
  assumes wf: "wf_url_info i" and p: "CHR '':'' \<notin> set (ui_protocal i)"
  shows "get_port (print_url_info i) = takeWhile is_digit (tl (ui_port i))"
proof -
  let ?p = "ui_protocal i" and ?tail = "ui_path i @ ui_params i"
  let ?u = "print_url_info i"
  from wf have dom: "\<forall>x \<in> set (ui_domain i). \<not> one_of '':'' x"
    and prt: "ui_port i \<noteq> []" "hd (ui_port i) = CHR '':''"
    and pth: "ui_path i \<noteq> []" "hd (ui_path i) = CHR ''/''"
    unfolding wf_url_info_def list_all_iff by simp_all
  have u: "?u = (?p @ ''://'') @ ui_domain i @ ui_port i @ ?tail" by (simp add: print_url_info_def)
  have c1: "find_idx (one_of '':'') ?u = Some (length ?p)"
    unfolding print_url_info_def by (rule find_idx_prefix) (use p in auto)
  have sl: "char_at ?u (length ?p + 1) = CHR ''/''" "char_at ?u (length ?p + 2) = CHR ''/''"
    unfolding u char_at_def by (simp_all add: nth_append)
  have "find_idx (one_of '':'') (ui_domain i @ ui_port i @ ?tail) = Some (length (ui_domain i))"
    by (rule find_idx_prefix) (use dom prt in simp_all)
  then have c2: "find_idx_from (one_of '':'') ?u (length ?p + 3) = Some (length ?p + 3 + length (ui_domain i))"
    unfolding u using find_idx_from_append [of _ "?p @ ''://''"] by (simp add: numeral_3_eq_3)
  have "drop (length ?p + 3 + length (ui_domain i) + 1) ?u = tl (ui_port i) @ ?tail"
    unfolding u using prt(1) by (cases "ui_port i") (simp_all add: eval_nat_numeral)
  moreover have "takeWhile is_digit (tl (ui_port i) @ ?tail) = takeWhile is_digit (tl (ui_port i))"
    by (rule takeWhile_digits_path) (use pth in \<open>simp_all add: is_digit_def\<close>)
  ultimately show ?thesis
    unfolding get_port_def c1 using sl c2 by simp
qed

section \<open>Request heads\<close>

lemma format_head_conv:
  "format_head h = (let t = erase_trailing head_ws (erase_leading head_ws h)
                    in if t = [] then [] else t @ CRLF)"
proof -
  let ?l = "erase_leading head_ws h"
  have "find_last_idx (none_of head_ws) ?l \<noteq> None" if "?l \<noteq> []"
  proof -
    from that have "none_of head_ws (hd ?l)"
      using dropWhile_hd [of "one_of head_ws" h] by (simp only: erase_leading_dropWhile) blast
    moreover from that have "hd ?l \<in> set (rev ?l)" by simp
    ultimately show ?thesis
      unfolding find_last_idx_def using find_idx_None_iff [of "none_of head_ws" "rev ?l"] by auto
  qed
  then show ?thesis
    unfolding format_head_def erase_trailing_def Let_def
    by (cases "?l = []") (auto simp: find_last_idx_def split: option.splits)
qed

lemma trim_idem: "erase_trailing ws (erase_leading ws (erase_trailing ws (erase_leading ws s)))
    = erase_trailing ws (erase_leading ws s)"
proof -
  define t where "t = erase_trailing ws (erase_leading ws s)"
  have "prefix t (erase_leading ws s)"
    unfolding t_def erase_trailing_dropWhile using suffix_dropWhile [of "one_of ws"]
    by (metis rev_rev_ident suffix_to_prefix)
  then have "erase_leading ws t = t"
  proof (cases t)
    case (Cons c cs)
    with \<open>prefix t (erase_leading ws s)\<close> have "erase_leading ws s \<noteq> []" and "hd (erase_leading ws s) = c"
      by (auto simp: prefix_def)
    then have "none_of ws c" using dropWhile_hd [of "one_of ws" s] by (simp add: erase_leading_dropWhile)
    with Cons show ?thesis by (simp add: erase_leading_dropWhile)
  qed (simp add: erase_leading_dropWhile)
  moreover have "erase_trailing ws t = t" by (simp add: t_def erase_trailing_dropWhile)
  ultimately show ?thesis unfolding t_def [symmetric] by simp
qed

lemma trim_append_ws:
  assumes "set w \<subseteq> set ws"
  shows "erase_trailing ws (erase_leading ws (s @ w)) = erase_trailing ws (erase_leading ws s)"
proof -
  have w: "dropWhile (one_of ws) w = []" "dropWhile (one_of ws) (rev w @ r) = dropWhile (one_of ws) r" for r
    using assms by (auto intro!: dropWhile_append2)
  show ?thesis
  proof (cases "dropWhile (one_of ws) s = []")
    case True
    then have "dropWhile (one_of ws) (s @ w) = []" 
      using w(1) unfolding dropWhile_eq_Nil_conv by auto
    with True show ?thesis by (simp only: erase_leading_dropWhile)
  next
    case False
    then have "dropWhile (one_of ws) (s @ w) = dropWhile (one_of ws) s @ w"
      by (metis dropWhile_append1 dropWhile_eq_Nil_conv)
    then show ?thesis by (simp add: erase_leading_dropWhile erase_trailing_dropWhile w(2))
  qed
qed

section \<open>Request packages\<close>

lemma header_if_absent_lines: "header_if_absent h k v = [] \<or> suffix CRLF (header_if_absent h k v)"
  by (simp add: header_if_absent_def suffix_def)

lemma default_headers_no_head: "suffix CRLF (default_headers post i [])"
  by (cases "post = POST") (simp_all add: default_headers_def header_if_absent_def suffix_def)

lemma default_headers_POST:
  "\<exists>pre. default_headers POST i h = pre @ header_if_absent h ''Content-Length:'' (ConvertToString (length (ui_params i)))"
  unfolding default_headers_def append_assoc [symmetric] by simp

section \<open>Properties\<close>

text \<open>C14: \<^verbatim>\<open>get_url_info\<close> and \<^verbatim>\<open>format_url\<close> are inverse to each other.
  For every URL that parses, printing the five parts and parsing again gives the same parts,
  and these parts are well formed: the domain is free of \<^verbatim>\<open>:/?#\<close>, the port begins with
  a colon, the path with a slash, the parameters (if any) with a question mark or hash.\<close>

theorem get_url_info_format_url:
  assumes "get_url_info u = Some i"
  shows "wf_url_info i \<and> get_url_info (format_url u) = Some i"
  using get_url_info_wf [OF assms] get_url_info_print [of i] assms by (simp add: format_url_def)

theorem get_url_info_format_url_witness:
  "get_url_info (format_url ''https://a.org/p?q'') =
     Some \<lparr>ui_protocal = ''https'', ui_domain = ''a.org'', ui_port = '':443'', ui_path = ''/p'', ui_params = ''?q''\<rparr>"
proof -
  have "get_url_info ''https://a.org/p?q'' =
     Some \<lparr>ui_protocal = ''https'', ui_domain = ''a.org'', ui_port = '':443'', ui_path = ''/p'', ui_params = ''?q''\<rparr>"
    by code_simp
  from get_url_info_format_url [OF this] show ?thesis by blast
qed



text \<open>A GET request built from a formatted head is terminated: whatever the head the
  caller gave, the package ends with the empty line, and formatting a head again changes
  nothing.\<close>

theorem get_package_terminated:
  assumes "get_url_info u = Some i"
  shows "suffix (CRLF @ CRLF) (get_package GET u (format_head h))
         \<and> format_head (format_head h) = format_head h"
proof
  define t where "t = erase_trailing head_ws (erase_leading head_ws h)"
  have h: "format_head h = (if t = [] then [] else t @ CRLF)"
    by (simp add: format_head_conv t_def Let_def)
  obtain d where d: "default_headers GET i [] = d @ CRLF"
    using default_headers_no_head [of GET i] by (auto simp: suffix_def)
  show "suffix (CRLF @ CRLF) (get_package GET u (format_head h))"
    by (cases "t = []") (use assms d in \<open>auto simp: get_package_def h suffix_def\<close>)
  have "erase_trailing head_ws (erase_leading head_ws (t @ CRLF)) = t"
    unfolding t_def by (subst trim_append_ws) (simp_all add: trim_idem)
  moreover have "format_head [] = []" by code_simp
  ultimately show "format_head (format_head h) = format_head h"
    by (cases "t = []") (simp_all add: h format_head_conv [of "t @ CRLF"] Let_def)
qed

theorem get_package_terminated_witness:
  "suffix (CRLF @ CRLF) (get_package GET ''a.org'' (format_head '' X: 1''))"
proof -
  have "get_url_info ''a.org'' =
     Some \<lparr>ui_protocal = ''http'', ui_domain = ''a.org'', ui_port = '':80'', ui_path = ''/'', ui_params = []\<rparr>"
    by code_simp
  from get_package_terminated [OF this] show ?thesis by blast
qed

text \<open>C29: A POST package whose head does not set Content-Length announces exactly the
  length of the body it carries (below 2 GB): the announced decimal number reads back
  (\<^verbatim>\<open>atoi\<close>) as the number of bytes after the blank line.\<close>

theorem post_content_length:
  assumes "get_url_info u = Some i" and "\<not> contains h ''Content-Length:''"
    and "length (ui_params i) < 2 ^ 31"
  shows "\<exists>pre num body. get_package POST u h = pre @ ''Content-Length: '' @ num @ CRLF @ h @ CRLF @ body
           \<and> atoi (num @ CRLF) = int (length body)"
proof -
  let ?n = "length (ui_params i)"
  have "atoi (ConvertToString ?n @ CRLF) = int ?n"
    using atoi_digits [of "ConvertToString ?n" CRLF] ConvertToString_digits [of ?n]
      assms(3) by (simp add: is_digit_def clamp32_def)
  moreover obtain pre where "default_headers POST i h = pre @ ''Content-Length: '' @ ConvertToString ?n @ CRLF"
    using default_headers_POST [of i h] assms(2) by (auto simp: header_if_absent_def [of _ "''Content-Length:''"])
  ultimately show ?thesis
    using assms(1) by (intro exI [of _ "request_line POST i @ pre"] exI [of _ "ConvertToString ?n"]
                         exI [of _ "ui_params i"]) (simp add: get_package_def)
qed

theorem post_content_length_witness:
  "\<exists>pre num body. get_package POST ''a.org?b=1'' [] = pre @ ''Content-Length: '' @ num @ CRLF @ [] @ CRLF @ body
           \<and> atoi (num @ CRLF) = int (length body)"
proof -
  have "get_url_info ''a.org?b=1'' =
     Some \<lparr>ui_protocal = ''http'', ui_domain = ''a.org'', ui_port = '':80'', ui_path = ''/'', ui_params = ''?b=1''\<rparr>"
    by code_simp
  from post_content_length [OF this, of "[]"] show ?thesis by simp
qed

text \<open>The request line of a GET for a URL with a query repeats the question mark:
  \<^verbatim>\<open>get_url_info\<close> keeps the leading \<^verbatim>\<open>?\<close> in the parameters and
  \<^verbatim>\<open>get_package\<close> inserts another one, so the server is asked for a different query.\<close>

theorem get_query_mark_doubled:
  assumes "get_url_info u = Some i" and "ui_params i = CHR ''?'' # q"
  shows "prefix (''GET '' @ ui_path i @ ''??'' @ q @ '' HTTP/1.1'') (get_package GET u h)"
proof -
  have "ui_path i \<noteq> []" using get_url_info_wf [OF assms(1)] by (simp add: wf_url_info_def)
  with assms show ?thesis by (simp add: get_package_def request_line_def)
qed

theorem get_query_mark_doubled_witness:
  "prefix ''GET /p??k=1 HTTP/1.1'' (get_package GET ''http://a/p?k=1'' [])"
proof -
  have "get_url_info ''http://a/p?k=1'' =
     Some \<lparr>ui_protocal = ''http'', ui_domain = ''a'', ui_port = '':80'', ui_path = ''/p'', ui_params = ''?k=1''\<rparr>"
    by code_simp
  from get_query_mark_doubled [OF this, of "''k=1''" "[]"] show ?thesis by simp
qed

end
