(* ===== verification/HttpHead.thy ===== *)
theory HttpHead
  imports CStd
begin

text \<open>
  The response head reader \<^verbatim>\<open>http_get_head\<close> of
  \<^verbatim>\<open>src/scaner_test/http_tools.hpp\<close>.

  The received bytes are the first \<open>e\<close> bytes of \<open>mem\<close>; what follows them in memory
  is the rest of \<open>mem\<close>, because \<^verbatim>\<open>strncmp\<close> at the last bytes reads on.  Iterators
  are offsets, \<^verbatim>\<open>end_\<close> is \<open>e\<close> and also the sentinel of \<open>p\<close> and
  \<open>p1\<close>.  An iterator that would be moved beyond \<open>e\<close> is the fault \<open>Out_of_range\<close>.
\<close>

type_synonym head_map = "string \<rightharpoonup> string"

section \<open>Definitions\<close>

text \<open>Advance until \<open>P\<close> holds or the end is reached.\<close>

function skip_until :: "(nat \<Rightarrow> bool) \<Rightarrow> nat \<Rightarrow> nat \<Rightarrow> nat" where
  "skip_until P e b = (if b < e \<and> \<not> P b then skip_until P e (b + 1) else b)"
  by pat_completeness auto
termination by (relation "measure (\<lambda>(P, e, b). e - b)") auto

declare skip_until.simps [simp del]

abbreviation value_ws :: string where "value_ws \<equiv> [CHR '' '', CR, LF, TAB, CHR '';'']"

definition slice :: "string \<Rightarrow> nat \<Rightarrow> nat \<Rightarrow> string" where
  "slice mem p n = take n (drop p mem)"

text \<open>The insertion of a header: the first value as it is, later ones joined with a semicolon.\<close>

definition add_header :: "string \<Rightarrow> string \<Rightarrow> head_map \<Rightarrow> head_map" where
  "add_header key value head =
     (if value = [] then head
      else case head key of
             None \<Rightarrow> head(key \<mapsto> value)
           | Some old \<Rightarrow> if old = [] then head(key \<mapsto> value) else head(key \<mapsto> old @ '';'' @ value))"

definition store_header ::
  "string \<Rightarrow> nat \<Rightarrow> nat \<Rightarrow> nat \<Rightarrow> nat \<Rightarrow> nat \<Rightarrow> head_map \<Rightarrow> head_map" where
  "store_header mem e b p n p1 head =
     (if p \<noteq> e \<and> p1 \<noteq> e \<and> 0 < n \<and> p1 < b then
        add_header (map to_lower (slice mem p n))
                   (erase_trailing value_ws (erase_leading value_ws (slice mem p1 (b - p1)))) head
      else head)"

function head_loop ::
  "string \<Rightarrow> nat \<Rightarrow> nat \<Rightarrow> nat \<Rightarrow> nat \<Rightarrow> nat \<Rightarrow> head_map \<Rightarrow> fault + (bool \<times> nat \<times> head_map)" where
  "head_loop mem e b p n p1 head =
     (if e \<le> b then Inr (False, b, Map.empty)
      else if matches_at mem b (CRLF @ CRLF) then
        (if e < b + 4 then Inl Out_of_range else Inr (True, b + 4, store_header mem e b p n p1 head))
      else if matches_at mem b [LF, LF] then
        (if e < b + 2 then Inl Out_of_range else Inr (True, b + 2, store_header mem e b p n p1 head))
      else
        let p = (if p = e then b else p) in
        if p1 = e \<and> mem ! b = CHR '':'' then head_loop mem e (b + 1) p (b - p) (b + 1) head
        else if mem ! b = LF then head_loop mem e (b + 1) e 0 e (store_header mem e b p n p1 head)
        else head_loop mem e (b + 1) p n p1 head)"
  by pat_completeness auto
termination by (relation "measure (\<lambda>(mem, e, b, _). e - b)") auto

declare head_loop.simps [simp del]

record head_result =
  hr_found :: bool
  hr_begin :: nat
  hr_head :: head_map
  hr_status :: nat

text \<open>The status: from the byte after the first blank to the second one.  \<open>None\<close> when there
  is no such field or it is empty; the second component is where \<^verbatim>\<open>begin_\<close> stops.\<close>

definition read_status :: "string \<Rightarrow> nat \<Rightarrow> nat \<Rightarrow> nat option \<times> nat" where
  "read_status mem e b =
     (let sp1 = skip_until (\<lambda>i. mem ! i = CHR '' '') e b in
      if e \<le> sp1 then (None, sp1)
      else let sp2 = skip_until (\<lambda>i. mem ! i = CHR '' '') e (sp1 + 1) in
           (if e \<le> sp2 \<or> sp2 = sp1 + 1 then None
            else Some (to_size_t (atoi (slice mem (sp1 + 1) (sp2 - (sp1 + 1))))), sp2))"

definition next_line :: "string \<Rightarrow> nat \<Rightarrow> nat \<Rightarrow> nat" where
  "next_line mem e b = (let nl = skip_until (\<lambda>i. mem ! i = LF) e b in if nl < e then nl + 1 else nl)"

definition http_get_head ::
  "string \<Rightarrow> nat \<Rightarrow> nat \<Rightarrow> head_map \<Rightarrow> nat \<Rightarrow> fault + head_result" where
  "http_get_head mem e b head status =
     (let b = skip_until (\<lambda>i. matches_at mem i ''HTTP'') e b in
      if e \<le> b then Inr \<lparr>hr_found = False, hr_begin = b, hr_head = head, hr_status = status\<rparr>
      else if e < b + 4 then Inl Out_of_range
      else case read_status mem e (b + 4) of
        (None, b) \<Rightarrow> Inr \<lparr>hr_found = False, hr_begin = b, hr_head = head, hr_status = status\<rparr>
      | (Some st, b) \<Rightarrow>
          (case head_loop mem e (next_line mem e b) e 0 e head of
             Inl f \<Rightarrow> Inl f
           | Inr (ok, b, head) \<Rightarrow> Inr \<lparr>hr_found = ok, hr_begin = b, hr_head = head, hr_status = st\<rparr>))"

section \<open>Scanning\<close>

lemma skip_until_step: "b < e \<Longrightarrow> \<not> P b \<Longrightarrow> skip_until P e b = skip_until P e (b + 1)"
  by (simp add: skip_until.simps [of P e b])

lemma skip_until_stop: "\<not> (b < e \<and> \<not> P b) \<Longrightarrow> skip_until P e b = b"
  by (auto simp add: skip_until.simps [of P e b])

lemma skip_until_bounds: "b \<le> e \<Longrightarrow> b \<le> skip_until P e b \<and> skip_until P e b \<le> e"
proof (induction P e b rule: skip_until.induct)
  case (1 P e b)
  show ?case
  proof (cases "b < e \<and> \<not> P b")
    case True
    with "1.IH" [OF True] show ?thesis by (simp add: skip_until_step)
  next
    case False
    with "1.prems" show ?thesis by (simp add: skip_until_stop)
  qed
qed

lemma skip_until_found: "skip_until P e b < e \<Longrightarrow> P (skip_until P e b)"
proof (induction P e b rule: skip_until.induct)
  case (1 P e b)
  show ?case
  proof (cases "b < e \<and> \<not> P b")
    case True
    with "1.IH" [OF True] "1.prems" show ?thesis by (simp add: skip_until_step)
  next
    case False
    with "1.prems" skip_until_stop [of b e P] show ?thesis by auto
  qed
qed

lemma skip_until_skip:
  assumes "\<forall>i < k. \<not> P (b + i)" and "b + k < e" and "P (b + k)"
  shows "skip_until P e b = b + k"
  using assms
proof (induction k arbitrary: b)
  case 0
  then show ?case by (simp add: skip_until.simps [of P e b])
next
  case (Suc k)
  have "skip_until P e (b + 1) = b + 1 + k"
    using Suc.prems by (intro Suc.IH) (auto simp: Suc_le_eq dest: spec [of _ "Suc _"])
  moreover have "\<not> P b" using Suc.prems(1) by (metis add_0_right zero_less_Suc)
  ultimately show ?case using Suc.prems(2) by (simp add: skip_until.simps [of P e b])
qed

lemmas head_loop_unfold = head_loop.simps [unfolded Let_def]

lemma head_loop_bounds:
  "b \<le> e \<Longrightarrow> head_loop mem e b p n p1 head = Inr (ok, b', head') \<Longrightarrow> b \<le> b' \<and> b' \<le> e"
proof (induction "e - b" arbitrary: b p n p1 head rule: less_induct)
  case less
  show ?case
  proof (cases "e \<le> b \<or> matches_at mem b (CRLF @ CRLF) \<or> matches_at mem b [LF, LF]")
    case True
    with less.prems show ?thesis
      by (auto simp: head_loop_unfold [of mem e b p n p1 head] split: if_splits)
  next
    case False
    then have "b < e" by simp
    have IH: "head_loop mem e (b + 1) q m q1 h = Inr (ok, b', head') \<Longrightarrow> b \<le> b' \<and> b' \<le> e" for q m q1 h
      using less.hyps [of "b + 1" q m q1 h] \<open>b < e\<close> by (simp add: less_imp_le Suc_le_eq)
    from False less.prems(2) show ?thesis
      by (simp add: head_loop_unfold [of mem e b p n p1 head] split: if_splits; intro IH; simp)
  qed
qed

lemma matches_at_hd: "matches_at mem b (c # cs) \<Longrightarrow> b < length mem \<and> mem ! b = c"
  by (cases "drop b mem") (auto simp: matches_at_def nth_via_drop dest: arg_cong [of _ _ length])

lemma head_loop_advance:
  assumes "b < e" and "\<not> matches_at mem b (CRLF @ CRLF)" and "mem ! b \<noteq> LF"
    and "p1 = e \<longrightarrow> mem ! b \<noteq> CHR '':''"
  shows "head_loop mem e b p n p1 head = head_loop mem e (b + 1) (if p = e then b else p) n p1 head"
proof -
  have "\<not> matches_at mem b [LF, LF]" using assms(3) matches_at_hd [of mem b LF "[LF]"] by blast
  with assms show ?thesis
    by (subst head_loop_unfold) (auto split del: if_split)
qed

lemma head_loop_colon:
  assumes "b < e" and "mem ! b = CHR '':''" and "p \<noteq> e"
  shows "head_loop mem e b p n e head = head_loop mem e (b + 1) p (b - p) (b + 1) head"
proof -
  have "CHR '':'' \<noteq> CR" "CHR '':'' \<noteq> LF" by code_simp+
  then have "\<not> matches_at mem b (CRLF @ CRLF)" "\<not> matches_at mem b [LF, LF]"
    using assms(2) matches_at_hd [of mem b CR] matches_at_hd [of mem b LF] by auto
  with assms show ?thesis by (simp add: head_loop_unfold [of mem e b p n e head])
qed

lemma head_loop_newline:
  assumes "b < e" and "mem ! b = LF" and "\<not> matches_at mem b [LF, LF]" and "p \<noteq> e"
  shows "head_loop mem e b p n p1 head = head_loop mem e (b + 1) e 0 e (store_header mem e b p n p1 head)"
proof -
  have "\<not> matches_at mem b (CRLF @ CRLF)"
    using assms(2) matches_at_hd [of mem b CR] by auto
  moreover have "LF \<noteq> CHR '':''" by code_simp
  ultimately show ?thesis using assms by (subst head_loop_unfold) simp
qed

lemma head_loop_end:
  assumes "matches_at mem b (CRLF @ CRLF)" and "b + 4 \<le> e"
  shows "head_loop mem e b p n p1 head = Inr (True, b + 4, store_header mem e b p n p1 head)"
  using assms by (simp add: head_loop_unfold [of mem e b p n p1 head])

lemma read_status_bounds:
  assumes "b \<le> e" "read_status mem e b = (Some st, b')"
  shows "b < b' \<and> b' < e"
proof -
  define s1 where "s1 = skip_until (\<lambda>i. mem ! i = CHR '' '') e b"
  define s2 where "s2 = skip_until (\<lambda>i. mem ! i = CHR '' '') e (Suc s1)"
  from assms(2) have "s1 < e" "s2 < e" "b' = s2"
    by (auto simp: read_status_def Let_def s1_def [symmetric] s2_def [symmetric] split: if_splits)
  moreover have "b \<le> s1" using skip_until_bounds [OF assms(1)] by (simp add: s1_def)
  moreover have "s1 + 1 \<le> s2" using skip_until_bounds [of "Suc s1" e] \<open>s1 < e\<close> by (simp add: s2_def)
  ultimately show ?thesis by simp
qed

lemma next_line_bounds: "b \<le> e \<Longrightarrow> b \<le> next_line mem e b \<and> next_line mem e b \<le> e"
  using skip_until_bounds [of b e "\<lambda>i. mem ! i = LF"] by (auto simp: next_line_def Let_def)

lemma http_get_head_progress:
  assumes "b \<le> e" and "http_get_head mem e b head st = Inr r" and "hr_found r"
  shows "b < hr_begin r \<and> hr_begin r \<le> e"
proof -
  define b1 where "b1 = skip_until (\<lambda>i. matches_at mem i ''HTTP'') e b"
  from assms(2,3) obtain st' b2 h where b1: "b1 + 4 \<le> e" and rs: "read_status mem e (b1 + 4) = (Some st', b2)"
    and hl: "head_loop mem e (next_line mem e b2) e 0 e head = Inr (True, hr_begin r, h)"
    by (auto simp: http_get_head_def Let_def b1_def [symmetric] split: if_splits sum.splits prod.splits option.splits)
  have "b \<le> b1" using skip_until_bounds [OF assms(1)] by (simp add: b1_def)
  moreover have "b1 + 4 < b2" "b2 < e" using read_status_bounds [OF b1 rs] by simp_all
  moreover have "b2 \<le> next_line mem e b2" "next_line mem e b2 \<le> e"
    using next_line_bounds [of b2 e mem] \<open>b2 < e\<close> by simp_all
  ultimately show ?thesis using head_loop_bounds [OF _ hl] by simp
qed

text \<open>Over bytes that are neither line ends nor (while no colon was seen) colons, the loop only
  advances.\<close>

lemma head_loop_skip:
  assumes "\<forall>c \<in> set s. c \<noteq> CR \<and> c \<noteq> LF" and "p1 = e \<longrightarrow> CHR '':'' \<notin> set s" and "p \<noteq> e"
    and "length pre + length s \<le> e"
  shows "head_loop (pre @ s @ rest) e (length pre) p n p1 head
       = head_loop (pre @ s @ rest) e (length pre + length s) p n p1 head"
  using assms
proof (induction s arbitrary: pre)
  case (Cons c s)
  have "head_loop (pre @ (c # s) @ rest) e (length pre) p n p1 head
      = head_loop (pre @ (c # s) @ rest) e (length pre + 1) p n p1 head"
    using Cons.prems matches_at_hd [of "pre @ (c # s) @ rest" "length pre" CR]
    by (subst head_loop_advance) auto
  also have "\<dots> = head_loop ((pre @ [c]) @ s @ rest) e (length (pre @ [c])) p n p1 head" by simp
  also have "\<dots> = head_loop ((pre @ [c]) @ s @ rest) e (length (pre @ [c]) + length s) p n p1 head"
    using Cons.prems by (intro Cons.IH) auto
  finally show ?case by simp
qed simp

section \<open>Printed heads\<close>

definition wf_header :: "string \<times> string \<Rightarrow> bool" where
  "wf_header h \<longleftrightarrow> (case h of (k, v) \<Rightarrow>
     k \<noteq> [] \<and> list_all (none_of [CR, LF, CHR '':'']) k \<and>
     v \<noteq> [] \<and> list_all (none_of [CR, LF]) v \<and> none_of value_ws (hd v) \<and> none_of value_ws (last v))"

definition header_line :: "string \<times> string \<Rightarrow> string" where
  "header_line h = fst h @ '': '' @ snd h @ CRLF"

definition collect_headers :: "(string \<times> string) list \<Rightarrow> head_map \<Rightarrow> head_map" where
  "collect_headers hs head = fold (\<lambda>(k, v). add_header (map to_lower k) v) hs head"

lemma slice_append [simp]: "slice (a @ b @ c) (length a) (length b) = b"
  by (simp add: slice_def)

text \<open>From the start of a header line to the CR that ends it.\<close>

lemma head_loop_line:
  fixes pre rest k v :: string
  defines "mem \<equiv> pre @ k @ '': '' @ v @ CR # rest"
  assumes wf: "wf_header (k, v)" and e: "length pre + length k + 2 + length v + 1 \<le> e"
  shows "head_loop mem e (length pre) e 0 e head
       = head_loop mem e (length pre + length k + 2 + length v) (length pre) (length k) (length pre + length k + 1) head"
proof -
  obtain c k' where k: "k = c # k'" using wf by (cases k) (auto simp: wf_header_def)
  have kok: "\<forall>c \<in> set k. c \<noteq> CR \<and> c \<noteq> LF \<and> c \<noteq> CHR '':''" and vok: "\<forall>c \<in> set v. c \<noteq> CR \<and> c \<noteq> LF"
    using wf by (auto simp: wf_header_def list_all_iff)
  have sp: "CHR '' '' \<noteq> CR" "CHR '' '' \<noteq> LF" by code_simp+
  have "head_loop mem e (length pre) e 0 e head = head_loop mem e (length pre + 1) (length pre) 0 e head"
    using e kok matches_at_hd [of mem "length pre" CR] by (subst head_loop_advance) (auto simp: mem_def k)
  also have "\<dots> = head_loop mem e (length pre + length k) (length pre) 0 e head"
    using head_loop_skip [of k' e e "length pre" "pre @ [c]" "'': '' @ v @ CR # rest" 0 head] e kok
    by (auto simp: mem_def k)
  also have "\<dots> = head_loop mem e (length pre + length k + 1) (length pre) (length k) (length pre + length k + 1) head"
    using e by (subst head_loop_colon) (auto simp: mem_def nth_append)
  also have "\<dots> = head_loop mem e (length pre + length k + 2 + length v) (length pre) (length k) (length pre + length k + 1) head"
    using head_loop_skip [of "CHR '' '' # v" "length pre + length k + 1" e "length pre" "pre @ k @ '':''" "CR # rest" "length k" head]
      e vok sp by (simp add: mem_def)
  finally show ?thesis .
qed

lemma store_header_line:
  assumes "wf_header (k, v)" and "length pre + length k + 2 + length v + 1 \<le> e" and "set z \<subseteq> {CR}"
  shows "store_header (pre @ k @ '': '' @ v @ z @ rest) e (length pre + length k + 2 + length v + length z)
           (length pre) (length k) (length pre + length k + 1) head
       = add_header (map to_lower k) v head"
proof -
  have s1: "slice (pre @ k @ '': '' @ v @ z @ rest) (length pre) (length k) = k" by simp
  have s2: "slice (pre @ k @ '': '' @ v @ z @ rest) (length pre + length k + 1) (1 + length v + length z) = '' '' @ v @ z"
    using slice_append [of "pre @ k @ '':''" "'' '' @ v @ z" rest] by simp
  have "erase_trailing value_ws (erase_leading value_ws ('' '' @ v @ z)) = v"
    using assms(1,3) by (intro trim_between) (auto simp: wf_header_def)
  with assms(1,2) s1 s2 show ?thesis by (auto simp: store_header_def wf_header_def)
qed

lemma head_loop_header:
  fixes pre rest k v :: string
  defines "mem \<equiv> pre @ header_line (k, v) @ rest"
  assumes wf: "wf_header (k, v)" and e: "length (pre @ header_line (k, v)) \<le> e"
    and rest: "\<not> prefix CRLF rest" "\<not> prefix [LF] rest"
  shows "head_loop mem e (length pre) e 0 e head
       = head_loop mem e (length (pre @ header_line (k, v))) e 0 e (add_header (map to_lower k) v head)"
proof -
  let ?b = "length pre + length k + 2 + length v" and ?p1 = "length pre + length k + 1"
  have mem: "mem = (pre @ k @ '': '' @ v) @ CR # LF # rest" by (simp add: mem_def header_line_def)
  have mem2: "mem = (pre @ k @ '': '' @ v @ [CR]) @ LF # rest" by (simp add: mem)
  have e': "?b + 2 \<le> e" using e by (simp add: header_line_def)
  have nth: "mem ! ?b = CR" "mem ! (?b + 1) = LF" unfolding mem by (simp_all add: nth_append)
  have "head_loop mem e (length pre) e 0 e head = head_loop mem e ?b (length pre) (length k) ?p1 head"
    using head_loop_line [OF wf, of pre e "LF # rest"] e' by (simp add: mem)
  also have "\<dots> = head_loop mem e (?b + 1) (length pre) (length k) ?p1 head"
  proof (subst head_loop_advance)
    show "\<not> matches_at mem ?b (CRLF @ CRLF)"
      using rest(1) matches_at_append [of "pre @ k @ '': '' @ v" "CR # LF # rest"]
      by (simp add: mem matches_at_prefix add.assoc)
  qed (use e' nth in auto)
  also have "\<dots> = head_loop mem e (?b + 2) e 0 e (store_header mem e (?b + 1) (length pre) (length k) ?p1 head)"
  proof (subst head_loop_newline)
    show "\<not> matches_at mem (?b + 1) [LF, LF]"
      using rest(2) matches_at_append [of "pre @ k @ '': '' @ v @ [CR]" "LF # rest"]
      by (simp add: mem2 matches_at_prefix add.assoc)
  qed (use e' nth in auto)
  also have "store_header mem e (?b + 1) (length pre) (length k) ?p1 head = add_header (map to_lower k) v head"
    using store_header_line [OF wf, of pre e "[CR]" "LF # rest"] e' by (simp add: mem)
  finally show ?thesis by (simp add: header_line_def add.assoc)
qed

lemma head_loop_last:
  fixes pre rest k v :: string
  defines "mem \<equiv> pre @ header_line (k, v) @ CRLF @ rest"
  assumes wf: "wf_header (k, v)" and e: "length (pre @ header_line (k, v) @ CRLF) \<le> e"
  shows "head_loop mem e (length pre) e 0 e head
       = Inr (True, length (pre @ header_line (k, v) @ CRLF), add_header (map to_lower k) v head)"
proof -
  let ?b = "length pre + length k + 2 + length v" and ?p1 = "length pre + length k + 1"
  have mem: "mem = (pre @ k @ '': '' @ v) @ CR # LF # CRLF @ rest" by (simp add: mem_def header_line_def)
  have e': "?b + 4 \<le> e" using e by (simp add: header_line_def)
  have "head_loop mem e (length pre) e 0 e head = head_loop mem e ?b (length pre) (length k) ?p1 head"
    using head_loop_line [OF wf, of pre e "LF # CRLF @ rest"] e' by (simp add: mem)
  also have "\<dots> = Inr (True, ?b + 4, store_header mem e ?b (length pre) (length k) ?p1 head)"
    using e' matches_at_append [of "pre @ k @ '': '' @ v" "CR # LF # CRLF @ rest"]
    by (intro head_loop_end) (simp_all add: mem add.assoc)
  also have "store_header mem e ?b (length pre) (length k) ?p1 head = add_header (map to_lower k) v head"
    using store_header_line [OF wf, of pre e "[]" "CRLF @ CRLF @ rest"] e' by (simp add: mem)
  finally show ?thesis by (simp add: header_line_def)
qed

lemma header_line_start:
  assumes "wf_header h"
  shows "\<not> prefix CRLF (header_line h @ r)" "\<not> prefix [LF] (header_line h @ r)"
  using assms by (cases h; cases "fst h"; auto simp: header_line_def wf_header_def)+

lemma head_loop_headers:
  assumes "hs \<noteq> []" and "list_all wf_header hs"
    and "length (pre @ concat (map header_line hs) @ CRLF) \<le> e"
  shows "head_loop (pre @ concat (map header_line hs) @ CRLF @ rest) e (length pre) e 0 e head
       = Inr (True, length (pre @ concat (map header_line hs) @ CRLF), collect_headers hs head)"
  using assms
proof (induction hs arbitrary: pre head)
  case (Cons h hs)
  obtain k v where h: "h = (k, v)" by fastforce
  show ?case
  proof (cases "hs = []")
    case True
    then show ?thesis
      using Cons.prems head_loop_last [of k v pre e rest head] by (simp add: h collect_headers_def)
  next
    case False
    then obtain h' hs' where hs: "hs = h' # hs'" by (cases hs) auto
    let ?rest = "concat (map header_line hs) @ CRLF @ rest"
    have "\<not> prefix CRLF ?rest" "\<not> prefix [LF] ?rest"
      using header_line_start [of h'] Cons.prems(2) by (simp_all add: hs)
    then have "head_loop (pre @ header_line (k, v) @ ?rest) e (length pre) e 0 e head
        = head_loop (pre @ header_line (k, v) @ ?rest) e (length (pre @ header_line (k, v))) e 0 e (add_header (map to_lower k) v head)"
      using Cons.prems by (intro head_loop_header) (simp_all add: h)
    also have "\<dots> = Inr (True, length ((pre @ header_line (k, v)) @ concat (map header_line hs) @ CRLF),
         collect_headers hs (add_header (map to_lower k) v head))"
      using Cons.IH [of "pre @ header_line (k, v)" "add_header (map to_lower k) v head"] Cons.prems False
      by (simp add: h)
    finally show ?thesis by (simp add: h collect_headers_def)
  qed
qed simp

section \<open>The whole head\<close>

definition status_line :: "nat \<Rightarrow> string \<Rightarrow> string" where
  "status_line st reason = ''HTTP/1.1 '' @ ConvertToString st @ '' '' @ reason @ CRLF"

definition print_head :: "nat \<Rightarrow> string \<Rightarrow> (string \<times> string) list \<Rightarrow> string" where
  "print_head st reason hs = status_line st reason @ concat (map header_line hs) @ CRLF"

lemma skip_until_char:
  assumes "\<forall>c \<in> set s. c \<noteq> x" and "length pre + length s < e"
  shows "skip_until (\<lambda>i. (pre @ s @ x # rest) ! i = x) e (length pre) = length pre + length s"
  using assms by (intro skip_until_skip) (auto simp: nth_append)

lemma ConvertToString_no_space: "\<forall>c \<in> set (ConvertToString n). c \<noteq> CHR '' ''"
  using ConvertToString_digits [of n] by (auto simp: list_all_iff is_digit_def)

lemma to_size_t_small: "n < 2 ^ 31 \<Longrightarrow> to_size_t (int n) = n"
  by (simp add: to_size_t_def)

lemma http_get_head_eqI:
  assumes "skip_until (\<lambda>i. matches_at mem i ''HTTP'') e b = b1" "b1 + 4 \<le> e"
    and "skip_until (\<lambda>i. mem ! i = CHR '' '') e (b1 + 4) = s1"
    and "skip_until (\<lambda>i. mem ! i = CHR '' '') e (s1 + 1) = s2" "s1 + 1 < s2" "s2 < e"
    and "skip_until (\<lambda>i. mem ! i = LF) e s2 = nl" "nl < e"
    and "head_loop mem e (nl + 1) e 0 e head = Inr (ok, b', h')"
    and "to_size_t (atoi (slice mem (s1 + 1) (s2 - (s1 + 1)))) = st"
  shows "http_get_head mem e b head st0
       = Inr \<lparr>hr_found = ok, hr_begin = b', hr_head = h', hr_status = st\<rparr>"
  using assms by (simp add: http_get_head_def read_status_def next_line_def Let_def)

lemma http_get_head_print:
  assumes hs: "hs \<noteq> []" "list_all wf_header hs" and st: "st < 2 ^ 31"
    and reason: "LF \<notin> set reason" and e: "length (pre @ print_head st reason hs) \<le> e"
    and pre: "\<forall>i < length pre. \<not> matches_at (pre @ print_head st reason hs @ rest) i ''HTTP''"
  shows "http_get_head (pre @ print_head st reason hs @ rest) e 0 head st0
       = Inr \<lparr>hr_found = True, hr_begin = length (pre @ print_head st reason hs),
              hr_head = collect_headers hs head, hr_status = st\<rparr>"
proof -
  let ?mem = "pre @ print_head st reason hs @ rest"
  let ?tail = "concat (map header_line hs) @ CRLF @ rest"
  let ?d = "ConvertToString st"
  have mem: "?mem = pre @ ''HTTP/1.1 '' @ ?d @ '' '' @ reason @ CR # LF # ?tail"
    by (simp add: print_head_def status_line_def)
  have e': "length pre + 9 + length ?d + 1 + length reason + 2 < e"
    using e hs(1) by (simp add: print_head_def status_line_def)
  have b: "skip_until (\<lambda>i. matches_at ?mem i ''HTTP'') e 0 = length pre"
    using pre e' skip_until_skip [of "length pre" "\<lambda>i. matches_at ?mem i ''HTTP''" 0 e]
    by (simp add: mem)
  have sp1: "skip_until (\<lambda>i. ?mem ! i = CHR '' '') e (length pre + 4) = length pre + 8"
    using skip_until_char [of "''/1.1''" "CHR '' ''" "pre @ ''HTTP''" e] e' by (simp add: mem eval_nat_numeral)
  have sp2: "skip_until (\<lambda>i. ?mem ! i = CHR '' '') e (length pre + 8 + 1) = length pre + 9 + length ?d"
    using skip_until_char [of ?d "CHR '' ''" "pre @ ''HTTP/1.1 ''" e] ConvertToString_no_space [of st] e'
    by (simp add: mem eval_nat_numeral)
  have nl: "skip_until (\<lambda>i. ?mem ! i = LF) e (length pre + 9 + length ?d) = length pre + 11 + length ?d + length reason"
    using skip_until_char [of "'' '' @ reason @ [CR]" LF "pre @ ''HTTP/1.1 '' @ ?d" e ?tail] reason e' blank_eol
    by (auto simp: mem eval_nat_numeral add.assoc)
  have sl: "slice ?mem (9 + length pre) (length ?d) = ?d"
    using slice_append [of "pre @ ''HTTP/1.1 ''" ?d] by (simp add: mem eval_nat_numeral)
  have hl: "head_loop ?mem e (length pre + 11 + length ?d + length reason + 1) e 0 e head
      = Inr (True, length (pre @ print_head st reason hs), collect_headers hs head)"
    using head_loop_headers [OF hs, of "pre @ status_line st reason" e rest head] e
    by (simp add: print_head_def status_line_def eval_nat_numeral add.assoc)
  have "?d \<noteq> []" using ConvertToString_digits by blast
  moreover have "to_size_t (atoi ?d) = st"
    using atoi_ConvertToString [of st "[]"] st by (simp add: to_size_t_small)
  ultimately show ?thesis
    using e' sl by (intro http_get_head_eqI [OF b _ sp1 sp2 _ _ nl _ hl]) simp_all
qed

end
