(* ===== verification/Trigger.thy ===== *)
theory Trigger
  imports CStd
begin

text \<open>
  Triggers (\<^verbatim>\<open>trigger_base\<close> of \<^verbatim>\<open>src/scaner_test/policy_work.cpp\<close>): a trigger is
  a string of names separated by \<^verbatim>\<open>||\<close>; a policy runs when its trigger shares a name,
  in upper case, with the trigger of the running task.
\<close>

section \<open>Definitions\<close>

abbreviation bars :: string where "bars \<equiv> ''||''"

definition push_name :: "string \<Rightarrow> string list \<Rightarrow> string list" where
  "push_name s v =
     (if s = [] then v
      else let s = map to_upper s in if s \<in> set v then v else v @ [s])"

function divil_loop :: "string \<Rightarrow> nat \<Rightarrow> string list \<Rightarrow> string list" where
  "divil_loop t nf v =
     (if nf < length t then
        let nb = (case find_sub_from bars t nf of None \<Rightarrow> length t | Some k \<Rightarrow> k)
        in divil_loop t (nb + 2) (push_name (take (nb - nf) (drop nf t)) v)
      else v)"
  by pat_completeness auto
termination
  by (relation "measure (\<lambda>(t, nf, v). length t - nf)")
     (auto simp: find_sub_from_def split: option.splits if_splits)

declare divil_loop.simps [simp del]

definition divil_trigger :: "string \<Rightarrow> string list \<Rightarrow> bool \<times> string list" where
  "divil_trigger t v = (if t = [] then (False, v) else let v = divil_loop t 0 v in (v \<noteq> [], v))"

definition format_names :: "string list \<Rightarrow> string" where
  "format_names v = concat (map (\<lambda>s. s @ bars) v)"

definition format_trigger1 :: "string \<Rightarrow> string" where
  "format_trigger1 t = (case divil_trigger t [] of (ok, v) \<Rightarrow> if ok then format_names v else [])"

definition format_trigger :: "string \<Rightarrow> string \<Rightarrow> string" where
  "format_trigger t add = format_names (snd (divil_trigger add (snd (divil_trigger t []))))"

text \<open>The object holds the names of the trigger it was constructed with (the constructor
  asserts that the trigger is not empty).\<close>

definition trigger_base :: "string \<Rightarrow> string list" where
  "trigger_base t = snd (divil_trigger t [])"

definition hit_trigger :: "string list \<Rightarrow> string \<Rightarrow> bool" where
  "hit_trigger v_trigger t =
     (if t = [] then False
      else case divil_trigger t [] of
             (ok, v_t) \<Rightarrow> if ok then list_ex (\<lambda>s. s \<in> set v_t) v_trigger else False)"

section \<open>The names of a trigger\<close>

text \<open>Reference: the pieces between the separators, as a structural recursion on the string.\<close>

fun split_bars :: "string \<Rightarrow> string \<Rightarrow> string list" where
  "split_bars acc [] = [acc]"
| "split_bars acc [c] = [acc @ [c]]"
| "split_bars acc (c # d # s) =
     (if c = CHR ''|'' \<and> d = CHR ''|'' then acc # split_bars [] s else split_bars (acc @ [c]) (d # s))"

definition names :: "string \<Rightarrow> string list" where
  "names t = map (map to_upper) (filter (\<lambda>s. s \<noteq> []) (split_bars [] t))"

definition add_new :: "'a list \<Rightarrow> 'a list \<Rightarrow> 'a list" where
  "add_new v xs = fold (\<lambda>x v. if x \<in> set v then v else v @ [x]) xs v"

lemma split_bars_conv:
  "split_bars acc s = (case find_sub bars s of
      None \<Rightarrow> [acc @ s]
    | Some n \<Rightarrow> (acc @ take n s) # split_bars [] (drop (n + 2) s))"
proof (induction acc s rule: split_bars.induct)
  case (3 acc c d s)
  show ?case
  proof (cases "c = CHR ''|'' \<and> d = CHR ''|''")
    case True
    then show ?thesis by simp
  next
    case False
    then have "find_sub bars (c # d # s) = map_option Suc (find_sub bars (d # s))" by auto
    with False 3(2) show ?thesis
      by (auto simp: split: option.splits)
  qed
qed simp_all

lemma fold_push_name:
  "fold push_name ss v = add_new v (map (map to_upper) (filter (\<lambda>s. s \<noteq> []) ss))"
  by (induction ss arbitrary: v) (auto simp: push_name_def add_new_def Let_def)

lemma divil_loop_conv: "divil_loop t nf v = fold push_name (split_bars [] (drop nf t)) v"
proof (induction t nf v rule: divil_loop.induct)
  case (1 t nf v)
  show ?case
  proof (cases "nf < length t")
    case True
    show ?thesis
    proof (cases "find_sub bars (drop nf t)")
      case None
      with 1 [OF True] True show ?thesis
        by (simp add: divil_loop.simps [of t nf] split_bars_conv [of _ "drop nf t"] find_sub_from_def push_name_def)
    next
      case (Some k)
      have "drop (nf + k + 2) t = drop (k + 2) (drop nf t)" by (simp add: ac_simps)
      with Some 1 [OF True] True show ?thesis
        by (simp add: divil_loop.simps [of t nf] split_bars_conv [of _ "drop nf t"] find_sub_from_def)
    qed
  qed (simp add: divil_loop.simps [of t nf] push_name_def)
qed

lemma divil_trigger_names:
  "divil_trigger t v = (t \<noteq> [] \<and> add_new v (names t) \<noteq> [], add_new v (names t))"
  by (auto simp: divil_trigger_def divil_loop_conv fold_push_name names_def add_new_def Let_def)

lemma add_new_set [simp]: "set (add_new v xs) = set v \<union> set xs"
  unfolding add_new_def by (induction xs arbitrary: v) auto

lemma add_new_distinct: "distinct v \<Longrightarrow> distinct (add_new v xs)"
  unfolding add_new_def by (induction xs arbitrary: v) auto

lemma add_new_subset: "set xs \<subseteq> set v \<Longrightarrow> add_new v xs = v"
  unfolding add_new_def by (induction xs arbitrary: v) auto

lemma add_new_fresh: "distinct (v @ xs) \<Longrightarrow> add_new v xs = v @ xs"
  unfolding add_new_def by (induction xs arbitrary: v) auto

lemma add_new_Nil_iff: "add_new v xs = [] \<longleftrightarrow> v = [] \<and> xs = []"
  using add_new_set [of v xs] by (metis Un_empty set_empty)

lemma hit_trigger_names: "hit_trigger v t \<longleftrightarrow> set v \<inter> set (names t) \<noteq> {}"
proof (cases "t = []")
  case True
  then show ?thesis by (simp add: hit_trigger_def names_def)
next
  case False
  then show ?thesis
    by (auto simp: hit_trigger_def divil_trigger_names list_ex_iff add_new_Nil_iff)
qed

section \<open>Printing\<close>

definition plain_name :: "string \<Rightarrow> bool" where
  "plain_name s \<longleftrightarrow> s \<noteq> [] \<and> CHR ''|'' \<notin> set s \<and> map to_upper s = s"

lemma find_sub_bars_plain: "CHR ''|'' \<notin> set s \<Longrightarrow> find_sub bars (s @ bars @ r) = Some (length s)"
  by (induction s) auto

lemma split_bars_format:
  "list_all plain_name v \<Longrightarrow> split_bars [] (format_names v) = v @ [[]]"
proof (induction v)
  case (Cons s v)
  then have "find_sub bars (s @ bars @ format_names v) = Some (length s)"
    by (intro find_sub_bars_plain) (simp add: plain_name_def)
  with Cons show ?case
    by (simp add: format_names_def split_bars_conv [of _ "s @ CHR ''|'' # _"])
qed (simp add: format_names_def)

lemma names_format: "list_all plain_name v \<Longrightarrow> names (format_names v) = v"
proof -
  assume v: "list_all plain_name v"
  then have "filter (\<lambda>s. s \<noteq> []) v = v" "map (map to_upper) v = v"
    by (auto simp: list_all_iff plain_name_def filter_id_conv map_idI)
  with split_bars_format [OF v] show ?thesis by (simp add: names_def)
qed

lemma format_trigger_names: "format_trigger t a = format_names (add_new (add_new [] (names t)) (names a))"
  by (simp add: format_trigger_def divil_trigger_names)

lemma names_upper: "s \<in> set (names t) \<Longrightarrow> s \<noteq> [] \<and> map to_upper s = s"
  by (auto simp: names_def)

section \<open>Properties\<close>

text \<open>C24: \<^verbatim>\<open>divil_trigger\<close> computes the names of the trigger: the non-empty pieces
  between the separators, in upper case, each once and in the order of their first
  occurrence after those already there; and a trigger is hit exactly when the two triggers
  share a name, so hitting is symmetric.\<close>

theorem hit_trigger_shared_name:
  "divil_trigger t v = (t \<noteq> [] \<and> add_new v (names t) \<noteq> [], add_new v (names t))
   \<and> (distinct v \<longrightarrow> distinct (snd (divil_trigger t v)))
   \<and> hit_trigger (trigger_base t) u = (set (names t) \<inter> set (names u) \<noteq> {})
   \<and> hit_trigger (trigger_base t) u = hit_trigger (trigger_base u) t"
  by (auto simp: divil_trigger_names add_new_distinct hit_trigger_names trigger_base_def)

theorem hit_trigger_shared_name_witness:
  "distinct (snd (divil_trigger ''once||GET||Once'' [])) \<and> names ''once||GET||Once'' = [''ONCE'', ''GET'', ''ONCE'']"
proof
  show "distinct (snd (divil_trigger ''once||GET||Once'' []))"
    using hit_trigger_shared_name [of "''once||GET||Once''" "[]" "[]"] distinct.simps(1) by blast
  show "names ''once||GET||Once'' = [''ONCE'', ''GET'', ''ONCE'']" by code_simp
qed

text \<open>Adding a name to a trigger.  When no name contains a bar, printing with
  \<^verbatim>\<open>format_trigger(trigger, add)\<close> loses nothing: the names read back are those of the
  trigger followed by the new ones, every policy hit before or by the addition is hit, and
  adding the same again changes nothing.\<close>

theorem format_trigger_names_kept:
  assumes "list_all (\<lambda>s. CHR ''|'' \<notin> set s) (names t)" and "list_all (\<lambda>s. CHR ''|'' \<notin> set s) (names a)"
  shows "names (format_trigger t a) = add_new (add_new [] (names t)) (names a)
       \<and> (\<forall>p. hit_trigger (trigger_base (format_trigger t a)) p
               \<longleftrightarrow> hit_trigger (trigger_base t) p \<or> hit_trigger (trigger_base a) p)
       \<and> format_trigger (format_trigger t a) a = format_trigger t a"
proof -
  let ?v = "add_new (add_new [] (names t)) (names a)"
  have "list_all plain_name ?v"
    using assms names_upper by (auto simp: list_all_iff plain_name_def)
  then have n: "names (format_trigger t a) = ?v" by (simp add: format_trigger_names names_format)
  moreover have "add_new (add_new [] ?v) (names a) = ?v"
    by (simp add: add_new_fresh add_new_distinct add_new_subset)
  ultimately show ?thesis
    by (auto simp: format_trigger_names hit_trigger_names trigger_base_def divil_trigger_names)
qed

theorem format_trigger_names_kept_witness:
  "names (format_trigger ''Get||get'' ''once'') = [''GET'', ''ONCE'']"
proof -
  have "list_all (\<lambda>s. CHR ''|'' \<notin> set s) (names ''Get||get'')" "list_all (\<lambda>s. CHR ''|'' \<notin> set s) (names ''once'')"
    by code_simp+
  from format_trigger_names_kept [OF this]
  have "names (format_trigger ''Get||get'' ''once'') = add_new (add_new [] (names ''Get||get'')) (names ''once'')" by blast
  also have "\<dots> = [''GET'', ''ONCE'']" by code_simp
  finally show ?thesis .
qed

end
