(* ===== verification/HttpResponse.thy ===== *)
theory HttpResponse
  imports HttpHead Trigger
begin

text \<open>
  \<^verbatim>\<open>http_reponse_check\<close> (is the response complete?) and
  \<^verbatim>\<open>http_reponse_completed\<close> (split the received bytes into responses) of
  \<^verbatim>\<open>src/scaner_test/http_tools.cpp\<close>.

  As in \<open>HttpHead\<close>, \<open>mem\<close> is the received content followed by whatever lies after
  it in memory and \<open>e\<close> is the length of the content.  A jump of an iterator outside the
  content is \<open>Inl Out_of_range\<close>.  The chunk loop of \<^verbatim>\<open>http_reponse_check\<close> need not
  end (a negative chunk size jumps back), so it is a partial function with \<open>None\<close> for not
  returning; all other loops are total.  Decompression and character set conversion are
  parameters.
\<close>

section \<open>Shared pieces\<close>

definition scan_past :: "string \<Rightarrow> nat \<Rightarrow> nat \<Rightarrow> nat" where
  "scan_past mem e w =
     (let i = skip_until (\<lambda>i. matches_at mem i (LF # ''HTTP/'')) e w in if i < e then i + 1 else i)"

definition head_value :: "head_map \<Rightarrow> string \<Rightarrow> string" where
  "head_value head k = (case head k of None \<Rightarrow> [] | Some v \<Rightarrow> v)"

definition is_chunked :: "head_map \<Rightarrow> bool" where
  "is_chunked head \<longleftrightarrow> head_value head ''transfer-encoding'' \<noteq> []
     \<and> contains (head_value head ''transfer-encoding'') ''chunked''"

section \<open>Is the response complete?\<close>

datatype chunk_check = Check_return bool | Check_fall nat

partial_function (option) check_chunks :: "string \<Rightarrow> nat \<Rightarrow> nat \<Rightarrow> nat \<Rightarrow> (fault + chunk_check) option" where
  "check_chunks mem e it w =
     (if w = e then Some (Inr (Check_fall w))
      else if mem ! w = LF then
        (let nlength = strtol16 (drop it mem) in
         if nlength > int e - int (w + 1) then Some (Inr (Check_return False))
         else if nlength = 0 \<and> w + 1 < e then Some (Inr (Check_return True))
         else
           let t = int (w + 1) + nlength + 2 in
           if t < 0 \<or> int e < t then Some (Inl Out_of_range)
           else check_chunks mem e (nat t) (nat t))
      else check_chunks mem e it (w + 1))"

partial_function (option) check_loop :: "string \<Rightarrow> nat \<Rightarrow> nat \<Rightarrow> head_map \<Rightarrow> nat \<Rightarrow> (fault + bool) option" where
  "check_loop mem e w head status =
     (if w = e then Some (Inr False)
      else case http_get_head mem e w head status of
        Inl f \<Rightarrow> Some (Inl f)
      | Inr r \<Rightarrow>
          if \<not> hr_found r then Some (Inr False)
          else if hr_status r = 100 then
            (if scan_past mem e (hr_begin r) \<noteq> e
             then check_loop mem e (scan_past mem e (hr_begin r)) (hr_head r) (hr_status r)
             else Some (Inr False))
          else if head_value (hr_head r) ''content-length'' \<noteq> [] then
            (if int e - int (hr_begin r) \<ge> atoi (c_str (head_value (hr_head r) ''content-length'')) then Some (Inr True)
             else check_loop mem e (scan_past mem e (hr_begin r)) (hr_head r) (hr_status r))
          else if is_chunked (hr_head r) then
            Option.bind (check_chunks mem e (hr_begin r) (hr_begin r))
              (\<lambda>c. case c of
                 Inl f \<Rightarrow> Some (Inl f)
               | Inr (Check_return b) \<Rightarrow> Some (Inr b)
               | Inr (Check_fall w) \<Rightarrow> check_loop mem e (scan_past mem e w) (hr_head r) (hr_status r))
          else check_loop mem e (scan_past mem e (hr_begin r)) (hr_head r) (hr_status r))"

text \<open>\<open>content\<close> is the vector, \<open>beyond\<close> the memory after it.\<close>

definition http_reponse_check :: "string \<Rightarrow> string \<Rightarrow> (fault + bool) option" where
  "http_reponse_check content beyond =
     (if content = [] then Some (Inr False)
      else check_loop (content @ beyond) (length content) 0 Map.empty 0)"

section \<open>Splitting the responses\<close>

record http_info =
  hi_status :: nat
  hi_wstr_body :: "nat list"
  hi_charset :: string
  hi_head :: head_map
  hi_body :: string

definition new_http_info :: http_info where
  "new_http_info = \<lparr>hi_status = 0, hi_wstr_body = [], hi_charset = [], hi_head = Map.empty, hi_body = []\<rparr>"

text \<open>The loop for status 100: every step that does not match appends the bytes from \<open>it\<close> on.\<close>

function skip_100 :: "string \<Rightarrow> nat \<Rightarrow> nat \<Rightarrow> nat \<Rightarrow> string \<Rightarrow> nat \<times> string" where
  "skip_100 mem e it w body =
     (if e \<le> w then (w, body)
      else if matches_at mem w (LF # ''HTTP/'') then (w + 1, body)
      else skip_100 mem e it (w + 1) (body @ slice mem it (w + 1 - it)))"
  by pat_completeness auto
termination by (relation "measure (\<lambda>(mem, e, it, w, body). e - w)") auto

declare skip_100.simps [simp del]

text \<open>The chunk loop; \<open>Inr (False, ..)\<close> is the \<^verbatim>\<open>return false\<close> of an incomplete chunk.\<close>

function body_chunks :: "string \<Rightarrow> nat \<Rightarrow> nat \<Rightarrow> nat \<Rightarrow> string \<Rightarrow> fault + (bool \<times> nat \<times> string)" where
  "body_chunks mem e it w body =
     (if e \<le> w then Inr (True, w, body)
      else if mem ! w = LF then
        (let nlength = strtol16 (drop it mem) in
         if nlength > int e - int (w + 1) then Inr (False, w + 1, body)
         else if nlength = 0 then (if e < w + 3 then Inl Out_of_range else Inr (True, w + 3, body))
         else if nlength < 0 then Inl Out_of_range
         else
           let t = w + 1 + nat nlength + 2 in
           if e < t then Inl Out_of_range
           else body_chunks mem e t t (body @ slice mem (w + 1) (nat nlength)))
      else body_chunks mem e it (w + 1) body)"
  by pat_completeness auto
termination by (relation "measure (\<lambda>(mem, e, it, w, body). e - w)") auto

declare body_chunks.simps [simp del]

definition read_body :: "string \<Rightarrow> nat \<Rightarrow> nat \<Rightarrow> head_map \<Rightarrow> string \<Rightarrow> fault + (bool \<times> nat \<times> string)" where
  "read_body mem e w head body =
     (if head_value head ''content-length'' \<noteq> [] then
        let nLength = atoi (c_str (head_value head ''content-length'')) in
        if int e - int w \<ge> nLength \<and> nLength > 0 then Inr (True, w, body @ slice mem w (nat nLength))
        else Inr (True, w, body)
      else if is_chunked head then body_chunks mem e w w body
      else Inr (True, w, body))"

definition decode_body :: "(string \<Rightarrow> string option) \<Rightarrow> head_map \<Rightarrow> string \<Rightarrow> string" where
  "decode_body ungzip head body =
     (if contains (head_value head ''content-encoding'') ''gzip'' then
        (case ungzip body of Some b \<Rightarrow> b | None \<Rightarrow> body)
      else body)"

definition charset_of :: "string \<Rightarrow> string" where
  "charset_of content_type =
     (let cs = (case find_sub ''charset='' content_type of
                  None \<Rightarrow> []
                | Some n \<Rightarrow>
                    let str = drop (n + 8) content_type;
                        str = (case find_idx (one_of [CHR '' '', CHR '';'', CR, LF]) str of
                                 Some k \<Rightarrow> take k str | None \<Rightarrow> str)
                    in map to_lower str)
      in if cs = [] then ''gbk'' else cs)"

definition translate ::
  "(string \<Rightarrow> string \<Rightarrow> nat list) \<Rightarrow> http_info \<Rightarrow> string \<Rightarrow> http_info \<times> string" where
  "translate any_to_unicode v trigger =
     (let ct = head_value (hi_head v) ''content-type'' in
      if ct \<noteq> [] \<and> contains ct ''text/'' then
        (v\<lparr>hi_charset := charset_of ct, hi_wstr_body := any_to_unicode (charset_of ct) (hi_body v)\<rparr>,
         format_trigger trigger ''once'')
      else (v\<lparr>hi_charset := []\<rparr>, trigger))"

lemma scan_past_bounds: "w \<le> e \<Longrightarrow> w \<le> scan_past mem e w \<and> scan_past mem e w \<le> e"
  using skip_until_bounds [of w e "\<lambda>i. matches_at mem i (LF # ''HTTP/'')"] by (auto simp: scan_past_def Let_def)

lemma skip_100_bounds: "w \<le> e \<Longrightarrow> w \<le> fst (skip_100 mem e it w body) \<and> fst (skip_100 mem e it w body) \<le> e"
proof (induction mem e it w body rule: skip_100.induct)
  case (1 mem e it w body)
  show ?case
  proof (cases "e \<le> w \<or> matches_at mem w (LF # ''HTTP/'')")
    case True
    with "1.prems" show ?thesis by (auto simp: skip_100.simps [of mem e it w])
  next
    case False
    with 1 have "w + 1 \<le> fst (skip_100 mem e it (w + 1) (body @ slice mem it (w + 1 - it)))
        \<and> fst (skip_100 mem e it (w + 1) (body @ slice mem it (w + 1 - it))) \<le> e" by simp
    with False show ?thesis by (simp add: skip_100.simps [of mem e it w])
  qed
qed

lemma body_chunks_bounds:
  "w \<le> e \<Longrightarrow> body_chunks mem e it w body = Inr (ok, w', body') \<Longrightarrow> w \<le> w' \<and> w' \<le> e"
proof (induction "e - w" arbitrary: it w body rule: less_induct)
  case less
  show ?case
  proof (cases "e \<le> w")
    case True
    with less.prems body_chunks.simps [of mem e it w body] show ?thesis by auto
  next
    case False
    have IH: "body_chunks mem e it' w2 b = Inr (ok, w', body') \<Longrightarrow> w < w2 \<Longrightarrow> w2 \<le> e \<Longrightarrow> w \<le> w' \<and> w' \<le> e"
      for it' w2 b using less.hyps [of w2 it' b] False by (auto simp: diff_less_mono2)
    show ?thesis
    proof (cases "mem ! w = LF")
      case True
      define n where "n = strtol16 (drop it mem)"
      define t where "t = w + 1 + nat n + 2"
      have "body_chunks mem e it w body =
         (if n > int e - int (w + 1) then Inr (False, w + 1, body)
          else if n = 0 then (if e < w + 3 then Inl Out_of_range else Inr (True, w + 3, body))
          else if n < 0 \<or> e < t then Inl Out_of_range
          else body_chunks mem e t t (body @ slice mem (w + 1) (nat n)))"
        using False True unfolding body_chunks.simps [of mem e it w] Let_def n_def [symmetric] t_def [symmetric] by simp
      with less.prems(2) consider "w' = w + 1" | "w' = w + 3" "w + 3 \<le> e"
        | "body_chunks mem e t t (body @ slice mem (w + 1) (nat n)) = Inr (ok, w', body')" "t \<le> e"
        by (auto split: if_splits)
      then show ?thesis by cases (use False IH [of t t] t_def in auto)
    next
      case nl: False
      from less.prems(2) False have "body_chunks mem e it (w + 1) body = Inr (ok, w', body')"
        by (simp add: body_chunks.simps [of mem e it w] nl)
      from IH [OF this] False show ?thesis by simp
    qed
  qed
qed

lemma read_body_bounds: "w \<le> e \<Longrightarrow> read_body mem e w head body = Inr (ok, w', body') \<Longrightarrow> w \<le> w' \<and> w' \<le> e"
  using body_chunks_bounds [of w e mem w body ok w' body']
  by (auto simp: read_body_def Let_def split: if_splits)

text \<open>One response: from the head on; the result is whether parsing goes on, the position
  after it, the entry of the list and the trigger.\<close>

definition completed_one ::
  "(string \<Rightarrow> string option) \<Rightarrow> (string \<Rightarrow> string \<Rightarrow> nat list) \<Rightarrow> string \<Rightarrow> nat \<Rightarrow> nat \<Rightarrow> string
     \<Rightarrow> fault + (bool \<times> nat \<times> http_info \<times> string)" where
  "completed_one ungzip any_to_unicode mem e w trigger =
     (case http_get_head mem e w Map.empty 0 of
        Inl f \<Rightarrow> Inl f
      | Inr r \<Rightarrow>
          let v = new_http_info\<lparr>hi_head := hr_head r, hi_status := hr_status r\<rparr> in
          if \<not> hr_found r then Inr (False, hr_begin r, v, trigger)
          else
            let (w, body) = (if hr_status r = 100 then skip_100 mem e (hr_begin r) (hr_begin r) [] else (hr_begin r, []))
            in case read_body mem e w (hr_head r) body of
                 Inl f \<Rightarrow> Inl f
               | Inr (False, w, body) \<Rightarrow> Inr (False, w, v\<lparr>hi_body := body\<rparr>, trigger)
               | Inr (True, w, body) \<Rightarrow>
                   let w' = scan_past mem e w;
                       body = decode_body ungzip (hr_head r) (body @ slice mem w (w' - w));
                       (v, trigger) = translate any_to_unicode (v\<lparr>hi_body := body\<rparr>) trigger
                   in Inr (True, w', v, trigger))"

lemma completed_one_progress:
  assumes "w \<le> e" and "completed_one ungzip conv mem e w trigger = Inr (True, w', v, t)"
  shows "w < w' \<and> w' \<le> e"
proof -
  from assms(2) obtain r where r: "http_get_head mem e w Map.empty 0 = Inr r" and found: "hr_found r"
    by (auto simp: completed_one_def Let_def split: sum.splits if_splits)
  obtain w1 b1 where s: "(if hr_status r = 100 then skip_100 mem e (hr_begin r) (hr_begin r) [] else (hr_begin r, [])) = (w1, b1)"
    by fastforce
  from assms(2) r found s obtain w2 b2 where rb: "read_body mem e w1 (hr_head r) b1 = Inr (True, w2, b2)"
    and w': "w' = scan_past mem e w2"
    by (auto simp: completed_one_def Let_def split: sum.splits bool.splits prod.splits)
  have r1: "w < hr_begin r" "hr_begin r \<le> e" using http_get_head_progress [OF assms(1) r found] by simp_all
  then have w1: "hr_begin r \<le> w1" "w1 \<le> e"
    using s skip_100_bounds [of "hr_begin r" e mem "hr_begin r" "[]"] by (auto split: if_splits)
  with read_body_bounds [OF _ rb] have w2: "w1 \<le> w2" "w2 \<le> e" by simp_all
  with scan_past_bounds [of w2 e mem] r1 w1 w' show ?thesis by simp
qed

function completed_loop ::
  "(string \<Rightarrow> string option) \<Rightarrow> (string \<Rightarrow> string \<Rightarrow> nat list) \<Rightarrow> string \<Rightarrow> nat \<Rightarrow> nat
     \<Rightarrow> http_info list \<Rightarrow> string \<Rightarrow> fault + (bool \<times> http_info list \<times> string)" where
  "completed_loop ungzip conv mem e w v_list trigger =
     (if e \<le> w then Inr (True, v_list, trigger)
      else case completed_one ungzip conv mem e w trigger of
             Inl f \<Rightarrow> Inl f
           | Inr (go_on, w, v, trigger) \<Rightarrow>
               if go_on then completed_loop ungzip conv mem e w (v_list @ [v]) trigger
               else Inr (False, v_list @ [v], trigger))"
  by pat_completeness auto
termination
proof (relation "measure (\<lambda>(ungzip, conv, mem, e, w, v_list, trigger). e - w)", goal_cases)
  case (2 ungzip conv mem e w v_list trigger x go_on y w' z v t)
  then have "completed_one ungzip conv mem e w trigger = Inr (True, w', v, t)" by simp
  from completed_one_progress [OF _ this] 2 show ?case by auto
qed simp

declare completed_loop.simps [simp del]

definition http_reponse_completed ::
  "(string \<Rightarrow> string option) \<Rightarrow> (string \<Rightarrow> string \<Rightarrow> nat list) \<Rightarrow> string \<Rightarrow> string \<Rightarrow> http_info list \<Rightarrow> string
     \<Rightarrow> fault + (bool \<times> http_info list \<times> string)" where
  "http_reponse_completed ungzip conv content beyond v_list trigger =
     (if content = [] then Inr (False, v_list, trigger)
      else completed_loop ungzip conv (content @ beyond) (length content) 0 [] trigger)"

end
