(* ===== verification/HttpChunks.thy ===== *)
theory HttpChunks
  imports HttpResponse
begin

text \<open>
  The responses of a correct server: heads printed by \<open>print_head\<close> followed by a body of
  announced length or by chunks.  The lemmas run \<open>http_reponse_check\<close> and
  \<open>http_reponse_completed\<close> on them.
\<close>

section \<open>Chunks\<close>

definition hex_digit :: "nat \<Rightarrow> char" where
  "hex_digit k = char_of (if k < 10 then 48 + k else 87 + k)"

fun hex_string :: "nat \<Rightarrow> string" where
  "hex_string n = (if n < 16 then [hex_digit n] else hex_string (n div 16) @ [hex_digit (n mod 16)])"

declare hex_string.simps [simp del]

definition chunk :: "string \<Rightarrow> string" where
  "chunk d = hex_string (length d) @ CRLF @ d @ CRLF"

definition last_chunk :: string where
  "last_chunk = ''0'' @ CRLF @ CRLF"

definition chunks :: "string list \<Rightarrow> string" where
  "chunks ds = concat (map chunk ds)"

definition chunk_data :: "string \<Rightarrow> bool" where
  "chunk_data d \<longleftrightarrow> d \<noteq> [] \<and> length d < 2 ^ 31"

lemma hex_digit_props:
  assumes "k < 16"
  shows "is_xdigit (hex_digit k)" "xdigit_value (hex_digit k) = int k"
proof -
  have "is_xdigit (hex_digit k) \<and> xdigit_value (hex_digit k) = int k"
    using assms by (auto simp: hex_digit_def is_xdigit_def xdigit_value_def is_digit_def to_lower_def)
  then show "is_xdigit (hex_digit k)" "xdigit_value (hex_digit k) = int k" by simp_all
qed

lemma hex_string_props:
  "list_all is_xdigit (hex_string n) \<and> hex_string n \<noteq> [] \<and> xdigits_value (hex_string n) = int n"
proof (induction n rule: hex_string.induct)
  case (1 n)
  show ?case
  proof (cases "n < 16")
    case True
    then show ?thesis by (simp add: hex_string.simps [of n] hex_digit_props xdigits_value_def)
  next
    case False
    have "n mod 16 < 16" by simp
    moreover have "int (n div 16) * 16 + int (n mod 16) = int n"
      by (metis div_mult_mod_eq of_nat_add of_nat_mult of_nat_numeral)
    ultimately show ?thesis using 1 [OF False] False
      by (simp add: hex_string.simps [of n] hex_digit_props xdigits_value_def del: of_nat_mod of_nat_div)
  qed
qed

lemma hex_string_0: "hex_string 0 = ''0''"
  by code_simp

lemma is_xdigit_plain:
  assumes "is_xdigit c"
  shows "\<not> is_space c" "c \<noteq> CHR ''-''" "c \<noteq> CHR ''+''" "to_lower c \<noteq> CHR ''x''" "c \<noteq> LF"
proof -
  have "code (to_lower c) < 120"
    using assms by (auto simp: is_xdigit_def is_digit_def to_lower_def split: if_splits)
  then show "to_lower c \<noteq> CHR ''x''" by auto
qed (use assms in \<open>auto simp: is_xdigit_def is_space_def is_digit_def to_lower_def split: if_splits\<close>)

lemma skip_0x_hex:
  assumes "list_all is_xdigit s"
  shows "skip_0x (s @ CR # r) = s @ CR # r"
proof -
  have "to_lower CR \<noteq> CHR ''x''" "CR \<noteq> CHR ''0''" by code_simp+
  with assms show ?thesis
    by (auto simp: skip_0x_def is_xdigit_plain(4) split: list.splits)
       (auto simp: append_eq_Cons_conv Cons_eq_append_conv is_xdigit_plain(4))
qed

lemma strtol16_hex:
  assumes "n < 2 ^ 31"
  shows "strtol16 (hex_string n @ CR # r) = int n"
proof -
  let ?s = "hex_string n"
  obtain c cs where s: "?s = c # cs" using hex_string_props [of n] by (cases ?s) auto
  have c: "is_xdigit c" and all: "list_all is_xdigit ?s" using hex_string_props [of n] s by auto
  have "\<not> is_xdigit CR" by code_simp
  then have "takeWhile is_xdigit (?s @ CR # r) = ?s"
    using all by (simp add: list_all_iff takeWhile_append2)
  moreover have "dropWhile is_space (?s @ CR # r) = ?s @ CR # r"
    using is_xdigit_plain [OF c] by (simp add: s)
  moreover have "signed f (?s @ CR # r) = f (?s @ CR # r)" for f
    using is_xdigit_plain [OF c] by (simp add: s signed_def)
  ultimately show ?thesis
    using assms hex_string_props [of n] skip_0x_hex [OF all] by (simp add: strtol16_def clamp32_def)
qed

section \<open>The chunk loop of the splitter\<close>

lemma body_chunks_skip:
  assumes "\<forall>c \<in> set s. c \<noteq> LF" and "length pre + length s \<le> e"
  shows "body_chunks (pre @ s @ rest) e it (length pre) body
       = body_chunks (pre @ s @ rest) e it (length pre + length s) body"
  using assms
proof (induction s arbitrary: pre)
  case (Cons c s)
  have "body_chunks (pre @ (c # s) @ rest) e it (length pre) body
      = body_chunks (pre @ (c # s) @ rest) e it (length pre + 1) body"
    using Cons.prems by (simp add: body_chunks.simps [of _ e it "length pre"])
  also have "\<dots> = body_chunks ((pre @ [c]) @ s @ rest) e it (length (pre @ [c])) body" by simp
  also have "\<dots> = body_chunks ((pre @ [c]) @ s @ rest) e it (length (pre @ [c]) + length s) body"
    using Cons.prems by (intro Cons.IH) auto
  finally show ?case by simp
qed simp

lemma body_chunks_line:
  assumes "\<forall>c \<in> set s. c \<noteq> LF" and "length pre + length s + 1 \<le> e"
    and "n = strtol16 (s @ LF # rest)"
  shows "body_chunks (pre @ s @ LF # rest) e (length pre) (length pre) body =
    (let w = length pre + length s + 1 in
     if n > int e - int w then Inr (False, w, body)
     else if n = 0 then (if e < w + 2 then Inl Out_of_range else Inr (True, w + 2, body))
     else if n < 0 \<or> e < w + nat n + 2 then Inl Out_of_range
     else body_chunks (pre @ s @ LF # rest) e (w + nat n + 2) (w + nat n + 2)
            (body @ slice (pre @ s @ LF # rest) w (nat n)))"
proof -
  let ?mem = "pre @ s @ LF # rest"
  have "body_chunks ?mem e (length pre) (length pre) body = body_chunks ?mem e (length pre) (length pre + length s) body"
    using body_chunks_skip [OF assms(1), of pre e "LF # rest"] assms(2) by simp
  moreover have "?mem ! (length pre + length s) = LF" "drop (length pre) ?mem = s @ LF # rest"
    by (simp_all add: nth_append)
  ultimately show ?thesis
    unfolding body_chunks.simps [of ?mem e "length pre" "length pre + length s"] Let_def
    using assms(2,3) by (simp add: numeral_3_eq_3)
qed

lemma body_chunks_decode:
  assumes "list_all chunk_data ds" and "length (pre @ chunks ds @ last_chunk) \<le> e"
  shows "body_chunks (pre @ chunks ds @ last_chunk @ rest) e (length pre) (length pre) body
       = Inr (True, length (pre @ chunks ds @ last_chunk), body @ concat ds)"
  using assms
proof (induction ds arbitrary: pre body)
  case Nil
  have "strtol16 ((''0'' @ [CR]) @ LF # CRLF @ rest) = 0"
    using strtol16_hex [of 0 "LF # CRLF @ rest"] by (simp add: hex_string_0)
  moreover have "CHR ''0'' \<noteq> LF" by code_simp
  ultimately show ?case
    using Nil.prems body_chunks_line [of "''0'' @ [CR]" pre e 0 "CRLF @ rest" body]
    by (simp add: chunks_def last_chunk_def Let_def)
next
  case (Cons d ds)
  let ?h = "hex_string (length d)"
  let ?rest = "d @ CRLF @ chunks ds @ last_chunk @ rest"
  let ?mem = "pre @ (?h @ [CR]) @ LF # ?rest"
  let ?w = "length pre + length (?h @ [CR]) + 1"
  have "chunk_data d" and ds: "list_all chunk_data ds" using Cons.prems(1) by simp_all
  then have d: "0 < length d" "length d < 2 ^ 31" by (simp_all add: chunk_data_def)
  have mem: "pre @ chunks (d # ds) @ last_chunk @ rest = ?mem" by (simp add: chunks_def chunk_def)
  have n: "int (length d) = strtol16 ((?h @ [CR]) @ LF # ?rest)" using strtol16_hex [OF d(2)] by simp
  have noLF: "\<forall>c \<in> set (?h @ [CR]). c \<noteq> LF"
    using hex_string_props [of "length d"] is_xdigit_plain(5) by (auto simp: list_all_iff)
  have e: "?w + length d + 2 \<le> e" using Cons.prems(2) by (simp add: chunks_def chunk_def)
  have sl: "slice ?mem ?w (length d) = d"
    using slice_append [of "pre @ ?h @ CRLF" d] by simp
  have pos: "?w + length d + 2 = length (pre @ chunk d)" and mem': "?mem = (pre @ chunk d) @ chunks ds @ last_chunk @ rest"
    by (simp_all add: chunk_def)
  have "body_chunks ?mem e (length pre) (length pre) body
      = body_chunks ?mem e (?w + length d + 2) (?w + length d + 2) (body @ d)"
    using body_chunks_line [OF noLF _ n, of pre e body] e d sl by (simp add: Let_def)
  also have "\<dots> = Inr (True, length ((pre @ chunk d) @ chunks ds @ last_chunk), (body @ d) @ concat ds)"
    unfolding pos mem' using Cons.prems(2) by (intro Cons.IH [OF ds]) (simp add: chunks_def)
  finally show ?case unfolding mem by (simp add: chunks_def)
qed

section \<open>The chunk loop of the check\<close>

lemma check_chunks_skip:
  assumes "\<forall>c \<in> set s. c \<noteq> LF" and "length pre + length s \<le> e"
  shows "check_chunks (pre @ s @ rest) e it (length pre) = check_chunks (pre @ s @ rest) e it (length pre + length s)"
  using assms
proof (induction s arbitrary: pre)
  case (Cons c s)
  have "check_chunks (pre @ (c # s) @ rest) e it (length pre) = check_chunks (pre @ (c # s) @ rest) e it (length pre + 1)"
    using Cons.prems by (simp add: check_chunks.simps [of _ e it "length pre"])
  also have "\<dots> = check_chunks ((pre @ [c]) @ s @ rest) e it (length (pre @ [c]))" by simp
  also have "\<dots> = check_chunks ((pre @ [c]) @ s @ rest) e it (length (pre @ [c]) + length s)"
    using Cons.prems by (intro Cons.IH) auto
  finally show ?case by simp
qed simp

lemma check_chunks_line:
  assumes "\<forall>c \<in> set s. c \<noteq> LF" and "length pre + length s + 1 \<le> e" and "n = strtol16 (s @ LF # rest)"
  shows "check_chunks (pre @ s @ LF # rest) e (length pre) (length pre) =
    (let w = length pre + length s + 1; t = int w + n + 2 in
     if n > int e - int w then Some (Inr (Check_return False))
     else if n = 0 \<and> w < e then Some (Inr (Check_return True))
     else if t < 0 \<or> int e < t then Some (Inl Out_of_range)
     else check_chunks (pre @ s @ LF # rest) e (nat t) (nat t))"
proof -
  let ?mem = "pre @ s @ LF # rest"
  have "check_chunks ?mem e (length pre) (length pre) = check_chunks ?mem e (length pre) (length pre + length s)"
    using check_chunks_skip [OF assms(1), of pre e "LF # rest"] assms(2) by simp
  moreover have "?mem ! (length pre + length s) = LF" "drop (length pre) ?mem = s @ LF # rest"
    by (simp_all add: nth_append)
  ultimately show ?thesis
    unfolding check_chunks.simps [of ?mem e "length pre" "length pre + length s"] Let_def
    using assms(2,3) by simp
qed

lemma check_chunks_complete:
  assumes "list_all chunk_data ds" and "length (pre @ chunks ds @ last_chunk) \<le> e"
  shows "check_chunks (pre @ chunks ds @ last_chunk @ rest) e (length pre) (length pre) = Some (Inr (Check_return True))"
  using assms
proof (induction ds arbitrary: pre)
  case Nil
  have "strtol16 ((''0'' @ [CR]) @ LF # CRLF @ rest) = 0"
    using strtol16_hex [of 0 "LF # CRLF @ rest"] by (simp add: hex_string_0)
  moreover have "CHR ''0'' \<noteq> LF" by code_simp
  ultimately show ?case
    using Nil.prems check_chunks_line [of "''0'' @ [CR]" pre e 0 "CRLF @ rest"]
    by (simp add: chunks_def last_chunk_def Let_def)
next
  case (Cons d ds)
  let ?h = "hex_string (length d)"
  let ?rest = "d @ CRLF @ chunks ds @ last_chunk @ rest"
  let ?mem = "pre @ (?h @ [CR]) @ LF # ?rest"
  let ?w = "length pre + length (?h @ [CR]) + 1"
  have "chunk_data d" and ds: "list_all chunk_data ds" using Cons.prems(1) by simp_all
  then have d: "0 < length d" "length d < 2 ^ 31" by (simp_all add: chunk_data_def)
  have mem: "pre @ chunks (d # ds) @ last_chunk @ rest = ?mem" by (simp add: chunks_def chunk_def)
  have n: "int (length d) = strtol16 ((?h @ [CR]) @ LF # ?rest)" using strtol16_hex [OF d(2)] by simp
  have noLF: "\<forall>c \<in> set (?h @ [CR]). c \<noteq> LF"
    using hex_string_props [of "length d"] is_xdigit_plain(5) by (auto simp: list_all_iff)
  have e: "?w + length d + 2 \<le> e" using Cons.prems(2) by (simp add: chunks_def chunk_def)
  have pos: "nat (int ?w + int (length d) + 2) = length (pre @ chunk d)"
    and mem': "?mem = (pre @ chunk d) @ chunks ds @ last_chunk @ rest"
    by (simp_all add: chunk_def)
  have "check_chunks ?mem e (length pre) (length pre)
      = check_chunks ?mem e (nat (int ?w + int (length d) + 2)) (nat (int ?w + int (length d) + 2))"
    using check_chunks_line [OF noLF _ n, of pre e] e d by (simp add: Let_def)
  also have "\<dots> = Some (Inr (Check_return True))"
    unfolding pos mem' using Cons.prems(2) by (intro Cons.IH [OF ds]) (simp add: chunks_def)
  finally show ?case unfolding mem .
qed

section \<open>Whole responses\<close>

lemma scan_past_none:
  assumes "\<forall>i < length body. \<not> matches_at (body @ beyond) i (LF # ''HTTP/'')"
  shows "scan_past (pre @ body @ beyond) (length pre + length body) (length pre) = length pre + length body"
proof -
  let ?P = "\<lambda>i. matches_at (pre @ body @ beyond) i (LF # ''HTTP/'')"
  let ?e = "length pre + length body" and ?k = "skip_until ?P (length pre + length body) (length pre)"
  have b: "length pre \<le> ?k" "?k \<le> ?e" using skip_until_bounds [of "length pre" ?e ?P] by simp_all
  have "\<not> ?k < ?e"
  proof
    assume lt: "?k < ?e"
    then have "?P ?k" by (rule skip_until_found)
    moreover have "drop ?k (pre @ body @ beyond) = drop (?k - length pre) (body @ beyond)" using b(1) by simp
    ultimately have "matches_at (body @ beyond) (?k - length pre) (LF # ''HTTP/'')"
      unfolding matches_at_def by simp
    moreover have "?k - length pre < length body" using lt b(1) by simp
    ultimately show False using assms by blast
  qed
  with b(2) show ?thesis by (simp add: scan_past_def Let_def)
qed

lemma no_LF_no_match: "LF \<notin> set body \<Longrightarrow> \<forall>i < length body. \<not> matches_at (body @ beyond) i (LF # p)"
  using matches_at_hd [of "body @ beyond" _ LF p] by (metis nth_append nth_mem)

lemma scan_past_end: "scan_past mem e e = e"
  by (simp add: scan_past_def skip_until_stop)

lemma print_head_nonempty: "print_head st reason hs \<noteq> []"
  by (simp add: print_head_def status_line_def)

text \<open>A head as a correct server sends it.\<close>

definition proper_head :: "nat \<Rightarrow> string \<Rightarrow> (string \<times> string) list \<Rightarrow> bool" where
  "proper_head st reason hs \<longleftrightarrow> st < 2 ^ 31 \<and> st \<noteq> 100 \<and> LF \<notin> set reason \<and> hs \<noteq> [] \<and> list_all wf_header hs"

lemma proper_headI:
  "st < 2 ^ 31 \<Longrightarrow> st \<noteq> 100 \<Longrightarrow> LF \<notin> set reason \<Longrightarrow> hs \<noteq> [] \<Longrightarrow> list_all wf_header hs
     \<Longrightarrow> proper_head st reason hs"
  by (simp add: proper_head_def)

definition heads :: "(string \<times> string) list \<Rightarrow> head_map" where
  "heads hs = collect_headers hs Map.empty"

lemma get_proper_head:
  assumes "proper_head st reason hs"
  shows "http_get_head (print_head st reason hs @ rest) (length (print_head st reason hs) + n) 0 Map.empty st0
       = Inr \<lparr>hr_found = True, hr_begin = length (print_head st reason hs), hr_head = heads hs, hr_status = st\<rparr>"
  using assms http_get_head_print [of hs st reason "[]" "length (print_head st reason hs) + n" rest Map.empty st0]
  by (simp add: proper_head_def heads_def)

lemma completed_loop_single:
  assumes "completed_one ungzip conv mem e 0 trigger = Inr (True, e, v, t)" and "0 < e"
  shows "completed_loop ungzip conv mem e 0 [] trigger = Inr (True, [v], t)"
proof -
  have "completed_loop ungzip conv mem e e [v] t = Inr (True, [v], t)" by (simp add: completed_loop.simps)
  with assms show ?thesis by (subst completed_loop.simps) simp
qed

lemma c_str_ConvertToString: "c_str (ConvertToString n) = ConvertToString n"
proof -
  have "\<forall>c \<in> set (ConvertToString n). c \<noteq> NUL"
    using ConvertToString_digits [of n] by (auto simp: list_all_iff is_digit_def NUL_def)
  then show ?thesis by (simp add: c_str_def takeWhile_eq_all_conv)
qed

lemma content_length_value:
  assumes "head ''content-length'' = Some (ConvertToString n)" and "n < 2 ^ 31"
  shows "head_value head ''content-length'' \<noteq> []"
    and "atoi (c_str (head_value head ''content-length'')) = int n"
  using assms ConvertToString_digits [of n] atoi_ConvertToString [of n "[]"]
  by (simp_all add: head_value_def c_str_ConvertToString)

section \<open>Properties\<close>

text \<open>C18: On a response with a content length, \<^verbatim>\<open>http_reponse_check\<close> returns, never
  leaves the buffer, and answers whether the announced number of body bytes has arrived
  (provided no further response begins inside what was received).\<close>

theorem http_reponse_check_length:
  assumes "proper_head st reason hs" and "heads hs ''content-length'' = Some (ConvertToString n)" and "n < 2 ^ 31"
    and "\<forall>i < length body. \<not> matches_at (body @ beyond) i (LF # ''HTTP/'')"
  shows "http_reponse_check (print_head st reason hs @ body) beyond = Some (Inr (n \<le> length body))"
proof -
  let ?h = "print_head st reason hs"
  let ?mem = "?h @ body @ beyond" and ?e = "length ?h + length body"
  have st: "st \<noteq> 100" using assms(1) by (simp add: proper_head_def)
  have "check_loop ?mem ?e 0 Map.empty 0 =
     (if n \<le> length body then Some (Inr True)
      else check_loop ?mem ?e (scan_past ?mem ?e (length ?h)) (heads hs) st)"
    using get_proper_head [OF assms(1), of "body @ beyond" "length body" 0] content_length_value [of "heads hs" n, OF assms(2,3)] st
      print_head_nonempty [of st reason hs]
    by (subst check_loop.simps) simp
  also have "\<dots> = Some (Inr (n \<le> length body))"
    unfolding scan_past_none [OF assms(4)] by (simp add: check_loop.simps [of ?mem ?e ?e])
  finally show ?thesis using print_head_nonempty [of st reason hs] by (simp add: http_reponse_check_def)
qed

theorem http_reponse_check_length_witness:
  "http_reponse_check (print_head 200 ''OK'' [(''Content-Length'', ''3'')] @ ''ab'') [] = Some (Inr False)
   \<and> http_reponse_check (print_head 200 ''OK'' [(''Content-Length'', ''3'')] @ ''abc'') [] = Some (Inr True)"
proof -
  have h: "proper_head 200 ''OK'' [(''Content-Length'', ''3'')]" by (rule proper_headI) (simp, simp, code_simp+)
  have n: "heads [(''Content-Length'', ''3'')] ''content-length'' = Some (ConvertToString 3)" by code_simp
  have a: "\<forall>i < length ''ab''. \<not> matches_at (''ab'' @ []) i (LF # ''HTTP/'')"
    and b: "\<forall>i < length ''abc''. \<not> matches_at (''abc'' @ []) i (LF # ''HTTP/'')"
    by (rule no_LF_no_match, code_simp)+
  show ?thesis
    using http_reponse_check_length [OF h n _ a] http_reponse_check_length [OF h n _ b] by simp
qed

text \<open>C19: A chunked response is recognised as complete once its last chunk has arrived, whatever
  follows it.\<close>

theorem http_reponse_check_chunked:
  assumes "proper_head st reason hs" and "heads hs ''content-length'' = None" and "is_chunked (heads hs)"
    and "list_all chunk_data ds"
  shows "http_reponse_check (print_head st reason hs @ chunks ds @ last_chunk @ extra) beyond = Some (Inr True)"
proof -
  let ?h = "print_head st reason hs"
  let ?body = "chunks ds @ last_chunk @ extra"
  let ?mem = "?h @ ?body @ beyond" and ?e = "length ?h + length ?body"
  have st: "st \<noteq> 100" using assms(1) by (simp add: proper_head_def)
  have cl: "head_value (heads hs) ''content-length'' = []" using assms(2) by (simp add: head_value_def)
  have "check_chunks ?mem ?e (length ?h) (length ?h) = Some (Inr (Check_return True))"
    using check_chunks_complete [OF assms(4), of ?h ?e "extra @ beyond"] by simp
  then have "check_loop ?mem ?e 0 Map.empty 0 = Some (Inr True)"
    using get_proper_head [OF assms(1), of "?body @ beyond" "length ?body" 0] cl st assms(3)
      print_head_nonempty [of st reason hs]
    by (subst check_loop.simps) simp
  then show ?thesis using print_head_nonempty [of st reason hs] by (simp add: http_reponse_check_def)
qed

theorem http_reponse_check_chunked_witness:
  "http_reponse_check (print_head 200 ''OK'' [(''Transfer-Encoding'', ''chunked'')] @ chunks [''ab'', ''c''] @ last_chunk @ []) [] = Some (Inr True)"
proof -
  have h: "proper_head 200 ''OK'' [(''Transfer-Encoding'', ''chunked'')]"
    by (rule proper_headI) (simp, simp, code_simp+)
  have c: "heads [(''Transfer-Encoding'', ''chunked'')] ''content-length'' = None"
    "is_chunked (heads [(''Transfer-Encoding'', ''chunked'')])" by code_simp+
  have d: "list_all chunk_data [''ab'', ''c'']" by (simp add: chunk_data_def)
  from http_reponse_check_chunked [OF h c d] show ?thesis .
qed

text \<open>C13: Splitting a complete chunked response gives one entry with the status, the parsed
  headers and, as body, the concatenation of the chunk data (decompressed when the head
  says so): chunk decoding inverts chunk encoding.\<close>

theorem http_reponse_completed_chunked:
  assumes "proper_head st reason hs" and "heads hs ''content-length'' = None" and "is_chunked (heads hs)"
    and "list_all chunk_data ds"
  shows "\<exists>v t. http_reponse_completed ungzip conv (print_head st reason hs @ chunks ds @ last_chunk) beyond vl trigger
           = Inr (True, [v], t)
         \<and> hi_status v = st \<and> hi_head v = heads hs \<and> hi_body v = decode_body ungzip (heads hs) (concat ds)"
proof -
  let ?h = "print_head st reason hs"
  let ?body = "chunks ds @ last_chunk"
  let ?mem = "?h @ ?body @ beyond" and ?e = "length ?h + length ?body"
  have st: "st \<noteq> 100" using assms(1) by (simp add: proper_head_def)
  have cl: "head_value (heads hs) ''content-length'' = []" using assms(2) by (simp add: head_value_def)
  have rb: "read_body ?mem ?e (length ?h) (heads hs) [] = Inr (True, ?e, concat ds)"
    using body_chunks_decode [OF assms(4), of ?h ?e beyond "[]"] assms(3) cl by (simp add: read_body_def)
  let ?v = "new_http_info\<lparr>hi_head := heads hs, hi_status := st, hi_body := decode_body ungzip (heads hs) (concat ds)\<rparr>"
  obtain v t where v: "translate conv ?v trigger = (v, t)" by fastforce
  have "completed_one ungzip conv ?mem ?e 0 trigger = Inr (True, ?e, v, t)"
    using get_proper_head [OF assms(1), of "?body @ beyond" "length ?body" 0] st rb v
    by (simp add: completed_one_def scan_past_end slice_def Let_def)
  then have "completed_loop ungzip conv ?mem ?e 0 [] trigger = Inr (True, [v], t)"
    by (rule completed_loop_single) (use print_head_nonempty [of st reason hs] in simp)
  moreover have "hi_status v = st \<and> hi_head v = heads hs \<and> hi_body v = decode_body ungzip (heads hs) (concat ds)"
    using v by (auto simp: translate_def Let_def split: if_splits)
  ultimately show ?thesis using print_head_nonempty [of st reason hs] by (auto simp: http_reponse_completed_def)
qed

theorem http_reponse_completed_chunked_witness:
  "\<exists>v t. http_reponse_completed (\<lambda>_. None) (\<lambda>_ _. [])
       (print_head 200 ''OK'' [(''Transfer-Encoding'', ''chunked'')] @ chunks [''ab'', ''c''] @ last_chunk) [] [] [] = Inr (True, [v], t)
     \<and> hi_body v = ''abc''"
proof -
  have h: "proper_head 200 ''OK'' [(''Transfer-Encoding'', ''chunked'')]"
    by (rule proper_headI) (simp, simp, code_simp+)
  have c: "heads [(''Transfer-Encoding'', ''chunked'')] ''content-length'' = None"
    "is_chunked (heads [(''Transfer-Encoding'', ''chunked'')])" by code_simp+
  have d: "list_all chunk_data [''ab'', ''c'']" by (simp add: chunk_data_def)
  note * = http_reponse_completed_chunked [OF h c d, of "\<lambda>_. None" "\<lambda>_ _. []" "[]" "[]" "[]"]
  have "decode_body (\<lambda>_. None) (heads [(''Transfer-Encoding'', ''chunked'')]) (concat [''ab'', ''c'']) = ''abc''"
    by code_simp
  with * show ?thesis by auto
qed

text \<open>On a response with a content length the splitter keeps the body twice: the announced
  bytes are appended, but the position is not advanced, and the scan for the next response
  appends the same bytes again.\<close>

theorem http_reponse_completed_body_twice:
  assumes "proper_head st reason hs" and "heads hs ''content-length'' = Some (ConvertToString (length body))"
    and "body \<noteq> []" and "length body < 2 ^ 31"
    and "\<forall>i < length body. \<not> matches_at (body @ beyond) i (LF # ''HTTP/'')"
  shows "\<exists>v t. http_reponse_completed ungzip conv (print_head st reason hs @ body) beyond vl trigger = Inr (True, [v], t)
         \<and> hi_body v = decode_body ungzip (heads hs) (body @ body)"
proof -
  let ?h = "print_head st reason hs"
  let ?mem = "?h @ body @ beyond" and ?e = "length ?h + length body"
  have st: "st \<noteq> 100" using assms(1) by (simp add: proper_head_def)
  have sl: "slice ?mem (length ?h) (length body) = body" by simp
  have rb: "read_body ?mem ?e (length ?h) (heads hs) [] = Inr (True, length ?h, body)"
    using content_length_value [of "heads hs" "length body", OF assms(2,4)] assms(3) sl by (simp add: read_body_def Let_def)
  let ?v = "new_http_info\<lparr>hi_head := heads hs, hi_status := st, hi_body := decode_body ungzip (heads hs) (body @ body)\<rparr>"
  obtain v t where v: "translate conv ?v trigger = (v, t)" by fastforce
  have "completed_one ungzip conv ?mem ?e 0 trigger = Inr (True, ?e, v, t)"
    using get_proper_head [OF assms(1), of "body @ beyond" "length body" 0] st rb v sl scan_past_none [OF assms(5), of ?h]
    by (simp add: completed_one_def Let_def)
  then have "completed_loop ungzip conv ?mem ?e 0 [] trigger = Inr (True, [v], t)"
    by (rule completed_loop_single) (use print_head_nonempty [of st reason hs] in simp)
  moreover have "hi_body v = decode_body ungzip (heads hs) (body @ body)"
    using v by (auto simp: translate_def Let_def split: if_splits)
  ultimately show ?thesis using print_head_nonempty [of st reason hs] by (auto simp: http_reponse_completed_def)
qed

theorem http_reponse_completed_body_twice_witness:
  "\<exists>v t. http_reponse_completed (\<lambda>_. None) (\<lambda>_ _. []) (print_head 200 ''OK'' [(''Content-Length'', ''2'')] @ ''hi'') [] [] []
       = Inr (True, [v], t) \<and> hi_body v = ''hihi''"
proof -
  have h: "proper_head 200 ''OK'' [(''Content-Length'', ''2'')]" by (rule proper_headI) (simp, simp, code_simp+)
  have n: "heads [(''Content-Length'', ''2'')] ''content-length'' = Some (ConvertToString (length ''hi''))" by code_simp
  have a: "\<forall>i < length ''hi''. \<not> matches_at (''hi'' @ []) i (LF # ''HTTP/'')"
    by (rule no_LF_no_match) code_simp
  have "decode_body (\<lambda>_. None) (heads [(''Content-Length'', ''2'')]) (''hi'' @ ''hi'') = ''hihi''" by code_simp
  with http_reponse_completed_body_twice [OF h n _ _ a, of "\<lambda>_. None" "\<lambda>_ _. []" "[]" "[]"] show ?thesis by simp
qed

end
