(* ===== verification/HttpFaults.thy ===== *)
theory HttpFaults
  imports HttpChunks
begin

text \<open>
  Inputs on which the response reader does not do what its comments promise: a negative
  chunk size, and an interim \<^verbatim>\<open>100 Continue\<close> in front of the real response.
\<close>

section \<open>A negative chunk size\<close>

lemma strtol16_minus6: "strtol16 (''-6'' @ CRLF @ r) = -6"
proof -
  have "dropWhile is_space (''-6'' @ CRLF @ r) = ''-6'' @ CRLF @ r" by (simp add: is_space_def)
  moreover have "to_lower CR \<noteq> CHR ''x''" "CHR ''6'' \<noteq> CHR ''0''" by code_simp+
  moreover have "takeWhile is_xdigit (''6'' @ CRLF @ r) = ''6''"
  proof -
    have "is_xdigit (CHR ''6'')" "\<not> is_xdigit CR" by code_simp+
    then show ?thesis by simp
  qed
  moreover have "xdigits_value ''6'' = 6" by code_simp
  ultimately show ?thesis by (simp add: strtol16_def signed_def skip_0x_def clamp32_def)
qed

lemma check_chunks_back:
  assumes k: "drop k mem = ''-6'' @ CRLF @ r" "k + 4 \<le> e"
    and returns: "check_chunks mem' e' it w = Some y"
  shows "\<not> (mem' = mem \<and> e' = e \<and> it = k \<and> k \<le> w \<and> w < k + 4)"
proof (rule check_chunks.raw_induct [where P = "\<lambda>mem' e' it w y. \<not> (mem' = mem \<and> e' = e \<and> it = k \<and> k \<le> w \<and> w < k + 4)",
    OF _ returns], goal_cases)
  case (1 f mem' e' it w y)
  note IH = 1(1) and step = 1(2)
  show ?case
  proof
    assume at: "mem' = mem \<and> e' = e \<and> it = k \<and> k \<le> w \<and> w < k + 4"
    have len: "k + 4 \<le> length mem" using arg_cong [OF k(1), of length] by simp
    have nth: "mem ! (k + i) = (''-6'' @ CRLF @ r) ! i" if "i < 4" for i
      using that len k(1) nth_drop [of k mem i] by simp
    have LF: "CHR ''-'' \<noteq> LF" "CHR ''6'' \<noteq> LF" by code_simp+
    from at consider "w = k" | "w = k + 1" | "w = k + 2" | "w = k + 3" by linarith
    then have "f mem e k (w + 1) = Some y \<and> w < k + 3 \<or> f mem e k k = Some y"
      using step at k nth [of 0] nth [of 1] nth [of 2] nth [of 3] LF strtol16_minus6 [of r]
      by cases (auto simp: Let_def split: if_splits)
    with IH at show False by fastforce
  qed
qed

lemma check_chunks_hangs:
  "drop k mem = ''-6'' @ CRLF @ r \<Longrightarrow> k + 4 \<le> e \<Longrightarrow> check_chunks mem e k k = None"
  using check_chunks_back [of k mem r e mem e k k] by (cases "check_chunks mem e k k") auto



section \<open>An interim response\<close>

lemma head_loop_plain_line:
  fixes pre s rest :: string
  defines "mem \<equiv> pre @ s @ CR # LF # rest"
  assumes s: "\<forall>c \<in> set s. c \<noteq> CR \<and> c \<noteq> LF \<and> c \<noteq> CHR '':''"
    and e: "length pre + length s + 2 \<le> e" and rest: "\<not> prefix CRLF rest" "\<not> prefix [LF] rest"
  shows "head_loop mem e (length pre) e 0 e head = head_loop mem e (length pre + length s + 2) e 0 e head"
proof -
  let ?b = "length pre + length s"
  have nth: "mem ! ?b = CR" "mem ! (?b + 1) = LF" unfolding mem_def by (simp_all add: nth_append)
  have m4: "\<not> matches_at mem ?b (CRLF @ CRLF)"
    using rest(1) matches_at_append [of "pre @ s" "CR # LF # rest"] by (simp add: mem_def matches_at_prefix)
  have m2: "\<not> matches_at mem (?b + 1) [LF, LF]"
    using rest(2) matches_at_append [of "pre @ s @ [CR]" "LF # rest"] by (simp add: mem_def matches_at_prefix)
  have colon: "CR \<noteq> CHR '':''" by code_simp
  have "head_loop mem e (length pre) e 0 e head = head_loop mem e (?b + 1) (length pre) 0 e head"
  proof (cases s)
    case Nil
    with e nth m4 colon show ?thesis by (subst head_loop_advance) auto
  next
    case (Cons c s')
    then have "head_loop mem e (length pre) e 0 e head = head_loop mem e (length pre + 1) (length pre) 0 e head"
      using e s matches_at_hd [of mem "length pre" CR] by (subst head_loop_advance) (auto simp: mem_def)
    also have "\<dots> = head_loop mem e ?b (length pre) 0 e head"
      using head_loop_skip [of s' e e "length pre" "pre @ [c]" "CR # LF # rest" 0 head] e s Cons
      by (auto simp: mem_def)
    also have "\<dots> = head_loop mem e (?b + 1) (length pre) 0 e head"
      using e nth m4 colon by (subst head_loop_advance) auto
    finally show ?thesis .
  qed
  also have "\<dots> = head_loop mem e (?b + 2) e 0 e (store_header mem e (?b + 1) (length pre) 0 e head)"
    using e nth m2 by (subst head_loop_newline) auto
  finally show ?thesis by (simp add: store_header_def)
qed

definition interim :: string where
  "interim = ''HTTP/1.1 100 Continue'' @ CRLF @ CRLF"

text \<open>The empty line after the interim status line is taken for a header line, the status line
  of the real response for another one: the head that is returned has status 100 and the headers
  of the real response.\<close>

lemma get_interim_head:
  assumes "proper_head st reason hs" and "CR \<notin> set reason" and "CHR '':'' \<notin> set reason"
  shows "http_get_head (interim @ print_head st reason hs @ rest) (length interim + length (print_head st reason hs) + n) 0 Map.empty st0
       = Inr \<lparr>hr_found = True, hr_begin = length interim + length (print_head st reason hs), hr_head = heads hs, hr_status = 100\<rparr>"
proof -
  let ?s0 = "''HTTP/1.1 100 Continue''"
  let ?s1 = "''HTTP/1.1 '' @ ConvertToString st @ '' '' @ reason"
  let ?hd = "concat (map header_line hs) @ CRLF @ rest"
  let ?mem = "interim @ print_head st reason hs @ rest"
  let ?e = "length interim + length (print_head st reason hs) + n"
  obtain h hs' where hs: "hs = h # hs'" using assms(1) by (cases hs) (auto simp: proper_head_def)
  have hs_ok: "hs \<noteq> []" "list_all wf_header hs" using assms(1) by (simp_all add: proper_head_def)
  have mem1: "?mem = (?s0 @ CRLF) @ [] @ CR # LF # ?s1 @ CRLF @ ?hd"
    by (simp add: interim_def print_head_def status_line_def)
  have mem2: "?mem = (?s0 @ CRLF @ CRLF) @ ?s1 @ CR # LF # ?hd"
    by (simp add: interim_def print_head_def status_line_def)
  have mem3: "?mem = (interim @ status_line st reason) @ ?hd"
    by (simp add: print_head_def)
  have c0: "CHR ''H'' \<noteq> CR" "CHR ''H'' \<noteq> LF" by code_simp+
  have s1: "\<forall>c \<in> set ?s1. c \<noteq> CR \<and> c \<noteq> LF \<and> c \<noteq> CHR '':''"
  proof -
    have "\<forall>c \<in> set (ConvertToString st). c \<noteq> CR \<and> c \<noteq> LF \<and> c \<noteq> CHR '':''"
      using ConvertToString_digits [of st] by (auto simp: list_all_iff is_digit_def)
    moreover have "\<forall>c \<in> set ''HTTP/1.1 ''. c \<noteq> CR \<and> c \<noteq> LF \<and> c \<noteq> CHR '':''" by code_simp
    moreover have "\<forall>c \<in> set reason. c \<noteq> CR \<and> c \<noteq> LF \<and> c \<noteq> CHR '':''"
      using assms by (auto simp: proper_head_def)
    moreover have "\<forall>c \<in> set '' ''. c \<noteq> CR \<and> c \<noteq> LF \<and> c \<noteq> CHR '':''" by code_simp
    ultimately show ?thesis unfolding set_append ball_Un by (intro conjI)
  qed
  have "head_loop ?mem ?e (length (?s0 @ CRLF)) ?e 0 ?e Map.empty = head_loop ?mem ?e (length (?s0 @ CRLF @ CRLF)) ?e 0 ?e Map.empty"
    using head_loop_plain_line [of "[]" "?s0 @ CRLF" ?e "?s1 @ CRLF @ ?hd" Map.empty] c0
    unfolding mem1 by (simp add: interim_def eval_nat_numeral)
  also have "\<dots> = head_loop ?mem ?e (length (interim @ status_line st reason)) ?e 0 ?e Map.empty"
    using head_loop_plain_line [OF s1, of "?s0 @ CRLF @ CRLF" ?e ?hd Map.empty] header_line_start [of h] hs hs_ok(2)
    unfolding mem2 by (simp add: interim_def print_head_def status_line_def eval_nat_numeral)
  also have "\<dots> = Inr (True, length interim + length (print_head st reason hs), heads hs)"
    using head_loop_headers [OF hs_ok, of "interim @ status_line st reason" ?e rest Map.empty]
    by (simp add: mem3 print_head_def heads_def)
  finally have hl: "head_loop ?mem ?e (22 + 1) ?e 0 ?e Map.empty = Inr (True, length interim + length (print_head st reason hs), heads hs)"
    by (simp add: eval_nat_numeral)
  have b: "skip_until (\<lambda>i. matches_at ?mem i ''HTTP'') ?e 0 = 0"
    by (rule skip_until_stop) (simp add: interim_def)
  have sp1: "skip_until (\<lambda>i. ?mem ! i = CHR '' '') ?e (0 + 4) = 8"
    using skip_until_char [of "''/1.1''" "CHR '' ''" "''HTTP''" ?e] by (simp add: interim_def eval_nat_numeral)
  have sp2: "skip_until (\<lambda>i. ?mem ! i = CHR '' '') ?e (8 + 1) = 12"
    using skip_until_char [of "''100''" "CHR '' ''" "''HTTP/1.1 ''" ?e] by (simp add: interim_def eval_nat_numeral)
  have nl: "skip_until (\<lambda>i. ?mem ! i = LF) ?e 12 = 22"
  proof -
    have "\<forall>c \<in> set ('' Continue'' @ [CR]). c \<noteq> LF" by code_simp
    from skip_until_char [OF this, of "''HTTP/1.1 100''" ?e] show ?thesis by (simp add: interim_def eval_nat_numeral)
  qed
  have sl: "slice ?mem 9 3 = ''100''" by (simp add: slice_def interim_def)
  have "atoi ''100'' = 100" by code_simp
  then have st: "to_size_t (atoi ''100'') = 100" by (simp add: to_size_t_def)
  show ?thesis
    by (rule http_get_head_eqI [OF b _ sp1 sp2 _ _ nl _ hl]) (use sl st in \<open>simp_all add: interim_def\<close>)
qed

text \<open>A complete response behind an interim \<^verbatim>\<open>100 Continue\<close> is never reported
  complete, although the comment in the code says that 100 jumps to 200:
  \<^verbatim>\<open>http_reponse_check\<close> answers false whatever body follows.\<close>

theorem http_reponse_check_interim:
  assumes "proper_head st reason hs" and "CR \<notin> set reason" and "CHR '':'' \<notin> set reason"
    and "\<forall>i < length body. \<not> matches_at (body @ beyond) i (LF # ''HTTP/'')"
  shows "http_reponse_check (interim @ print_head st reason hs @ body) beyond = Some (Inr False)"
proof -
  let ?h = "interim @ print_head st reason hs"
  let ?mem = "?h @ body @ beyond" and ?e = "length ?h + length body"
  have ne: "?h \<noteq> []" by (simp add: interim_def)
  have "check_loop ?mem ?e 0 Map.empty 0 = Some (Inr False)"
    using get_interim_head [OF assms(1-3), of "body @ beyond" "length body" 0] scan_past_none [OF assms(4), of ?h] ne
    by (subst check_loop.simps) simp
  then show ?thesis using ne by (simp add: http_reponse_check_def add.assoc)
qed

theorem http_reponse_check_interim_witness:
  "http_reponse_check (interim @ print_head 200 ''OK'' [(''Content-Length'', ''2'')] @ ''hi'') [] = Some (Inr False)"
proof -
  have h: "proper_head 200 ''OK'' [(''Content-Length'', ''2'')]" by (rule proper_headI) (simp, simp, code_simp+)
  have r: "CR \<notin> set ''OK''" "CHR '':'' \<notin> set ''OK''" by code_simp+
  have a: "\<forall>i < length ''hi''. \<not> matches_at (''hi'' @ []) i (LF # ''HTTP/'')"
    by (rule no_LF_no_match) code_simp
  from http_reponse_check_interim [OF h r a] show ?thesis .
qed

end
