(* ===== verification/OrdMap.thy ===== *)
theory OrdMap
  imports Prelude "HOL-Library.List_Lexorder" "HOL-Library.Char_ord"
begin

text \<open>
  \<^verbatim>\<open>std::map\<close>: an association list sorted strictly by key.  The scanner iterates over its
  maps in key order (\<^verbatim>\<open>map_2_cookie\<close>, \<^verbatim>\<open>get_policys\<close>), so the order is part
  of the model; strings are compared byte by byte.

  The locale \<open>std_map\<close> states what the clients rely on; it is interpreted on the
  sorted lists, and the client lemmas about sequences of updates are proved once in it.
\<close>

section \<open>Sorted association lists\<close>

type_synonym ('k, 'v) omap = "('k \<times> 'v) list"

abbreviation om_lookup :: "('k, 'v) omap \<Rightarrow> 'k \<Rightarrow> 'v option" where
  "om_lookup \<equiv> map_of"

definition om_inv :: "('k :: linorder, 'v) omap \<Rightarrow> bool" where
  "om_inv m \<longleftrightarrow> sorted_wrt (<) (map fst m)"

text \<open>\<^verbatim>\<open>m[k] = v\<close>\<close>

fun om_assign :: "'k :: linorder \<Rightarrow> 'v \<Rightarrow> ('k, 'v) omap \<Rightarrow> ('k, 'v) omap" where
  "om_assign k v [] = [(k, v)]"
| "om_assign k v ((k', v') # m) =
     (if k < k' then (k, v) # (k', v') # m
      else if k = k' then (k, v) # m
      else (k', v') # om_assign k v m)"

text \<open>\<^verbatim>\<open>m.insert(pair(k, v))\<close>: no effect when the key is there.\<close>

definition om_insert :: "'k :: linorder \<Rightarrow> 'v \<Rightarrow> ('k, 'v) omap \<Rightarrow> ('k, 'v) omap" where
  "om_insert k v m = (case om_lookup m k of None \<Rightarrow> om_assign k v m | Some _ \<Rightarrow> m)"

definition om_erase :: "'k \<Rightarrow> ('k, 'v) omap \<Rightarrow> ('k, 'v) omap" where
  "om_erase k m = filter (\<lambda>p. fst p \<noteq> k) m"

section \<open>The interface\<close>

locale std_map =
  fixes lookup :: "'m \<Rightarrow> 'k \<Rightarrow> 'v option"
    and assign :: "'k \<Rightarrow> 'v \<Rightarrow> 'm \<Rightarrow> 'm"
    and insert_new :: "'k \<Rightarrow> 'v \<Rightarrow> 'm \<Rightarrow> 'm"
    and erase :: "'k \<Rightarrow> 'm \<Rightarrow> 'm"
    and invar :: "'m \<Rightarrow> bool"
  assumes lookup_assign: "invar m \<Longrightarrow> lookup (assign k v m) j = (if j = k then Some v else lookup m j)"
    and lookup_insert_new: "invar m \<Longrightarrow> lookup (insert_new k v m) j
          = (if j = k \<and> lookup m k = None then Some v else lookup m j)"
    and lookup_erase: "invar m \<Longrightarrow> lookup (erase k m) j = (if j = k then None else lookup m j)"
    and invar_assign: "invar m \<Longrightarrow> invar (assign k v m)"
    and invar_insert_new: "invar m \<Longrightarrow> invar (insert_new k v m)"
    and invar_erase: "invar m \<Longrightarrow> invar (erase k m)"
begin

lemma invar_assign_many: "invar m \<Longrightarrow> invar (fold (\<lambda>(k, v). assign k v) kvs m)"
  by (induction kvs arbitrary: m) (auto simp: invar_assign)

text \<open>After a sequence of assignments the last one to a key wins.\<close>

lemma lookup_assign_many:
  "invar m \<Longrightarrow> lookup (fold (\<lambda>(k, v). assign k v) kvs m) j
     = (case map_of (rev kvs) j of None \<Rightarrow> lookup m j | Some v \<Rightarrow> Some v)"
proof (induction kvs arbitrary: m)
  case (Cons kv kvs)
  obtain k v where kv: "kv = (k, v)" by fastforce
  from Cons show ?case
    by (auto simp: kv lookup_assign invar_assign map_add_def split: option.splits)
qed simp

lemma invar_insert_many: "invar m \<Longrightarrow> invar (fold (\<lambda>k. insert_new k v) ks m)"
  by (induction ks arbitrary: m) (auto simp: invar_insert_new)

lemma lookup_insert_many:
  "invar m \<Longrightarrow> lookup (fold (\<lambda>k. insert_new k v) ks m) j
     = (if j \<in> set ks \<and> lookup m j = None then Some v else lookup m j)"
  by (induction ks arbitrary: m) (auto simp: lookup_insert_new invar_insert_new)

lemma invar_erase_many: "invar m \<Longrightarrow> invar (fold erase ks m)"
  by (induction ks arbitrary: m) (auto simp: invar_erase)

lemma lookup_erase_many:
  "invar m \<Longrightarrow> lookup (fold erase ks m) j = (if j \<in> set ks then None else lookup m j)"
  by (induction ks arbitrary: m) (auto simp: lookup_erase invar_erase)

end

section \<open>The sorted lists satisfy it\<close>

lemma om_inv_Nil [simp]: "om_inv []"
  by (simp add: om_inv_def)

lemma om_inv_Cons: "om_inv (p # m) \<longleftrightarrow> (\<forall>q \<in> set m. fst p < fst q) \<and> om_inv m"
  by (auto simp: om_inv_def)

lemma om_assign_keys: "fst ` set (om_assign k v m) = insert k (fst ` set m)"
  by (induction k v m rule: om_assign.induct) auto

lemma om_assign_lookup: "om_inv m \<Longrightarrow> om_lookup (om_assign k v m) j = (if j = k then Some v else om_lookup m j)"
  by (induction k v m rule: om_assign.induct) (auto simp: om_inv_Cons)

lemma om_assign_inv: "om_inv m \<Longrightarrow> om_inv (om_assign k v m)"
proof (induction k v m rule: om_assign.induct)
  case (2 k v k' v' m)
  have "\<forall>q \<in> set (om_assign k v m). k' < fst q" if "k' < k" "\<forall>q \<in> set m. k' < fst q"
    using om_assign_keys [of k v m] that by (metis image_eqI insertE imageE)
  with 2 show ?case by (auto simp: om_inv_Cons)
qed (simp add: om_inv_def)

lemma om_erase_inv: "om_inv m \<Longrightarrow> om_inv (om_erase k m)"
  by (induction m) (auto simp: om_erase_def om_inv_Cons)

lemma om_erase_lookup: "om_lookup (om_erase k m) j = (if j = k then None else om_lookup m j)"
  by (induction m) (auto simp: om_erase_def)

interpretation om: std_map om_lookup om_assign om_insert om_erase om_inv
proof
  fix m :: "('k :: linorder, 'v) omap" and k j v
  assume m: "om_inv m"
  show "om_lookup (om_insert k v m) j = (if j = k \<and> om_lookup m k = None then Some v else om_lookup m j)"
    using om_assign_lookup [OF m] by (auto simp: om_insert_def split: option.splits)
  show "om_inv (om_insert k v m)"
    using om_assign_inv [OF m] m by (simp add: om_insert_def split: option.splits)
qed (simp_all add: om_assign_lookup om_assign_inv om_erase_lookup om_erase_inv)

lemma om_inv_distinct: "om_inv m \<Longrightarrow> distinct (map fst m)"
  unfolding om_inv_def by (simp add: strict_sorted_iff)

lemma om_inv_filter: "om_inv m \<Longrightarrow> om_inv (filter P m)"
  unfolding om_inv_def sorted_wrt_map by (rule sorted_wrt_filter)

lemma om_inv_map_values: "om_inv (map (\<lambda>e. (fst e, f e)) m) \<longleftrightarrow> om_inv m"
  by (simp add: om_inv_def comp_def)

end
