(* ===== verification/Cookie.thy ===== *)
theory Cookie
  imports CStd OrdMap
begin

text \<open>
  Cookies (\<^verbatim>\<open>trim\<close>, \<^verbatim>\<open>cookie_2_map\<close>, \<^verbatim>\<open>map_2_cookie\<close>,
  \<^verbatim>\<open>get_new_cookie\<close> of \<^verbatim>\<open>src/scaner_test/http_tools.cpp\<close>).  The cookie jar is a
  \<^verbatim>\<open>std::map\<close>, the sorted list of \<open>OrdMap\<close>.  Both callers of
  \<^verbatim>\<open>cookie_2_map\<close> pass a newline as \<^verbatim>\<open>end_line\<close>.
\<close>

section \<open>Definitions\<close>

type_synonym jar = "(string, string) omap"

abbreviation trim_ws :: string where "trim_ws \<equiv> [CR, LF, CHR '' '', TAB]"

definition trim :: "string \<Rightarrow> string" where
  "trim s = erase_trailing trim_ws (erase_leading trim_ws s)"

text \<open>One round of the inner loop: the piece from \<open>lf\<close> to \<open>lb\<close>.  The position \<open>li\<close> of the
  equals sign is searched from the start of the line each time; \<^verbatim>\<open>li - lf\<close> wraps when it lies
  before the piece, and \<open>lb\<close> is passed as a count.\<close>

definition cookie_pair :: "string \<Rightarrow> nat \<Rightarrow> nat \<Rightarrow> jar \<Rightarrow> jar" where
  "cookie_pair s lf lb m =
     (case find_sub ''='' s of
        None \<Rightarrow> m
      | Some li \<Rightarrow>
          let key = trim (if lf \<le> li then take (li - lf) (drop lf s) else drop lf s);
              val = trim (take lb (drop (li + 1) s))
          in if key = [] \<or> val = [] then m else om_assign key val m)"

function cookie_pairs :: "string \<Rightarrow> nat \<Rightarrow> jar \<Rightarrow> jar" where
  "cookie_pairs s lf m =
     (if lf < length s then
        let lb = (case find_sub_from '';'' s lf of None \<Rightarrow> length s | Some k \<Rightarrow> k)
        in cookie_pairs s (lb + 1) (cookie_pair s lf lb m)
      else m)"
  by pat_completeness auto
termination
  by (relation "measure (\<lambda>(s, lf, m). length s - lf)") (auto simp: find_sub_from_def split: option.splits)

declare cookie_pairs.simps [simp del]

function cookie_lines :: "string \<Rightarrow> string \<Rightarrow> nat \<Rightarrow> jar \<Rightarrow> jar" where
  "cookie_lines start_line src nB m =
     (case find_sub_from start_line src (nB + 1) of
        None \<Rightarrow> m
      | Some k \<Rightarrow>
          let nF = k + length start_line;
              nB = (case find_sub_from [LF] src nF of None \<Rightarrow> length src | Some j \<Rightarrow> j);
              line = trim (take (nB - nF) (drop nF src))
          in cookie_lines start_line src nB (if line = [] then m else cookie_pairs line 0 m))"
  by pat_completeness auto
termination
proof (relation "measure (\<lambda>(start_line, src, nB, m). length src - nB)", goal_cases)
  case (2 start_line src nB m k nF nB' line)
  then have k: "nB + 1 \<le> k" "k + length start_line \<le> length src"
    by (auto simp: find_sub_from_def split: if_splits dest!: find_sub_Some_length)
  then have "nF \<le> nB'"
    using 2 by (auto simp: find_sub_from_def split: option.splits if_splits)
  with k 2 show ?case by auto
qed simp

declare cookie_lines.simps [simp del]

definition cookie_2_map :: "string \<Rightarrow> jar \<Rightarrow> string \<Rightarrow> jar" where
  "cookie_2_map src m start_line = cookie_lines start_line src 0 m"

fun cookie_out :: "nat \<Rightarrow> jar \<Rightarrow> string" where
  "cookie_out nline [] = []"
| "cookie_out nline ((k, v) # m) =
     (if nline = 0 then ''Cookie: '' @ k @ ''='' @ v @ '';'' @ cookie_out (length k + length v + 10) m
      else if nline + length k + length v < 80 then
        k @ ''='' @ v @ '';'' @ cookie_out (nline + length k + length v + 2) m
      else CRLF @ ''Cookie: '' @ k @ ''='' @ v @ '';'' @ cookie_out (length k + length v + 10) m)"

definition map_2_cookie :: "jar \<Rightarrow> string \<Rightarrow> string" where
  "map_2_cookie m out = (if m = [] then out else out @ cookie_out 0 m @ CRLF)"

definition get_new_cookie :: "string \<Rightarrow> string \<Rightarrow> string" where
  "get_new_cookie recv_head old_cookie =
     (if \<not> contains recv_head ''Set-Cookie:'' then old_cookie
      else
        let m = cookie_2_map old_cookie [] ''Cookie:'';
            m = cookie_2_map recv_head m ''Set-Cookie:'';
            v_erase = map fst (filter (\<lambda>e. snd e = []) m)
        in map_2_cookie (fold om_erase v_erase m) [])"

section \<open>Invariant\<close>

text \<open>The jar stays sorted and has no empty keys or values, so nothing is erased.\<close>

definition jar_ok :: "jar \<Rightarrow> bool" where
  "jar_ok m \<longleftrightarrow> om_inv m \<and> (\<forall>(k, v) \<in> set m. k \<noteq> [] \<and> v \<noteq> [])"

lemma om_assign_set: "set (om_assign k v m) \<subseteq> insert (k, v) (set m)"
  by (induction k v m rule: om_assign.induct) auto

lemma jar_ok_assign: "jar_ok m \<Longrightarrow> k \<noteq> [] \<Longrightarrow> v \<noteq> [] \<Longrightarrow> jar_ok (om_assign k v m)"
  using om_assign_set [of k v m] om_assign_inv [of m k v] by (fastforce simp: jar_ok_def)

lemma jar_ok_pair: "jar_ok m \<Longrightarrow> jar_ok (cookie_pair s lf lb m)"
  by (auto simp: cookie_pair_def Let_def jar_ok_assign split: option.split)

lemma jar_ok_pairs: "jar_ok m \<Longrightarrow> jar_ok (cookie_pairs s lf m)"
proof (induction s lf m rule: cookie_pairs.induct)
  case (1 s lf m)
  then show ?case by (subst cookie_pairs.simps) (simp add: jar_ok_pair Let_def)
qed

lemma jar_ok_lines: "jar_ok m \<Longrightarrow> jar_ok (cookie_lines start_line src nB m)"
proof (induction start_line src nB m rule: cookie_lines.induct)
  case (1 start_line src nB m)
  then show ?case by (subst cookie_lines.simps) (auto simp: jar_ok_pairs Let_def split: option.split)
qed

lemma jar_ok_get: "jar_ok (cookie_2_map recv (cookie_2_map old [] s) s')"
  by (simp add: cookie_2_map_def jar_ok_lines jar_ok_def [of "[]"])

lemma get_new_cookie_conv:
  "contains recv ''Set-Cookie:'' \<Longrightarrow>
     get_new_cookie recv old = map_2_cookie (cookie_2_map recv (cookie_2_map old [] ''Cookie:'') ''Set-Cookie:'') []"
proof -
  let ?m = "cookie_2_map recv (cookie_2_map old [] ''Cookie:'') ''Set-Cookie:''"
  have "filter (\<lambda>e. snd e = []) ?m = []"
    using jar_ok_get [of recv old "''Cookie:''" "''Set-Cookie:''"] by (auto simp: jar_ok_def filter_empty_conv)
  then show "contains recv ''Set-Cookie:'' \<Longrightarrow> ?thesis" by (simp add: get_new_cookie_def Let_def)
qed

section \<open>Reading cookies of a server\<close>

definition wf_cookie :: "string \<times> string \<Rightarrow> bool" where
  "wf_cookie c \<longleftrightarrow> (case c of (k, v) \<Rightarrow>
     k \<noteq> [] \<and> list_all (none_of [CR, LF, CHR '';'', CHR ''='']) k \<and> none_of trim_ws (hd k) \<and> none_of trim_ws (last k) \<and>
     v \<noteq> [] \<and> list_all (none_of [CR, LF, CHR '';'']) v \<and> none_of trim_ws (hd v) \<and> none_of trim_ws (last v))"

definition set_cookie_line :: "string \<times> string \<Rightarrow> string" where
  "set_cookie_line c = ''Set-Cookie:'' @ '' '' @ fst c @ ''='' @ snd c @ CRLF"

lemma trim_inner:
  assumes "v \<noteq> []" "none_of trim_ws (hd v)" "none_of trim_ws (last v)" "set a \<subseteq> set trim_ws" "set z \<subseteq> set trim_ws"
  shows "trim (a @ v @ z) = v"
  unfolding trim_def using assms by (rule trim_between)

lemma find_sub_single: "c \<notin> set a \<Longrightarrow> find_sub [c] (a @ c # b) = Some (length a)"
  by (induction a) auto

lemma find_sub_single_None: "c \<notin> set a \<Longrightarrow> find_sub [c] a = None"
  by (induction a) auto

lemma cookie_pairs_end: "length s \<le> lf \<Longrightarrow> cookie_pairs s lf m = m"
  by (simp add: cookie_pairs.simps [of s lf])

lemma cookie_pairs_whole:
  "0 < length s \<Longrightarrow> find_sub_from '';'' s 0 = None \<Longrightarrow> cookie_pairs s 0 m = cookie_pair s 0 (length s) m"
  by (simp add: cookie_pairs.simps [of s 0] cookie_pairs_end)

lemma cookie_pairs_single:
  assumes "wf_cookie (k, v)"
  shows "cookie_pairs (k @ ''='' @ v) 0 m = om_assign k v m"
proof -
  let ?s = "k @ ''='' @ v"
  have k: "k \<noteq> []" "CHR ''='' \<notin> set k" "CHR '';'' \<notin> set k" and v: "v \<noteq> []" "CHR '';'' \<notin> set v"
    and tk: "trim k = k" and tv: "trim v = v"
    using assms trim_inner [of k "[]" "[]"] trim_inner [of v "[]" "[]"] by (auto simp: wf_cookie_def list_all_iff)
  have "find_sub '';'' ?s = None" using k v by (intro find_sub_single_None) auto
  then have lb: "find_sub_from '';'' ?s 0 = None" by (simp add: find_sub_from_def)
  have "find_sub ''='' ?s = Some (length k)" using find_sub_single [OF k(2)] by simp
  then have "cookie_pair ?s 0 (length ?s) m = om_assign k v m"
    using k(1) v(1) tk tv by (simp add: cookie_pair_def Let_def)
  with cookie_pairs_whole [OF _ lb, of m] show ?thesis by simp
qed

lemma cookie_lines_set:
  assumes "list_all wf_cookie cs" and "find_sub ''Set-Cookie:'' post = None"
    and "find_sub_from ''Set-Cookie:'' (p @ concat (map set_cookie_line cs) @ post) (nB + 1)
         = (if cs = [] then None else Some (length p))"
  shows "cookie_lines ''Set-Cookie:'' (p @ concat (map set_cookie_line cs) @ post) nB m
       = fold (\<lambda>(k, v). om_assign k v) cs m"
  using assms
proof (induction cs arbitrary: p nB m)
  case Nil
  then show ?case by (simp add: cookie_lines.simps [of _ _ nB])
next
  case (Cons c cs)
  obtain k v where c: "c = (k, v)" by fastforce
  let ?start = "''Set-Cookie:''"
  let ?rest = "concat (map set_cookie_line cs) @ post"
  let ?src = "p @ concat (map set_cookie_line (c # cs)) @ post"
  let ?mid = "'' '' @ k @ ''='' @ v @ [CR]"
  let ?nF = "length p + length ?start" and ?nB = "length p + length ?start + length ?mid"
  have wf: "wf_cookie (k, v)" and wfs: "list_all wf_cookie cs" using Cons.prems(1) c by simp_all
  have src: "?src = (p @ ?start) @ ?mid @ LF # ?rest" by (simp add: c set_cookie_line_def)
  have "LF \<noteq> CHR ''=''" "LF \<noteq> CHR '' ''" by code_simp+
  then have noLF: "LF \<notin> set ?mid" using wf by (simp add: wf_cookie_def list_all_iff) blast
  have nB: "find_sub_from [LF] ?src ?nF = Some ?nB"
    unfolding src find_sub_from_def using find_sub_single [OF noLF, of ?rest] by simp
  have line: "trim (take (?nB - ?nF) (drop ?nF ?src)) = k @ ''='' @ v"
  proof -
    have "?nB - ?nF = length ?mid" by simp
    moreover have "drop ?nF ?src = ?mid @ LF # ?rest" unfolding src by simp
    ultimately have "take (?nB - ?nF) (drop ?nF ?src) = ?mid" by (metis append_eq_conv_conj)
    then have "take (?nB - ?nF) (drop ?nF ?src) = '' '' @ (k @ ''='' @ v) @ [CR]" by simp
    also have "trim \<dots> = k @ ''='' @ v"
      using wf by (intro trim_inner) (auto simp: wf_cookie_def)
    finally show ?thesis .
  qed
  have pos: "?nB + 1 = length (p @ set_cookie_line c)" by (simp add: c set_cookie_line_def)
  have src': "?src = (p @ set_cookie_line c) @ ?rest" by simp
  have "find_sub_from ?start ?src (?nB + 1) = (if cs = [] then None else Some (length (p @ set_cookie_line c)))"
  proof (cases cs)
    case Nil
    with Cons.prems(2) show ?thesis unfolding pos src' find_sub_from_def by simp
  next
    case (Cons d ds)
    have "prefix ?start ?rest" unfolding Cons by (simp add: set_cookie_line_def)
    then have "find_sub ?start ?rest = Some 0" by (auto simp: prefix_def)
    with Cons show ?thesis unfolding pos src' find_sub_from_def by simp
  qed
  then have IH: "cookie_lines ?start ?src ?nB m' = fold (\<lambda>(k, v). om_assign k v) cs m'" for m'
    using Cons.IH [OF wfs Cons.prems(2), of "p @ set_cookie_line c" ?nB m'] by simp
  have "find_sub_from ?start ?src (nB + 1) = Some (length p)" using Cons.prems(3) by simp
  then have "cookie_lines ?start ?src nB m = cookie_lines ?start ?src ?nB (cookie_pairs (k @ ''='' @ v) 0 m)"
    using nB line by (subst cookie_lines.simps) (simp add: Let_def)
  also have "\<dots> = fold (\<lambda>(k, v). om_assign k v) (c # cs) m"
    unfolding cookie_pairs_single [OF wf] IH by (simp add: c)
  finally show ?case .
qed

section \<open>Writing cookies\<close>

definition pair_text :: "string \<times> string \<Rightarrow> string" where
  "pair_text e = fst e @ ''='' @ snd e @ '';''"

definition cookie_line :: "(string \<times> string) list \<Rightarrow> string" where
  "cookie_line g = ''Cookie: '' @ concat (map pair_text g)"

text \<open>Lines joined by a line break.\<close>

fun join_lines :: "string list \<Rightarrow> string" where
  "join_lines [] = []"
| "join_lines [l] = l"
| "join_lines (l # ls) = l @ CRLF @ join_lines ls"

definition short_or_single :: "(string \<times> string) list \<Rightarrow> bool" where
  "short_or_single g \<longleftrightarrow> length g = 1 \<or> length (cookie_line g) \<le> 81"

lemma join_lines_Cons: "ls \<noteq> [] \<Longrightarrow> join_lines (l # ls) = l @ CRLF @ join_lines ls"
  by (cases ls) auto

lemma pair_text_length: "length (pair_text (k, v)) = length k + length v + 2"
  by (simp add: pair_text_def)

text \<open>\<open>nline\<close> is exactly the length of the line under construction.\<close>

lemma cookie_out_lines:
  assumes "g \<noteq> []" and "short_or_single g" and "nline = length (cookie_line g)"
  shows "\<exists>gs. concat gs = g @ m \<and> [] \<notin> set gs \<and> list_all short_or_single gs
           \<and> cookie_line g @ cookie_out nline m = join_lines (map cookie_line gs)"
  using assms
proof (induction m arbitrary: g nline)
  case Nil
  then show ?case by (intro exI [of _ "[g]"]) simp
next
  case (Cons e m)
  obtain k v where e: "e = (k, v)" by fastforce
  have nz: "nline \<noteq> 0" using Cons.prems(3) by (simp add: cookie_line_def)
  show ?case
  proof (cases "nline + length k + length v < 80")
    case True
    have len: "nline + length k + length v + 2 = length (cookie_line (g @ [e]))"
      using Cons.prems(3) by (simp add: cookie_line_def e pair_text_length)
    then have "short_or_single (g @ [e])" using True by (simp add: short_or_single_def)
    from Cons.IH [OF _ this len] obtain gs where
      "concat gs = (g @ [e]) @ m" "[] \<notin> set gs" "list_all short_or_single gs"
      "cookie_line (g @ [e]) @ cookie_out (nline + length k + length v + 2) m = join_lines (map cookie_line gs)" by auto
    moreover have "cookie_line g @ cookie_out nline (e # m)
        = cookie_line (g @ [e]) @ cookie_out (nline + length k + length v + 2) m"
      using True nz by (simp add: e cookie_line_def pair_text_def)
    ultimately show ?thesis by (intro exI [of _ gs]) simp
  next
    case False
    have len: "length k + length v + 10 = length (cookie_line [e])"
      by (simp add: cookie_line_def e pair_text_length)
    have "short_or_single [e]" by (simp add: short_or_single_def)
    from Cons.IH [OF _ this len] obtain gs where gs:
      "concat gs = [e] @ m" "[] \<notin> set gs" "list_all short_or_single gs"
      "cookie_line [e] @ cookie_out (length k + length v + 10) m = join_lines (map cookie_line gs)" by auto
    then have ne: "map cookie_line gs \<noteq> []" by auto
    have "cookie_line g @ cookie_out nline (e # m) = cookie_line g @ CRLF @ join_lines (map cookie_line gs)"
      using False nz gs(4) by (simp add: e cookie_line_def pair_text_def)
    with gs Cons.prems ne show ?thesis
      by (intro exI [of _ "g # gs"]) (simp add: join_lines_Cons)
  qed
qed

lemma map_2_cookie_lines:
  assumes "m \<noteq> []"
  shows "\<exists>gs. concat gs = m \<and> [] \<notin> set gs \<and> list_all short_or_single gs
           \<and> map_2_cookie m [] = join_lines (map cookie_line gs) @ CRLF"
proof -
  obtain e m' where m: "m = e # m'" using assms by (cases m) auto
  obtain k v where e: "e = (k, v)" by fastforce
  have len: "length k + length v + 10 = length (cookie_line [e])" by (simp add: cookie_line_def e pair_text_length)
  have "short_or_single [e]" by (simp add: short_or_single_def)
  from cookie_out_lines [OF _ this len, of m'] obtain gs where
    "concat gs = [e] @ m'" "[] \<notin> set gs" "list_all short_or_single gs"
    "cookie_line [e] @ cookie_out (length k + length v + 10) m' = join_lines (map cookie_line gs)" by auto
  moreover have "cookie_out 0 m = cookie_line [e] @ cookie_out (length k + length v + 10) m'"
    by (simp add: m e cookie_line_def pair_text_def)
  ultimately show ?thesis
    by (intro exI [of _ gs]) (simp add: m map_2_cookie_def)
qed

section \<open>Properties\<close>




text \<open>The cookies sent so far are forgotten.  \<^verbatim>\<open>cookie_2_map\<close> never looks at the
  first byte, so a stored cookie header, which begins with \<^verbatim>\<open>Cookie:\<close> and has no second
  such line, contributes nothing: the new cookies do not depend on it.\<close>

theorem get_new_cookie_forgets:
  assumes "contains recv ''Set-Cookie:''" and "find_sub_from ''Cookie:'' old 1 = None"
  shows "get_new_cookie recv old = get_new_cookie recv []"
proof -
  have "cookie_2_map old [] ''Cookie:'' = []" "cookie_2_map [] [] ''Cookie:'' = []"
    using assms(2) by (simp_all add: cookie_2_map_def cookie_lines.simps [of _ _ 0] find_sub_from_def [of _ "[]"])
  with assms(1) show ?thesis by (simp add: get_new_cookie_conv)
qed

theorem get_new_cookie_forgets_witness:
  "get_new_cookie (''HTTP Set-Cookie: b=2'' @ CRLF) (''Cookie: a=1;'' @ CRLF) = ''Cookie: b=2;'' @ CRLF"
proof -
  have "contains (''HTTP Set-Cookie: b=2'' @ CRLF) ''Set-Cookie:''" "find_sub_from ''Cookie:'' (''Cookie: a=1;'' @ CRLF) 1 = None"
    by code_simp+
  from get_new_cookie_forgets [OF this]
  have "get_new_cookie (''HTTP Set-Cookie: b=2'' @ CRLF) (''Cookie: a=1;'' @ CRLF) = get_new_cookie (''HTTP Set-Cookie: b=2'' @ CRLF) []" .
  also have "\<dots> = ''Cookie: b=2;'' @ CRLF" by code_simp
  finally show ?thesis .
qed

end
