(* ===== verification/Policy.thy ===== *)
theory Policy
  imports Trigger OrdMap
begin

text \<open>
  Policies: \<^verbatim>\<open>policy_base\<close>, \<^verbatim>\<open>policy_work\<close>
  (\<^verbatim>\<open>src/scaner_test/policy_base.cpp\<close>), the policy server
  (\<^verbatim>\<open>src/scaner_test/policy_work.cpp\<close>) and the file tools they use.

  The file system and the Lua interpreter are parameters, collected in \<open>world\<close>:
  \<open>w_file\<close> is the content of a file that can be opened, \<open>w_newstate\<close> whether
  \<^verbatim>\<open>luaL_newstate\<close> gives a state, \<open>w_run\<close> the globals after loading and running
  a chunk (\<open>None\<close> on an error), \<open>w_init_call\<close> the outcome of calling \<^verbatim>\<open>Init_Lua\<close>
  in a chunk: whether the call succeeds and the strings it passed to
  \<^verbatim>\<open>InsertNewPlugins\<close>.  \<open>open_states\<close> counts the Lua states that were created and
  not closed.
\<close>

section \<open>Data\<close>

type_synonym globals = "string \<Rightarrow> string option"

record world =
  w_file :: "string \<Rightarrow> string option"
  w_module_path :: string
  w_newstate :: bool
  w_run :: "string \<Rightarrow> globals option"
  w_init_call :: "string \<Rightarrow> bool \<times> string list"

datatype init_environment_type = INIT_WHOLE | INIT_WORK

record policy_base =
  pb_version :: string
  pb_union_id :: string
  pb_triggle :: string
  pb_name :: string
  pb_type :: init_environment_type
  pb_buff :: string

record policy_work =
  pw_lu :: "globals option"
  pw_name :: string

record policy_server =
  ps_origin :: "policy_base option"
  ps_map :: "(string, policy_base option) omap"

section \<open>Files\<close>

definition get_app_path :: "world \<Rightarrow> string" where
  "get_app_path w = (case find_last_idx (one_of [CHR 0x5C, CHR ''/'']) (w_module_path w) of
      None \<Rightarrow> w_module_path w
    | Some n \<Rightarrow> take (n + 1) (w_module_path w))"

definition load_file :: "world \<Rightarrow> string \<Rightarrow> string option" where
  "load_file w name = (case w_file w name of
      None \<Rightarrow> None
    | Some buff \<Rightarrow> if buff = [] then None else Some buff)"

section \<open>A policy\<close>

definition new_policy_base :: "init_environment_type \<Rightarrow> policy_base" where
  "new_policy_base ty = \<lparr>pb_version = [], pb_union_id = [], pb_triggle = [], pb_name = [], pb_type = ty, pb_buff = []\<rparr>"

definition pb_clear :: "policy_base \<Rightarrow> policy_base" where
  "pb_clear p = p\<lparr>pb_version := [], pb_union_id := [], pb_triggle := [], pb_buff := []\<rparr>"

definition pb_empty :: "policy_base \<Rightarrow> bool" where
  "pb_empty p \<longleftrightarrow> pb_buff p = []"

definition get_string_globle :: "globals \<Rightarrow> string \<Rightarrow> string" where
  "get_string_globle g name = (case g name of None \<Rightarrow> [] | Some s \<Rightarrow> c_str s)"

definition pb_load :: "world \<Rightarrow> string \<Rightarrow> policy_base \<Rightarrow> nat \<Rightarrow> bool \<times> policy_base \<times> nat" where
  "pb_load w path p open_states =
     (let p = pb_clear p in
      case load_file w path of
        None \<Rightarrow> (False, pb_clear p, open_states)
      | Some v_temp \<Rightarrow>
          if \<not> w_newstate w then (False, pb_clear p, open_states)
          else let open_states = open_states + 1 in
          case w_run w v_temp of
            None \<Rightarrow> (False, pb_clear p, open_states)
          | Some g \<Rightarrow>
              let p = p\<lparr>pb_version := get_string_globle g ''GLOBLE_VERSION''\<rparr> in
              if pb_version p = [] then (False, pb_clear p, open_states) else
              let p = p\<lparr>pb_union_id := get_string_globle g ''GLOBLE_UNIONID''\<rparr> in
              if pb_version p = [] then (False, pb_clear p, open_states) else
              let p = p\<lparr>pb_triggle := get_string_globle g ''GLOBLE_TRIGGER_TYPE''\<rparr> in
              if pb_version p = [] then (False, pb_clear p, open_states) else
              (True, p\<lparr>pb_name := path, pb_buff := v_temp\<rparr>, open_states - 1))"

definition clone_one :: "world \<Rightarrow> policy_base \<Rightarrow> nat \<Rightarrow> globals option \<times> nat" where
  "clone_one w p open_states =
     (if pb_empty p \<or> \<not> w_newstate w then (None, open_states)
      else case w_run w (pb_buff p) of
             None \<Rightarrow> (None, open_states)
           | Some g \<Rightarrow> (Some g, open_states + 1))"

definition close_one :: "globals option \<Rightarrow> nat \<Rightarrow> nat" where
  "close_one lua open_states = (case lua of None \<Rightarrow> open_states | Some _ \<Rightarrow> open_states - 1)"

section \<open>The server\<close>

definition insert_plugins_name :: "string \<Rightarrow> policy_server \<Rightarrow> policy_server" where
  "insert_plugins_name name s = s\<lparr>ps_map := om_insert name None (ps_map s)\<rparr>"

text \<open>\<^verbatim>\<open>InsertNewPlugins\<close>: the names in the C string, separated by \<^verbatim>\<open><|>\<close>
  (so no name holds a NUL byte).\<close>

function split_names :: "string \<Rightarrow> string list" where
  "split_names str = (case find_sub ''<|>'' str of
      Some npos \<Rightarrow> take npos str # split_names (drop (npos + 3) str)
    | None \<Rightarrow> if str = [] then [] else [str])"
  by pat_completeness auto
termination
  by (relation "measure length") (auto dest: find_sub_Some_length)

declare split_names.simps [simp del]

definition plugin_path :: "world \<Rightarrow> string \<Rightarrow> string" where
  "plugin_path w name = (if contains name [CHR '':'', CHR 0x5C] then name else get_app_path w @ name)"

definition globle_func_insert_load :: "world \<Rightarrow> string \<Rightarrow> policy_server \<Rightarrow> policy_server" where
  "globle_func_insert_load w str s =
     fold (\<lambda>name. insert_plugins_name (plugin_path w name)) (split_names (c_str str)) s"

text \<open>The loading loop of \<^verbatim>\<open>init\<close>: every entry gets a fresh policy or becomes null and is
  collected for erasure.\<close>

fun load_all ::
  "world \<Rightarrow> (string, policy_base option) omap \<Rightarrow> nat \<Rightarrow> (string, policy_base option) omap \<times> string list \<times> nat" where
  "load_all w [] n = ([], [], n)"
| "load_all w ((name, _) # m) n =
     (case pb_load w name (new_policy_base INIT_WORK) n of (ok, p, n) \<Rightarrow>
      case load_all w m n of (m, eraser, n) \<Rightarrow>
        if ok then ((name, Some p) # m, eraser, n) else ((name, None) # m, name # eraser, n))"

definition server_clear :: "policy_server \<Rightarrow> policy_server" where
  "server_clear s = s\<lparr>ps_map := [], ps_origin := None\<rparr>"

definition server_init :: "world \<Rightarrow> policy_server \<Rightarrow> nat \<Rightarrow> (fault + bool) \<times> policy_server \<times> nat" where
  "server_init w s n =
     (if ps_origin s \<noteq> None then (Inl Assert_failed, s, n) else
      case pb_load w (get_app_path w @ ''main.lua'') (new_policy_base INIT_WHOLE) n of (ok, origin, n) \<Rightarrow>
      let s = s\<lparr>ps_origin := Some origin\<rparr> in
      if \<not> ok then (Inr False, server_clear s, n) else
      case clone_one w origin n of
        (None, n) \<Rightarrow> (Inr False, server_clear s, n)
      | (Some g, n) \<Rightarrow>
          case w_init_call w (pb_buff origin) of (called, strs) \<Rightarrow>
          let s = fold (globle_func_insert_load w) strs s in
          if \<not> called then (Inr False, server_clear s, n) else
          case load_all w (ps_map s) n of (m, eraser, n) \<Rightarrow>
            (Inr True, s\<lparr>ps_map := fold om_erase eraser m\<rparr>, n))"

text \<open>\<^verbatim>\<open>get_policy_count\<close> dereferences every entry; a null entry is a fault.\<close>

fun count_hits :: "string list \<Rightarrow> (string, policy_base option) omap \<Rightarrow> fault + nat" where
  "count_hits tr [] = Inr 0"
| "count_hits tr ((_, None) # m) = Inl Out_of_range"
| "count_hits tr ((_, Some p) # m) =
     (case count_hits tr m of
        Inl f \<Rightarrow> Inl f
      | Inr n \<Rightarrow> Inr (if hit_trigger tr (pb_triggle p) then n + 1 else n))"

definition get_policy_count :: "string \<Rightarrow> policy_server \<Rightarrow> fault + nat" where
  "get_policy_count trigger s =
     (if trigger = [] then Inr (length (ps_map s)) else count_hits (trigger_base trigger) (ps_map s))"

definition policy_selected :: "string \<Rightarrow> string \<times> policy_base option \<Rightarrow> bool" where
  "policy_selected trigger e = (case e of
      (name, None) \<Rightarrow> False
    | (name, Some p) \<Rightarrow> name \<noteq> [] \<and> (trigger = [] \<or> hit_trigger (trigger_base trigger) (pb_triggle p)))"

definition get_policys :: "string \<Rightarrow> policy_server \<Rightarrow> bool \<times> string list" where
  "get_policys trigger s =
     (if ps_map s = [] then (False, [])
      else let policy_list = map fst (filter (policy_selected trigger) (ps_map s))
           in (policy_list \<noteq> [], policy_list))"

definition clone_policy :: "world \<Rightarrow> string \<Rightarrow> policy_server \<Rightarrow> nat \<Rightarrow> policy_work option \<times> nat" where
  "clone_policy w name s n =
     (case om_lookup (ps_map s) name of
        Some (Some p) \<Rightarrow> (case clone_one w p n of (lu, n) \<Rightarrow> (Some \<lparr>pw_lu = lu, pw_name = name\<rparr>, n))
      | _ \<Rightarrow> (None, n))"

definition clone_policy_no :: "world \<Rightarrow> nat \<Rightarrow> policy_server \<Rightarrow> nat \<Rightarrow> policy_work option \<times> nat" where
  "clone_policy_no w no s n =
     (if length (ps_map s) \<le> no then (None, n)
      else case ps_map s ! no of
             (name, None) \<Rightarrow> (None, n)
           | (name, Some p) \<Rightarrow> (case clone_one w p n of (lu, n) \<Rightarrow> (Some \<lparr>pw_lu = lu, pw_name = name\<rparr>, n)))"

definition free_policy :: "policy_work \<Rightarrow> nat \<Rightarrow> nat" where
  "free_policy pw n = (if pw_lu pw = None then n else close_one (pw_lu pw) n)"

section \<open>Loading\<close>

lemma pb_load_cases:
  "pb_load w path p n = (ok, p', n') \<Longrightarrow>
     (if ok then \<exists>buff g. load_file w path = Some buff \<and> w_run w buff = Some g \<and>
          get_string_globle g ''GLOBLE_VERSION'' \<noteq> [] \<and> n' = n \<and>
          p' = p\<lparr>pb_version := get_string_globle g ''GLOBLE_VERSION'',
                 pb_union_id := get_string_globle g ''GLOBLE_UNIONID'',
                 pb_triggle := get_string_globle g ''GLOBLE_TRIGGER_TYPE'', pb_name := path, pb_buff := buff\<rparr>
      else p' = pb_clear p \<and> n \<le> n' \<and> n' \<le> n + 1)"
  by (auto simp: pb_load_def Let_def pb_clear_def split: option.splits if_splits)

lemma load_file_nonempty: "load_file w path = Some buff \<Longrightarrow> buff \<noteq> []"
  by (auto simp: load_file_def split: option.splits if_splits)

lemma load_all_fst: "load_all w m n = (m', eraser, n') \<Longrightarrow> map fst m' = map fst m"
  by (induction w m n arbitrary: m' eraser n' rule: load_all.induct)
     (auto split: prod.splits if_splits)

definition loadable :: "world \<Rightarrow> string \<Rightarrow> bool" where
  "loadable w name = fst (pb_load w name (new_policy_base INIT_WORK) 0)"

definition loaded :: "world \<Rightarrow> string \<Rightarrow> policy_base" where
  "loaded w name = fst (snd (pb_load w name (new_policy_base INIT_WORK) 0))"

lemma pb_load_states: "fst (pb_load w path p n) = fst (pb_load w path p 0)"
  "fst (snd (pb_load w path p n)) = fst (snd (pb_load w path p 0))"
  by (auto simp: pb_load_def Let_def split: option.split)

lemma load_all_conv:
  "load_all w m n = (m', eraser, n') \<Longrightarrow>
     m' = map (\<lambda>e. (fst e, if loadable w (fst e) then Some (loaded w (fst e)) else None)) m \<and>
     eraser = filter (\<lambda>k. \<not> loadable w k) (map fst m)"
proof (induction w m n arbitrary: m' eraser n' rule: load_all.induct)
  case (2 w name x m n)
  obtain ok p k where l: "pb_load w name (new_policy_base INIT_WORK) n = (ok, p, k)" by (metis prod_cases3)
  obtain m1 e1 k1 where r: "load_all w m k = (m1, e1, k1)" by (metis prod_cases3)
  from l pb_load_states [of w name "new_policy_base INIT_WORK" n]
  have ok: "ok = loadable w name" "p = loaded w name" by (simp_all add: loadable_def loaded_def)
  from 2(1) [OF l [symmetric] refl r] 2(2) l r ok show ?case by (auto split: if_splits)
qed simp

lemma erase_unloadable:
  "fold om_erase ks m = filter (\<lambda>e. fst e \<notin> set ks) m"
  by (induction ks arbitrary: m) (auto simp: om_erase_def conj_commute intro: filter_cong)

definition plugin_names :: "world \<Rightarrow> string list \<Rightarrow> string list" where
  "plugin_names w strs = map (plugin_path w) (concat (map (\<lambda>str. split_names (c_str str)) strs))"

lemma insert_load_fold:
  "fold (\<lambda>name. insert_plugins_name (plugin_path w name)) ns s
     = s\<lparr>ps_map := fold (\<lambda>k. om_insert k None) (map (plugin_path w) ns) (ps_map s)\<rparr>"
  by (induction ns arbitrary: s) (simp_all add: insert_plugins_name_def)

lemma insert_load_many:
  "fold (globle_func_insert_load w) strs s
     = s\<lparr>ps_map := fold (\<lambda>k. om_insert k None) (plugin_names w strs) (ps_map s)\<rparr>"
  by (induction strs arbitrary: s)
     (simp_all add: globle_func_insert_load_def insert_load_fold plugin_names_def)

lemma om_lookup_loaded:
  "om_lookup (filter (\<lambda>e. P (fst e)) (map (\<lambda>e. (fst e, f (fst e))) m)) k
       = (if P k \<and> k \<in> fst ` set m then Some (f k) else None)"
  by (induction m) auto

text \<open>The map with the names the main script registers, and what a successful
  \<^verbatim>\<open>init\<close> leaves behind.\<close>

definition registered :: "world \<Rightarrow> policy_base \<Rightarrow> (string, policy_base option) omap \<Rightarrow> (string, policy_base option) omap" where
  "registered w origin m = fold (\<lambda>k. om_insert k None) (plugin_names w (snd (w_init_call w (pb_buff origin)))) m"

lemma registered_inv: "om_inv m \<Longrightarrow> om_inv (registered w origin m)"
  unfolding registered_def by (rule om.invar_insert_many)

lemma registered_keys:
  "k \<in> fst ` set (registered w origin []) \<longleftrightarrow> k \<in> set (plugin_names w (snd (w_init_call w (pb_buff origin))))"
proof -
  have "k \<in> fst ` set (registered w origin []) \<longleftrightarrow> om_lookup (registered w origin []) k \<noteq> None"
    by (simp add: map_of_eq_None_iff)
  then show ?thesis unfolding registered_def om.lookup_insert_many [OF om_inv_Nil] by simp
qed

lemma server_init_True:
  assumes "server_init w s n = (Inr True, s', n')"
  shows "\<exists>origin. ps_origin s' = Some origin \<and> pb_version origin \<noteq> [] \<and>
           ps_map s' = filter (\<lambda>e. loadable w (fst e))
             (map (\<lambda>e. (fst e, Some (loaded w (fst e)))) (registered w origin (ps_map s)))"
proof -
  obtain ok origin n1 where l: "pb_load w (get_app_path w @ ''main.lua'') (new_policy_base INIT_WHOLE) n = (ok, origin, n1)"
    by (metis prod_cases3)
  obtain lu n2 where c: "clone_one w origin n1 = (lu, n2)" by fastforce
  obtain called strs where i: "w_init_call w (pb_buff origin) = (called, strs)" by fastforce
  define m where "m = registered w origin (ps_map s)"
  obtain m1 eraser n3 where la: "load_all w m n2 = (m1, eraser, n3)" by (metis prod_cases3)
  from assms(1) l c i la have s': "s' = s\<lparr>ps_origin := Some origin, ps_map := fold om_erase eraser m1\<rparr>" and ok: ok
    by (auto simp: server_init_def insert_load_many m_def registered_def Let_def split: if_splits option.splits)
  have m1: "m1 = map (\<lambda>e. (fst e, if loadable w (fst e) then Some (loaded w (fst e)) else None)) m"
    and eraser: "eraser = filter (\<lambda>k. \<not> loadable w k) (map fst m)"
    using load_all_conv [OF la] by simp_all
  have "fold om_erase eraser m1 = filter (\<lambda>e. loadable w (fst e)) (map (\<lambda>e. (fst e, Some (loaded w (fst e)))) m)"
    unfolding erase_unloadable m1 eraser filter_map by (auto intro!: filter_cong map_cong) force
  moreover have "pb_version origin \<noteq> []" using pb_load_cases [OF l] ok by auto
  ultimately show ?thesis using s' m_def by auto
qed

lemma loadedD:
  assumes "loadable w k"
  shows "pb_version (loaded w k) \<noteq> []" "pb_name (loaded w k) = k" "load_file w k = Some (pb_buff (loaded w k))"
proof -
  obtain ok p n where l: "pb_load w k (new_policy_base INIT_WORK) 0 = (ok, p, n)" by (metis prod_cases3)
  with assms have ok and p: "p = loaded w k" by (simp_all add: loadable_def loaded_def)
  with pb_load_cases [OF l] show "pb_version (loaded w k) \<noteq> []" "pb_name (loaded w k) = k"
    "load_file w k = Some (pb_buff (loaded w k))" by auto
qed

section \<open>Selecting policies\<close>

lemma count_hits_conv:
  "list_all (\<lambda>e. snd e \<noteq> None) m \<Longrightarrow>
     count_hits tr m = Inr (length (filter (\<lambda>e. hit_trigger tr (pb_triggle (the (snd e)))) m))"
  by (induction tr m rule: count_hits.induct) auto

lemma count_hits_null: "(k, None) \<in> set m \<Longrightarrow> count_hits tr m = Inl Out_of_range"
  by (induction tr m rule: count_hits.induct) auto

lemma policy_selected_conv:
  "snd e \<noteq> None \<Longrightarrow> fst e \<noteq> [] \<Longrightarrow> trigger \<noteq> [] \<Longrightarrow>
     policy_selected trigger e \<longleftrightarrow> hit_trigger (trigger_base trigger) (pb_triggle (the (snd e)))"
  by (cases e) (auto simp: policy_selected_def split: option.splits)

lemma policy_selected_iff:
  "policy_selected trigger (k, e) \<longleftrightarrow>
     (\<exists>p. e = Some p \<and> k \<noteq> [] \<and> (trigger = [] \<or> hit_trigger (trigger_base trigger) (pb_triggle p)))"
  by (simp add: policy_selected_def split: option.split)

lemma get_policys_count:
  assumes "\<forall>e \<in> set (ps_map s). snd e \<noteq> None \<and> fst e \<noteq> []"
  shows "get_policy_count trigger s = Inr (length (snd (get_policys trigger s)))"
proof (cases "trigger = []")
  case True
  with assms have "filter (policy_selected trigger) (ps_map s) = ps_map s"
    by (auto simp: filter_id_conv policy_selected_def split: option.splits)
  with True show ?thesis by (auto simp: get_policy_count_def get_policys_def Let_def)
next
  case False
  with assms have "filter (policy_selected trigger) (ps_map s)
      = filter (\<lambda>e. hit_trigger (trigger_base trigger) (pb_triggle (the (snd e)))) (ps_map s)"
    by (intro filter_cong) (auto simp: policy_selected_conv)
  with False assms show ?thesis
    by (auto simp: get_policy_count_def get_policys_def Let_def count_hits_conv list_all_iff)
qed

section \<open>Properties\<close>

text \<open>C21: Starting the policy server.  If \<^verbatim>\<open>init\<close> succeeds on an empty policy map, the
  entries are exactly the plugin paths that the main script registered and that load; none
  is null, each carries its own path, a version and the content of its file.\<close>

theorem server_init_loaded:
  assumes "server_init w \<lparr>ps_origin = None, ps_map = []\<rparr> n = (Inr True, s', n')"
  shows "\<exists>origin. ps_origin s' = Some origin \<and>
           (\<forall>k e. om_lookup (ps_map s') k = Some e \<longleftrightarrow>
              k \<in> set (plugin_names w (snd (w_init_call w (pb_buff origin)))) \<and> loadable w k \<and> e = Some (loaded w k)) \<and>
           (\<forall>k e. om_lookup (ps_map s') k = Some e \<longrightarrow>
              (\<exists>p. e = Some p \<and> pb_version p \<noteq> [] \<and> pb_name p = k \<and> load_file w k = Some (pb_buff p)))"
proof -
  obtain origin where o: "ps_origin s' = Some origin" and
    s': "ps_map s' = filter (\<lambda>e. loadable w (fst e)) (map (\<lambda>e. (fst e, Some (loaded w (fst e)))) (registered w origin []))"
    using server_init_True [OF assms] by auto
  have "om_lookup (ps_map s') k = (if loadable w k \<and> k \<in> fst ` set (registered w origin []) then Some (Some (loaded w k)) else None)" for k
    unfolding s' by (rule om_lookup_loaded)
  with registered_keys o loadedD show ?thesis by (auto split: if_splits)
qed

definition demo_world :: world where
  "demo_world = \<lparr>w_file = (\<lambda>f. if f = ''/main.lua'' then Some ''M'' else if f = ''/a.lua'' then Some ''A'' else None),
     w_module_path = ''/scan'', w_newstate = True,
     w_run = (\<lambda>b. Some (\<lambda>g. if g = ''GLOBLE_VERSION'' then Some ''1'' else if g = ''GLOBLE_TRIGGER_TYPE'' then Some ''once'' else None)),
     w_init_call = (\<lambda>b. (True, [''b.lua<|>a.lua'']))\<rparr>"

definition demo_server :: policy_server where
  "demo_server = \<lparr>ps_origin = Some \<lparr>pb_version = ''1'', pb_union_id = [], pb_triggle = ''once'',
       pb_name = ''/main.lua'', pb_type = INIT_WHOLE, pb_buff = ''M''\<rparr>,
     ps_map = [(''/a.lua'', Some \<lparr>pb_version = ''1'', pb_union_id = [], pb_triggle = ''once'',
       pb_name = ''/a.lua'', pb_type = INIT_WORK, pb_buff = ''A''\<rparr>)]\<rparr>"

lemma demo_init: "server_init demo_world \<lparr>ps_origin = None, ps_map = []\<rparr> 0 = (Inr True, demo_server, 1)"
  by code_simp

theorem server_init_loaded_witness:
  "\<exists>p. om_lookup (ps_map demo_server) ''/a.lua'' = Some (Some p) \<and> pb_version p \<noteq> []"
proof -
  have "om_lookup (ps_map demo_server) ''/a.lua'' \<noteq> None" by code_simp
  then obtain e where "om_lookup (ps_map demo_server) ''/a.lua'' = Some e" by blast
  with server_init_loaded [OF demo_init] show ?thesis by blast
qed



text \<open>C32: Loading one policy.  \<^verbatim>\<open>load\<close> either succeeds, and then the policy has the path
  as its name, the content of the file and a version, and every Lua state it opened is closed;
  or it fails, and then version, union id, trigger and buffer are empty.  But a failure after
  the interpreter was started leaves one Lua state open, and a missing trigger is not a failure
  although the code tests for it (it tests the version again): the policy loads and no trigger
  can ever hit it.\<close>

theorem pb_load_outcome:
  assumes "pb_load w path p n = (ok, p', n')"
  shows "(ok \<longrightarrow> load_file w path = Some (pb_buff p') \<and> pb_name p' = path \<and> pb_version p' \<noteq> [] \<and> n' = n)
       \<and> (\<not> ok \<longrightarrow> pb_empty p' \<and> pb_version p' = [] \<and> pb_union_id p' = [] \<and> pb_triggle p' = [] \<and> pb_name p' = pb_name p)
       \<and> (\<not> ok \<and> load_file w path \<noteq> None \<and> w_newstate w \<longrightarrow> n' = n + 1)
       \<and> (ok \<and> pb_triggle p' = [] \<longrightarrow> (\<forall>t. \<not> hit_trigger (trigger_base t) (pb_triggle p')))"
proof -
  have "names [] = []" by (simp add: names_def)
  then show ?thesis
    using pb_load_cases [OF assms] assms
    by (auto simp: pb_empty_def pb_clear_def hit_trigger_names pb_load_def Let_def split: option.splits if_splits)
qed

theorem pb_load_outcome_witness:
  "pb_name (loaded demo_world ''/a.lua'') = ''/a.lua''"
proof -
  have "pb_load demo_world ''/a.lua'' (new_policy_base INIT_WORK) 0 = (True, loaded demo_world ''/a.lua'', 0)"
    by code_simp
  from pb_load_outcome [OF this] show ?thesis by simp
qed

end
