(* ===== verification/TaskData.thy ===== *)
theory TaskData
  imports HttpUrl Trigger Cookie
begin

text \<open>
  The task data of \<^verbatim>\<open>src/scaner_test/task_data.cpp\<close>: the start parameters of a scan, the
  map of URLs of one scan (\<^verbatim>\<open>task_map\<close>) and the list of running scans.

  A \<^verbatim>\<open>shared_ptr\<close> to a URL entry is the number of the entry: the map and the threads that
  work on the entry see the same object.  \<open>tm_running_url_count\<close> is the mathematical
  counter; where the code compares it as a \<^verbatim>\<open>size_t\<close> it is taken modulo the word size.  The mutexes make each operation of \<open>task_map\<close> on
  its maps atomic; \<open>task_step\<close> interleaves whole operations, and the races of the
  unprotected counters are the subject of \<open>TaskRace\<close>.  \<^verbatim>\<open>format_url_params\<close> is
  declared in the sources and defined nowhere, so it is a parameter.
\<close>

section \<open>The start of a task\<close>

record task_start =
  ts_main_url :: string
  ts_domain_sub_level_min :: nat
  ts_ttl_max :: nat
  ts_base_head :: string
  ts_base_trigger :: string
  ts_running_trigger :: string
  ts_running_cookie :: string
  ts_running_head :: string

definition new_task_start :: "string \<Rightarrow> string \<Rightarrow> string \<Rightarrow> task_start" where
  "new_task_start url head trigger =
     \<lparr>ts_main_url = url, ts_domain_sub_level_min = 2, ts_ttl_max = 65535, ts_base_head = head,
      ts_base_trigger = trigger, ts_running_trigger = [], ts_running_cookie = [], ts_running_head = []\<rparr>"

definition task_start_clear :: "task_start \<Rightarrow> task_start" where
  "task_start_clear s =
     s\<lparr>ts_main_url := [], ts_base_head := [], ts_base_trigger := [], ts_running_trigger := [],
       ts_running_cookie := [], ts_running_head := [], ts_ttl_max := 65535, ts_domain_sub_level_min := 2\<rparr>"

definition update_running_cookie :: "string \<Rightarrow> task_start \<Rightarrow> task_start" where
  "update_running_cookie cookie s = s\<lparr>ts_running_cookie := cookie\<rparr>"

definition get_running_cookie :: "task_start \<Rightarrow> string" where
  "get_running_cookie s = ts_running_cookie s"

text \<open>\<open>date\<close> is the printed date.\<close>

definition make_union_id :: "string \<Rightarrow> string \<Rightarrow> string" where
  "make_union_id date url = get_domain url @ date"

definition format_start :: "task_start \<Rightarrow> task_start" where
  "format_start s =
     (let s = s\<lparr>ts_main_url := format_url (ts_main_url s)\<rparr>;
          s = s\<lparr>ts_base_head := format_head (ts_base_head s)\<rparr>;
          s = s\<lparr>ts_base_trigger := format_trigger1 (ts_base_trigger s)\<rparr>;
          s = s\<lparr>ts_running_trigger := ts_base_trigger s\<rparr>;
          s = s\<lparr>ts_running_head := ts_base_head s\<rparr>;
          s = s\<lparr>ts_running_cookie := get_new_cookie (ts_running_head s) []\<rparr>
      in if ts_domain_sub_level_min s = 0 \<or> 255 < ts_domain_sub_level_min s
         then s\<lparr>ts_domain_sub_level_min := 2\<rparr> else s)"

section \<open>The URLs of a task\<close>

type_synonym params = "(string, string) omap"

record task_url =
  tu_url_origin :: string
  tu_url_refrence :: string
  tu_running_trigger :: string
  tu_running_thread :: int
  tu_post :: bool
  tu_params :: params

datatype err_page_type = Basic_404 | Self_200 | Main_Page

record task_err_page =
  ep_recv_data :: "nat list"
  ep_failed_type :: err_page_type

record task_result =
  tr_vul_url :: string
  tr_vul_id :: string
  tr_vul_message :: string
  tr_url_data :: "nat list"

record task_map =
  tm_union_id :: string
  tm_next_no :: nat
  tm_next_work_no :: nat
  tm_finished_no :: nat
  tm_running_url_count :: int
  tm_url_no_map :: "string \<rightharpoonup> nat"
  tm_no_url_map :: "nat \<rightharpoonup> string"
  tm_url_list :: "nat \<rightharpoonup> task_url"
  tm_result_list :: "nat \<rightharpoonup> task_result list"
  tm_err_page :: task_err_page

definition running_url_max :: nat where
  "running_url_max = 30"

definition new_task_url :: "string \<Rightarrow> task_url" where
  "new_task_url url = \<lparr>tu_url_origin = url, tu_url_refrence = [], tu_running_trigger = [],
     tu_running_thread = -2, tu_post = False, tu_params = []\<rparr>"

definition new_task_err_page :: task_err_page where
  "new_task_err_page = \<lparr>ep_recv_data = [], ep_failed_type = Basic_404\<rparr>"

definition set_err_page :: "err_page_type \<Rightarrow> nat list \<Rightarrow> task_err_page \<Rightarrow> task_err_page" where
  "set_err_page ty data p = p\<lparr>ep_failed_type := ty, ep_recv_data := data\<rparr>"

definition new_task_map :: "string \<Rightarrow> task_map" where
  "new_task_map union_id = \<lparr>tm_union_id = union_id, tm_next_no = 0, tm_next_work_no = 0, tm_finished_no = 0,
     tm_running_url_count = 0, tm_url_no_map = Map.empty, tm_no_url_map = Map.empty, tm_url_list = Map.empty,
     tm_result_list = Map.empty, tm_err_page = new_task_err_page\<rparr>"

text \<open>The common part of the insertions: a number is drawn even when the URL is known.\<close>

definition insert_entry :: "task_url \<Rightarrow> task_map \<Rightarrow> task_map" where
  "insert_entry u m =
     (let no = tm_next_no m; m = m\<lparr>tm_next_no := no + 1\<rparr> in
      case tm_url_no_map m (tu_url_origin u) of
        Some _ \<Rightarrow> m
      | None \<Rightarrow> m\<lparr>tm_url_no_map := (tm_url_no_map m)(tu_url_origin u \<mapsto> no),
                  tm_no_url_map := (tm_no_url_map m)(no \<mapsto> tu_url_origin u),
                  tm_url_list := (tm_url_list m)(no \<mapsto> u)\<rparr>)"

definition insert_new_url :: "(string \<Rightarrow> params \<Rightarrow> string \<times> params) \<Rightarrow> task_url \<Rightarrow> task_map \<Rightarrow> bool \<times> task_map" where
  "insert_new_url format_url_params u m =
     (let (url, prm) = format_url_params (tu_url_origin u) (tu_params u)
      in (True, insert_entry (u\<lparr>tu_url_origin := url, tu_params := prm\<rparr>) m))"

definition insert_new_urls :: "(string \<Rightarrow> params \<Rightarrow> string \<times> params) \<Rightarrow> string list \<Rightarrow> task_map \<Rightarrow> bool \<times> task_map" where
  "insert_new_urls fup urls m =
     (if urls = [] then (False, m)
      else fold (\<lambda>url (b, m). case insert_new_url fup (new_task_url url) m of (b', m) \<Rightarrow> (b' \<or> b, m)) urls (False, m))"

definition insert_new_url_params ::
  "(string \<Rightarrow> params \<Rightarrow> string \<times> params) \<Rightarrow> string \<Rightarrow> params \<Rightarrow> string \<Rightarrow> bool \<Rightarrow> task_map \<Rightarrow> fault + task_map" where
  "insert_new_url_params fup page prm url_ref post m =
     (if page = [] then Inl Assert_failed
      else let (page, prm) = fup page prm
           in Inr (insert_entry ((new_task_url page)\<lparr>tu_post := post, tu_params := prm, tu_url_refrence := url_ref\<rparr>) m))"

definition get_one_url :: "nat \<Rightarrow> task_map \<Rightarrow> task_url option" where
  "get_one_url no m = tm_url_list m no"

function fresh_loop :: "task_map \<Rightarrow> nat option \<times> task_map" where
  "fresh_loop m =
     (if tm_next_work_no m < tm_next_no m then
        let no = tm_next_work_no m; m = m\<lparr>tm_next_work_no := no + 1\<rparr> in
        case get_one_url no m of
          Some u \<Rightarrow> if tu_running_thread u = -2
                    then (Some no, m\<lparr>tm_running_url_count := tm_running_url_count m + 1\<rparr>)
                    else fresh_loop m
        | None \<Rightarrow> fresh_loop m
      else (None, m))"
  by pat_completeness auto
termination by (relation "measure (\<lambda>m. tm_next_no m - tm_next_work_no m)") auto

declare fresh_loop.simps [simp del]

definition fresh_one_url :: "task_map \<Rightarrow> nat option \<times> task_map" where
  "fresh_one_url m =
     (if tm_next_no m \<le> tm_next_work_no m \<or> to_size_t (tm_running_url_count m) \<ge> running_url_max then (None, m)
      else fresh_loop m)"

text \<open>\<^verbatim>\<open>url_point->running_thread = policy_list.size() + 1\<close> of \<^verbatim>\<open>task_work\<close>.\<close>

definition set_running_thread :: "nat \<Rightarrow> int \<Rightarrow> task_map \<Rightarrow> task_map" where
  "set_running_thread no v m =
     m\<lparr>tm_url_list := (tm_url_list m)(no := map_option (\<lambda>u. u\<lparr>tu_running_thread := v\<rparr>) (tm_url_list m no))\<rparr>"

text \<open>The loop of \<^verbatim>\<open>test_task_finished_quit\<close>: \<open>True\<close> when it runs to the end.\<close>

function quit_loop :: "nat \<Rightarrow> task_map \<Rightarrow> bool \<times> task_map" where
  "quit_loop i m =
     (if i < tm_next_no m then
        (case get_one_url i m of
           None \<Rightarrow> quit_loop (i + 1) m
         | Some u \<Rightarrow>
             if tu_running_thread u \<noteq> -1 then (False, m)
             else quit_loop (i + 1) (if i > tm_finished_no m then m\<lparr>tm_finished_no := i\<rparr> else m))
      else (True, m))"
  by pat_completeness auto
termination by (relation "measure (\<lambda>(i, m). tm_next_no m - i)") auto

declare quit_loop.simps [simp del]

definition test_task_finished_quit :: "task_map \<Rightarrow> bool \<times> task_map" where
  "test_task_finished_quit m = quit_loop (tm_finished_no m) m"

text \<open>\<^verbatim>\<open>finished_one_url\<close>; the first component tells that the task is reported finished.\<close>

definition finished_one_url :: "nat \<Rightarrow> task_map \<Rightarrow> bool \<times> task_map" where
  "finished_one_url no m =
     (case tm_url_list m no of
        None \<Rightarrow> (False, m)
      | Some u \<Rightarrow>
          let t = tu_running_thread u - 1;
              t = (if t \<le> 0 then -1 else t);
              m = set_running_thread no t m
          in if t = -1 then test_task_finished_quit (m\<lparr>tm_running_url_count := tm_running_url_count m - 1\<rparr>)
             else (False, m))"

definition is_url_empty :: "task_map \<Rightarrow> bool" where
  "is_url_empty m \<longleftrightarrow> tm_next_work_no m \<ge> tm_next_no m"

definition url_list_remain :: "task_map \<Rightarrow> int" where
  "url_list_remain m =
     min (to_int (int (tm_next_no m) - int (tm_next_work_no m))) (to_int (int running_url_max - tm_running_url_count m))"

definition insert_result :: "nat \<Rightarrow> task_result \<Rightarrow> task_map \<Rightarrow> fault + (bool \<times> task_map)" where
  "insert_result no r m =
     (if no \<ge> tm_next_no m then Inr (False, m)
      else if tm_no_url_map m no = None then Inl Assert_failed
      else Inr (True, m\<lparr>tm_result_list := (tm_result_list m)
             (no \<mapsto> (case tm_result_list m no of None \<Rightarrow> [] | Some rs \<Rightarrow> rs) @ [r])\<rparr>))"

section \<open>The list of tasks\<close>

text \<open>An entry is the task object (a handle) with its union id.\<close>

type_synonym task_map_list = "(nat \<times> string) list"

definition list_insert_new :: "nat \<times> string \<Rightarrow> task_map_list \<Rightarrow> bool \<times> task_map_list" where
  "list_insert_new t l = (if snd t = [] then (False, l) else (True, l @ [t]))"

fun list_finished_one :: "string \<Rightarrow> task_map_list \<Rightarrow> nat option \<times> task_map_list" where
  "list_finished_one uid [] = (None, [])"
| "list_finished_one uid ((h, uid') # l) =
     (if uid' = uid then (Some h, l)
      else case list_finished_one uid l of (r, l) \<Rightarrow> (r, (h, uid') # l))"

section \<open>Invariant of the URL map\<close>

text \<open>An entry is active when it was handed out and is not finished.\<close>

definition active :: "task_map \<Rightarrow> nat \<Rightarrow> bool" where
  "active m no \<longleftrightarrow> no < tm_next_work_no m \<and>
     (case tm_url_list m no of None \<Rightarrow> False | Some u \<Rightarrow> tu_running_thread u \<noteq> -1)"

definition finished :: "task_map \<Rightarrow> nat \<Rightarrow> bool" where
  "finished m no \<longleftrightarrow> (case tm_url_list m no of None \<Rightarrow> True | Some u \<Rightarrow> tu_running_thread u = -1)"

definition maps_ok :: "task_map \<Rightarrow> bool" where
  "maps_ok m \<longleftrightarrow>
     (\<forall>url no. tm_url_no_map m url = Some no \<longleftrightarrow> tm_no_url_map m no = Some url) \<and>
     (\<forall>no. map_option tu_url_origin (tm_url_list m no) = tm_no_url_map m no) \<and>
     (\<forall>no. tm_url_list m no \<noteq> None \<longrightarrow> no < tm_next_no m)"

definition threads_ok :: "task_map \<Rightarrow> bool" where
  "threads_ok m \<longleftrightarrow>
     (\<forall>no u. tm_url_list m no = Some u \<longrightarrow>
        (if no < tm_next_work_no m then tu_running_thread u = -2 \<or> tu_running_thread u = -1 \<or> 1 \<le> tu_running_thread u
         else tu_running_thread u = -2))"

definition count_ok :: "task_map \<Rightarrow> bool" where
  "count_ok m \<longleftrightarrow> tm_running_url_count m = int (card {no. active m no}) \<and> tm_running_url_count m \<le> int running_url_max"

definition done_ok :: "task_map \<Rightarrow> bool" where
  "done_ok m \<longleftrightarrow> (\<forall>no < tm_finished_no m. finished m no) \<and> tm_finished_no m \<le> tm_next_no m"

definition task_inv :: "task_map \<Rightarrow> bool" where
  "task_inv m \<longleftrightarrow> maps_ok m \<and> threads_ok m \<and> count_ok m \<and> done_ok m \<and> tm_next_work_no m \<le> tm_next_no m"

lemmas task_inv_defs = maps_ok_def threads_ok_def count_ok_def done_ok_def task_inv_def

lemma active_finite [simp]: "finite {no. active m no}"
  by (rule finite_subset [of _ "{..< tm_next_work_no m}"]) (auto simp: active_def)

lemma task_inv_new: "task_inv (new_task_map uid)"
  by (simp add: task_inv_defs new_task_map_def active_def)

subsection \<open>Inserting\<close>

lemma insert_entry_known:
  "tm_url_no_map m (tu_url_origin u) = Some n \<Longrightarrow> insert_entry u m = m\<lparr>tm_next_no := tm_next_no m + 1\<rparr>"
  by (simp add: insert_entry_def)

lemma insert_entry_new:
  "tm_url_no_map m (tu_url_origin u) = None \<Longrightarrow>
     insert_entry u m = m\<lparr>tm_next_no := tm_next_no m + 1,
       tm_url_no_map := (tm_url_no_map m)(tu_url_origin u \<mapsto> tm_next_no m),
       tm_no_url_map := (tm_no_url_map m)(tm_next_no m \<mapsto> tu_url_origin u),
       tm_url_list := (tm_url_list m)(tm_next_no m \<mapsto> u)\<rparr>"
  by (simp add: insert_entry_def Let_def)

lemma insert_entry_frame:
  "tm_next_work_no (insert_entry u m) = tm_next_work_no m"
  "tm_finished_no (insert_entry u m) = tm_finished_no m"
  "tm_running_url_count (insert_entry u m) = tm_running_url_count m"
  "tm_next_no (insert_entry u m) = tm_next_no m + 1"
  "no \<noteq> tm_next_no m \<Longrightarrow> tm_url_list (insert_entry u m) no = tm_url_list m no"
  "tm_url_list (insert_entry u m) no = Some v \<Longrightarrow> tm_url_list m no = Some v \<or> no = tm_next_no m \<and> v = u"
  by (cases "tm_url_no_map m (tu_url_origin u)"; simp add: insert_entry_known insert_entry_new split: if_splits)+

lemma maps_okD:
  assumes "maps_ok m"
  shows "tm_url_no_map m url = Some no \<longleftrightarrow> tm_no_url_map m no = Some url"
    and "map_option tu_url_origin (tm_url_list m no) = tm_no_url_map m no"
    and "tm_url_list m no \<noteq> None \<Longrightarrow> no < tm_next_no m"
  using assms by (simp_all add: maps_ok_def)

lemma maps_okI:
  assumes "\<And>url no. tm_url_no_map m url = Some no \<longleftrightarrow> tm_no_url_map m no = Some url"
    and "\<And>no. map_option tu_url_origin (tm_url_list m no) = tm_no_url_map m no"
    and "\<And>no. tm_url_list m no \<noteq> None \<Longrightarrow> no < tm_next_no m"
  shows "maps_ok m"
  unfolding maps_ok_def using assms by (intro conjI allI impI)

lemma maps_ok_next:
  assumes "maps_ok m"
  shows "tm_url_list m (tm_next_no m) = None" and "tm_no_url_map m (tm_next_no m) = None"
proof -
  show *: "tm_url_list m (tm_next_no m) = None" using maps_okD(3) [OF assms, of "tm_next_no m"] by blast
  show "tm_no_url_map m (tm_next_no m) = None" using maps_okD(2) [OF assms, of "tm_next_no m"] * by simp
qed

lemma insert_entry_maps:
  assumes "maps_ok m"
  shows "maps_ok (insert_entry u m)"
proof (cases "tm_url_no_map m (tu_url_origin u)")
  case (Some n)
  then show ?thesis
    unfolding insert_entry_known [OF Some]
    by (intro maps_okI) (simp_all add: maps_okD(1,2) [OF assms] maps_okD(3) [OF assms] less_SucI)
next
  case None
  have unused: "tm_no_url_map m no \<noteq> Some (tu_url_origin u)" for no
    using maps_okD(1) [OF assms, of "tu_url_origin u" no] None by simp
  show ?thesis
  proof (rule maps_okI)
    fix url no
    show "tm_url_no_map (insert_entry u m) url = Some no \<longleftrightarrow> tm_no_url_map (insert_entry u m) no = Some url"
      unfolding insert_entry_new [OF None]
      using None maps_ok_next(2) [OF assms] unused [of no] maps_okD(1) [OF assms, of url no]
        maps_okD(1) [OF assms, of url "tm_next_no m"]
      by (cases "url = tu_url_origin u"; cases "no = tm_next_no m") auto
  next
    fix no
    show "map_option tu_url_origin (tm_url_list (insert_entry u m) no) = tm_no_url_map (insert_entry u m) no"
      unfolding insert_entry_new [OF None] using maps_okD(2) [OF assms, of no] by simp
    show "no < tm_next_no (insert_entry u m)" if "tm_url_list (insert_entry u m) no \<noteq> None"
      using that maps_okD(3) [OF assms, of no] unfolding insert_entry_new [OF None] by (cases "no = tm_next_no m") auto
  qed
qed

lemma insert_entry_active: "tm_next_work_no m \<le> tm_next_no m \<Longrightarrow> active (insert_entry u m) = active m"
proof (rule ext)
  fix k assume "tm_next_work_no m \<le> tm_next_no m"
  then have "k < tm_next_work_no m \<Longrightarrow> tm_url_list (insert_entry u m) k = tm_url_list m k"
    by (simp add: insert_entry_frame(5))
  then show "active (insert_entry u m) k = active m k"
    by (cases "k < tm_next_work_no m") (simp_all add: active_def insert_entry_frame(1))
qed

lemma insert_entry_inv:
  assumes inv: "task_inv m" and u: "tu_running_thread u = -2"
  shows "task_inv (insert_entry u m)"
proof -
  have le: "tm_next_work_no m \<le> tm_next_no m" using inv by (simp add: task_inv_def)
  have "threads_ok (insert_entry u m)"
    unfolding threads_ok_def
  proof (intro allI impI)
    fix no v assume "tm_url_list (insert_entry u m) no = Some v"
    then consider "tm_url_list m no = Some v" | "no = tm_next_no m" "v = u"
      using insert_entry_frame(6) by blast
    then show "if no < tm_next_work_no (insert_entry u m)
        then tu_running_thread v = -2 \<or> tu_running_thread v = -1 \<or> 1 \<le> tu_running_thread v
        else tu_running_thread v = -2"
      by cases (use inv u le in \<open>simp_all add: insert_entry_frame task_inv_def threads_ok_def\<close>)
  qed
  moreover have "count_ok (insert_entry u m)"
    using inv insert_entry_active [OF le] by (simp add: task_inv_def count_ok_def insert_entry_frame)
  moreover have "done_ok (insert_entry u m)"
    using inv le by (auto simp: task_inv_def done_ok_def finished_def insert_entry_frame)
  moreover have "maps_ok (insert_entry u m)" using inv by (intro insert_entry_maps) (simp add: task_inv_def)
  ultimately show ?thesis using le by (simp add: task_inv_def insert_entry_frame)
qed

subsection \<open>Handing out\<close>

definition is_new :: "task_map \<Rightarrow> nat \<Rightarrow> bool" where
  "is_new m no \<longleftrightarrow> (case tm_url_list m no of None \<Rightarrow> False | Some u \<Rightarrow> tu_running_thread u = -2)"

lemma fresh_loop_spec:
  "fresh_loop m = (r, m') \<Longrightarrow>
     (case r of
        Some no \<Rightarrow> tm_next_work_no m \<le> no \<and> no < tm_next_no m \<and> is_new m no
          \<and> (\<forall>k. tm_next_work_no m \<le> k \<and> k < no \<longrightarrow> \<not> is_new m k)
          \<and> m' = m\<lparr>tm_next_work_no := no + 1, tm_running_url_count := tm_running_url_count m + 1\<rparr>
      | None \<Rightarrow> (\<forall>k. tm_next_work_no m \<le> k \<and> k < tm_next_no m \<longrightarrow> \<not> is_new m k)
          \<and> m' = m\<lparr>tm_next_work_no := max (tm_next_work_no m) (tm_next_no m)\<rparr>)"
proof (induction m rule: fresh_loop.induct)
  case (1 m)
  let ?m = "m\<lparr>tm_next_work_no := tm_next_work_no m + 1\<rparr>"
  show ?case
  proof (cases "tm_next_work_no m < tm_next_no m")
    case False
    with "1.prems" show ?thesis by (auto simp: fresh_loop.simps [of m] max_def)
  next
    case True
    show ?thesis
    proof (cases "is_new m (tm_next_work_no m)")
      case new: True
      with True "1.prems" show ?thesis
        by (auto simp: fresh_loop.simps [of m] is_new_def get_one_url_def Let_def split: option.splits)
    next
      case old: False
      with True "1.prems" have step: "fresh_loop ?m = (r, m')"
        by (auto simp: fresh_loop.simps [of m] is_new_def get_one_url_def Let_def split: option.splits)
      have "fresh_loop ?m = (r, m') \<Longrightarrow> ?thesis"
      proof -
        have IH: "case r of
        Some no \<Rightarrow> tm_next_work_no ?m \<le> no \<and> no < tm_next_no ?m \<and> is_new ?m no
          \<and> (\<forall>k. tm_next_work_no ?m \<le> k \<and> k < no \<longrightarrow> \<not> is_new ?m k)
          \<and> m' = ?m\<lparr>tm_next_work_no := no + 1, tm_running_url_count := tm_running_url_count ?m + 1\<rparr>
      | None \<Rightarrow> (\<forall>k. tm_next_work_no ?m \<le> k \<and> k < tm_next_no ?m \<longrightarrow> \<not> is_new ?m k)
          \<and> m' = ?m\<lparr>tm_next_work_no := max (tm_next_work_no ?m) (tm_next_no ?m)\<rparr>"
          using 1(1,2) True old step
          by (cases "tm_url_list m (tm_next_work_no m)") (auto simp: get_one_url_def is_new_def)
        have ext: "tm_next_work_no m \<le> k \<Longrightarrow> k = tm_next_work_no m \<or> tm_next_work_no ?m \<le> k" for k by auto
        from IH True old show ?thesis
          by (cases r) (auto simp: is_new_def max_def dest!: ext)
      qed
      with step show ?thesis by blast
    qed
  qed
qed

lemma fresh_one_url_cases:
  assumes "fresh_one_url m = (r, m')"
  shows "(r = None \<and> m' = m) \<or> fresh_loop m = (r, m') \<and> to_size_t (tm_running_url_count m) < running_url_max"
  using assms by (auto simp: fresh_one_url_def split: if_splits)

lemma active_next_work:
  assumes "\<forall>k. tm_next_work_no m \<le> k \<and> k < n \<longrightarrow> tm_url_list m k = None" "tm_next_work_no m \<le> n"
  shows "active (m\<lparr>tm_next_work_no := n\<rparr>) = active m"
proof (rule ext)
  fix k
  show "active (m\<lparr>tm_next_work_no := n\<rparr>) k = active m k"
    using assms by (cases "k < tm_next_work_no m") (auto simp: active_def split: option.splits)
qed

lemma inv_is_new:
  "task_inv m \<Longrightarrow> tm_next_work_no m \<le> k \<Longrightarrow> is_new m k \<longleftrightarrow> tm_url_list m k \<noteq> None"
  by (auto simp: task_inv_def threads_ok_def is_new_def split: option.splits)

lemma inv_count_bounds: "task_inv m \<Longrightarrow> to_size_t (tm_running_url_count m) = nat (tm_running_url_count m)
    \<and> 0 \<le> tm_running_url_count m \<and> tm_running_url_count m \<le> 30"
  by (auto simp: task_inv_def count_ok_def running_url_max_def to_size_t_def)

lemma threads_ok_next:
  assumes "threads_ok m" "tm_next_work_no m \<le> n"
  shows "threads_ok (m\<lparr>tm_next_work_no := n\<rparr>)"
  unfolding threads_ok_def
proof (intro allI impI)
  fix k u assume "tm_url_list (m\<lparr>tm_next_work_no := n\<rparr>) k = Some u"
  then have "if k < tm_next_work_no m
      then tu_running_thread u = -2 \<or> tu_running_thread u = -1 \<or> 1 \<le> tu_running_thread u
      else tu_running_thread u = -2"
    using assms(1) by (simp add: threads_ok_def)
  then show "if k < tm_next_work_no (m\<lparr>tm_next_work_no := n\<rparr>)
      then tu_running_thread u = -2 \<or> tu_running_thread u = -1 \<or> 1 \<le> tu_running_thread u
      else tu_running_thread u = -2"
    using assms(2) by (auto split: if_splits)
qed

lemma threads_ok_count: "threads_ok (m\<lparr>tm_running_url_count := c\<rparr>) = threads_ok m"
  by (simp add: threads_ok_def)

lemma active_hand_out:
  assumes "\<forall>k. tm_next_work_no m \<le> k \<and> k < no \<longrightarrow> tm_url_list m k = None" "tm_next_work_no m \<le> no" "is_new m no"
  shows "{k. active (m\<lparr>tm_next_work_no := no + 1, tm_running_url_count := c\<rparr>) k} = insert no {k. active m k}"
proof -
  have "active (m\<lparr>tm_next_work_no := no + 1, tm_running_url_count := c\<rparr>) k \<longleftrightarrow> k = no \<or> active m k" for k
  proof (cases "k = no")
    case True
    with assms(3) show ?thesis by (auto simp: active_def is_new_def split: option.splits)
  next
    case False
    then have "active (m\<lparr>tm_next_work_no := no + 1, tm_running_url_count := c\<rparr>) k \<longleftrightarrow> active (m\<lparr>tm_next_work_no := no\<rparr>) k"
      by (auto simp: active_def)
    with False active_next_work [OF assms(1,2)] show ?thesis by simp
  qed
  then show ?thesis by auto
qed

lemma fresh_None_inv:
  assumes inv: "task_inv m" and gap: "\<forall>k. tm_next_work_no m \<le> k \<and> k < tm_next_no m \<longrightarrow> tm_url_list m k = None"
  shows "task_inv (m\<lparr>tm_next_work_no := tm_next_no m\<rparr>)"
proof -
  let ?m = "m\<lparr>tm_next_work_no := tm_next_no m\<rparr>"
  have le: "tm_next_work_no m \<le> tm_next_no m" using inv by (simp add: task_inv_def)
  have "count_ok ?m" using inv active_next_work [OF gap le] by (simp add: task_inv_def count_ok_def)
  moreover have "threads_ok ?m" using threads_ok_next inv le by (simp add: task_inv_def)
  moreover have "maps_ok ?m" using inv by (simp add: task_inv_def maps_ok_def)
  moreover have "done_ok ?m" using inv le by (auto simp: task_inv_def done_ok_def finished_def intro: less_le_trans)
  ultimately show ?thesis by (simp add: task_inv_def)
qed

lemma fresh_Some_inv:
  assumes inv: "task_inv m" and gap: "\<forall>k. tm_next_work_no m \<le> k \<and> k < no \<longrightarrow> tm_url_list m k = None"
    and no: "tm_next_work_no m \<le> no" "no < tm_next_no m" "is_new m no" and room: "tm_running_url_count m < 30"
  shows "task_inv (m\<lparr>tm_next_work_no := no + 1, tm_running_url_count := tm_running_url_count m + 1\<rparr>)"
proof -
  let ?m = "m\<lparr>tm_next_work_no := no + 1, tm_running_url_count := tm_running_url_count m + 1\<rparr>"
  have "no \<notin> {k. active m k}" using no(1) by (auto simp: active_def)
  then have "int (card {k. active ?m k}) = tm_running_url_count m + 1"
    unfolding active_hand_out [OF gap no(1,3)] using inv by (simp add: task_inv_def count_ok_def)
  then have "count_ok ?m" using room by (simp add: count_ok_def running_url_max_def)
  moreover have "threads_ok ?m"
    unfolding threads_ok_count using inv no(1) by (intro threads_ok_next) (simp_all add: task_inv_def)
  moreover have "maps_ok ?m" using inv by (simp add: task_inv_def maps_ok_def)
  moreover have "done_ok ?m" using inv no by (auto simp: task_inv_def done_ok_def finished_def)
  ultimately show ?thesis using no(2) by (simp add: task_inv_def)
qed

lemma fresh_one_url_inv:
  assumes inv: "task_inv m" and r: "fresh_one_url m = (r, m')"
  shows "task_inv m'"
proof (cases "fresh_loop m = (r, m') \<and> to_size_t (tm_running_url_count m) < running_url_max")
  case False
  with fresh_one_url_cases [OF r] inv show ?thesis by blast
next
  case True
  note spec = fresh_loop_spec [OF conjunct1 [OF True]]
  have room: "tm_running_url_count m < 30"
    using True inv_count_bounds [OF inv] by (auto simp: running_url_max_def nat_less_iff)
  have le: "tm_next_work_no m \<le> tm_next_no m" using inv by (simp add: task_inv_def)
  show ?thesis
  proof (cases r)
    case None
    with spec le have "m' = m\<lparr>tm_next_work_no := tm_next_no m\<rparr>" by (simp add: max_def)
    moreover have "\<forall>k. tm_next_work_no m \<le> k \<and> k < tm_next_no m \<longrightarrow> tm_url_list m k = None"
      using spec None inv_is_new [OF inv] by (metis (no_types, lifting) option.case(1))
    ultimately show ?thesis using fresh_None_inv [OF inv] by simp
  next
    case (Some no)
    with spec have no: "tm_next_work_no m \<le> no" "no < tm_next_no m" "is_new m no"
      and old: "\<forall>k. tm_next_work_no m \<le> k \<and> k < no \<longrightarrow> \<not> is_new m k"
      and m': "m' = m\<lparr>tm_next_work_no := no + 1, tm_running_url_count := tm_running_url_count m + 1\<rparr>"
      by simp_all
    have "\<forall>k. tm_next_work_no m \<le> k \<and> k < no \<longrightarrow> tm_url_list m k = None"
      using old inv_is_new [OF inv] by blast
    from fresh_Some_inv [OF inv this no room] show ?thesis by (simp add: m')
  qed
qed

subsection \<open>Starting policies and finishing\<close>

lemma set_running_thread_active:
  assumes "active m no" and "v \<noteq> -1"
  shows "active (set_running_thread no v m) = active m"
  using assms by (intro ext) (auto simp: active_def set_running_thread_def split: option.splits)

lemma set_running_thread_inv:
  assumes inv: "task_inv m" and act: "active m no" and v: "1 \<le> v"
  shows "task_inv (set_running_thread no v m)"
proof -
  have "maps_ok (set_running_thread no v m)"
    using inv by (simp add: task_inv_def maps_ok_def set_running_thread_def option.map_comp comp_def)
  moreover have "threads_ok (set_running_thread no v m)"
    using inv act v by (auto simp: task_inv_def threads_ok_def set_running_thread_def active_def split: option.splits)
  moreover have "count_ok (set_running_thread no v m)"
    using inv set_running_thread_active [OF act, of v] v
    by (simp add: task_inv_def count_ok_def set_running_thread_def)
  moreover have "done_ok (set_running_thread no v m)"
    using inv act by (auto simp: task_inv_def done_ok_def finished_def active_def set_running_thread_def split: option.splits)
  ultimately show ?thesis using inv by (simp add: task_inv_def set_running_thread_def)
qed

definition close_entry :: "nat \<Rightarrow> task_map \<Rightarrow> task_map" where
  "close_entry no m = (set_running_thread no (-1) m)\<lparr>tm_running_url_count := tm_running_url_count m - 1\<rparr>"

lemma close_entry_inv:
  assumes inv: "task_inv m" and act: "active m no"
  shows "task_inv (close_entry no m)"
proof -
  have "active (close_entry no m) k = (active m k \<and> k \<noteq> no)" for k
    by (auto simp: active_def close_entry_def set_running_thread_def split: option.splits)
  then have set: "{k. active (close_entry no m) k} = {k. active m k} - {no}" by auto
  have "int (card {k. active (close_entry no m) k}) = int (card {k. active m k}) - 1"
  proof -
    have "0 < card {k. active m k}" using act by (auto simp: card_gt_0_iff)
    then show ?thesis unfolding set using act by (simp add: card_Diff_singleton of_nat_diff)
  qed
  then have "count_ok (close_entry no m)"
    using inv by (simp add: task_inv_def count_ok_def close_entry_def set_running_thread_def)
  moreover have "maps_ok (close_entry no m)"
    using inv by (simp add: task_inv_def maps_ok_def close_entry_def set_running_thread_def option.map_comp comp_def)
  moreover have "threads_ok (close_entry no m)"
    using inv act by (auto simp: task_inv_def threads_ok_def close_entry_def set_running_thread_def active_def split: option.splits)
  moreover have "done_ok (close_entry no m)"
    using inv by (auto simp: task_inv_def done_ok_def finished_def close_entry_def set_running_thread_def split: option.splits)
  ultimately show ?thesis using inv by (simp add: task_inv_def close_entry_def set_running_thread_def)
qed

lemma quit_loop_frame:
  "quit_loop i m = (b, m') \<Longrightarrow> \<exists>f. m' = m\<lparr>tm_finished_no := f\<rparr> \<and> tm_finished_no m \<le> f"
proof (induction i m arbitrary: b m' rule: quit_loop.induct)
  case (1 i m)
  show ?case
  proof (cases "i < tm_next_no m \<and> (case get_one_url i m of None \<Rightarrow> True | Some u \<Rightarrow> tu_running_thread u = -1)")
    case False
    with "1.prems" have "m' = m" by (auto simp: quit_loop.simps [of i m] split: option.splits if_splits)
    then show ?thesis by (intro exI [of _ "tm_finished_no m"]) simp
  next
    case True
    show ?thesis
    proof (cases "get_one_url i m")
      case None
      with True "1.prems" have "quit_loop (i + 1) m = (b, m')" by (simp add: quit_loop.simps [of i m])
      with 1(1) True None show ?thesis by blast
    next
      case (Some u)
      let ?m = "if i > tm_finished_no m then m\<lparr>tm_finished_no := i\<rparr> else m"
      from Some True "1.prems" have step: "quit_loop (i + 1) ?m = (b, m')" by (simp add: quit_loop.simps [of i m])
      from True Some have t: "i < tm_next_no m" "\<not> tu_running_thread u \<noteq> -1" by simp_all
      from 1(2) [OF t(1) Some t(2) step] obtain f where "m' = ?m\<lparr>tm_finished_no := f\<rparr>" "tm_finished_no ?m \<le> f" by blast
      then show ?thesis by (intro exI [of _ f]) (auto split: if_splits)
    qed
  qed
qed

text \<open>The loop reaches the end exactly when all remaining entries are finished, and the entries
  below the new \<open>tm_finished_no\<close> are.\<close>

lemma quit_loop_spec:
  assumes "quit_loop i m = (b, m')" and "\<forall>k < i. finished m k" and "tm_finished_no m \<le> i" and "i \<le> tm_next_no m"
  shows "(b \<longleftrightarrow> (\<forall>k < tm_next_no m. finished m k)) \<and> (\<forall>k < tm_finished_no m'. finished m k)
         \<and> tm_finished_no m' \<le> tm_next_no m"
  using assms
proof (induction "tm_next_no m - i" arbitrary: i m rule: less_induct)
  case less
  show ?case
  proof (cases "i < tm_next_no m")
    case False
    with less.prems show ?thesis by (auto simp: quit_loop.simps [of i m])
  next
    case True
    show ?thesis
    proof (cases "finished m i")
      case False
      with True less.prems have "b = False \<and> m' = m"
        by (auto simp: quit_loop.simps [of i m] finished_def get_one_url_def split: option.splits)
      with False True less.prems show ?thesis by auto
    next
      case fin: True
      let ?m = "if tm_url_list m i \<noteq> None \<and> i > tm_finished_no m then m\<lparr>tm_finished_no := i\<rparr> else m"
      from True fin less.prems(1) have step: "quit_loop (i + 1) ?m = (b, m')"
        by (auto simp: quit_loop.simps [of i m] finished_def get_one_url_def split: option.splits if_splits)
      have eq: "finished ?m = finished m" "tm_next_no ?m = tm_next_no m" by (auto simp: finished_def)
      have lt: "tm_next_no ?m - (i + 1) < tm_next_no m - i" unfolding eq(2) using True by simp
      have "(b \<longleftrightarrow> (\<forall>k < tm_next_no ?m. finished ?m k)) \<and> (\<forall>k < tm_finished_no m'. finished ?m k)
         \<and> tm_finished_no m' \<le> tm_next_no ?m"
      proof (rule less.hyps [OF lt step])
        show "\<forall>k < i + 1. finished ?m k" unfolding eq using less.prems(2) fin by (auto simp: less_Suc_eq)
        show "tm_finished_no ?m \<le> i + 1" using less.prems(3) by simp
        show "i + 1 \<le> tm_next_no ?m" unfolding eq using True by simp
      qed
      then show ?thesis unfolding eq .
    qed
  qed
qed

lemma test_quit_inv:
  assumes inv: "task_inv m" and q: "test_task_finished_quit m = (b, m')"
  shows "task_inv m' \<and> (b \<longleftrightarrow> (\<forall>k. finished m' k)) \<and> (\<exists>f. m' = m\<lparr>tm_finished_no := f\<rparr>)"
proof -
  from q have loop: "quit_loop (tm_finished_no m) m = (b, m')" by (simp add: test_task_finished_quit_def)
  obtain f where f: "m' = m\<lparr>tm_finished_no := f\<rparr>" using quit_loop_frame [OF loop] by blast
  have spec: "(b \<longleftrightarrow> (\<forall>k < tm_next_no m. finished m k)) \<and> (\<forall>k < tm_finished_no m'. finished m k) \<and> tm_finished_no m' \<le> tm_next_no m"
    using quit_loop_spec [OF loop] inv by (simp add: task_inv_def done_ok_def)
  have beyond: "finished m k" if "\<not> k < tm_next_no m" for k
    using inv that by (auto simp: task_inv_def maps_ok_def finished_def split: option.splits)
  have fin: "finished m' = finished m" by (rule ext) (simp add: f finished_def)
  have act: "active m' = active m" by (rule ext) (simp add: f active_def)
  have "b \<longleftrightarrow> (\<forall>k. finished m' k)" using spec beyond unfolding fin by blast
  moreover have "done_ok m'" using spec unfolding done_ok_def fin by (simp add: f)
  moreover have "count_ok m'" using inv unfolding task_inv_def count_ok_def act by (simp add: f)
  moreover have "threads_ok m'" "maps_ok m'" "tm_next_work_no m' \<le> tm_next_no m'"
    using inv by (simp_all add: task_inv_def threads_ok_def maps_ok_def f)
  ultimately show ?thesis using f unfolding task_inv_def by blast
qed

lemma active_thread:
  assumes "task_inv m" "active m no"
  obtains u where "tm_url_list m no = Some u" "tu_running_thread u = -2 \<or> 1 \<le> tu_running_thread u"
proof -
  from assms(2) obtain u where u: "tm_url_list m no = Some u" "tu_running_thread u \<noteq> -1" "no < tm_next_work_no m"
    by (auto simp: active_def split: option.splits)
  have "if no < tm_next_work_no m then tu_running_thread u = -2 \<or> tu_running_thread u = -1 \<or> 1 \<le> tu_running_thread u
      else tu_running_thread u = -2"
    using assms(1) u(1) unfolding task_inv_def threads_ok_def by blast
  with u(3) have "tu_running_thread u = -2 \<or> tu_running_thread u = -1 \<or> 1 \<le> tu_running_thread u" by simp
  with u that show thesis by blast
qed

lemma finished_one_url_inv:
  assumes inv: "task_inv m" and act: "active m no" and r: "finished_one_url no m = (q, m')"
  shows "task_inv m' \<and> (q \<longleftrightarrow> (\<forall>k. finished m' k))"
proof -
  obtain u where u: "tm_url_list m no = Some u" "tu_running_thread u = -2 \<or> 1 \<le> tu_running_thread u"
    by (rule active_thread [OF inv act])
  show ?thesis
  proof (cases "tu_running_thread u \<le> 1")
    case True
    then have "test_task_finished_quit (close_entry no m) = (q, m')"
      using r u by (simp add: finished_one_url_def close_entry_def Let_def set_running_thread_def)
    with test_quit_inv [OF close_entry_inv [OF inv act]] show ?thesis by blast
  next
    case False
    then have t: "1 \<le> tu_running_thread u - 1" by simp
    have m': "m' = set_running_thread no (tu_running_thread u - 1) m" "q = False"
      using r u t by (simp_all add: finished_one_url_def Let_def)
    have "\<not> finished m' no" using u t by (simp add: m' finished_def set_running_thread_def)
    with set_running_thread_inv [OF inv act t] m' show ?thesis by blast
  qed
qed

section \<open>The life of a task\<close>

text \<open>Whole operations in any order.  A worker finishes only an entry that is active: every
  hand-out is followed by as many calls of \<open>finished_one_url\<close> as \<open>tu_running_thread\<close> says
  (one when no policy was started).\<close>

inductive task_step :: "task_map \<Rightarrow> task_map \<Rightarrow> bool" where
  insert: "tu_running_thread u = -2 \<Longrightarrow> insert_new_url fup u m = (b, m') \<Longrightarrow> task_step m m'"
| insert_params: "insert_new_url_params fup page prm ref post m = Inr m' \<Longrightarrow> task_step m m'"
| fresh: "fresh_one_url m = (r, m') \<Longrightarrow> task_step m m'"
| policies: "active m no \<Longrightarrow> tm_url_list m no = Some u \<Longrightarrow> tu_running_thread u = -2 \<Longrightarrow>
    task_step m (set_running_thread no (int k + 1) m)"
| finish: "active m no \<Longrightarrow> finished_one_url no m = (q, m') \<Longrightarrow> task_step m m'"
| result: "insert_result no r m = Inr (b, m') \<Longrightarrow> task_step m m'"

inductive_cases task_stepE: "task_step m m'"

inductive task_reach :: "string \<Rightarrow> task_map \<Rightarrow> bool" for uid where
  start: "task_reach uid (new_task_map uid)"
| step: "task_reach uid m \<Longrightarrow> task_step m m' \<Longrightarrow> task_reach uid m'"

lemma insert_result_inv: "task_inv m \<Longrightarrow> insert_result no r m = Inr (b, m') \<Longrightarrow> task_inv m'"
proof -
  assume inv: "task_inv m" and r: "insert_result no r m = Inr (b, m')"
  then obtain l where m': "m' = m\<lparr>tm_result_list := l\<rparr>"
    by (cases "no \<ge> tm_next_no m") (auto simp: insert_result_def split: if_splits intro: that [of "tm_result_list m"])
  have "finished m' = finished m" "active m' = active m" by (auto simp: m' finished_def active_def)
  with inv show "task_inv m'" by (simp add: task_inv_def maps_ok_def threads_ok_def count_ok_def done_ok_def m')
qed

lemma task_step_inv: "task_step m m' \<Longrightarrow> task_inv m \<Longrightarrow> task_inv m'"
proof (induction rule: task_step.induct)
  case (insert u fup m b m')
  then show ?case by (auto simp: insert_new_url_def Let_def split: prod.splits intro: insert_entry_inv)
next
  case (insert_params fup page prm ref post m m')
  then show ?case
    by (auto simp: insert_new_url_params_def new_task_url_def Let_def split: prod.splits if_splits intro!: insert_entry_inv)
next
  case (fresh m r m')
  then show ?case by (blast intro: fresh_one_url_inv)
next
  case (policies m no u k)
  then show ?case by (intro set_running_thread_inv) simp_all
next
  case (finish m no q m')
  then show ?case using finished_one_url_inv by blast
next
  case (result no r m b m')
  then show ?case by (blast intro: insert_result_inv)
qed

lemma task_reach_inv: "task_reach uid m \<Longrightarrow> task_inv m"
  by (induction rule: task_reach.induct) (auto intro: task_inv_new task_step_inv)

section \<open>Properties\<close>


definition demo_task :: task_map where
  "demo_task = snd (fresh_one_url (snd (insert_new_url (\<lambda>url prm. (url, prm)) (new_task_url ''u'') (new_task_map ''t''))))"

lemma demo_task_reach: "task_reach ''t'' demo_task"
proof -
  let ?m = "snd (insert_new_url (\<lambda>url prm. (url, prm)) (new_task_url ''u'') (new_task_map ''t''))"
  have "task_step (new_task_map ''t'') ?m"
    by (rule task_step.insert [of "new_task_url ''u''" "\<lambda>url prm. (url, prm)" _ "fst (insert_new_url (\<lambda>url prm. (url, prm)) (new_task_url ''u'') (new_task_map ''t''))"])
       (simp_all add: new_task_url_def)
  moreover have "task_step ?m demo_task"
    unfolding demo_task_def by (rule task_step.fresh [of _ "fst (fresh_one_url ?m)"]) simp
  ultimately show ?thesis by (blast intro: task_reach.intros)
qed




text \<open>C25: The end of a scan.  When a worker finishes an active URL of a reachable state,
  \<^verbatim>\<open>finished_one_url\<close> reports the whole task finished exactly when every URL of the task
  is finished then.\<close>

theorem finished_exactly_when_done:
  assumes "task_reach uid m" and "active m no" and "finished_one_url no m = (q, m')"
  shows "q \<longleftrightarrow> (\<forall>k u. tm_url_list m' k = Some u \<longrightarrow> tu_running_thread u = -1)"
proof -
  have "q \<longleftrightarrow> (\<forall>k. finished m' k)"
    using finished_one_url_inv [OF task_reach_inv [OF assms(1)] assms(2,3)] by blast
  then show ?thesis by (auto simp: finished_def split: option.splits)
qed

theorem finished_exactly_when_done_witness: "fst (finished_one_url 0 demo_task)"
proof -
  have a: "active demo_task 0" by code_simp
  have r: "finished_one_url 0 demo_task = (fst (finished_one_url 0 demo_task), snd (finished_one_url 0 demo_task))" by simp
  have n: "tm_next_no (snd (finished_one_url 0 demo_task)) = 1" by code_simp
  have t: "map_option tu_running_thread (tm_url_list (snd (finished_one_url 0 demo_task)) 0) = Some (-1)" by code_simp
  have "task_reach ''t'' (snd (finished_one_url 0 demo_task))"
    by (rule task_reach.step [OF demo_task_reach task_step.finish [OF a r]])
  then have "task_inv (snd (finished_one_url 0 demo_task))" by (rule task_reach_inv)
  then have "tm_url_list (snd (finished_one_url 0 demo_task)) k = Some u \<Longrightarrow> k = 0" for k u
    using n by (auto simp: task_inv_def maps_ok_def)
  then have "\<forall>k u. tm_url_list (snd (finished_one_url 0 demo_task)) k = Some u \<longrightarrow> tu_running_thread u = -1"
    using t by fastforce
  with finished_exactly_when_done [OF demo_task_reach a r] show ?thesis by simp
qed



end
