(* ===== verification/TaskRace.thy ===== *)
theory TaskRace
  imports TaskData "HOL-Library.Multiset"
begin

text \<open>
  The unprotected counters of \<^verbatim>\<open>task_map::finished_one_url\<close>
  (\<^verbatim>\<open>src/scaner_test/task_data.cpp\<close>).  The workers on one URL run the function
  concurrently; each access to the atomic \<^verbatim>\<open>running_thread\<close> and
  \<^verbatim>\<open>running_url_count\<close> is one step, and the steps of the workers interleave.  The state is
  the two counters and the multiset of the positions of the workers.
\<close>

section \<open>Steps\<close>

datatype position = Dec | Store | Test | Count | Finished

record race =
  rc_thread :: int
  rc_count :: int
  rc_at :: "position multiset"

definition after_dec :: "int \<Rightarrow> position" where
  "after_dec t = (if t \<le> 0 then Store else Test)"

definition after_test :: "int \<Rightarrow> position" where
  "after_test t = (if t = -1 then Count else Finished)"

inductive race_step :: "race \<Rightarrow> race \<Rightarrow> bool" where
  dec: "race_step \<lparr>rc_thread = t, rc_count = c, rc_at = add_mset Dec M\<rparr>
                  \<lparr>rc_thread = t - 1, rc_count = c, rc_at = add_mset (after_dec (t - 1)) M\<rparr>"
| store: "race_step \<lparr>rc_thread = t, rc_count = c, rc_at = add_mset Store M\<rparr>
                    \<lparr>rc_thread = -1, rc_count = c, rc_at = add_mset Test M\<rparr>"
| test: "race_step \<lparr>rc_thread = t, rc_count = c, rc_at = add_mset Test M\<rparr>
                   \<lparr>rc_thread = t, rc_count = c, rc_at = add_mset (after_test t) M\<rparr>"
| uncount: "race_step \<lparr>rc_thread = t, rc_count = c, rc_at = add_mset Count M\<rparr>
                      \<lparr>rc_thread = t, rc_count = c - 1, rc_at = add_mset Finished M\<rparr>"

definition race_start :: "nat \<Rightarrow> int \<Rightarrow> race" where
  "race_start k c = \<lparr>rc_thread = int k, rc_count = c, rc_at = replicate_mset k Dec\<rparr>"

inductive race_reach :: "nat \<Rightarrow> int \<Rightarrow> race \<Rightarrow> bool" for k c where
  start: "race_reach k c (race_start k c)"
| step: "race_reach k c r \<Longrightarrow> race_step r r' \<Longrightarrow> race_reach k c r'"

section \<open>Invariant\<close>

text \<open>Before the last decrement the thread counter is the number of workers still to decrement;
  afterwards one worker stores; then every worker that has not yet tested will count.\<close>

definition race_inv :: "nat \<Rightarrow> int \<Rightarrow> race \<Rightarrow> bool" where
  "race_inv k c r \<longleftrightarrow>
     size (rc_at r) = k \<and>
     c - rc_count r + int (size (rc_at r) - count (rc_at r) Finished) \<le> int k \<and>
     rc_count r \<le> c \<and>
     ((0 < rc_thread r \<and> rc_thread r = int (count (rc_at r) Dec) \<and> count (rc_at r) Store = 0
         \<and> count (rc_at r) Count = 0 \<and> rc_count r = c)
      \<or> (rc_thread r = 0 \<and> count (rc_at r) Dec = 0 \<and> count (rc_at r) Store = 1
         \<and> count (rc_at r) Count = 0 \<and> rc_count r = c)
      \<or> (rc_thread r = -1 \<and> count (rc_at r) Dec = 0 \<and> count (rc_at r) Store = 0
         \<and> (rc_count r < c \<or> 0 < count (rc_at r) Test \<or> 0 < count (rc_at r) Count)))"

lemma race_inv_start: "0 < k \<Longrightarrow> race_inv k c (race_start k c)"
  by (simp add: race_inv_def race_start_def)

lemma count_le_size: "count M x \<le> size M"
  using size_mset_mono [of "replicate_mset (count M x) x" M]
  by (simp add: count_le_replicate_mset_subset_eq [symmetric])

lemma race_inv_step: "race_step r r' \<Longrightarrow> race_inv k c r \<Longrightarrow> race_inv k c r'"
proof (induction rule: race_step.induct)
  case (dec t c' M)
  then show ?case using count_le_size [of M Finished]
    by (auto simp: race_inv_def after_dec_def)
next
  case (store t c' M)
  then show ?case using count_le_size [of M Finished]
    by (auto simp: race_inv_def)
next
  case (test t c' M)
  then show ?case using count_le_size [of M Finished]
    by (auto simp: race_inv_def after_test_def)
next
  case (uncount t c' M)
  then show ?case using count_le_size [of M Finished]
    by (auto simp: race_inv_def)
qed

lemma race_reach_inv: "race_reach k c r \<Longrightarrow> 0 < k \<Longrightarrow> race_inv k c r"
  by (induction rule: race_reach.induct) (auto intro: race_inv_start race_inv_step)


section \<open>Properties\<close>

text \<open>C28: when the k workers of a URL have all left finished_one_url, whatever the interleaving of
  their steps, running_url_count was decremented at least once and at most k times, and the URL is
  marked finished.\<close>

theorem finish_count_bounds:
  assumes "race_reach k c r" and "rc_at r = replicate_mset k Finished" and "0 < k"
  shows "c - int k \<le> rc_count r \<and> rc_count r \<le> c - 1 \<and> rc_thread r = -1"
  using race_reach_inv [OF assms(1,3)] assms(2,3) by (auto simp: race_inv_def)

lemma race_one_worker:
  "race_reach 1 c \<lparr>rc_thread = -1, rc_count = c - 1, rc_at = {#Finished#}\<rparr>"
proof -
  have "race_reach 1 c \<lparr>rc_thread = 1, rc_count = c, rc_at = {#Dec#}\<rparr>"
    using race_reach.start [of 1 c] by (simp add: race_start_def)
  from race_reach.step [OF this race_step.dec]
  have "race_reach 1 c \<lparr>rc_thread = 0, rc_count = c, rc_at = {#Store#}\<rparr>" by (simp add: after_dec_def)
  from race_reach.step [OF this race_step.store]
  have "race_reach 1 c \<lparr>rc_thread = -1, rc_count = c, rc_at = {#Test#}\<rparr>" .
  from race_reach.step [OF this race_step.test]
  have "race_reach 1 c \<lparr>rc_thread = -1, rc_count = c, rc_at = {#Count#}\<rparr>" by (simp add: after_test_def)
  from race_reach.step [OF this race_step.uncount] show ?thesis .
qed

theorem finish_count_bounds_witness:
  "\<exists>r. race_reach 1 5 r \<and> rc_count r = 4 \<and> rc_thread r = -1"
  using race_one_worker [of 5]
    finish_count_bounds [of 1 5 "\<lparr>rc_thread = -1, rc_count = 5 - 1, rc_at = {#Finished#}\<rparr>"]
  by (intro exI [of _ "\<lparr>rc_thread = -1, rc_count = 5 - 1, rc_at = {#Finished#}\<rparr>"]) simp

text \<open>C33: two workers that finish the same URL can both decrement running_url_count: the first
  decrements the thread counter but has not tested it when the second stores -1.  If the URL was the
  only one running the counter becomes -1, the largest size_t, and fresh_one_url hands out no URL
  any more.\<close>

theorem finish_double_count:
  "\<exists>r. race_reach 2 1 r \<and> rc_at r = {#Finished, Finished#} \<and> rc_count r = -1 \<and>
       (\<forall>m. tm_running_url_count m = rc_count r \<longrightarrow> fresh_one_url m = (None, m))"
proof -
  have "race_reach 2 1 \<lparr>rc_thread = 2, rc_count = 1, rc_at = {#Dec, Dec#}\<rparr>"
    using race_reach.start [of 2 1] by (simp add: race_start_def numeral_2_eq_2)
  from race_reach.step [OF this race_step.dec]
  have "race_reach 2 1 \<lparr>rc_thread = 1, rc_count = 1, rc_at = {#Dec, Test#}\<rparr>"
    by (simp add: after_dec_def add_mset_commute)
  from race_reach.step [OF this race_step.dec]
  have "race_reach 2 1 \<lparr>rc_thread = 0, rc_count = 1, rc_at = {#Store, Test#}\<rparr>"
    by (simp add: after_dec_def)
  from race_reach.step [OF this race_step.store]
  have "race_reach 2 1 \<lparr>rc_thread = -1, rc_count = 1, rc_at = {#Test, Test#}\<rparr>" .
  from race_reach.step [OF this race_step.test]
  have "race_reach 2 1 \<lparr>rc_thread = -1, rc_count = 1, rc_at = {#Test, Count#}\<rparr>"
    by (simp add: after_test_def add_mset_commute)
  from race_reach.step [OF this race_step.test]
  have "race_reach 2 1 \<lparr>rc_thread = -1, rc_count = 1, rc_at = {#Count, Count#}\<rparr>"
    by (simp add: after_test_def)
  from race_reach.step [OF this race_step.uncount]
  have "race_reach 2 1 \<lparr>rc_thread = -1, rc_count = 0, rc_at = {#Count, Finished#}\<rparr>"
    by (simp add: add_mset_commute)
  from race_reach.step [OF this race_step.uncount]
  have "race_reach 2 1 \<lparr>rc_thread = -1, rc_count = -1, rc_at = {#Finished, Finished#}\<rparr>"
    by (simp add: add_mset_commute)
  then show ?thesis
    by (intro exI [of _ "\<lparr>rc_thread = -1, rc_count = -1, rc_at = {#Finished, Finished#}\<rparr>"])
       (simp add: fresh_one_url_def to_size_t_def running_url_max_def)
qed

text \<open>A URL with no other entry running after the double decrement: nothing is handed out although
  an entry waits.\<close>

theorem finish_double_count_witness:
  "fst (fresh_one_url ((insert_entry (new_task_url ''u'') (new_task_map ''t''))\<lparr>tm_running_url_count := -1\<rparr>)) = None"
proof -
  let ?m = "(insert_entry (new_task_url ''u'') (new_task_map ''t''))\<lparr>tm_running_url_count := -1\<rparr>"
  obtain r :: race where "rc_count r = -1"
    and "tm_running_url_count m = rc_count r \<longrightarrow> fresh_one_url m = (None, m)" for m :: task_map
    using finish_double_count by blast
  then have "fresh_one_url ?m = (None, ?m)" by simp
  then show ?thesis by simp
qed

end
