(* ===== verification/GumboUtf8.thy ===== *)
theory GumboUtf8
  imports CStd "HOL-Library.Word"
begin

text \<open>
  The UTF-8 iterator of the HTML parser: \<^verbatim>\<open>src/html_parser/utf8.cpp\<close> and the error list of
  \<^verbatim>\<open>src/html_parser/error.cpp\<close> it writes to.

  Memory is a function from addresses (\<open>int\<close>) to bytes, so that a read outside the source buffer
  is a read of whatever lies there; \<^verbatim>\<open>char*\<close> values are addresses.  Line, column and offset are
  32-bit words, as in \<^verbatim>\<open>GumboSourcePosition\<close>; a code point is a C \<^verbatim>\<open>int\<close>.
  The record of the iterator also holds what the code reaches through its \<^verbatim>\<open>_parser\<close> pointer:
  the memory, the two options it reads and the error list; \<open>ut_isalnum\<close> is the C library's
  \<^verbatim>\<open>isalnum\<close> of the locale, which the code also calls for code points beyond
  \<^verbatim>\<open>unsigned char\<close>, so it is any function.  The field \<open>ut_ok\<close> is a ghost: an
  \<^verbatim>\<open>assert\<close> that does not hold makes it false, and the model goes on as a build without
  assertions does.
\<close>

unbundle bit_operations_syntax

section \<open>Characters, positions, errors\<close>

type_synonym byte = "8 word"
type_synonym memory = "int \<Rightarrow> byte"

abbreviation (input) C_TAB :: int where "C_TAB \<equiv> 9"
abbreviation (input) C_LF :: int where "C_LF \<equiv> 10"
abbreviation (input) C_FF :: int where "C_FF \<equiv> 12"
abbreviation (input) C_CR :: int where "C_CR \<equiv> 13"
abbreviation (input) C_SPACE :: int where "C_SPACE \<equiv> 32"
abbreviation (input) C_BANG :: int where "C_BANG \<equiv> 33"
abbreviation (input) C_QUOT :: int where "C_QUOT \<equiv> 34"
abbreviation (input) C_HASH :: int where "C_HASH \<equiv> 35"
abbreviation (input) C_AMP :: int where "C_AMP \<equiv> 38"
abbreviation (input) C_APOS :: int where "C_APOS \<equiv> 39"
abbreviation (input) C_DASH :: int where "C_DASH \<equiv> 45"
abbreviation (input) C_SLASH :: int where "C_SLASH \<equiv> 47"
abbreviation (input) C_SEMI :: int where "C_SEMI \<equiv> 59"
abbreviation (input) C_LT :: int where "C_LT \<equiv> 60"
abbreviation (input) C_EQ :: int where "C_EQ \<equiv> 61"
abbreviation (input) C_GT :: int where "C_GT \<equiv> 62"
abbreviation (input) C_QM :: int where "C_QM \<equiv> 63"
abbreviation (input) C_GRAVE :: int where "C_GRAVE \<equiv> 96"
abbreviation (input) C_EOF :: int where "C_EOF \<equiv> -1"

definition bytes_of :: "string \<Rightarrow> byte list" where
  "bytes_of s = map of_char s"

record source_position =
  line :: "32 word"
  column :: "32 word"
  offset :: "32 word"

datatype error_type =
    GUMBO_ERR_UTF8_INVALID
  | GUMBO_ERR_UTF8_TRUNCATED
  | GUMBO_ERR_UTF8_NULL
  | GUMBO_ERR_NUMERIC_CHAR_REF_NO_DIGITS
  | GUMBO_ERR_NUMERIC_CHAR_REF_WITHOUT_SEMICOLON
  | GUMBO_ERR_NUMERIC_CHAR_REF_INVALID
  | GUMBO_ERR_NAMED_CHAR_REF_WITHOUT_SEMICOLON
  | GUMBO_ERR_NAMED_CHAR_REF_INVALID
  | GUMBO_ERR_TAG_STARTS_WITH_QUESTION
  | GUMBO_ERR_TAG_EOF
  | GUMBO_ERR_TAG_INVALID
  | GUMBO_ERR_CLOSE_TAG_EMPTY
  | GUMBO_ERR_CLOSE_TAG_EOF
  | GUMBO_ERR_CLOSE_TAG_INVALID
  | GUMBO_ERR_SCRIPT_EOF
  | GUMBO_ERR_ATTR_NAME_EOF
  | GUMBO_ERR_ATTR_NAME_INVALID
  | GUMBO_ERR_ATTR_DOUBLE_QUOTE_EOF
  | GUMBO_ERR_ATTR_SINGLE_QUOTE_EOF
  | GUMBO_ERR_ATTR_UNQUOTED_EOF
  | GUMBO_ERR_ATTR_UNQUOTED_RIGHT_BRACKET
  | GUMBO_ERR_ATTR_UNQUOTED_EQUALS
  | GUMBO_ERR_ATTR_AFTER_EOF
  | GUMBO_ERR_ATTR_AFTER_INVALID
  | GUMBO_ERR_DUPLICATE_ATTR
  | GUMBO_ERR_SOLIDUS_EOF
  | GUMBO_ERR_SOLIDUS_INVALID
  | GUMBO_ERR_DASHES_OR_DOCTYPE
  | GUMBO_ERR_COMMENT_EOF
  | GUMBO_ERR_COMMENT_INVALID
  | GUMBO_ERR_COMMENT_BANG_AFTER_DOUBLE_DASH
  | GUMBO_ERR_COMMENT_DASH_AFTER_DOUBLE_DASH
  | GUMBO_ERR_COMMENT_SPACE_AFTER_DOUBLE_DASH
  | GUMBO_ERR_COMMENT_END_BANG_EOF
  | GUMBO_ERR_DOCTYPE_EOF
  | GUMBO_ERR_DOCTYPE_INVALID
  | GUMBO_ERR_DOCTYPE_SPACE
  | GUMBO_ERR_DOCTYPE_RIGHT_BRACKET
  | GUMBO_ERR_DOCTYPE_SPACE_OR_RIGHT_BRACKET
  | GUMBO_ERR_DOCTYPE_END
  | GUMBO_ERR_PARSER
  | GUMBO_ERR_UNACKNOWLEDGED_SELF_CLOSING_TAG

datatype tokenizer_error_state =
    GUMBO_ERR_TOKENIZER_DATA
  | GUMBO_ERR_TOKENIZER_CHAR_REF
  | GUMBO_ERR_TOKENIZER_RCDATA
  | GUMBO_ERR_TOKENIZER_RAWTEXT
  | GUMBO_ERR_TOKENIZER_PLAINTEXT
  | GUMBO_ERR_TOKENIZER_SCRIPT
  | GUMBO_ERR_TOKENIZER_TAG
  | GUMBO_ERR_TOKENIZER_SELF_CLOSING_TAG
  | GUMBO_ERR_TOKENIZER_ATTR_NAME
  | GUMBO_ERR_TOKENIZER_ATTR_VALUE
  | GUMBO_ERR_TOKENIZER_MARKUP_DECLARATION
  | GUMBO_ERR_TOKENIZER_COMMENT
  | GUMBO_ERR_TOKENIZER_DOCTYPE
  | GUMBO_ERR_TOKENIZER_CDATA

datatype token_type =
    GUMBO_TOKEN_DOCTYPE
  | GUMBO_TOKEN_START_TAG
  | GUMBO_TOKEN_END_TAG
  | GUMBO_TOKEN_COMMENT
  | GUMBO_TOKEN_WHITESPACE
  | GUMBO_TOKEN_CHARACTER
  | GUMBO_TOKEN_NULL
  | GUMBO_TOKEN_EOF

datatype insertion_mode =
    GUMBO_INSERTION_MODE_INITIAL
  | GUMBO_INSERTION_MODE_BEFORE_HTML
  | GUMBO_INSERTION_MODE_BEFORE_HEAD
  | GUMBO_INSERTION_MODE_IN_HEAD
  | GUMBO_INSERTION_MODE_IN_HEAD_NOSCRIPT
  | GUMBO_INSERTION_MODE_AFTER_HEAD
  | GUMBO_INSERTION_MODE_IN_BODY
  | GUMBO_INSERTION_MODE_TEXT
  | GUMBO_INSERTION_MODE_IN_TABLE
  | GUMBO_INSERTION_MODE_IN_TABLE_TEXT
  | GUMBO_INSERTION_MODE_IN_CAPTION
  | GUMBO_INSERTION_MODE_IN_COLUMN_GROUP
  | GUMBO_INSERTION_MODE_IN_TABLE_BODY
  | GUMBO_INSERTION_MODE_IN_ROW
  | GUMBO_INSERTION_MODE_IN_CELL
  | GUMBO_INSERTION_MODE_IN_SELECT
  | GUMBO_INSERTION_MODE_IN_SELECT_IN_TABLE
  | GUMBO_INSERTION_MODE_IN_TEMPLATE
  | GUMBO_INSERTION_MODE_AFTER_BODY
  | GUMBO_INSERTION_MODE_IN_FRAMESET
  | GUMBO_INSERTION_MODE_AFTER_FRAMESET
  | GUMBO_INSERTION_MODE_AFTER_AFTER_BODY
  | GUMBO_INSERTION_MODE_AFTER_AFTER_FRAMESET

text \<open>The union \<^verbatim>\<open>v\<close> of an error.  A piece of the source is an address and a length; a name
  of the entity table is its text.\<close>

datatype error_info =
    No_info
  | Codepoint_info "64 word"
  | Tokenizer_info int tokenizer_error_state
  | Source_text_info int int
  | Name_text_info string
  | Duplicate_attr_info "byte list" nat nat
  | Parser_info token_type nat insertion_mode "nat list"

record gumbo_error =
  er_type :: error_type
  er_position :: source_position
  er_original_text :: int
  er_v :: error_info

section \<open>The iterator\<close>

record utf8_iterator =
  ut_start :: int
  ut_mark :: int
  ut_end :: int
  ut_current :: int
  ut_width :: int
  ut_pos :: source_position
  ut_mark_pos :: source_position
  ut_mem :: memory
  ut_max_errors :: int
  ut_tab_stop :: "32 word"
  ut_errors :: "gumbo_error list"
  ut_isalnum :: "int \<Rightarrow> bool"
  ut_ok :: bool

definition assert_it :: "bool \<Rightarrow> utf8_iterator \<Rightarrow> utf8_iterator" where
  "assert_it b it = it\<lparr>ut_ok := ut_ok it \<and> b\<rparr>"

definition kUtf8ReplacementChar :: int where
  "kUtf8ReplacementChar = 0xFFFD"

text \<open>\<^verbatim>\<open>gumbo_add_error\<close> together with the assignments its callers make through the pointer
  it returns.\<close>

definition errors_full :: "utf8_iterator \<Rightarrow> bool" where
  "errors_full it \<longleftrightarrow> ut_max_errors it \<ge> 0 \<and> length (ut_errors it) \<ge> nat (ut_max_errors it)"

definition gumbo_add_error :: "gumbo_error \<Rightarrow> utf8_iterator \<Rightarrow> utf8_iterator" where
  "gumbo_add_error e it = (if errors_full it then it else it\<lparr>ut_errors := ut_errors it @ [e]\<rparr>)"

definition raw_code_point :: "utf8_iterator \<Rightarrow> 64 word" where
  "raw_code_point it =
     fold (\<lambda>i cp. push_bit 8 cp OR ucast (ut_mem it (ut_start it + i))) [0 .. ut_width it - 1] 0"

definition add_error :: "error_type \<Rightarrow> utf8_iterator \<Rightarrow> utf8_iterator" where
  "add_error ty it =
     gumbo_add_error \<lparr>er_type = ty, er_position = ut_pos it, er_original_text = ut_start it,
       er_v = Codepoint_info (raw_code_point it)\<rparr> it"

text \<open>Width, mask and badness of a first byte.\<close>

definition lead_byte :: "byte \<Rightarrow> int \<times> byte \<times> bool" where
  "lead_byte c =
     (if c < 0x80 then (1, 0xFF, False)
      else if c < 0xC0 then (1, 0, True)
      else if c < 0xE0 then (2, 0x1F, c < 0xC2)
      else if c < 0xF0 then (3, 0xF, False)
      else if c < 0xF5 then (4, 0x7, False)
      else if c < 0xF8 then (5, 0, True)
      else if c < 0xFC then (6, 0, True)
      else if c < 0xFE then (7, 0, True)
      else (1, 0, True))"

text \<open>The loop over the continuation bytes: width, code point and badness.\<close>

function continuation :: "memory \<Rightarrow> int \<Rightarrow> int \<Rightarrow> int \<Rightarrow> 64 word \<Rightarrow> bool \<Rightarrow> int \<times> 64 word \<times> bool" where
  "continuation mem s i w cp bad =
     (if i < w then
        let c = mem (s + i) in
        if c < 0x80 \<or> c > 0xBF then (i, cp, True)
        else continuation mem s (i + 1) w (push_bit 6 cp OR (ucast (c AND NOT 0x80))) bad
      else (w, cp, bad))"
  by pat_completeness auto
termination by (relation "measure (\<lambda>(mem, s, i, w, cp, bad). nat (w - i))") auto

declare continuation.simps [simp del]

definition utf8_is_invalid_code_point :: "int \<Rightarrow> bool" where
  "utf8_is_invalid_code_point c \<longleftrightarrow>
     (0x1 \<le> c \<and> c \<le> 0x8) \<or> c = 0xB \<or> (0xE \<le> c \<and> c \<le> 0x1F) \<or> (0x7F \<le> c \<and> c \<le> 0x9F)
     \<or> (0xFDD0 \<le> c \<and> c \<le> 0xFDEF) \<or> (c AND 0xFFFF) = 0xFFFE \<or> (c AND 0xFFFF) = 0xFFFF"

definition read_char :: "utf8_iterator \<Rightarrow> utf8_iterator" where
  "read_char it =
     (let s = ut_start it; e = ut_end it;
          c = ut_mem it s;
          (w, m, bad) = lead_byte c;
          cp = ucast (c AND m);
          (it, w, bad) =
            (if s + w > e
             then (add_error GUMBO_ERR_UTF8_TRUNCATED (it\<lparr>ut_width := e - s\<rparr>), e - s, True)
             else (it, w, bad));
          it = assert_it (w < 8) it;
          (w, cp, bad) = continuation (ut_mem it) s 1 w cp bad;
          bad = (bad \<or> cp > 0x10FFFF);
          it = it\<lparr>ut_width := w\<rparr>;
          (it, cp) =
            (if bad \<or> utf8_is_invalid_code_point (to_int (uint cp))
             then (add_error GUMBO_ERR_UTF8_INVALID it, kUtf8ReplacementChar)
             else (it, to_int (uint cp)));
          (it, cp) =
            (if cp = C_CR
             then (if s + w < e \<and> ut_mem it (s + w) = 0x0A
                   then it\<lparr>ut_start := s + 1, ut_pos := (ut_pos it)\<lparr>offset := offset (ut_pos it) + 1\<rparr>\<rparr>
                   else it, C_LF)
             else (it, cp))
      in it\<lparr>ut_current := cp\<rparr>)"

definition update_position :: "utf8_iterator \<Rightarrow> utf8_iterator" where
  "update_position it =
     (let p = ut_pos it; p = p\<lparr>offset := offset p + word_of_int (ut_width it)\<rparr> in
      it\<lparr>ut_pos :=
        (if ut_current it = C_LF then p\<lparr>line := line p + 1, column := 1\<rparr>
         else if ut_current it = C_TAB
         then p\<lparr>column := (column p div ut_tab_stop it + 1) * ut_tab_stop it\<rparr>
         else p\<lparr>column := column p + 1\<rparr>)\<rparr>)"

definition utf8iterator_init :: "int \<Rightarrow> int \<Rightarrow> utf8_iterator \<Rightarrow> utf8_iterator" where
  "utf8iterator_init source source_length it =
     (let it = it\<lparr>ut_start := source, ut_end := source + source_length, ut_width := 0,
                  ut_pos := \<lparr>line = 1, column = 1, offset = 0\<rparr>\<rparr>
      in if source_length \<noteq> 0 then read_char it else it\<lparr>ut_current := C_EOF\<rparr>)"

definition utf8iterator_next :: "utf8_iterator \<Rightarrow> utf8_iterator" where
  "utf8iterator_next it =
     (let it = it\<lparr>ut_start := ut_start it + ut_width it\<rparr>;
          it = update_position it
      in if ut_start it < ut_end it then read_char it else it\<lparr>ut_current := C_EOF\<rparr>)"

definition to_lower8 :: "byte \<Rightarrow> byte" where
  "to_lower8 b = (if 0x41 \<le> b \<and> b \<le> 0x5A then b + 0x20 else b)"

text \<open>\<^verbatim>\<open>!strncmp\<close> and \<^verbatim>\<open>!_strncasecmp\<close> on memory and a literal of the given length.\<close>

fun strncmp_eq :: "memory \<Rightarrow> int \<Rightarrow> byte list \<Rightarrow> bool" where
  "strncmp_eq mem a [] = True"
| "strncmp_eq mem a (c # cs) = (mem a = c \<and> (c = 0 \<or> strncmp_eq mem (a + 1) cs))"

fun strncasecmp_eq :: "memory \<Rightarrow> int \<Rightarrow> byte list \<Rightarrow> bool" where
  "strncasecmp_eq mem a [] = True"
| "strncasecmp_eq mem a (c # cs) =
     (to_lower8 (mem a) = to_lower8 c \<and> (c = 0 \<or> strncasecmp_eq mem (a + 1) cs))"

definition utf8iterator_maybe_consume_match :: "byte list \<Rightarrow> bool \<Rightarrow> utf8_iterator \<Rightarrow> bool \<times> utf8_iterator" where
  "utf8iterator_maybe_consume_match str case_sensitive it =
     (if ut_start it + int (length str) \<le> ut_end it
         \<and> (if case_sensitive then strncmp_eq (ut_mem it) (ut_start it) str
            else strncasecmp_eq (ut_mem it) (ut_start it) str)
      then (True, (utf8iterator_next ^^ length str) it)
      else (False, it))"

definition utf8iterator_mark :: "utf8_iterator \<Rightarrow> utf8_iterator" where
  "utf8iterator_mark it = it\<lparr>ut_mark := ut_start it, ut_mark_pos := ut_pos it\<rparr>"

definition utf8iterator_reset :: "utf8_iterator \<Rightarrow> utf8_iterator" where
  "utf8iterator_reset it = read_char (it\<lparr>ut_start := ut_mark it, ut_pos := ut_mark_pos it\<rparr>)"


section \<open>Decoding\<close>

subsection \<open>Bits\<close>

lemma int_or_shift: "0 \<le> b \<Longrightarrow> b < 2 ^ n \<Longrightarrow> push_bit n a OR b = a * 2 ^ n + (b::int)"
proof -
  assume b: "0 \<le> b" "b < 2 ^ n"
  then have t: "take_bit n b = b" by (simp add: take_bit_int_eq_self)
  have "push_bit n a + b = push_bit n a OR b"
    by (rule disjunctive_add) (metis bit_push_bit_iff bit_take_bit_iff t not_le)
  then show ?thesis by (simp add: push_bit_eq_mult)
qed

lemma uint_low_bits: "0x80 \<le> c \<Longrightarrow> c \<le> 0xBF \<Longrightarrow> uint (c AND NOT 0x80 :: byte) = uint c - 128"
proof -
  assume c: "0x80 \<le> c" "c \<le> 0xBF"
  have "(NOT 0x80 :: byte) = mask 7" by (simp add: mask_eq_exp_minus_1)
  then have "c AND NOT 0x80 = take_bit 7 c" by (simp only: take_bit_eq_mask)
  then have "uint (c AND NOT 0x80) = uint c mod 128"
    by (simp only: unsigned_take_bit_eq) (simp add: take_bit_eq_mod)
  moreover have "128 \<le> uint c" "uint c \<le> 191" using c by (simp_all add: word_le_def)
  moreover from this have "(uint c - 128) mod 128 = uint c - 128" by (intro mod_pos_pos_trivial) simp_all
  ultimately show ?thesis by (metis minus_mod_self2)
qed

lemma cont_step:
  assumes "0x80 \<le> c" "c \<le> 0xBF" "uint (cp :: 64 word) < 2 ^ 50"
  shows "uint (push_bit 6 cp OR ucast (c AND NOT 0x80 :: byte)) = uint cp * 64 + (uint c - 128)"
proof -
  have b: "0 \<le> uint c - 128" "uint c - 128 < 2 ^ 6"
    using assms(1,2) by (simp_all add: word_le_def)
  then have "take_bit 64 (uint c - 128) = uint c - 128" by (simp add: take_bit_int_eq_self)
  then have u: "uint (ucast (c AND NOT 0x80 :: byte) :: 64 word) = uint c - 128"
    using uint_low_bits [OF assms(1,2)] by (simp add: unsigned_ucast_eq)
  have "uint (push_bit 6 cp) = push_bit 6 (uint cp)"
    unfolding unsigned_push_bit_eq
    using assms(3) by (intro take_bit_int_eq_self) (simp_all add: push_bit_eq_mult)
  then show ?thesis using u int_or_shift [OF b, of "uint cp"] by (simp add: unsigned_or_eq)
qed


subsection \<open>What a read yields\<close>

text \<open>The pure part of \<open>read_char\<close>: the width before the continuation bytes are checked, the width,
  the code point and the badness.\<close>

definition first_width :: "memory \<Rightarrow> int \<Rightarrow> int \<Rightarrow> int" where
  "first_width mem s e = min (fst (lead_byte (mem s))) (e - s)"

definition decode :: "memory \<Rightarrow> int \<Rightarrow> int \<Rightarrow> int \<times> 64 word \<times> bool" where
  "decode mem s e =
     continuation mem s 1 (first_width mem s e) (ucast (mem s AND fst (snd (lead_byte (mem s)))))
       (snd (snd (lead_byte (mem s))) \<or> s + fst (lead_byte (mem s)) > e)"

definition decoded :: "memory \<Rightarrow> int \<Rightarrow> int \<Rightarrow> int" where
  "decoded mem s e = (case decode mem s e of (w, cp, bad) \<Rightarrow>
     if bad \<or> cp > 0x10FFFF \<or> utf8_is_invalid_code_point (to_int (uint cp)) then kUtf8ReplacementChar
     else to_int (uint cp))"

definition decoded_width :: "memory \<Rightarrow> int \<Rightarrow> int \<Rightarrow> int" where
  "decoded_width mem s e = fst (decode mem s e)"

lemma gumbo_add_error_frame [simp]:
  "ut_start (gumbo_add_error e it) = ut_start it" "ut_end (gumbo_add_error e it) = ut_end it"
  "ut_mark (gumbo_add_error e it) = ut_mark it" "ut_mark_pos (gumbo_add_error e it) = ut_mark_pos it"
  "ut_mem (gumbo_add_error e it) = ut_mem it" "ut_current (gumbo_add_error e it) = ut_current it"
  "ut_width (gumbo_add_error e it) = ut_width it" "ut_pos (gumbo_add_error e it) = ut_pos it"
  "ut_max_errors (gumbo_add_error e it) = ut_max_errors it" "ut_ok (gumbo_add_error e it) = ut_ok it"
  "ut_tab_stop (gumbo_add_error e it) = ut_tab_stop it" "ut_isalnum (gumbo_add_error e it) = ut_isalnum it"
  by (simp_all add: gumbo_add_error_def)

lemma add_error_frame [simp]:
  "ut_start (add_error t it) = ut_start it" "ut_end (add_error t it) = ut_end it"
  "ut_mark (add_error t it) = ut_mark it" "ut_mark_pos (add_error t it) = ut_mark_pos it"
  "ut_mem (add_error t it) = ut_mem it" "ut_current (add_error t it) = ut_current it"
  "ut_width (add_error t it) = ut_width it" "ut_pos (add_error t it) = ut_pos it"
  "ut_max_errors (add_error t it) = ut_max_errors it" "ut_ok (add_error t it) = ut_ok it"
  "ut_tab_stop (add_error t it) = ut_tab_stop it" "ut_isalnum (add_error t it) = ut_isalnum it"
  by (simp_all add: add_error_def)

lemma assert_it_frame [simp]:
  "ut_start (assert_it b it) = ut_start it" "ut_end (assert_it b it) = ut_end it"
  "ut_mark (assert_it b it) = ut_mark it" "ut_mark_pos (assert_it b it) = ut_mark_pos it"
  "ut_mem (assert_it b it) = ut_mem it" "ut_current (assert_it b it) = ut_current it"
  "ut_width (assert_it b it) = ut_width it" "ut_pos (assert_it b it) = ut_pos it"
  "ut_max_errors (assert_it b it) = ut_max_errors it" "ut_ok (assert_it b it) = (ut_ok it \<and> b)"
  "ut_tab_stop (assert_it b it) = ut_tab_stop it" "ut_isalnum (assert_it b it) = ut_isalnum it" "ut_errors (assert_it b it) = ut_errors it"
  by (simp_all add: assert_it_def)

lemma read_char_frame [simp]:
  "ut_end (read_char it) = ut_end it" "ut_mark (read_char it) = ut_mark it"
  "ut_mark_pos (read_char it) = ut_mark_pos it" "ut_mem (read_char it) = ut_mem it"
  "ut_max_errors (read_char it) = ut_max_errors it" "ut_tab_stop (read_char it) = ut_tab_stop it"
  "ut_isalnum (read_char it) = ut_isalnum it"
  by (simp_all add: read_char_def Let_def case_prod_unfold)

lemma read_char_result:
  "ut_width (read_char it) = decoded_width (ut_mem it) (ut_start it) (ut_end it)"
  "ut_current (read_char it) =
     (if decoded (ut_mem it) (ut_start it) (ut_end it) = C_CR then C_LF
      else decoded (ut_mem it) (ut_start it) (ut_end it))"
  "ut_start (read_char it) =
     (if decoded (ut_mem it) (ut_start it) (ut_end it) = C_CR
         \<and> ut_start it + decoded_width (ut_mem it) (ut_start it) (ut_end it) < ut_end it
         \<and> ut_mem it (ut_start it + decoded_width (ut_mem it) (ut_start it) (ut_end it)) = 0x0A
      then ut_start it + 1 else ut_start it)"
  "ut_ok (read_char it) = (ut_ok it \<and> first_width (ut_mem it) (ut_start it) (ut_end it) < 8)"
  by (auto simp: read_char_def Let_def case_prod_unfold decoded_def decoded_width_def decode_def
        first_width_def min_def kUtf8ReplacementChar_def)

end
