(* ===== verification/GumboBuffer.thy ===== *)
theory GumboBuffer
  imports GumboUtf8
begin

text \<open>
  The growable containers of the HTML parser: \<^verbatim>\<open>src/html_parser/string_buffer.cpp\<close>,
  \<^verbatim>\<open>string_piece.cpp\<close> and \<^verbatim>\<open>vector.cpp\<close>.  A buffer is an array of slots, a number of slots in
  use and a capacity; the allocator of the parser options is a parameter, the values that
  fresh slots hold.  The lemmas show that the operations act on the slots in use as the
  operations on lists do; the theories on the tokenizer use the lists.
\<close>

section \<open>Arrays\<close>

definition memmove :: "nat \<Rightarrow> nat \<Rightarrow> nat \<Rightarrow> 'a list \<Rightarrow> 'a list" where
  "memmove d s n xs = take d xs @ take n (drop s xs) @ drop (d + n) xs"

definition memcpy :: "nat \<Rightarrow> 'a list \<Rightarrow> 'a list \<Rightarrow> 'a list" where
  "memcpy d src xs = take d xs @ src @ drop (d + length src) xs"

lemma length_memmove: "s + n \<le> length xs \<Longrightarrow> d + n \<le> length xs \<Longrightarrow> length (memmove d s n xs) = length xs"
  by (simp add: memmove_def)

lemma length_memcpy: "d + length src \<le> length xs \<Longrightarrow> length (memcpy d src xs) = length xs"
  by (simp add: memcpy_def)

lemma take_memcpy: "d \<le> length xs \<Longrightarrow> take (d + length src) (memcpy d src xs) = take d xs @ src"
  by (simp add: memcpy_def)

text \<open>\<open>fresh n i\<close> is what slot \<open>i\<close> of a new block of \<open>n\<close> slots holds.\<close>

definition gumbo_parser_allocate :: "(nat \<Rightarrow> nat \<Rightarrow> 'a) \<Rightarrow> nat \<Rightarrow> 'a list" where
  "gumbo_parser_allocate fresh n = map (fresh n) [0 ..< n]"

lemma length_allocate [simp]: "length (gumbo_parser_allocate fresh n) = n"
  by (simp add: gumbo_parser_allocate_def)

section \<open>String buffers\<close>

record string_buffer =
  sb_data :: "byte list"
  sb_length :: nat
  sb_capacity :: nat

definition kDefaultStringBufferSize :: nat where
  "kDefaultStringBufferSize = 10"

text \<open>The loop that doubles the capacity, in 32-bit arithmetic; it need not end.\<close>

partial_function (option) grow :: "nat \<Rightarrow> nat \<Rightarrow> nat option" where
  "grow new_capacity new_length =
     (if new_capacity < new_length then grow (new_capacity * 2 mod 2 ^ 32) new_length
      else Some new_capacity)"

definition maybe_resize_string_buffer ::
  "(nat \<Rightarrow> nat \<Rightarrow> byte) \<Rightarrow> nat \<Rightarrow> string_buffer \<Rightarrow> string_buffer option" where
  "maybe_resize_string_buffer fresh additional_chars b =
     map_option (\<lambda>new_capacity.
       if new_capacity \<noteq> sb_capacity b
       then b\<lparr>sb_data := memcpy 0 (take (sb_length b) (sb_data b)) (gumbo_parser_allocate fresh new_capacity), sb_capacity := new_capacity\<rparr>
       else b)
     (grow (sb_capacity b) (sb_length b + additional_chars))"

definition gumbo_string_buffer_init :: "(nat \<Rightarrow> nat \<Rightarrow> byte) \<Rightarrow> string_buffer" where
  "gumbo_string_buffer_init fresh =
     \<lparr>sb_data = gumbo_parser_allocate fresh kDefaultStringBufferSize, sb_length = 0, sb_capacity = kDefaultStringBufferSize\<rparr>"

definition gumbo_string_buffer_reserve ::
  "(nat \<Rightarrow> nat \<Rightarrow> byte) \<Rightarrow> nat \<Rightarrow> string_buffer \<Rightarrow> string_buffer option" where
  "gumbo_string_buffer_reserve fresh min_capacity b =
     maybe_resize_string_buffer fresh (to_size_t (int min_capacity - int (sb_length b))) b"

text \<open>The bytes a code point is written as: the number of continuation bytes and the prefix, then the
  bytes themselves.\<close>

definition utf8_shape :: "int \<Rightarrow> nat \<times> int" where
  "utf8_shape c =
     (if c \<le> 0x7F then (0, 0)
      else if c \<le> 0x7FF then (1, 0xC0)
      else if c \<le> 0xFFFF then (2, 0xE0)
      else (3, 0xF0))"

definition utf8_bytes :: "int \<Rightarrow> byte list" where
  "utf8_bytes c =
     (case utf8_shape c of (num_bytes, pre) \<Rightarrow>
        word_of_int (pre OR drop_bit (num_bytes * 6) c)
        # map (\<lambda>i. word_of_int (0x80 OR (0x3F AND drop_bit (i * 6) c))) (rev [0 ..< num_bytes]))"

definition gumbo_string_buffer_append_codepoint ::
  "(nat \<Rightarrow> nat \<Rightarrow> byte) \<Rightarrow> int \<Rightarrow> string_buffer \<Rightarrow> string_buffer option" where
  "gumbo_string_buffer_append_codepoint fresh c b =
     map_option (\<lambda>b. b\<lparr>sb_data := memcpy (sb_length b) (utf8_bytes c) (sb_data b),
                      sb_length := sb_length b + length (utf8_bytes c)\<rparr>)
       (maybe_resize_string_buffer fresh (fst (utf8_shape c) + 1) b)"

definition gumbo_string_buffer_append_string ::
  "(nat \<Rightarrow> nat \<Rightarrow> byte) \<Rightarrow> byte list \<Rightarrow> string_buffer \<Rightarrow> string_buffer option" where
  "gumbo_string_buffer_append_string fresh str b =
     map_option (\<lambda>b. b\<lparr>sb_data := memcpy (sb_length b) str (sb_data b), sb_length := sb_length b + length str\<rparr>)
       (maybe_resize_string_buffer fresh (length str) b)"

definition gumbo_string_buffer_to_string :: "string_buffer \<Rightarrow> byte list" where
  "gumbo_string_buffer_to_string b = take (sb_length b) (sb_data b) @ [0]"

section \<open>String pieces\<close>

text \<open>A piece is its bytes; \<^verbatim>\<open>_strncasecmp\<close> stops at a NUL.\<close>

definition gumbo_string_equals :: "byte list \<Rightarrow> byte list \<Rightarrow> bool" where
  "gumbo_string_equals a b \<longleftrightarrow> length a = length b \<and> a = b"

fun casecmp_eq :: "byte list \<Rightarrow> byte list \<Rightarrow> bool" where
  "casecmp_eq (a # as) (b # bs) = (to_lower8 a = to_lower8 b \<and> (a = 0 \<or> casecmp_eq as bs))"
| "casecmp_eq as bs = (as = [] \<and> bs = [])"

definition gumbo_string_equals_ignore_case :: "byte list \<Rightarrow> byte list \<Rightarrow> bool" where
  "gumbo_string_equals_ignore_case a b \<longleftrightarrow> length a = length b \<and> casecmp_eq a b"

section \<open>Vectors\<close>

record 'a gumbo_vector =
  vc_data :: "'a list"
  vc_length :: nat
  vc_capacity :: nat

definition kGumboEmptyVector :: "'a gumbo_vector" where
  "kGumboEmptyVector = \<lparr>vc_data = [], vc_length = 0, vc_capacity = 0\<rparr>"

definition gumbo_vector_init :: "(nat \<Rightarrow> nat \<Rightarrow> 'a) \<Rightarrow> nat \<Rightarrow> 'a gumbo_vector" where
  "gumbo_vector_init fresh initial_capacity =
     \<lparr>vc_data = (if initial_capacity > 0 then gumbo_parser_allocate fresh initial_capacity else []), vc_length = 0,
      vc_capacity = initial_capacity\<rparr>"

definition enlarge_vector_if_full :: "(nat \<Rightarrow> nat \<Rightarrow> 'a) \<Rightarrow> 'a gumbo_vector \<Rightarrow> 'a gumbo_vector" where
  "enlarge_vector_if_full fresh v =
     (if vc_length v \<ge> vc_capacity v
      then if vc_capacity v \<noteq> 0
           then v\<lparr>vc_data := memcpy 0 (take (vc_capacity v) (vc_data v)) (gumbo_parser_allocate fresh (vc_capacity v * 2)),
                  vc_capacity := vc_capacity v * 2\<rparr>
           else v\<lparr>vc_data := gumbo_parser_allocate fresh 2, vc_capacity := 2\<rparr>
      else v)"

definition gumbo_vector_add :: "(nat \<Rightarrow> nat \<Rightarrow> 'a) \<Rightarrow> 'a \<Rightarrow> 'a gumbo_vector \<Rightarrow> fault + 'a gumbo_vector" where
  "gumbo_vector_add fresh element v =
     (let v = enlarge_vector_if_full fresh v in
      if vc_data v = [] \<or> \<not> vc_length v < vc_capacity v then Inl Assert_failed
      else Inr (v\<lparr>vc_data := (vc_data v)[vc_length v := element], vc_length := vc_length v + 1\<rparr>))"

definition gumbo_vector_pop :: "'a gumbo_vector \<Rightarrow> 'a option \<times> 'a gumbo_vector" where
  "gumbo_vector_pop v =
     (if vc_length v = 0 then (None, v)
      else (Some (vc_data v ! (vc_length v - 1)), v\<lparr>vc_length := vc_length v - 1\<rparr>))"

fun index_loop :: "'a \<Rightarrow> nat \<Rightarrow> 'a list \<Rightarrow> int" where
  "index_loop element i [] = -1"
| "index_loop element i (x # xs) = (if x = element then int i else index_loop element (i + 1) xs)"

definition gumbo_vector_index_of :: "'a gumbo_vector \<Rightarrow> 'a \<Rightarrow> int" where
  "gumbo_vector_index_of v element = index_loop element 0 (take (vc_length v) (vc_data v))"

definition gumbo_vector_insert_at ::
  "(nat \<Rightarrow> nat \<Rightarrow> 'a) \<Rightarrow> 'a \<Rightarrow> int \<Rightarrow> 'a gumbo_vector \<Rightarrow> fault + 'a gumbo_vector" where
  "gumbo_vector_insert_at fresh element index v =
     (if \<not> (0 \<le> index \<and> index \<le> int (vc_length v)) then Inl Assert_failed
      else let v = enlarge_vector_if_full fresh v; v = v\<lparr>vc_length := vc_length v + 1\<rparr>; i = nat index in
        Inr (v\<lparr>vc_data := (memmove (i + 1) i (vc_length v - i - 1) (vc_data v))[i := element]\<rparr>))"

definition gumbo_vector_remove_at :: "int \<Rightarrow> 'a gumbo_vector \<Rightarrow> fault + ('a \<times> 'a gumbo_vector)" where
  "gumbo_vector_remove_at index v =
     (if \<not> (0 \<le> index \<and> index < int (vc_length v)) then Inl Assert_failed
      else let i = nat index in
        Inr (vc_data v ! i, v\<lparr>vc_data := memmove i (i + 1) (vc_length v - i - 1) (vc_data v),
                              vc_length := vc_length v - 1\<rparr>))"

definition gumbo_vector_remove :: "'a \<Rightarrow> 'a gumbo_vector \<Rightarrow> fault + 'a gumbo_vector" where
  "gumbo_vector_remove node v =
     (let index = gumbo_vector_index_of v node in
      if index = -1 then Inr v
      else case gumbo_vector_remove_at index v of Inl f \<Rightarrow> Inl f | Inr (_, v) \<Rightarrow> Inr v)"

section \<open>Appending\<close>

text \<open>What the users of a growable container rely on: appending an element succeeds and appends its
  encoding, as long as the result fits.\<close>

locale growable =
  fixes contents :: "'b \<Rightarrow> 'a list"
    and inv :: "'b \<Rightarrow> bool"
    and fits :: "nat \<Rightarrow> bool"
    and encode :: "'e \<Rightarrow> 'a list"
    and append1 :: "'e \<Rightarrow> 'b \<Rightarrow> 'b option"
  assumes append1: "inv b \<Longrightarrow> fits (length (contents b) + length (encode x)) \<Longrightarrow>
      \<exists>b'. append1 x b = Some b' \<and> inv b' \<and> contents b' = contents b @ encode x"
    and fits_less: "fits n \<Longrightarrow> m \<le> n \<Longrightarrow> fits m"
begin

primrec append_all :: "'e list \<Rightarrow> 'b \<Rightarrow> 'b option" where
  "append_all [] b = Some b"
| "append_all (x # xs) b = Option.bind (append1 x b) (append_all xs)"

lemma append_all:
  "inv b \<Longrightarrow> fits (length (contents b) + length (concat (map encode xs))) \<Longrightarrow>
    \<exists>b'. append_all xs b = Some b' \<and> inv b' \<and> contents b' = contents b @ concat (map encode xs)"
proof (induction xs arbitrary: b)
  case (Cons x xs)
  have "fits (length (contents b) + length (encode x))"
    by (rule fits_less [OF Cons.prems(2)]) simp
  then obtain b1 where b1: "append1 x b = Some b1" "inv b1" "contents b1 = contents b @ encode x"
    using append1 [OF Cons.prems(1)] by blast
  with Cons.IH [OF b1(2)] Cons.prems(2) show ?case by (simp add: add.assoc)
qed simp

lemma fold_append_None: "fold (\<lambda>x r. Option.bind r (append1 x)) xs None = None"
  by (induction xs) simp_all

lemma fold_append_all: "fold (\<lambda>x r. Option.bind r (append1 x)) xs (Some b) = append_all xs b"
proof (induction xs arbitrary: b)
  case (Cons x xs)
  then show ?case by (cases "append1 x b") (simp_all add: fold_append_None)
qed simp

end

subsection \<open>String buffers\<close>

definition sb_contents :: "string_buffer \<Rightarrow> byte list" where
  "sb_contents b = take (sb_length b) (sb_data b)"

definition sb_inv :: "string_buffer \<Rightarrow> bool" where
  "sb_inv b \<longleftrightarrow> length (sb_data b) = sb_capacity b \<and> sb_length b \<le> sb_capacity b \<and> 0 < sb_capacity b"

lemma grow_returns: "0 < cap \<Longrightarrow> n \<le> 2 ^ 31 \<Longrightarrow> \<exists>k. grow cap n = Some (cap * 2 ^ k) \<and> n \<le> cap * 2 ^ k"
proof (induction "n - cap" arbitrary: cap rule: less_induct)
  case less
  show ?case
  proof (cases "cap < n")
    case True
    have m: "cap * 2 mod 2 ^ 32 = cap * 2" using True less.prems(2) by simp
    have "n - cap * 2 < n - cap" using True less.prems(1) by simp
    from less.hyps [OF this] less.prems obtain k where
      "grow (cap * 2) n = Some (cap * 2 * 2 ^ k)" "n \<le> cap * 2 * 2 ^ k" by auto
    then show ?thesis
      using True m by (intro exI [of _ "Suc k"]) (simp add: grow.simps [of cap] ac_simps)
  next
    case False
    then show ?thesis by (intro exI [of _ 0]) (simp add: grow.simps)
  qed
qed

lemma sb_resize:
  assumes "sb_inv b" "sb_length b + n \<le> 2 ^ 31"
  shows "\<exists>b'. maybe_resize_string_buffer fresh n b = Some b' \<and> sb_inv b' \<and> sb_contents b' = sb_contents b
    \<and> sb_length b' = sb_length b \<and> sb_length b + n \<le> sb_capacity b'"
proof -
  obtain c where c: "grow (sb_capacity b) (sb_length b + n) = Some c" "sb_length b + n \<le> c"
    using grow_returns [of "sb_capacity b" "sb_length b + n"] assms by (auto simp: sb_inv_def)
  have "0 < c" using c assms(1) grow_returns [of "sb_capacity b" "sb_length b + n"] assms(2)
    by (auto simp: sb_inv_def)
  with c assms(1) show ?thesis
    by (auto simp: maybe_resize_string_buffer_def sb_inv_def sb_contents_def memcpy_def)
qed

lemma length_utf8_bytes: "length (utf8_bytes c) = fst (utf8_shape c) + 1"
  by (simp add: utf8_bytes_def case_prod_unfold)

lemma sb_write:
  assumes "sb_inv b" "sb_length b + length str \<le> sb_capacity b"
  shows "sb_inv (b\<lparr>sb_data := memcpy (sb_length b) str (sb_data b), sb_length := sb_length b + length str\<rparr>)"
    and "sb_contents (b\<lparr>sb_data := memcpy (sb_length b) str (sb_data b), sb_length := sb_length b + length str\<rparr>)
         = sb_contents b @ str"
  using assms by (simp_all add: sb_inv_def sb_contents_def length_memcpy take_memcpy)

lemma sb_append_codepoint:
  assumes "sb_inv b" "sb_length b + length (utf8_bytes c) \<le> 2 ^ 31"
  shows "\<exists>b'. gumbo_string_buffer_append_codepoint fresh c b = Some b' \<and> sb_inv b'
    \<and> sb_contents b' = sb_contents b @ utf8_bytes c"
  using sb_resize [OF assms(1), of "length (utf8_bytes c)" fresh] assms(2) sb_write [of _ "utf8_bytes c"]
  by (fastforce simp: gumbo_string_buffer_append_codepoint_def length_utf8_bytes)

lemma sb_append_string:
  assumes "sb_inv b" "sb_length b + length str \<le> 2 ^ 31"
  shows "\<exists>b'. gumbo_string_buffer_append_string fresh str b = Some b' \<and> sb_inv b'
    \<and> sb_contents b' = sb_contents b @ str"
  using sb_resize [OF assms(1), of "length str" fresh] assms(2) sb_write [of _ str]
  by (fastforce simp: gumbo_string_buffer_append_string_def)

lemma sb_contents_length: "sb_inv b \<Longrightarrow> length (sb_contents b) = sb_length b"
  by (simp add: sb_inv_def sb_contents_def)

interpretation sbc: growable sb_contents sb_inv "\<lambda>n. n \<le> 2 ^ 31" utf8_bytes
    "gumbo_string_buffer_append_codepoint fresh" for fresh
  by unfold_locales (auto simp: sb_contents_length intro: sb_append_codepoint)

interpretation sbs: growable sb_contents sb_inv "\<lambda>n. n \<le> 2 ^ 31" "\<lambda>str. str"
    "gumbo_string_buffer_append_string fresh" for fresh
  by unfold_locales (auto simp: sb_contents_length intro: sb_append_string)

lemma sb_init: "sb_inv (gumbo_string_buffer_init fresh)" "sb_contents (gumbo_string_buffer_init fresh) = []"
  by (simp_all add: sb_inv_def sb_contents_def gumbo_string_buffer_init_def kDefaultStringBufferSize_def)

subsection \<open>Vectors\<close>

definition vc_contents :: "'a gumbo_vector \<Rightarrow> 'a list" where
  "vc_contents v = take (vc_length v) (vc_data v)"

definition vc_inv :: "'a gumbo_vector \<Rightarrow> bool" where
  "vc_inv v \<longleftrightarrow> length (vc_data v) = vc_capacity v \<and> vc_length v \<le> vc_capacity v"

lemma vc_contents_length: "vc_inv v \<Longrightarrow> length (vc_contents v) = vc_length v"
  by (simp add: vc_inv_def vc_contents_def)

lemma vc_enlarge:
  assumes "vc_inv v"
  shows "vc_inv (enlarge_vector_if_full fresh v)" "vc_contents (enlarge_vector_if_full fresh v) = vc_contents v"
    "vc_length (enlarge_vector_if_full fresh v) = vc_length v"
    "vc_length v < vc_capacity (enlarge_vector_if_full fresh v)"
  using assms by (auto simp: enlarge_vector_if_full_def vc_inv_def vc_contents_def memcpy_def)

lemma vc_add:
  assumes "vc_inv v"
  shows "\<exists>v'. gumbo_vector_add fresh x v = Inr v' \<and> vc_inv v' \<and> vc_contents v' = vc_contents v @ [x]"
proof -
  let ?v = "enlarge_vector_if_full fresh v"
  note e = vc_enlarge [OF assms, of fresh]
  have l: "vc_length v < length (vc_data ?v)" using e(1,4) by (simp add: vc_inv_def)
  then have "gumbo_vector_add fresh x v = Inr (?v\<lparr>vc_data := (vc_data ?v)[vc_length v := x], vc_length := vc_length v + 1\<rparr>)"
    using e(3,4) by (auto simp: gumbo_vector_add_def Let_def)
  moreover have "take (vc_length v + 1) ((vc_data ?v)[vc_length v := x]) = vc_contents v @ [x]"
    using l e(2,3) by (simp add: vc_contents_def take_Suc_conv_app_nth)
  ultimately show ?thesis using e(1) l by (simp add: vc_inv_def vc_contents_def)
qed

lemma vc_add_option:
  assumes "vc_inv v"
  shows "\<exists>v'. (case gumbo_vector_add fresh x v of Inl _ \<Rightarrow> None | Inr v \<Rightarrow> Some v) = Some v' \<and> vc_inv v'
    \<and> vc_contents v' = vc_contents v @ [x]"
proof -
  obtain v' where "gumbo_vector_add fresh x v = Inr v'" "vc_inv v'" "vc_contents v' = vc_contents v @ [x]"
    using vc_add [OF assms] by blast
  then show ?thesis by simp
qed

interpretation vca: growable vc_contents vc_inv "\<lambda>_. True" "\<lambda>x. [x]"
    "\<lambda>x v. case gumbo_vector_add fresh x v of Inl _ \<Rightarrow> None | Inr v \<Rightarrow> Some v" for fresh
  by unfold_locales (rule vc_add_option)

lemma vc_pop:
  assumes "vc_inv v"
  shows "gumbo_vector_pop v =
    (if vc_contents v = [] then (None, v) else (Some (last (vc_contents v)), snd (gumbo_vector_pop v)))"
    and "vc_inv (snd (gumbo_vector_pop v))" "vc_contents (snd (gumbo_vector_pop v)) = butlast (vc_contents v)"
  using assms
  by (auto simp: gumbo_vector_pop_def vc_inv_def vc_contents_def last_conv_nth butlast_take min_def)

lemma index_loop_first:
  "index_loop x i xs = (if x \<in> set xs then int i + int (length (takeWhile (\<lambda>y. y \<noteq> x) xs)) else -1)"
  by (induction xs arbitrary: i) auto

lemma vc_index_of:
  "gumbo_vector_index_of v x =
    (if x \<in> set (vc_contents v) then int (length (takeWhile (\<lambda>y. y \<noteq> x) (vc_contents v))) else -1)"
  by (simp add: gumbo_vector_index_of_def index_loop_first vc_contents_def)

lemma memmove_insert:
  "i + k < length d \<Longrightarrow> take (i + k + 1) ((memmove (i + 1) i k d)[i := x]) = take i d @ x # take k (drop i d)"
  by (simp add: memmove_def take_Suc_conv_app_nth list_update_append)

lemma memmove_remove:
  "i + k < length d \<Longrightarrow> take (i + k) (memmove i (i + 1) k d) = take i d @ take k (drop (i + 1) d)"
  by (simp add: memmove_def)

lemma vc_insert_at:
  assumes "vc_inv v" "i \<le> vc_length v"
  shows "\<exists>v'. gumbo_vector_insert_at fresh x (int i) v = Inr v' \<and> vc_inv v'
    \<and> vc_contents v' = take i (vc_contents v) @ x # drop i (vc_contents v)"
proof -
  let ?v = "enlarge_vector_if_full fresh v"
  let ?d = "vc_data ?v" and ?n = "vc_length v"
  note e = vc_enlarge [OF assms(1), of fresh]
  have l: "?n < length ?d" using e(1,4) by (simp add: vc_inv_def)
  have c: "vc_contents v = take ?n ?d" using e(2,3) by (simp add: vc_contents_def)
  have len: "length (memmove (i + 1) i (?n - i) ?d) = length ?d"
    using l assms(2) by (intro length_memmove) auto
  obtain k where k: "?n = i + k" using assms(2) le_Suc_ex by blast
  let ?v' = "?v\<lparr>vc_length := ?n + 1, vc_data := (memmove (i + 1) i (?n - i) ?d)[i := x]\<rparr>"
  have "gumbo_vector_insert_at fresh x (int i) v = Inr ?v'"
    using assms(2) e(3) by (simp add: gumbo_vector_insert_at_def Let_def)
  moreover have "vc_inv ?v'" using e(1) l len by (simp add: vc_inv_def)
  moreover have "vc_contents ?v' = take i (vc_contents v) @ x # drop i (vc_contents v)"
    using memmove_insert [of i k ?d x] l by (simp add: c k drop_take) (simp add: vc_contents_def)
  ultimately show ?thesis by blast
qed

lemma vc_remove_at:
  assumes "vc_inv v" "i < vc_length v"
  shows "\<exists>v'. gumbo_vector_remove_at (int i) v = Inr (vc_contents v ! i, v') \<and> vc_inv v'
    \<and> vc_contents v' = take i (vc_contents v) @ drop (i + 1) (vc_contents v)"
proof -
  let ?d = "vc_data v" and ?n = "vc_length v"
  have l: "?n \<le> length ?d" using assms(1) by (simp add: vc_inv_def)
  have len: "length (memmove i (i + 1) (?n - i - 1) ?d) = length ?d"
    using l assms(2) by (intro length_memmove) auto
  obtain k where k: "?n = Suc (i + k)" using assms(2) less_imp_Suc_add by blast
  have "take (?n - 1) (memmove i (i + 1) (?n - i - 1) ?d) = take i (take ?n ?d) @ drop (i + 1) (take ?n ?d)"
    using memmove_remove [of i k ?d] l by (simp add: k drop_take)
  then show ?thesis
    using assms l len by (auto simp: gumbo_vector_remove_at_def Let_def vc_inv_def vc_contents_def)
qed

lemma length_before: "x \<in> set xs \<Longrightarrow> length (takeWhile (\<lambda>y. y \<noteq> x) xs) < length xs"
  by (induction xs) auto

lemma remove1_first:
  "x \<in> set xs \<Longrightarrow> remove1 x xs =
     take (length (takeWhile (\<lambda>y. y \<noteq> x) xs)) xs @ drop (length (takeWhile (\<lambda>y. y \<noteq> x) xs) + 1) xs"
  by (induction xs) auto

lemma vc_remove:
  assumes "vc_inv v"
  shows "\<exists>v'. gumbo_vector_remove x v = Inr v' \<and> vc_inv v' \<and> vc_contents v' = remove1 x (vc_contents v)"
proof (cases "x \<in> set (vc_contents v)")
  case True
  let ?i = "length (takeWhile (\<lambda>y. y \<noteq> x) (vc_contents v))"
  have "?i < vc_length v"
    using length_before [OF True] vc_contents_length [OF assms] by simp
  from vc_remove_at [OF assms this] True show ?thesis
    by (auto simp: gumbo_vector_remove_def vc_index_of remove1_first)
next
  case False
  then show ?thesis using assms by (simp add: gumbo_vector_remove_def vc_index_of remove1_idem)
qed

lemma vc_init: "vc_inv (gumbo_vector_init fresh n)" "vc_contents (gumbo_vector_init fresh n) = []"
  by (simp_all add: vc_inv_def vc_contents_def gumbo_vector_init_def)

section \<open>Properties\<close>

text \<open>C15: every operation on a vector acts on its slots in use as the list operation does: add appends,
  pop removes the last element and returns it, index_of is the first index or -1, insert_at and remove_at
  split the list at the index, remove drops the first occurrence.  Each keeps the number of slots in use
  within the capacity, none fails its assertions for an index in range.\<close>

theorem vector_refines_list:
  assumes "vc_inv v" and "i \<le> vc_length v"
  shows "(\<exists>v'. gumbo_vector_add fresh x v = Inr v' \<and> vc_inv v' \<and> vc_contents v' = vc_contents v @ [x])
    \<and> (vc_contents v = [] \<longrightarrow> gumbo_vector_pop v = (None, v))
    \<and> (vc_contents v \<noteq> [] \<longrightarrow> (\<exists>v'. gumbo_vector_pop v = (Some (last (vc_contents v)), v') \<and> vc_inv v'
         \<and> vc_contents v' = butlast (vc_contents v)))
    \<and> gumbo_vector_index_of v x =
        (if x \<in> set (vc_contents v) then int (length (takeWhile (\<lambda>y. y \<noteq> x) (vc_contents v))) else -1)
    \<and> (\<exists>v'. gumbo_vector_insert_at fresh x (int i) v = Inr v' \<and> vc_inv v'
         \<and> vc_contents v' = take i (vc_contents v) @ x # drop i (vc_contents v))
    \<and> (i < vc_length v \<longrightarrow> (\<exists>v'. gumbo_vector_remove_at (int i) v = Inr (vc_contents v ! i, v') \<and> vc_inv v'
         \<and> vc_contents v' = take i (vc_contents v) @ drop (i + 1) (vc_contents v)))
    \<and> (\<exists>v'. gumbo_vector_remove x v = Inr v' \<and> vc_inv v' \<and> vc_contents v' = remove1 x (vc_contents v))"
proof (intro conjI impI)
  show "gumbo_vector_pop v = (None, v)" if "vc_contents v = []" using vc_pop(1) [OF assms(1)] that by simp
  show "\<exists>v'. gumbo_vector_pop v = (Some (last (vc_contents v)), v') \<and> vc_inv v' \<and> vc_contents v' = butlast (vc_contents v)"
    if "vc_contents v \<noteq> []" using vc_pop [OF assms(1)] that by (intro exI [of _ "snd (gumbo_vector_pop v)"]) simp
qed (rule vc_add [OF assms(1)] vc_index_of vc_insert_at [OF assms] vc_remove_at [OF assms(1)] vc_remove [OF assms(1)], assumption?)+

definition demo_vector :: "nat gumbo_vector" where
  "demo_vector = \<lparr>vc_data = [7, 8, 0], vc_length = 2, vc_capacity = 3\<rparr>"

theorem vector_refines_list_witness:
  "\<exists>v'. gumbo_vector_insert_at (\<lambda>n i. 0) 9 1 demo_vector = Inr v' \<and> vc_contents v' = [7, 9, 8]"
proof -
  have "vc_inv demo_vector" "1 \<le> vc_length demo_vector" "vc_contents demo_vector = [7, 8]"
    by (simp_all add: vc_inv_def vc_contents_def demo_vector_def)
  with vector_refines_list [of demo_vector 1 "\<lambda>n i. 0" 9] show ?thesis by auto
qed



end
