(* ===== verification/GumboDecode.thy ===== *)
theory GumboDecode
  imports GumboBuffer
begin

text \<open>
  What \<^verbatim>\<open>read_char\<close> of \<^verbatim>\<open>src/html_parser/utf8.cpp\<close> decodes: bounds of the width and the code
  point, the value of a multi-byte sequence, and the invariant of the iterator.
\<close>

section \<open>Bounds\<close>

lemma lead_byte_width: "1 \<le> fst (lead_byte c)" "fst (lead_byte c) \<le> 7"
  by (simp_all add: lead_byte_def)

lemma first_width_bounds:
  "s < e \<Longrightarrow> 1 \<le> first_width mem s e" "s + first_width mem s e \<le> e" "first_width mem s e < 8"
  using lead_byte_width [of "mem s"] by (auto simp: first_width_def)

lemma continuation_bounds:
  "continuation mem s i w cp bad = (w', cp', bad') \<Longrightarrow> i \<le> w \<Longrightarrow> i \<le> w' \<and> w' \<le> w"
proof (induction mem s i w cp bad rule: continuation.induct)
  case (1 mem s i w cp bad)
  from 1(2) [unfolded continuation.simps [of mem s i w]] 1(3) show ?case
    using 1(1) by (fastforce simp: Let_def split: if_splits)
qed

lemma decoded_width_bounds:
  assumes "s < e"
  shows "1 \<le> decoded_width mem s e" "s + decoded_width mem s e \<le> e" "decoded_width mem s e < 8"
proof -
  obtain w cp bad where d: "decode mem s e = (w, cp, bad)" by (metis prod_cases3)
  have "1 \<le> w \<and> w \<le> first_width mem s e"
    using continuation_bounds [OF d [unfolded decode_def]] first_width_bounds(1) [OF assms] by blast
  then show "1 \<le> decoded_width mem s e" "s + decoded_width mem s e \<le> e" "decoded_width mem s e < 8"
    using first_width_bounds(2) [of s mem e] first_width_bounds(3) [of mem s e] d by (auto simp: decoded_width_def)
qed

lemma to_int_small: "0 \<le> v \<Longrightarrow> v < 2 ^ 31 \<Longrightarrow> to_int v = v"
  by (simp add: to_int_def)

lemma decoded_range: "0 \<le> decoded mem s e" "decoded mem s e \<le> 0x10FFFF"
proof -
  have *: "\<not> (0x10FFFF :: 64 word) < cp \<Longrightarrow> 0 \<le> to_int (uint cp) \<and> to_int (uint cp) \<le> 0x10FFFF" for cp
    using to_int_small [of "uint cp"] by (auto simp: word_less_def not_less)
  then show "0 \<le> decoded mem s e" "decoded mem s e \<le> 0x10FFFF"
    by (auto simp: decoded_def kUtf8ReplacementChar_def split: prod.split)
qed

section \<open>Values\<close>

abbreviation cont_byte :: "byte \<Rightarrow> bool" where
  "cont_byte c \<equiv> 0x80 \<le> c \<and> c \<le> 0xBF"

definition cont_value :: "64 word \<Rightarrow> byte \<Rightarrow> 64 word" where
  "cont_value cp c = push_bit 6 cp OR ucast (c AND NOT 0x80)"

lemma uint_cont_value:
  "cont_byte c \<Longrightarrow> uint cp < 2 ^ 50 \<Longrightarrow> uint (cont_value cp c) = uint cp * 64 + (uint c - 128)"
  unfolding cont_value_def by (rule cont_step) simp_all

lemma continuation_1: "continuation mem s 1 1 cp bad = (1, cp, bad)"
  by (simp add: continuation.simps)

lemma continuation_step:
  "i < w \<Longrightarrow> continuation mem s i w cp bad =
     (if cont_byte (mem (s + i)) then continuation mem s (i + 1) w (cont_value cp (mem (s + i))) bad
      else (i, cp, True))"
  by (subst continuation.simps) (auto simp: Let_def cont_value_def not_le not_less)

lemma continuation_end: "continuation mem s w w cp bad = (w, cp, bad)"
  by (subst continuation.simps) simp

lemma continuation_2:
  "continuation mem s 1 2 cp bad =
     (if cont_byte (mem (s + 1)) then (2, cont_value cp (mem (s + 1)), bad) else (1, cp, True))"
  using continuation_end [of mem s 2] by (simp add: continuation_step)

lemma continuation_3:
  "continuation mem s 1 3 cp bad =
     (if cont_byte (mem (s + 1)) then
        if cont_byte (mem (s + 2))
        then (3, cont_value (cont_value cp (mem (s + 1))) (mem (s + 2)), bad)
        else (2, cont_value cp (mem (s + 1)), True)
      else (1, cp, True))"
  using continuation_end [of mem s 3] by (simp add: continuation_step)

lemma continuation_4:
  "continuation mem s 1 4 cp bad =
     (if cont_byte (mem (s + 1)) then
        if cont_byte (mem (s + 2)) then
          if cont_byte (mem (s + 3))
          then (4, cont_value (cont_value (cont_value cp (mem (s + 1))) (mem (s + 2))) (mem (s + 3)), bad)
          else (3, cont_value (cont_value cp (mem (s + 1))) (mem (s + 2)), True)
        else (2, cont_value cp (mem (s + 1)), True)
      else (1, cp, True))"
  using continuation_end [of mem s 4] by (simp add: continuation_step)

lemma uint_mask:
  assumes "x = mask n" "uint (c :: byte) div 2 ^ n * 2 ^ n = k"
  shows "uint (ucast (c AND x) :: 64 word) = uint c - k"
proof -
  have "c AND x = take_bit n c" using assms(1) by (simp only: take_bit_eq_mask)
  then have u: "uint (c AND x) = uint c mod 2 ^ n"
    by (simp only: unsigned_take_bit_eq) (simp add: take_bit_eq_mod)
  have "uint (ucast (c AND x) :: 64 word) = uint (c AND x)"
    by (simp add: unsigned_ucast_eq take_bit_int_eq_self uint_lt2p [THEN less_le_trans])
  then show ?thesis using u assms(2) by (simp add: minus_div_mult_eq_mod [symmetric])
qed

lemma decode_1:
  assumes "s < e" "mem s < 0x80"
  shows "decode mem s e = (1, ucast (mem s), False)"
proof -
  have "mem s AND 0xFF = mem s"
    using and.right_neutral [of "mem s"] by (simp add: minus_1_eq_mask mask_eq_exp_minus_1)
  then show ?thesis
    using assms by (simp add: decode_def first_width_def lead_byte_def continuation_1)
qed

lemma decode_2:
  assumes "s + 2 \<le> e" "0xC2 \<le> mem s" "mem s < 0xE0" "cont_byte (mem (s + 1))"
  shows "\<exists>cp. decode mem s e = (2, cp, False) \<and> uint cp = (uint (mem s) - 0xC0) * 64 + (uint (mem (s + 1)) - 128)"
proof -
  have b: "0xC2 \<le> uint (mem s)" "uint (mem s) < 0xE0" using assms(2,3) by (simp_all add: word_le_def word_less_def)
  have l: "lead_byte (mem s) = (2, 0x1F, False)"
    using b by (simp add: lead_byte_def word_less_def)
  have "uint (mem s) div 2 ^ 5 = 6" using b by auto
  then have u: "uint (ucast (mem s AND 0x1F) :: 64 word) = uint (mem s) - 0xC0"
    by (intro uint_mask [of _ 5]) (simp_all add: mask_eq_exp_minus_1)
  show ?thesis
    using assms(1,4) l u b
    by (simp add: decode_def first_width_def continuation_2 uint_cont_value)
qed

lemma decode_3:
  assumes "s + 3 \<le> e" "0xE0 \<le> mem s" "mem s < 0xF0" "cont_byte (mem (s + 1))" "cont_byte (mem (s + 2))"
  shows "\<exists>cp. decode mem s e = (3, cp, False) \<and>
     uint cp = ((uint (mem s) - 0xE0) * 64 + (uint (mem (s + 1)) - 128)) * 64 + (uint (mem (s + 2)) - 128)"
proof -
  have b: "0xE0 \<le> uint (mem s)" "uint (mem s) < 0xF0" using assms(2,3) by (simp_all add: word_le_def word_less_def)
  have l: "lead_byte (mem s) = (3, 0xF, False)"
    using b by (simp add: lead_byte_def word_less_def)
  have "uint (mem s) div 2 ^ 4 = 14" using b by auto
  then have u: "uint (ucast (mem s AND 0xF) :: 64 word) = uint (mem s) - 0xE0"
    by (intro uint_mask [of _ 4]) (simp_all add: mask_eq_exp_minus_1)
  have b1: "uint (mem (s + 1)) \<le> 0xBF" using assms(4) by (simp add: word_le_def)
  show ?thesis
    using assms(1,4,5) l u b b1
    by (simp add: decode_def first_width_def continuation_3 uint_cont_value)
qed

lemma decode_4:
  assumes "s + 4 \<le> e" "0xF0 \<le> mem s" "mem s < 0xF5"
    "cont_byte (mem (s + 1))" "cont_byte (mem (s + 2))" "cont_byte (mem (s + 3))"
  shows "\<exists>cp. decode mem s e = (4, cp, False) \<and>
     uint cp = (((uint (mem s) - 0xF0) * 64 + (uint (mem (s + 1)) - 128)) * 64 + (uint (mem (s + 2)) - 128)) * 64
               + (uint (mem (s + 3)) - 128)"
proof -
  have b: "0xF0 \<le> uint (mem s)" "uint (mem s) < 0xF5" using assms(2,3) by (simp_all add: word_le_def word_less_def)
  have l: "lead_byte (mem s) = (4, 0x7, False)"
    using b by (simp add: lead_byte_def word_less_def)
  have "uint (mem s) div 2 ^ 3 = 30" using b by auto
  then have u: "uint (ucast (mem s AND 0x7) :: 64 word) = uint (mem s) - 0xF0"
    by (intro uint_mask [of _ 3]) (simp_all add: mask_eq_exp_minus_1)
  have b1: "uint (mem (s + 1)) \<le> 0xBF" "uint (mem (s + 2)) \<le> 0xBF" using assms(4,5) by (simp_all add: word_le_def)
  show ?thesis
    using assms(1,4-) l u b b1
    by (simp add: decode_def first_width_def continuation_4 uint_cont_value)
qed

text \<open>Any other sequence is bad.\<close>

lemma continuation_bad: "snd (snd (continuation mem s i w cp True))"
  by (induction mem s i w cp "True" rule: continuation.induct)
     (subst continuation.simps, auto simp: Let_def)

lemma decode_good:
  assumes "decode mem s e = (w, cp, False)"
  shows "(mem s < 0x80) \<or> (s + 2 \<le> e \<and> 0xC2 \<le> mem s \<and> mem s < 0xE0 \<and> cont_byte (mem (s + 1)))
    \<or> (s + 3 \<le> e \<and> 0xE0 \<le> mem s \<and> mem s < 0xF0 \<and> cont_byte (mem (s + 1)) \<and> cont_byte (mem (s + 2)))
    \<or> (s + 4 \<le> e \<and> 0xF0 \<le> mem s \<and> mem s < 0xF5 \<and> cont_byte (mem (s + 1)) \<and> cont_byte (mem (s + 2)) \<and> cont_byte (mem (s + 3)))"
proof -
  have "\<not> (snd (snd (lead_byte (mem s))) \<or> s + fst (lead_byte (mem s)) > e)"
  proof
    assume "snd (snd (lead_byte (mem s))) \<or> s + fst (lead_byte (mem s)) > e"
    then have "decode mem s e = continuation mem s 1 (first_width mem s e)
      (ucast (mem s AND fst (snd (lead_byte (mem s))))) True" by (simp add: decode_def)
    with continuation_bad show False using assms by (metis snd_conv)
  qed
  then have nb: "\<not> snd (snd (lead_byte (mem s)))" "s + fst (lead_byte (mem s)) \<le> e" by simp_all
  then have fw: "first_width mem s e = fst (lead_byte (mem s))" by (simp add: first_width_def)
  consider "mem s < 0x80" | "0xC2 \<le> mem s \<and> mem s < 0xE0" | "0xE0 \<le> mem s \<and> mem s < 0xF0" | "0xF0 \<le> mem s \<and> mem s < 0xF5"
    using nb(1) by (simp add: lead_byte_def word_less_def word_le_def split: if_splits)
  then show ?thesis
  proof cases
    case 2
    then have "lead_byte (mem s) = (2, 0x1F, False)" by (simp add: lead_byte_def word_less_def word_le_def)
    with assms nb fw 2 show ?thesis by (simp add: decode_def continuation_2 split: if_splits)
  next
    case 3
    then have "lead_byte (mem s) = (3, 0xF, False)" by (simp add: lead_byte_def word_less_def word_le_def)
    with assms nb fw 3 show ?thesis by (simp add: decode_def continuation_3 split: if_splits)
  next
    case 4
    then have "lead_byte (mem s) = (4, 0x7, False)" by (simp add: lead_byte_def word_less_def word_le_def)
    with assms nb fw 4 show ?thesis by (simp add: decode_def continuation_4 split: if_splits)
  qed simp
qed

section \<open>ASCII\<close>

text \<open>The code point the iterator shows for a byte below 128.\<close>

definition ascii_value :: "byte \<Rightarrow> int" where
  "ascii_value b = (if b = 0x0D then C_LF else if utf8_is_invalid_code_point (uint b) then kUtf8ReplacementChar
                    else uint b)"

text \<open>A three- or four-byte sequence that could have been shorter.  \<open>read_char\<close> accepts these.\<close>

definition no_overlong :: "memory \<Rightarrow> int \<Rightarrow> bool" where
  "no_overlong mem i \<longleftrightarrow> (mem i = 0xE0 \<longrightarrow> 0xA0 \<le> mem (i + 1)) \<and> (mem i = 0xF0 \<longrightarrow> 0x90 \<le> mem (i + 1))"

lemma decoded_ascii:
  assumes "s < e" "mem s < 0x80"
  shows "decoded_width mem s e = 1"
    and "decoded mem s e = (if utf8_is_invalid_code_point (uint (mem s)) then kUtf8ReplacementChar else uint (mem s))"
proof -
  have b: "uint (mem s) < 0x80" using assms(2) by (simp add: word_less_def)
  have u: "uint (ucast (mem s) :: 64 word) = uint (mem s)"
    by (simp add: unsigned_ucast_eq take_bit_int_eq_self uint_lt2p [THEN less_le_trans])
  have t: "to_int (uint (mem s)) = uint (mem s)" using b by (intro to_int_small) simp_all
  have l: "\<not> (0x10FFFF :: 64 word) < ucast (mem s)" using u b by (simp add: word_less_def)
  show "decoded_width mem s e = 1" using decode_1 [of s e mem, OF assms] by (simp add: decoded_width_def)
  show "decoded mem s e = (if utf8_is_invalid_code_point (uint (mem s)) then kUtf8ReplacementChar else uint (mem s))"
    using decode_1 [of s e mem, OF assms] u t l by (simp add: decoded_def)
qed

lemma decode_multi_value:
  assumes "decode mem s e = (w, cp, False)" "\<not> mem s < 0x80" "no_overlong mem s"
  shows "0x80 \<le> uint cp"
  using decode_good [OF assms(1)]
proof (elim disjE conjE)
  assume "s + 2 \<le> e" "0xC2 \<le> mem s" "mem s < 0xE0" "0x80 \<le> mem (s + 1)" "mem (s + 1) \<le> 0xBF"
  with decode_2 [of s e mem] assms(1) show ?thesis by (auto simp: word_le_def)
next
  assume *: "s + 3 \<le> e" "0xE0 \<le> mem s" "mem s < 0xF0" "0x80 \<le> mem (s + 1)" "mem (s + 1) \<le> 0xBF"
    "0x80 \<le> mem (s + 2)" "mem (s + 2) \<le> 0xBF"
  then have "mem s = 0xE0 \<and> 0xA0 \<le> uint (mem (s + 1)) \<or> 0xE0 < uint (mem s)"
    using assms(3) by (auto simp: no_overlong_def word_le_def word_uint_eq_iff)
  with * decode_3 [of s e mem] assms(1) show ?thesis by (auto simp: word_le_def)
next
  assume *: "s + 4 \<le> e" "0xF0 \<le> mem s" "mem s < 0xF5" "0x80 \<le> mem (s + 1)" "mem (s + 1) \<le> 0xBF"
    "0x80 \<le> mem (s + 2)" "mem (s + 2) \<le> 0xBF" "0x80 \<le> mem (s + 3)" "mem (s + 3) \<le> 0xBF"
  then have "mem s = 0xF0 \<and> 0x90 \<le> uint (mem (s + 1)) \<or> 0xF0 < uint (mem s)"
    using assms(3) by (auto simp: no_overlong_def word_le_def word_uint_eq_iff)
  with * decode_4 [of s e mem] assms(1) show ?thesis by (auto simp: word_le_def)
qed (use assms(2) in simp)

lemma decoded_small:
  assumes "no_overlong mem s" "decoded mem s e < 0x80"
  shows "mem s < 0x80"
proof (rule ccontr)
  assume n: "\<not> mem s < 0x80"
  obtain w cp bad where d: "decode mem s e = (w, cp, bad)" by (metis prod_cases3)
  from assms(2) d have *: "\<not> bad" "\<not> cp > 0x10FFFF" "to_int (uint cp) < 0x80"
    by (auto simp: decoded_def kUtf8ReplacementChar_def split: if_splits)
  then have "to_int (uint cp) = uint cp" by (intro to_int_small) (simp_all add: word_less_def)
  with * d decode_multi_value [OF _ n assms(1)] show False by fastforce
qed

lemma decoded_CR:
  assumes "decoded mem s e = C_CR" "\<not> mem s < 0x80"
  shows "0x80 \<le> mem (s + 1)"
proof -
  obtain w cp bad where d: "decode mem s e = (w, cp, bad)" by (metis prod_cases3)
  with assms(1) have "\<not> bad" by (auto simp: decoded_def kUtf8ReplacementChar_def split: if_splits)
  with d decode_good [of mem s e w cp] assms(2) show ?thesis by auto
qed

section \<open>Invariant of the iterator\<close>

text \<open>Before the end the iterator shows a code point of at least one byte that lies in the buffer; a
  byte below 128 is shown as itself, except for control characters and carriage returns.  At the end it
  shows -1.  Where no overlong sequence starts, an ASCII character other than a line feed is shown only for
  its byte.\<close>

definition it_ok :: "utf8_iterator \<Rightarrow> bool" where
  "it_ok it \<longleftrightarrow>
     (if ut_start it < ut_end it
      then 0 \<le> ut_current it \<and> ut_current it \<le> 0x10FFFF \<and> 1 \<le> ut_width it \<and> ut_width it < 8
        \<and> ut_start it + ut_width it \<le> ut_end it
        \<and> (ut_mem it (ut_start it) < 0x80 \<longrightarrow> ut_width it = 1 \<and> ut_current it = ascii_value (ut_mem it (ut_start it)))
        \<and> (no_overlong (ut_mem it) (ut_start it) \<longrightarrow> ut_current it < 0x80 \<longrightarrow> ut_current it \<noteq> C_LF \<longrightarrow>
             ut_mem it (ut_start it) < 0x80)
      else ut_current it = C_EOF \<and> 0 \<le> ut_width it)"

lemma ascii_value_LF: "ascii_value 0x0A = C_LF" "ascii_value 0x0D = C_LF"
  by (simp_all add: ascii_value_def utf8_is_invalid_code_point_def)

lemma decoded_ascii_value:
  assumes "s < e" "mem s < 0x80"
  shows "(if decoded mem s e = C_CR then C_LF else decoded mem s e) = ascii_value (mem s)"
  using decoded_ascii [of s e mem, OF assms]
  by (auto simp: ascii_value_def kUtf8ReplacementChar_def word_uint_eq_iff utf8_is_invalid_code_point_def)

lemma it_ok_read_char:
  assumes "ut_start it < ut_end it"
  shows "it_ok (read_char it)" "ut_start it \<le> ut_start (read_char it)" "ut_ok (read_char it) = ut_ok it"
    "ut_start (read_char it) < ut_end it"
proof -
  let ?m = "ut_mem it" and ?s = "ut_start it" and ?e = "ut_end it"
  note w = decoded_width_bounds [OF assms, of ?m]
  note r = decoded_range [of ?m ?s ?e]
  show "ut_start it \<le> ut_start (read_char it)" by (simp add: read_char_result)
  show "ut_ok (read_char it) = ut_ok it" using first_width_bounds(3) by (simp add: read_char_result)
  show "ut_start (read_char it) < ut_end it" using w assms by (simp add: read_char_result)
  show "it_ok (read_char it)"
  proof (cases "decoded ?m ?s ?e = C_CR \<and> ?s + decoded_width ?m ?s ?e < ?e \<and> ?m (?s + decoded_width ?m ?s ?e) = 0x0A")
    case cr: True
    have "?m (?s + 1) < 0x80 \<longrightarrow> decoded_width ?m ?s ?e = 1 \<and> ?m (?s + 1) = 0x0A"
      using cr decoded_CR [of ?m ?s ?e] decoded_ascii(1) [of ?s ?e ?m] assms by (cases "?m ?s < 0x80") auto
    then show ?thesis
      using cr w r assms by (auto simp: it_ok_def read_char_result ascii_value_LF)
  next
    case False
    moreover have "?m ?s < 0x80 \<longrightarrow> decoded_width ?m ?s ?e = 1"
      using decoded_ascii(1) assms by blast
    moreover have "?m ?s < 0x80 \<longrightarrow> (if decoded ?m ?s ?e = C_CR then C_LF else decoded ?m ?s ?e) = ascii_value (?m ?s)"
      using decoded_ascii_value assms by blast
    moreover have "no_overlong ?m ?s \<longrightarrow> decoded ?m ?s ?e < 0x80 \<longrightarrow> ?m ?s < 0x80"
      using decoded_small by blast
    ultimately show ?thesis
      using w r assms by (auto simp: it_ok_def read_char_result)
  qed
qed

lemma update_position_frame [simp]:
  "ut_start (update_position it) = ut_start it" "ut_end (update_position it) = ut_end it"
  "ut_mark (update_position it) = ut_mark it" "ut_mark_pos (update_position it) = ut_mark_pos it"
  "ut_mem (update_position it) = ut_mem it" "ut_current (update_position it) = ut_current it"
  "ut_width (update_position it) = ut_width it" "ut_ok (update_position it) = ut_ok it"
  "ut_max_errors (update_position it) = ut_max_errors it" "ut_errors (update_position it) = ut_errors it"
  "ut_tab_stop (update_position it) = ut_tab_stop it" "ut_isalnum (update_position it) = ut_isalnum it"
  by (simp_all add: update_position_def Let_def)

lemma next_frame [simp]:
  "ut_end (utf8iterator_next it) = ut_end it" "ut_mark (utf8iterator_next it) = ut_mark it"
  "ut_mark_pos (utf8iterator_next it) = ut_mark_pos it" "ut_mem (utf8iterator_next it) = ut_mem it"
  "ut_max_errors (utf8iterator_next it) = ut_max_errors it" "ut_tab_stop (utf8iterator_next it) = ut_tab_stop it"
  "ut_isalnum (utf8iterator_next it) = ut_isalnum it"
  by (simp_all add: utf8iterator_next_def Let_def)

lemma it_ok_next:
  assumes "it_ok it"
  shows "it_ok (utf8iterator_next it)" "ut_ok (utf8iterator_next it) = ut_ok it"
    "ut_start it + ut_width it \<le> ut_start (utf8iterator_next it)"
    "ut_start it < ut_end it \<Longrightarrow> ut_start it < ut_start (utf8iterator_next it)"
    "ut_start it \<le> ut_start (utf8iterator_next it)"
proof -
  let ?it = "update_position (it\<lparr>ut_start := ut_start it + ut_width it\<rparr>)"
  have n: "utf8iterator_next it = (if ut_start it + ut_width it < ut_end it then read_char ?it else ?it\<lparr>ut_current := C_EOF\<rparr>)"
    by (simp add: utf8iterator_next_def Let_def)
  have w: "0 \<le> ut_width it" "ut_start it < ut_end it \<Longrightarrow> 1 \<le> ut_width it"
    using assms by (auto simp: it_ok_def split: if_splits)
  show "it_ok (utf8iterator_next it)"
    using it_ok_read_char(1) [of ?it] w by (simp add: n) (simp add: it_ok_def)
  show "ut_ok (utf8iterator_next it) = ut_ok it" using it_ok_read_char(3) [of ?it] by (simp add: n)
  show s: "ut_start it + ut_width it \<le> ut_start (utf8iterator_next it)"
    using it_ok_read_char(2) [of ?it] by (simp add: n)
  then show "ut_start it < ut_end it \<Longrightarrow> ut_start it < ut_start (utf8iterator_next it)"
    "ut_start it \<le> ut_start (utf8iterator_next it)" using w by linarith+
qed

lemma it_ok_EOF: "it_ok it \<Longrightarrow> ut_current it = C_EOF \<longleftrightarrow> ut_end it \<le> ut_start it"
  by (auto simp: it_ok_def split: if_splits)

lemma it_ok_init:
  "0 \<le> n \<Longrightarrow> it_ok (utf8iterator_init a n it)" "ut_end (utf8iterator_init a n it) = a + n"
  "ut_mem (utf8iterator_init a n it) = ut_mem it" "0 \<le> n \<Longrightarrow> ut_ok (utf8iterator_init a n it) = ut_ok it"
  "a \<le> ut_start (utf8iterator_init a n it)"
  using it_ok_read_char [of "it\<lparr>ut_start := a, ut_end := a + n, ut_width := 0,
                  ut_pos := \<lparr>line = 1, column = 1, offset = 0\<rparr>\<rparr>"]
  by (auto simp: utf8iterator_init_def Let_def) (auto simp: it_ok_def read_char_result)

section \<open>Round trip\<close>

lemma uint_byte: "0 \<le> v \<Longrightarrow> v < 256 \<Longrightarrow> uint (word_of_int v :: byte) = v"
  by (simp add: uint_word_of_int)

lemma uint_or_byte:
  "0 \<le> x \<Longrightarrow> x < 2 ^ n \<Longrightarrow> 0 \<le> a \<Longrightarrow> a * 2 ^ n + x < 256 \<Longrightarrow> k = push_bit n a \<Longrightarrow>
    uint (word_of_int (k OR x) :: byte) = a * 2 ^ n + x"
  by (simp only: int_or_shift, rule uint_byte) simp_all

lemma uint_cont_byte: "uint (word_of_int (0x80 OR (0x3F AND y)) :: byte) = 128 + y mod 64"
proof -
  have m: "0x3F AND y = y mod 64"
    by (simp add: and.commute [of "0x3F"] take_bit_eq_mod [of 6, symmetric, simplified] take_bit_eq_mask mask_eq_exp_minus_1)
  have "uint (word_of_int (0x80 OR (y mod 64)) :: byte) = 2 * 2 ^ 6 + y mod 64"
    by (rule uint_or_byte) simp_all
  with m show ?thesis by simp
qed

lemma cont_byte_word: "cont_byte (word_of_int (0x80 OR (0x3F AND y)))"
  unfolding word_le_def uint_cont_byte by simp

text \<open>The source holds the encoding of a code point at an address.\<close>

definition holds_at :: "memory \<Rightarrow> int \<Rightarrow> byte list \<Rightarrow> bool" where
  "holds_at mem s bs \<longleftrightarrow> (\<forall>i < length bs. mem (s + int i) = bs ! i)"

lemma holds_at_Cons: "holds_at mem s (b # bs) \<longleftrightarrow> mem s = b \<and> holds_at mem (s + 1) bs"
  by (auto simp: holds_at_def nth_Cons less_Suc_eq_0_disj add.assoc split: nat.splits)

lemma holds_at_Nil: "holds_at mem s []"
  by (simp add: holds_at_def)

lemma drop_bit_int: "drop_bit n (c :: int) = c div 2 ^ n"
  by (simp add: drop_bit_eq_div)

lemma decode_utf8_bytes_1:
  assumes "0 \<le> c" "c \<le> 0x10FFFF" "holds_at mem s (utf8_bytes c)" "s + int (length (utf8_bytes c)) \<le> e"
    and range: "c \<le> 0x7F"
  shows "\<exists>cp. decode mem s e = (int (length (utf8_bytes c)), cp, False) \<and> uint cp = c"
proof -
  have b: "utf8_bytes c = [word_of_int c]" using range by (simp add: utf8_bytes_def utf8_shape_def)
  have u: "uint (word_of_int c :: byte) = c" using assms(1) range by (intro uint_byte) simp_all
  have m: "mem s = word_of_int c" using assms(3) by (simp add: b holds_at_Cons)
  have "uint (ucast (mem s) :: 64 word) = c"
    using u m assms(1) range by (simp add: unsigned_ucast_eq take_bit_int_eq_self)
  then show ?thesis using decode_1 [of s e mem] assms(4) u m range by (simp add: b word_less_def)
qed

lemma decode_utf8_bytes_2:
  assumes "0 \<le> c" "c \<le> 0x10FFFF" "holds_at mem s (utf8_bytes c)" "s + int (length (utf8_bytes c)) \<le> e"
    and range: "0x80 \<le> c \<and> c \<le> 0x7FF"
  shows "\<exists>cp. decode mem s e = (int (length (utf8_bytes c)), cp, False) \<and> uint cp = c"
proof -
  have b: "utf8_bytes c = [word_of_int (0xC0 OR (c div 64)), word_of_int (0x80 OR (0x3F AND c))]"
    using range by (simp add: utf8_bytes_def utf8_shape_def drop_bit_int)
  have l: "uint (word_of_int (0xC0 OR (c div 64)) :: byte) = 6 * 2 ^ 5 + c div 64"
    by (rule uint_or_byte) (use range in auto)
  have m: "mem s = word_of_int (0xC0 OR (c div 64))" "mem (s + 1) = word_of_int (0x80 OR (0x3F AND c))"
    using assms(3) by (simp_all add: b holds_at_Cons)
  have "\<exists>cp. decode mem s e = (2, cp, False) \<and> uint cp = (uint (mem s) - 0xC0) * 64 + (uint (mem (s + 1)) - 128)"
  proof (rule decode_2)
    show "s + 2 \<le> e" using assms(4) by (simp add: b)
    show "0xC2 \<le> mem s" "mem s < 0xE0" using range l by (auto simp: m word_le_def word_less_def)
    show "cont_byte (mem (s + 1))" unfolding m by (rule cont_byte_word)
  qed
  moreover have "(uint (mem s) - 0xC0) * 64 + (uint (mem (s + 1)) - 128) = c"
    unfolding m l uint_cont_byte by simp
  ultimately show ?thesis by (simp add: b)
qed

lemma decode_utf8_bytes_3:
  assumes "0 \<le> c" "c \<le> 0x10FFFF" "holds_at mem s (utf8_bytes c)" "s + int (length (utf8_bytes c)) \<le> e"
    and range: "0x800 \<le> c \<and> c \<le> 0xFFFF"
  shows "\<exists>cp. decode mem s e = (int (length (utf8_bytes c)), cp, False) \<and> uint cp = c"
proof -
  have b: "utf8_bytes c = [word_of_int (0xE0 OR (c div 4096)), word_of_int (0x80 OR (0x3F AND (c div 64))),
      word_of_int (0x80 OR (0x3F AND c))]"
    using range by (simp add: utf8_bytes_def utf8_shape_def drop_bit_int numeral_2_eq_2)
  have l: "uint (word_of_int (0xE0 OR (c div 4096)) :: byte) = 14 * 2 ^ 4 + c div 4096"
    by (rule uint_or_byte) (use range in auto)
  have m: "mem s = word_of_int (0xE0 OR (c div 4096))" "mem (s + 1) = word_of_int (0x80 OR (0x3F AND (c div 64)))"
    "mem (s + 2) = word_of_int (0x80 OR (0x3F AND c))"
    using assms(3) by (simp_all add: b holds_at_Cons add.assoc)
  have "\<exists>cp. decode mem s e = (3, cp, False) \<and>
     uint cp = ((uint (mem s) - 0xE0) * 64 + (uint (mem (s + 1)) - 128)) * 64 + (uint (mem (s + 2)) - 128)"
  proof (rule decode_3)
    show "s + 3 \<le> e" using assms(4) by (simp add: b)
    show "0xE0 \<le> mem s" "mem s < 0xF0" using range l by (auto simp: m word_le_def word_less_def)
    show "cont_byte (mem (s + 1))" "cont_byte (mem (s + 2))" unfolding m by (rule cont_byte_word)+
  qed
  moreover have "((uint (mem s) - 0xE0) * 64 + (uint (mem (s + 1)) - 128)) * 64 + (uint (mem (s + 2)) - 128) = c"
    unfolding m l uint_cont_byte
    using zdiv_zmult2_eq [of 64 c 64] div_mult_mod_eq [of "c div 64" 64] div_mult_mod_eq [of c 64] by simp
  ultimately show ?thesis by (simp add: b)
qed

lemma decode_utf8_bytes_4:
  assumes "0 \<le> c" "c \<le> 0x10FFFF" "holds_at mem s (utf8_bytes c)" "s + int (length (utf8_bytes c)) \<le> e"
    and range: "0x10000 \<le> c"
  shows "\<exists>cp. decode mem s e = (int (length (utf8_bytes c)), cp, False) \<and> uint cp = c"
proof -
  have b: "utf8_bytes c = [word_of_int (0xF0 OR (c div 262144)), word_of_int (0x80 OR (0x3F AND (c div 4096))),
      word_of_int (0x80 OR (0x3F AND (c div 64))), word_of_int (0x80 OR (0x3F AND c))]"
    using range by (simp add: utf8_bytes_def utf8_shape_def drop_bit_int numeral_3_eq_3)
  have l: "uint (word_of_int (0xF0 OR (c div 262144)) :: byte) = 30 * 2 ^ 3 + c div 262144"
    by (rule uint_or_byte) (use range assms(2) in auto)
  have m: "mem s = word_of_int (0xF0 OR (c div 262144))" "mem (s + 1) = word_of_int (0x80 OR (0x3F AND (c div 4096)))"
    "mem (s + 2) = word_of_int (0x80 OR (0x3F AND (c div 64)))" "mem (s + 3) = word_of_int (0x80 OR (0x3F AND c))"
    using assms(3) by (simp_all add: b holds_at_Cons add.assoc)
  have "\<exists>cp. decode mem s e = (4, cp, False) \<and>
     uint cp = (((uint (mem s) - 0xF0) * 64 + (uint (mem (s + 1)) - 128)) * 64 + (uint (mem (s + 2)) - 128)) * 64
             + (uint (mem (s + 3)) - 128)"
  proof (rule decode_4)
    show "s + 4 \<le> e" using assms(4) by (simp add: b)
    show "0xF0 \<le> mem s" "mem s < 0xF5" using range assms(2) l by (auto simp: m word_le_def word_less_def)
    show "cont_byte (mem (s + 1))" "cont_byte (mem (s + 2))" "cont_byte (mem (s + 3))"
      unfolding m by (rule cont_byte_word)+
  qed
  moreover have "(((uint (mem s) - 0xF0) * 64 + (uint (mem (s + 1)) - 128)) * 64 + (uint (mem (s + 2)) - 128)) * 64
             + (uint (mem (s + 3)) - 128) = c"
    unfolding m l uint_cont_byte
    using zdiv_zmult2_eq [of 64 c 64] zdiv_zmult2_eq [of 64 c 4096] div_mult_mod_eq [of "c div 4096" 64]
      div_mult_mod_eq [of "c div 64" 64] div_mult_mod_eq [of c 64] by simp
  ultimately show ?thesis by (simp add: b)
qed

lemma decode_utf8_bytes:
  assumes "0 \<le> c" "c \<le> 0x10FFFF" "holds_at mem s (utf8_bytes c)" "s + int (length (utf8_bytes c)) \<le> e"
  shows "\<exists>cp. decode mem s e = (int (length (utf8_bytes c)), cp, False) \<and> uint cp = c"
proof -
  consider "c \<le> 0x7F" | "0x80 \<le> c \<and> c \<le> 0x7FF" | "0x800 \<le> c \<and> c \<le> 0xFFFF" | "0x10000 \<le> c" by linarith
  then show ?thesis
    using decode_utf8_bytes_1 [OF assms] decode_utf8_bytes_2 [OF assms] decode_utf8_bytes_3 [OF assms]
      decode_utf8_bytes_4 [OF assms] by cases
qed

lemma decode_good_full:
  assumes "decode mem s e = (w, cp, False)"
  shows "s + fst (lead_byte (mem s)) \<le> e \<and> \<not> snd (snd (lead_byte (mem s)))"
proof (rule ccontr)
  assume "\<not> (s + fst (lead_byte (mem s)) \<le> e \<and> \<not> snd (snd (lead_byte (mem s))))"
  then have "decode mem s e = continuation mem s 1 (first_width mem s e)
      (ucast (mem s AND fst (snd (lead_byte (mem s))))) True" by (auto simp: decode_def)
  with continuation_bad show False using assms by (metis snd_conv)
qed

lemma read_char_good:
  assumes "decode (ut_mem it) (ut_start it) (ut_end it) = (w, cp, False)" "uint cp \<le> 0x10FFFF"
    "\<not> utf8_is_invalid_code_point (uint cp)"
  shows "ut_errors (read_char it) = ut_errors it"
    and "decoded (ut_mem it) (ut_start it) (ut_end it) = uint cp"
proof -
  let ?m = "ut_mem it" and ?s = "ut_start it" and ?e = "ut_end it"
  have t: "to_int (uint cp) = uint cp" using assms(2) by (intro to_int_small) simp_all
  have l: "\<not> cp > 0x10FFFF" using assms(2) by (simp add: word_less_def)
  show "decoded ?m ?s ?e = uint cp" using assms t l by (simp add: decoded_def)
  have f: "?s + fst (lead_byte (?m ?s)) \<le> ?e" "\<not> snd (snd (lead_byte (?m ?s)))"
    using decode_good_full [OF assms(1)] by simp_all
  then have "continuation ?m ?s 1 (fst (lead_byte (?m ?s))) (ucast (?m ?s AND fst (snd (lead_byte (?m ?s))))) False = (w, cp, False)"
    using assms(1) by (simp add: decode_def first_width_def)
  then show "ut_errors (read_char it) = ut_errors it"
    using f t l assms(3) to_int_small [of 13]
    by (auto simp: read_char_def Let_def case_prod_unfold)
qed

section \<open>Properties\<close>

text \<open>C11: the decoder inverts the encoder of the string buffers: where the source holds the bytes that
  append_codepoint writes for a code point that HTML does not forbid, read_char yields that code point,
  the number of bytes written as its width, and no error.\<close>

theorem utf8_round_trip:
  assumes "0 \<le> c" "c \<le> 0x10FFFF" "\<not> utf8_is_invalid_code_point c" "c \<noteq> C_CR"
    and "holds_at (ut_mem it) (ut_start it) (utf8_bytes c)"
    and "ut_start it + int (length (utf8_bytes c)) \<le> ut_end it"
  shows "ut_current (read_char it) = c \<and> ut_width (read_char it) = int (length (utf8_bytes c))
    \<and> ut_start (read_char it) = ut_start it \<and> ut_errors (read_char it) = ut_errors it"
proof -
  obtain cp where cp: "decode (ut_mem it) (ut_start it) (ut_end it) = (int (length (utf8_bytes c)), cp, False)" "uint cp = c"
    using decode_utf8_bytes [OF assms(1,2,5,6)] by blast
  then show ?thesis
    using read_char_good [OF cp(1)] assms(2-4) by (simp add: read_char_result decoded_width_def)
qed

definition blank_position :: source_position where
  "blank_position = \<lparr>line = 0, column = 0, offset = 0\<rparr>"

text \<open>An iterator at the start of a given source, followed by zeros.\<close>

definition mem_of :: "byte list \<Rightarrow> memory" where
  "mem_of bs a = (if 0 \<le> a \<and> nat a < length bs then bs ! nat a else 0)"

definition iter_on :: "byte list \<Rightarrow> utf8_iterator" where
  "iter_on bs = \<lparr>ut_start = 0, ut_mark = 0, ut_end = int (length bs), ut_current = 0, ut_width = 0,
     ut_pos = blank_position, ut_mark_pos = blank_position, ut_mem = mem_of bs, ut_max_errors = -1,
     ut_tab_stop = 8, ut_errors = [], ut_isalnum = (\<lambda>c. False), ut_ok = True\<rparr>"

theorem utf8_round_trip_witness:
  "ut_current (read_char (iter_on [0xE2, 0x82, 0xAC])) = 0x20AC \<and> ut_width (read_char (iter_on [0xE2, 0x82, 0xAC])) = 3"
proof -
  have b: "utf8_bytes 0x20AC = [0xE2, 0x82, 0xAC]" by code_simp
  have "\<not> utf8_is_invalid_code_point 0x20AC" by (simp add: utf8_is_invalid_code_point_def)
  moreover have "holds_at (ut_mem (iter_on [0xE2, 0x82, 0xAC])) (ut_start (iter_on [0xE2, 0x82, 0xAC])) (utf8_bytes 0x20AC)"
    unfolding b by (simp add: holds_at_Cons holds_at_Nil iter_on_def mem_of_def)
  ultimately show ?thesis
    using utf8_round_trip [of "0x20AC" "iter_on [0xE2, 0x82, 0xAC]"] by (simp add: b) (simp add: iter_on_def)
qed

text \<open>the decoder accepts sequences that are not UTF-8: the three-byte sequence E0 80+a 80+b is read
  as the code point 64 a + b without an error, although it is overlong, and ED 80+a 80+b is read as the
  surrogate D000 + 64 a + b for a from 32 on.\<close>

theorem utf8_accepts_malformed:
  assumes "holds_at (ut_mem it) (ut_start it) [l, 0x80 + a, 0x80 + b]" and "l = 0xE0 \<or> l = 0xED"
    and "a < 0x40" "b < 0x40" and "ut_start it + 3 \<le> ut_end it"
    and "\<not> utf8_is_invalid_code_point ((uint l - 0xE0) * 4096 + uint a * 64 + uint b)"
  shows "decoded (ut_mem it) (ut_start it) (ut_end it) = (uint l - 0xE0) * 4096 + uint a * 64 + uint b
    \<and> ut_errors (read_char it) = ut_errors it"
proof -
  let ?m = "ut_mem it" and ?s = "ut_start it"
  have m: "?m ?s = l" "?m (?s + 1) = 0x80 + a" "?m (?s + 2) = 0x80 + b"
    using assms(1) by (simp_all add: holds_at_Cons add.assoc)
  have ab: "uint a < 0x40" "uint b < 0x40" using assms(3,4) by (simp_all add: word_less_def)
  have u: "uint (0x80 + a) = 0x80 + uint a" "uint (0x80 + b) = 0x80 + uint b"
    using ab by (simp_all add: uint_word_ariths mod_pos_pos_trivial)
  have l: "uint l = 0xE0 \<or> uint l = 0xED" using assms(2) by auto
  obtain cp where cp: "decode ?m ?s (ut_end it) = (3, cp, False)"
    "uint cp = ((uint l - 0xE0) * 64 + (uint (0x80 + a) - 128)) * 64 + (uint (0x80 + b) - 128)"
    using decode_3 [OF assms(5), of ?m] l ab u by (auto simp: m word_le_def word_less_def)
  have v: "uint cp = (uint l - 0xE0) * 4096 + uint a * 64 + uint b" using cp(2) by (simp add: u)
  then have "uint cp \<le> 0x10FFFF" using ab l by auto
  with v assms(6) read_char_good [OF cp(1)] show ?thesis by simp
qed

theorem utf8_accepts_malformed_witness:
  "decoded (mem_of [0xE0, 0x80, 0xBC]) 0 3 = C_LT \<and> ut_errors (read_char (iter_on [0xE0, 0x80, 0xBC])) = []"
proof -
  have "holds_at (mem_of [0xE0, 0x80, 0xBC]) 0 [0xE0, 0x80 + 0, 0x80 + 0x3C]"
    by (simp add: holds_at_Cons holds_at_Nil mem_of_def)
  then show ?thesis
    using utf8_accepts_malformed [of "iter_on [0xE0, 0x80, 0xBC]" "0xE0" 0 "0x3C"]
    by (simp add: iter_on_def utf8_is_invalid_code_point_def)
qed

lemma next_pow_end:
  "it_ok it \<Longrightarrow> it_ok ((utf8iterator_next ^^ k) it) \<and> ut_end ((utf8iterator_next ^^ k) it) = ut_end it
    \<and> (ut_end it \<le> ut_start ((utf8iterator_next ^^ k) it) \<or> ut_start it + int k \<le> ut_start ((utf8iterator_next ^^ k) it))"
proof (induction k)
  case (Suc k)
  let ?i = "(utf8iterator_next ^^ k) it"
  have ih: "it_ok ?i" "ut_end ?i = ut_end it" "ut_end it \<le> ut_start ?i \<or> ut_start it + int k \<le> ut_start ?i"
    using Suc.IH [OF Suc.prems] by simp_all
  show ?case
  proof (cases "ut_start ?i < ut_end ?i")
    case True
    then show ?thesis using it_ok_next(1,4) [OF ih(1)] ih(2,3) by auto
  next
    case False
    then show ?thesis using it_ok_next(1,5) [OF ih(1)] ih(2) by auto
  qed
qed simp

text \<open>the iterator ends: after at most as many calls of utf8iterator_next as the source has bytes it
  shows -1, and each call before moves it forward by at least one byte and never past the end.\<close>

theorem iterator_reaches_end:
  assumes "0 \<le> n"
  shows "ut_current ((utf8iterator_next ^^ nat n) (utf8iterator_init a n it)) = C_EOF
    \<and> it_ok ((utf8iterator_next ^^ k) (utf8iterator_init a n it))"
proof -
  note i = it_ok_init(1) [of n a it] it_ok_init(2,5) [of a n it]
  have ok: "it_ok ((utf8iterator_next ^^ k) (utf8iterator_init a n it))" for k
    using next_pow_end [OF i(1) [OF assms]] by blast
  have "ut_end (utf8iterator_init a n it) \<le> ut_start ((utf8iterator_next ^^ nat n) (utf8iterator_init a n it))"
    using next_pow_end [OF i(1) [OF assms], of "nat n"] i(2,3) assms by auto
  then show ?thesis using it_ok_EOF [OF ok] ok next_pow_end [OF i(1) [OF assms], of "nat n"] by simp
qed

theorem iterator_reaches_end_witness:
  "ut_current ((utf8iterator_next ^^ 2) (utf8iterator_init 0 2 (iter_on [0x61, 0x62]))) = C_EOF"
  using iterator_reaches_end [of 2 0 "iter_on [0x61, 0x62]" 0] by (simp add: numeral_2_eq_2)

lemma read_char_offset:
  "offset (ut_pos (read_char it)) - offset (ut_pos it) = word_of_int (ut_start (read_char it) - ut_start it)"
  by (simp add: read_char_def Let_def case_prod_unfold)

lemma next_offset:
  "offset (ut_pos (utf8iterator_next it)) - offset (ut_pos it) = word_of_int (ut_start (utf8iterator_next it) - ut_start it)"
proof -
  let ?it = "update_position (it\<lparr>ut_start := ut_start it + ut_width it\<rparr>)"
  have "offset (ut_pos ?it) = offset (ut_pos it) + word_of_int (ut_width it)"
    by (simp add: update_position_def Let_def)
  then show ?thesis
    using read_char_offset [of ?it] by (auto simp: utf8iterator_next_def Let_def algebra_simps)
qed

text \<open>C12: the offset the iterator reports is, modulo 2^32, the distance of the current character from the
  start of the source; at every step, skipped carriage returns and reads past the end included.\<close>

theorem iterator_offset:
  "offset (ut_pos ((utf8iterator_next ^^ k) (utf8iterator_init a n it)))
     = word_of_int (ut_start ((utf8iterator_next ^^ k) (utf8iterator_init a n it)) - a)"
proof (induction k)
  case 0
  show ?case
    using read_char_offset [of "it\<lparr>ut_start := a, ut_end := a + n, ut_width := 0, ut_pos := \<lparr>line = 1, column = 1, offset = 0\<rparr>\<rparr>"]
    by (simp add: utf8iterator_init_def Let_def)
next
  case (Suc k)
  let ?it = "(utf8iterator_next ^^ k) (utf8iterator_init a n it)"
  have "offset (ut_pos (utf8iterator_next ?it))
      = offset (ut_pos ?it) + word_of_int (ut_start (utf8iterator_next ?it) - ut_start ?it)"
    using next_offset [of ?it] by (simp only: diff_eq_eq add.commute)
  with Suc.IH show ?case by simp
qed

end
