(* ===== verification/GumboEntities.thy ===== *)
theory GumboEntities
  imports Main
begin

text \<open>
  The table \<^verbatim>\<open>kNamedEntities\<close> of \<^verbatim>\<open>src/html_parser/char_ref.cpp\<close>, in the order of the source
  and without its terminator: the name, the first code point and the second, -1 when there is none.
\<close>

type_synonym named_char_ref = "string \<times> int \<times> int"

definition entities_1 :: "named_char_ref list" where
  "entities_1 =
    [(''AElig'', 0xC6, -1), (''AMP;'', 0x26, -1), (''AMP'', 0x26, -1), (''Aacute;'', 0xC1, -1),
     (''Aacute'', 0xC1, -1), (''Abreve;'', 0x102, -1), (''Acirc;'', 0xC2, -1), (''Acirc'', 0xC2, -1),
     (''Acy;'', 0x410, -1), (''Afr;'', 0x1D504, -1), (''Agrave'', 0xC0, -1), (''Agrave;'', 0xC0, -1),
     (''Alpha;'', 0x391, -1), (''Amacr;'', 0x100, -1), (''And;'', 0x2A53, -1), (''Aogon;'', 0x104, -1),
     (''Aopf;'', 0x1D538, -1), (''ApplyFunction;'', 0x2061, -1), (''Aring;'', 0xC5, -1),
     (''Aring'', 0xC5, -1), (''Ascr;'', 0x1D49C, -1), (''Assign;'', 0x2254, -1),
     (''Atilde;'', 0xC3, -1), (''Atilde'', 0xC3, -1), (''Auml;'', 0xC4, -1), (''Auml'', 0xC4, -1),
     (''Backslash;'', 0x2216, -1), (''Barv;'', 0x2AE7, -1), (''Barwed;'', 0x2306, -1),
     (''Bcy;'', 0x411, -1), (''Because;'', 0x2235, -1), (''Bernoullis;'', 0x212C, -1),
     (''Beta;'', 0x392, -1), (''Bfr;'', 0x1D505, -1), (''Bopf;'', 0x1D539, -1),
     (''Breve;'', 0x2D8, -1), (''Bscr;'', 0x212C, -1), (''Bumpeq;'', 0x224E, -1),
     (''CHcy;'', 0x427, -1), (''COPY;'', 0xA9, -1), (''COPY'', 0xA9, -1), (''Cacute;'', 0x106, -1),
     (''Cap;'', 0x22D2, -1), (''CapitalDifferentialD;'', 0x2145, -1), (''Cayleys;'', 0x212D, -1),
     (''Ccaron;'', 0x10C, -1), (''Ccedil;'', 0xC7, -1), (''Ccedil'', 0xC7, -1),
     (''Ccirc;'', 0x108, -1), (''Cconint;'', 0x2230, -1), (''Cdot;'', 0x10A, -1),
     (''Cedilla;'', 0xB8, -1), (''CenterDot;'', 0xB7, -1), (''Cfr;'', 0x212D, -1),
     (''Chi;'', 0x3A7, -1), (''CircleDot;'', 0x2299, -1), (''CircleMinus;'', 0x2296, -1),
     (''CirclePlus;'', 0x2295, -1), (''CircleTimes;'', 0x2297, -1),
     (''ClockwiseContourIntegral;'', 0x2232, -1), (''CloseCurlyDoubleQuote;'', 0x201D, -1),
     (''CloseCurlyQuote;'', 0x2019, -1), (''Colon;'', 0x2237, -1), (''Colone;'', 0x2A74, -1),
     (''Congruent;'', 0x2261, -1), (''Conint;'', 0x222F, -1), (''ContourIntegral;'', 0x222E, -1),
     (''Copf;'', 0x2102, -1), (''Coproduct;'', 0x2210, -1),
     (''CounterClockwiseContourIntegral;'', 0x2233, -1), (''Cross;'', 0x2A2F, -1),
     (''Cscr;'', 0x1D49E, -1), (''Cup;'', 0x22D3, -1), (''CupCap;'', 0x224D, -1),
     (''DD;'', 0x2145, -1), (''DDotrahd;'', 0x2911, -1), (''DJcy;'', 0x402, -1),
     (''DScy;'', 0x405, -1), (''DZcy;'', 0x40F, -1), (''Dagger;'', 0x2021, -1),
     (''Darr;'', 0x21A1, -1), (''Dashv;'', 0x2AE4, -1), (''Dcaron;'', 0x10E, -1),
     (''Dcy;'', 0x414, -1), (''Del;'', 0x2207, -1), (''Delta;'', 0x394, -1), (''Dfr;'', 0x1D507, -1),
     (''DiacriticalAcute;'', 0xB4, -1), (''DiacriticalDot;'', 0x2D9, -1),
     (''DiacriticalDoubleAcute;'', 0x2DD, -1), (''DiacriticalGrave;'', 0x60, -1),
     (''DiacriticalTilde;'', 0x2DC, -1), (''Diamond;'', 0x22C4, -1), (''DifferentialD;'', 0x2146, -1),
     (''Dopf;'', 0x1D53B, -1), (''Dot;'', 0xA8, -1), (''DotDot;'', 0x20DC, -1),
     (''DotEqual;'', 0x2250, -1), (''DoubleContourIntegral;'', 0x222F, -1), (''DoubleDot;'', 0xA8, -1),
     (''DoubleDownArrow;'', 0x21D3, -1), (''DoubleLeftArrow;'', 0x21D0, -1),
     (''DoubleLeftRightArrow;'', 0x21D4, -1), (''DoubleLeftTee;'', 0x2AE4, -1),
     (''DoubleLongLeftArrow;'', 0x27F8, -1), (''DoubleLongLeftRightArrow;'', 0x27FA, -1),
     (''DoubleLongRightArrow;'', 0x27F9, -1), (''DoubleRightArrow;'', 0x21D2, -1),
     (''DoubleRightTee;'', 0x22A8, -1), (''DoubleUpArrow;'', 0x21D1, -1),
     (''DoubleUpDownArrow;'', 0x21D5, -1), (''DoubleVerticalBar;'', 0x2225, -1),
     (''DownArrow;'', 0x2193, -1), (''DownArrowBar;'', 0x2913, -1),
     (''DownArrowUpArrow;'', 0x21F5, -1), (''DownBreve;'', 0x311, -1),
     (''DownLeftRightVector;'', 0x2950, -1), (''DownLeftTeeVector;'', 0x295E, -1),
     (''DownLeftVector;'', 0x21BD, -1), (''DownLeftVectorBar;'', 0x2956, -1),
     (''DownRightTeeVector;'', 0x295F, -1), (''DownRightVector;'', 0x21C1, -1),
     (''DownRightVectorBar;'', 0x2957, -1), (''DownTee;'', 0x22A4, -1),
     (''DownTeeArrow;'', 0x21A7, -1), (''Downarrow;'', 0x21D3, -1), (''Dscr;'', 0x1D49F, -1),
     (''Dstrok;'', 0x110, -1), (''ENG;'', 0x14A, -1), (''ETH;'', 0xD0, -1), (''ETH'', 0xD0, -1),
     (''Eacute;'', 0xC9, -1), (''Eacute'', 0xC9, -1), (''Ecaron;'', 0x11A, -1), (''Ecirc;'', 0xCA, -1),
     (''Ecirc'', 0xCA, -1), (''Ecy;'', 0x42D, -1), (''Edot;'', 0x116, -1), (''Efr;'', 0x1D508, -1),
     (''Egrave;'', 0xC8, -1)]"

definition entities_2 :: "named_char_ref list" where
  "entities_2 =
    [(''Egrave'', 0xC8, -1), (''Element;'', 0x2208, -1), (''Emacr;'', 0x112, -1),
     (''EmptySmallSquare;'', 0x25FB, -1), (''EmptyVerySmallSquare;'', 0x25AB, -1),
     (''Eogon;'', 0x118, -1), (''Eopf;'', 0x1D53C, -1), (''Epsilon;'', 0x395, -1),
     (''Equal;'', 0x2A75, -1), (''EqualTilde;'', 0x2242, -1), (''Equilibrium;'', 0x21CC, -1),
     (''Escr;'', 0x2130, -1), (''Esim;'', 0x2A73, -1), (''Eta;'', 0x397, -1), (''Euml;'', 0xCB, -1),
     (''Euml'', 0xCB, -1), (''Exists;'', 0x2203, -1), (''ExponentialE;'', 0x2147, -1),
     (''Fcy;'', 0x424, -1), (''Ffr;'', 0x1D509, -1), (''FilledSmallSquare;'', 0x25FC, -1),
     (''FilledVerySmallSquare;'', 0x25AA, -1), (''Fopf;'', 0x1D53D, -1), (''ForAll;'', 0x2200, -1),
     (''Fouriertrf;'', 0x2131, -1), (''Fscr;'', 0x2131, -1), (''GJcy;'', 0x403, -1),
     (''GT;'', 0x3E, -1), (''GT'', 0x3E, -1), (''Gamma;'', 0x393, -1), (''Gammad;'', 0x3DC, -1),
     (''Gbreve;'', 0x11E, -1), (''Gcedil;'', 0x122, -1), (''Gcirc;'', 0x11C, -1),
     (''Gcy;'', 0x413, -1), (''Gdot;'', 0x120, -1), (''Gfr;'', 0x1D50A, -1), (''Gg;'', 0x22D9, -1),
     (''Gopf;'', 0x1D53E, -1), (''GreaterEqual;'', 0x2265, -1), (''GreaterEqualLess;'', 0x22DB, -1),
     (''GreaterFullEqual;'', 0x2267, -1), (''GreaterGreater;'', 0x2AA2, -1),
     (''GreaterLess;'', 0x2277, -1), (''GreaterSlantEqual;'', 0x2A7E, -1),
     (''GreaterTilde;'', 0x2273, -1), (''Gscr;'', 0x1D4A2, -1), (''Gt;'', 0x226B, -1),
     (''HARDcy;'', 0x42A, -1), (''Hacek;'', 0x2C7, -1), (''Hat;'', 0x5E, -1), (''Hcirc;'', 0x124, -1),
     (''Hfr;'', 0x210C, -1), (''HilbertSpace;'', 0x210B, -1), (''Hopf;'', 0x210D, -1),
     (''HorizontalLine;'', 0x2500, -1), (''Hscr;'', 0x210B, -1), (''Hstrok;'', 0x126, -1),
     (''HumpDownHump;'', 0x224E, -1), (''HumpEqual;'', 0x224F, -1), (''IEcy;'', 0x415, -1),
     (''IJlig;'', 0x132, -1), (''IOcy;'', 0x401, -1), (''Iacute;'', 0xCD, -1), (''Iacute'', 0xCD, -1),
     (''Icirc;'', 0xCE, -1), (''Icirc'', 0xCE, -1), (''Icy;'', 0x418, -1), (''Idot;'', 0x130, -1),
     (''Ifr;'', 0x2111, -1), (''Igrave;'', 0xCC, -1), (''Igrave'', 0xCC, -1), (''Im;'', 0x2111, -1),
     (''Imacr;'', 0x12A, -1), (''ImaginaryI;'', 0x2148, -1), (''Implies;'', 0x21D2, -1),
     (''Int;'', 0x222C, -1), (''Integral;'', 0x222B, -1), (''Intersection;'', 0x22C2, -1),
     (''InvisibleComma;'', 0x2063, -1), (''InvisibleTimes;'', 0x2062, -1), (''Iogon;'', 0x12E, -1),
     (''Iopf;'', 0x1D540, -1), (''Iota;'', 0x399, -1), (''Iscr;'', 0x2110, -1),
     (''Itilde;'', 0x128, -1), (''Iukcy;'', 0x406, -1), (''Iuml;'', 0xCF, -1), (''Iuml'', 0xCF, -1),
     (''Jcirc;'', 0x134, -1), (''Jcy;'', 0x419, -1), (''Jfr;'', 0x1D50D, -1), (''Jopf;'', 0x1D541, -1),
     (''Jscr;'', 0x1D4A5, -1), (''Jsercy;'', 0x408, -1), (''Jukcy;'', 0x404, -1),
     (''KHcy;'', 0x425, -1), (''KJcy;'', 0x40C, -1), (''Kappa;'', 0x39A, -1), (''Kcedil;'', 0x136, -1),
     (''Kcy;'', 0x41A, -1), (''Kfr;'', 0x1D50E, -1), (''Kopf;'', 0x1D542, -1),
     (''Kscr;'', 0x1D4A6, -1), (''LJcy;'', 0x409, -1), (''LT;'', 0x3C, -1), (''LT'', 0x3C, -1),
     (''Lacute;'', 0x139, -1), (''Lambda;'', 0x39B, -1), (''Lang;'', 0x27EA, -1),
     (''Laplacetrf;'', 0x2112, -1), (''Larr;'', 0x219E, -1), (''Lcaron;'', 0x13D, -1),
     (''Lcedil;'', 0x13B, -1), (''Lcy;'', 0x41B, -1), (''LeftAngleBracket;'', 0x27E8, -1),
     (''LeftArrow;'', 0x2190, -1), (''LeftArrowBar;'', 0x21E4, -1),
     (''LeftArrowRightArrow;'', 0x21C6, -1), (''LeftCeiling;'', 0x2308, -1),
     (''LeftDoubleBracket;'', 0x27E6, -1), (''LeftDownTeeVector;'', 0x2961, -1),
     (''LeftDownVector;'', 0x21C3, -1), (''LeftDownVectorBar;'', 0x2959, -1),
     (''LeftFloor;'', 0x230A, -1), (''LeftRightArrow;'', 0x2194, -1),
     (''LeftRightVector;'', 0x294E, -1), (''LeftTee;'', 0x22A3, -1), (''LeftTeeArrow;'', 0x21A4, -1),
     (''LeftTeeVector;'', 0x295A, -1), (''LeftTriangle;'', 0x22B2, -1),
     (''LeftTriangleBar;'', 0x29CF, -1), (''LeftTriangleEqual;'', 0x22B4, -1),
     (''LeftUpDownVector;'', 0x2951, -1), (''LeftUpTeeVector;'', 0x2960, -1),
     (''LeftUpVector;'', 0x21BF, -1), (''LeftUpVectorBar;'', 0x2958, -1),
     (''LeftVector;'', 0x21BC, -1), (''LeftVectorBar;'', 0x2952, -1), (''Leftarrow;'', 0x21D0, -1)]"

definition entities_3 :: "named_char_ref list" where
  "entities_3 =
    [(''Leftrightarrow;'', 0x21D4, -1), (''LessEqualGreater;'', 0x22DA, -1),
     (''LessFullEqual;'', 0x2266, -1), (''LessGreater;'', 0x2276, -1), (''LessLess;'', 0x2AA1, -1),
     (''LessSlantEqual;'', 0x2A7D, -1), (''LessTilde;'', 0x2272, -1), (''Lfr;'', 0x1D50F, -1),
     (''Ll;'', 0x22D8, -1), (''Lleftarrow;'', 0x21DA, -1), (''Lmidot;'', 0x13F, -1),
     (''LongLeftArrow;'', 0x27F5, -1), (''LongLeftRightArrow;'', 0x27F7, -1),
     (''LongRightArrow;'', 0x27F6, -1), (''Longleftarrow;'', 0x27F8, -1),
     (''Longleftrightarrow;'', 0x27FA, -1), (''Longrightarrow;'', 0x27F9, -1),
     (''Lopf;'', 0x1D543, -1), (''LowerLeftArrow;'', 0x2199, -1), (''LowerRightArrow;'', 0x2198, -1),
     (''Lscr;'', 0x2112, -1), (''Lsh;'', 0x21B0, -1), (''Lstrok;'', 0x141, -1), (''Lt;'', 0x226A, -1),
     (''Map;'', 0x2905, -1), (''Mcy;'', 0x41C, -1), (''MediumSpace;'', 0x205F, -1),
     (''Mellintrf;'', 0x2133, -1), (''Mfr;'', 0x1D510, -1), (''MinusPlus;'', 0x2213, -1),
     (''Mopf;'', 0x1D544, -1), (''Mscr;'', 0x2133, -1), (''Mu;'', 0x39C, -1), (''NJcy;'', 0x40A, -1),
     (''Nacute;'', 0x143, -1), (''Ncaron;'', 0x147, -1), (''Ncedil;'', 0x145, -1),
     (''Ncy;'', 0x41D, -1), (''NegativeMediumSpace;'', 0x200B, -1),
     (''NegativeThickSpace;'', 0x200B, -1), (''NegativeThinSpace;'', 0x200B, -1),
     (''NegativeVeryThinSpace;'', 0x200B, -1), (''NestedGreaterGreater;'', 0x226B, -1),
     (''NestedLessLess;'', 0x226A, -1), (''NewLine;'', 0xA, -1), (''Nfr;'', 0x1D511, -1),
     (''NoBreak;'', 0x2060, -1), (''NonBreakingSpace;'', 0xA0, -1), (''Nopf;'', 0x2115, -1),
     (''Not;'', 0x2AEC, -1), (''NotCongruent;'', 0x2262, -1), (''NotCupCap;'', 0x226D, -1),
     (''NotDoubleVerticalBar;'', 0x2226, -1), (''NotElement;'', 0x2209, -1),
     (''NotEqual;'', 0x2260, -1), (''NotEqualTilde;'', 0x2242, 0x338), (''NotExists;'', 0x2204, -1),
     (''NotGreater;'', 0x226F, -1), (''NotGreaterEqual;'', 0x2271, -1),
     (''NotGreaterFullEqual;'', 0x2267, 0x338), (''NotGreaterGreater;'', 0x226B, 0x338),
     (''NotGreaterLess;'', 0x2279, -1), (''NotGreaterSlantEqual;'', 0x2A7E, 0x338),
     (''NotGreaterTilde;'', 0x2275, -1), (''NotHumpDownHump;'', 0x224E, 0x338),
     (''NotHumpEqual;'', 0x224F, 0x338), (''NotLeftTriangle;'', 0x22EA, -1),
     (''NotLeftTriangleBar;'', 0x29CF, 0x338), (''NotLeftTriangleEqual;'', 0x22EC, -1),
     (''NotLess;'', 0x226E, -1), (''NotLessEqual;'', 0x2270, -1), (''NotLessGreater;'', 0x2278, -1),
     (''NotLessLess;'', 0x226A, 0x338), (''NotLessSlantEqual;'', 0x2A7D, 0x338),
     (''NotLessTilde;'', 0x2274, -1), (''NotNestedGreaterGreater;'', 0x2AA2, 0x338),
     (''NotNestedLessLess;'', 0x2AA1, 0x338), (''NotPrecedes;'', 0x2280, -1),
     (''NotPrecedesEqual;'', 0x2AAF, 0x338), (''NotPrecedesSlantEqual;'', 0x22E0, -1),
     (''NotReverseElement;'', 0x220C, -1), (''NotRightTriangle;'', 0x22EB, -1),
     (''NotRightTriangleBar;'', 0x29D0, 0x338), (''NotRightTriangleEqual;'', 0x22ED, -1),
     (''NotSquareSubset;'', 0x228F, 0x338), (''NotSquareSubsetEqual;'', 0x22E2, -1),
     (''NotSquareSuperset;'', 0x2290, 0x338), (''NotSquareSupersetEqual;'', 0x22E3, -1),
     (''NotSubset;'', 0x2282, 0x20D2), (''NotSubsetEqual;'', 0x2288, -1),
     (''NotSucceeds;'', 0x2281, -1), (''NotSucceedsEqual;'', 0x2AB0, 0x338),
     (''NotSucceedsSlantEqual;'', 0x22E1, -1), (''NotSucceedsTilde;'', 0x227F, 0x338),
     (''NotSuperset;'', 0x2283, 0x20D2), (''NotSupersetEqual;'', 0x2289, -1),
     (''NotTilde;'', 0x2241, -1), (''NotTildeEqual;'', 0x2244, -1),
     (''NotTildeFullEqual;'', 0x2247, -1), (''NotTildeTilde;'', 0x2249, -1),
     (''NotVerticalBar;'', 0x2224, -1), (''Nscr;'', 0x1D4A9, -1), (''Ntilde;'', 0xD1, -1),
     (''Ntilde'', 0xD1, -1), (''Nu;'', 0x39D, -1), (''OElig;'', 0x152, -1), (''Oacute;'', 0xD3, -1),
     (''Oacute'', 0xD3, -1), (''Ocirc;'', 0xD4, -1), (''Ocirc'', 0xD4, -1), (''Ocy;'', 0x41E, -1),
     (''Odblac;'', 0x150, -1), (''Ofr;'', 0x1D512, -1), (''Ograve;'', 0xD2, -1),
     (''Ograve'', 0xD2, -1), (''Omacr;'', 0x14C, -1), (''Omega;'', 0x3A9, -1),
     (''Omicron;'', 0x39F, -1), (''Oopf;'', 0x1D546, -1), (''OpenCurlyDoubleQuote;'', 0x201C, -1),
     (''OpenCurlyQuote;'', 0x2018, -1), (''Or;'', 0x2A54, -1), (''Oscr;'', 0x1D4AA, -1),
     (''Oslash;'', 0xD8, -1), (''Oslash'', 0xD8, -1), (''Otilde;'', 0xD5, -1), (''Otilde'', 0xD5, -1),
     (''Otimes;'', 0x2A37, -1), (''Ouml'', 0xD6, -1), (''Ouml;'', 0xD6, -1),
     (''OverBar;'', 0x203E, -1), (''OverBrace;'', 0x23DE, -1), (''OverBracket;'', 0x23B4, -1),
     (''OverParenthesis;'', 0x23DC, -1), (''PartialD;'', 0x2202, -1), (''Pcy;'', 0x41F, -1),
     (''Pfr;'', 0x1D513, -1), (''Phi;'', 0x3A6, -1), (''Pi;'', 0x3A0, -1), (''PlusMinus;'', 0xB1, -1)]"

definition entities_4 :: "named_char_ref list" where
  "entities_4 =
    [(''Poincareplane;'', 0x210C, -1), (''Popf;'', 0x2119, -1), (''Pr;'', 0x2ABB, -1),
     (''Precedes;'', 0x227A, -1), (''PrecedesEqual;'', 0x2AAF, -1),
     (''PrecedesSlantEqual;'', 0x227C, -1), (''PrecedesTilde;'', 0x227E, -1), (''Prime;'', 0x2033, -1),
     (''Product;'', 0x220F, -1), (''Proportion;'', 0x2237, -1), (''Proportional;'', 0x221D, -1),
     (''Pscr;'', 0x1D4AB, -1), (''Psi;'', 0x3A8, -1), (''QUOT;'', 0x22, -1), (''QUOT'', 0x22, -1),
     (''Qfr;'', 0x1D514, -1), (''Qopf;'', 0x211A, -1), (''Qscr;'', 0x1D4AC, -1),
     (''RBarr;'', 0x2910, -1), (''REG;'', 0xAE, -1), (''REG'', 0xAE, -1), (''Racute;'', 0x154, -1),
     (''Rang;'', 0x27EB, -1), (''Rarr;'', 0x21A0, -1), (''Rarrtl;'', 0x2916, -1),
     (''Rcaron;'', 0x158, -1), (''Rcedil;'', 0x156, -1), (''Rcy;'', 0x420, -1), (''Re;'', 0x211C, -1),
     (''ReverseElement;'', 0x220B, -1), (''ReverseEquilibrium;'', 0x21CB, -1),
     (''ReverseUpEquilibrium;'', 0x296F, -1), (''Rfr;'', 0x211C, -1), (''Rho;'', 0x3A1, -1),
     (''RightAngleBracket;'', 0x27E9, -1), (''RightArrow;'', 0x2192, -1),
     (''RightArrowBar;'', 0x21E5, -1), (''RightArrowLeftArrow;'', 0x21C4, -1),
     (''RightCeiling;'', 0x2309, -1), (''RightDoubleBracket;'', 0x27E7, -1),
     (''RightDownTeeVector;'', 0x295D, -1), (''RightDownVector;'', 0x21C2, -1),
     (''RightDownVectorBar;'', 0x2955, -1), (''RightFloor;'', 0x230B, -1), (''RightTee;'', 0x22A2, -1),
     (''RightTeeArrow;'', 0x21A6, -1), (''RightTeeVector;'', 0x295B, -1),
     (''RightTriangle;'', 0x22B3, -1), (''RightTriangleBar;'', 0x29D0, -1),
     (''RightTriangleEqual;'', 0x22B5, -1), (''RightUpDownVector;'', 0x294F, -1),
     (''RightUpTeeVector;'', 0x295C, -1), (''RightUpVector;'', 0x21BE, -1),
     (''RightUpVectorBar;'', 0x2954, -1), (''RightVector;'', 0x21C0, -1),
     (''RightVectorBar;'', 0x2953, -1), (''Rightarrow;'', 0x21D2, -1), (''Ropf;'', 0x211D, -1),
     (''RoundImplies;'', 0x2970, -1), (''Rrightarrow;'', 0x21DB, -1), (''Rscr;'', 0x211B, -1),
     (''Rsh;'', 0x21B1, -1), (''RuleDelayed;'', 0x29F4, -1), (''SHCHcy;'', 0x429, -1),
     (''SHcy;'', 0x428, -1), (''SOFTcy;'', 0x42C, -1), (''Sacute;'', 0x15A, -1), (''Sc;'', 0x2ABC, -1),
     (''Scaron;'', 0x160, -1), (''Scedil;'', 0x15E, -1), (''Scirc;'', 0x15C, -1),
     (''Scy;'', 0x421, -1), (''Sfr;'', 0x1D516, -1), (''ShortDownArrow;'', 0x2193, -1),
     (''ShortLeftArrow;'', 0x2190, -1), (''ShortRightArrow;'', 0x2192, -1),
     (''ShortUpArrow;'', 0x2191, -1), (''Sigma;'', 0x3A3, -1), (''SmallCircle;'', 0x2218, -1),
     (''Sopf;'', 0x1D54A, -1), (''Sqrt;'', 0x221A, -1), (''Square;'', 0x25A1, -1),
     (''SquareIntersection;'', 0x2293, -1), (''SquareSubset;'', 0x228F, -1),
     (''SquareSubsetEqual;'', 0x2291, -1), (''SquareSuperset;'', 0x2290, -1),
     (''SquareSupersetEqual;'', 0x2292, -1), (''SquareUnion;'', 0x2294, -1), (''Sscr;'', 0x1D4AE, -1),
     (''Star;'', 0x22C6, -1), (''Sub;'', 0x22D0, -1), (''Subset;'', 0x22D0, -1),
     (''SubsetEqual;'', 0x2286, -1), (''Succeeds;'', 0x227B, -1), (''SucceedsEqual;'', 0x2AB0, -1),
     (''SucceedsSlantEqual;'', 0x227D, -1), (''SucceedsTilde;'', 0x227F, -1),
     (''SuchThat;'', 0x220B, -1), (''Sum;'', 0x2211, -1), (''Sup;'', 0x22D1, -1),
     (''Superset;'', 0x2283, -1), (''SupersetEqual;'', 0x2287, -1), (''Supset;'', 0x22D1, -1),
     (''THORN;'', 0xDE, -1), (''THORN'', 0xDE, -1), (''TRADE;'', 0x2122, -1), (''TSHcy;'', 0x40B, -1),
     (''TScy;'', 0x426, -1), (''Tab;'', 0x9, -1), (''Tau;'', 0x3A4, -1), (''Tcaron;'', 0x164, -1),
     (''Tcedil;'', 0x162, -1), (''Tcy;'', 0x422, -1), (''Tfr;'', 0x1D517, -1),
     (''Therefore;'', 0x2234, -1), (''Theta;'', 0x398, -1), (''ThickSpace;'', 0x205F, 0x200A),
     (''ThinSpace;'', 0x2009, -1), (''Tilde;'', 0x223C, -1), (''TildeEqual;'', 0x2243, -1),
     (''TildeFullEqual;'', 0x2245, -1), (''TildeTilde;'', 0x2248, -1), (''Topf;'', 0x1D54B, -1),
     (''TripleDot;'', 0x20DB, -1), (''Tscr;'', 0x1D4AF, -1), (''Tstrok;'', 0x166, -1),
     (''Uacute;'', 0xDA, -1), (''Uacute'', 0xDA, -1), (''Uarr;'', 0x219F, -1),
     (''Uarrocir;'', 0x2949, -1), (''Ubrcy;'', 0x40E, -1), (''Ubreve;'', 0x16C, -1),
     (''Ucirc;'', 0xDB, -1), (''Ucirc'', 0xDB, -1), (''Ucy;'', 0x423, -1), (''Udblac;'', 0x170, -1),
     (''Ufr;'', 0x1D518, -1), (''Ugrave;'', 0xD9, -1), (''Ugrave'', 0xD9, -1), (''Umacr;'', 0x16A, -1)]"

definition entities_5 :: "named_char_ref list" where
  "entities_5 =
    [(''UnderBar;'', 0x5F, -1), (''UnderBrace;'', 0x23DF, -1), (''UnderBracket;'', 0x23B5, -1),
     (''UnderParenthesis;'', 0x23DD, -1), (''Union;'', 0x22C3, -1), (''UnionPlus;'', 0x228E, -1),
     (''Uogon;'', 0x172, -1), (''Uopf;'', 0x1D54C, -1), (''UpArrow;'', 0x2191, -1),
     (''UpArrowBar;'', 0x2912, -1), (''UpArrowDownArrow;'', 0x21C5, -1),
     (''UpDownArrow;'', 0x2195, -1), (''UpEquilibrium;'', 0x296E, -1), (''UpTee;'', 0x22A5, -1),
     (''UpTeeArrow;'', 0x21A5, -1), (''Uparrow;'', 0x21D1, -1), (''Updownarrow;'', 0x21D5, -1),
     (''UpperLeftArrow;'', 0x2196, -1), (''UpperRightArrow;'', 0x2197, -1), (''Upsi;'', 0x3D2, -1),
     (''Upsilon;'', 0x3A5, -1), (''Uring;'', 0x16E, -1), (''Uscr;'', 0x1D4B0, -1),
     (''Utilde;'', 0x168, -1), (''Uuml;'', 0xDC, -1), (''Uuml'', 0xDC, -1), (''VDash;'', 0x22AB, -1),
     (''Vbar;'', 0x2AEB, -1), (''Vcy;'', 0x412, -1), (''Vdash;'', 0x22A9, -1),
     (''Vdashl;'', 0x2AE6, -1), (''Vee;'', 0x22C1, -1), (''Verbar;'', 0x2016, -1),
     (''Vert;'', 0x2016, -1), (''VerticalBar;'', 0x2223, -1), (''VerticalLine;'', 0x7C, -1),
     (''VerticalSeparator;'', 0x2758, -1), (''VerticalTilde;'', 0x2240, -1),
     (''VeryThinSpace;'', 0x200A, -1), (''Vfr;'', 0x1D519, -1), (''Vopf;'', 0x1D54D, -1),
     (''Vscr;'', 0x1D4B1, -1), (''Vvdash;'', 0x22AA, -1), (''Wcirc;'', 0x174, -1),
     (''Wedge;'', 0x22C0, -1), (''Wfr;'', 0x1D51A, -1), (''Wopf;'', 0x1D54E, -1),
     (''Wscr;'', 0x1D4B2, -1), (''Xfr;'', 0x1D51B, -1), (''Xi;'', 0x39E, -1), (''Xopf;'', 0x1D54F, -1),
     (''Xscr;'', 0x1D4B3, -1), (''YAcy;'', 0x42F, -1), (''YIcy;'', 0x407, -1), (''YUcy;'', 0x42E, -1),
     (''Yacute'', 0xDD, -1), (''Yacute;'', 0xDD, -1), (''Ycirc;'', 0x176, -1), (''Ycy;'', 0x42B, -1),
     (''Yfr;'', 0x1D51C, -1), (''Yopf;'', 0x1D550, -1), (''Yscr;'', 0x1D4B4, -1),
     (''Yuml;'', 0x178, -1), (''ZHcy;'', 0x416, -1), (''Zacute;'', 0x179, -1),
     (''Zcaron;'', 0x17D, -1), (''Zcy;'', 0x417, -1), (''Zdot;'', 0x17B, -1),
     (''ZeroWidthSpace;'', 0x200B, -1), (''Zeta;'', 0x396, -1), (''Zfr;'', 0x2128, -1),
     (''Zopf;'', 0x2124, -1), (''Zscr;'', 0x1D4B5, -1), (''aacute;'', 0xE1, -1),
     (''aacute'', 0xE1, -1), (''abreve;'', 0x103, -1), (''ac;'', 0x223E, -1),
     (''acE;'', 0x223E, 0x333), (''acd;'', 0x223F, -1), (''acirc;'', 0xE2, -1), (''acirc'', 0xE2, -1),
     (''acute;'', 0xB4, -1), (''acute'', 0xB4, -1), (''acy;'', 0x430, -1), (''aelig;'', 0xE6, -1),
     (''aelig'', 0xE6, -1), (''af;'', 0x2061, -1), (''afr;'', 0x1D51E, -1), (''agrave;'', 0xE0, -1),
     (''agrave'', 0xE0, -1), (''alefsym;'', 0x2135, -1), (''aleph;'', 0x2135, -1),
     (''alpha;'', 0x3B1, -1), (''amacr;'', 0x101, -1), (''amalg;'', 0x2A3F, -1), (''amp;'', 0x26, -1),
     (''amp'', 0x26, -1), (''and;'', 0x2227, -1), (''andand;'', 0x2A55, -1), (''andd;'', 0x2A5C, -1),
     (''andslope;'', 0x2A58, -1), (''andv;'', 0x2A5A, -1), (''ang;'', 0x2220, -1),
     (''ange;'', 0x29A4, -1), (''angle;'', 0x2220, -1), (''angmsd;'', 0x2221, -1),
     (''angmsdaa;'', 0x29A8, -1), (''angmsdab;'', 0x29A9, -1), (''angmsdac;'', 0x29AA, -1),
     (''angmsdad;'', 0x29AB, -1), (''angmsdae;'', 0x29AC, -1), (''angmsdaf;'', 0x29AD, -1),
     (''angmsdag;'', 0x29AE, -1), (''angmsdah;'', 0x29AF, -1), (''angrt;'', 0x221F, -1),
     (''angrtvb;'', 0x22BE, -1), (''angrtvbd;'', 0x299D, -1), (''angsph;'', 0x2222, -1),
     (''angst;'', 0xC5, -1), (''angzarr;'', 0x237C, -1), (''aogon;'', 0x105, -1),
     (''aopf;'', 0x1D552, -1), (''ap;'', 0x2248, -1), (''apE;'', 0x2A70, -1),
     (''apacir;'', 0x2A6F, -1), (''ape;'', 0x224A, -1), (''apid;'', 0x224B, -1), (''apos;'', 0x27, -1),
     (''approx;'', 0x2248, -1), (''approxeq;'', 0x224A, -1), (''aring;'', 0xE5, -1),
     (''aring'', 0xE5, -1), (''ascr;'', 0x1D4B6, -1), (''ast;'', 0x2A, -1), (''asymp;'', 0x2248, -1),
     (''asympeq;'', 0x224D, -1), (''atilde;'', 0xE3, -1), (''atilde'', 0xE3, -1),
     (''auml;'', 0xE4, -1), (''auml'', 0xE4, -1)]"

definition entities_6 :: "named_char_ref list" where
  "entities_6 =
    [(''awconint;'', 0x2233, -1), (''awint;'', 0x2A11, -1), (''bNot;'', 0x2AED, -1),
     (''backcong;'', 0x224C, -1), (''backepsilon;'', 0x3F6, -1), (''backprime;'', 0x2035, -1),
     (''backsim;'', 0x223D, -1), (''backsimeq;'', 0x22CD, -1), (''barvee;'', 0x22BD, -1),
     (''barwed;'', 0x2305, -1), (''barwedge;'', 0x2305, -1), (''bbrk;'', 0x23B5, -1),
     (''bbrktbrk;'', 0x23B6, -1), (''bcong;'', 0x224C, -1), (''bcy;'', 0x431, -1),
     (''bdquo;'', 0x201E, -1), (''becaus;'', 0x2235, -1), (''because;'', 0x2235, -1),
     (''bemptyv;'', 0x29B0, -1), (''bepsi;'', 0x3F6, -1), (''bernou;'', 0x212C, -1),
     (''beta;'', 0x3B2, -1), (''beth;'', 0x2136, -1), (''between;'', 0x226C, -1),
     (''bfr;'', 0x1D51F, -1), (''bigcap;'', 0x22C2, -1), (''bigcirc;'', 0x25EF, -1),
     (''bigcup;'', 0x22C3, -1), (''bigodot;'', 0x2A00, -1), (''bigoplus;'', 0x2A01, -1),
     (''bigotimes;'', 0x2A02, -1), (''bigsqcup;'', 0x2A06, -1), (''bigstar;'', 0x2605, -1),
     (''bigtriangledown;'', 0x25BD, -1), (''bigtriangleup;'', 0x25B3, -1), (''biguplus;'', 0x2A04, -1),
     (''bigvee;'', 0x22C1, -1), (''bigwedge;'', 0x22C0, -1), (''bkarow;'', 0x290D, -1),
     (''blacklozenge;'', 0x29EB, -1), (''blacksquare;'', 0x25AA, -1), (''blacktriangle;'', 0x25B4, -1),
     (''blacktriangledown;'', 0x25BE, -1), (''blacktriangleleft;'', 0x25C2, -1),
     (''blacktriangleright;'', 0x25B8, -1), (''blank;'', 0x2423, -1), (''blk12;'', 0x2592, -1),
     (''blk14;'', 0x2591, -1), (''blk34;'', 0x2593, -1), (''block;'', 0x2588, -1),
     (''bne;'', 0x3D, 0x20E5), (''bnequiv;'', 0x2261, 0x20E5), (''bnot;'', 0x2310, -1),
     (''bopf;'', 0x1D553, -1), (''bot;'', 0x22A5, -1), (''bottom;'', 0x22A5, -1),
     (''bowtie;'', 0x22C8, -1), (''boxDL;'', 0x2557, -1), (''boxDR;'', 0x2554, -1),
     (''boxDl;'', 0x2556, -1), (''boxDr;'', 0x2553, -1), (''boxH;'', 0x2550, -1),
     (''boxHD;'', 0x2566, -1), (''boxHU;'', 0x2569, -1), (''boxHd;'', 0x2564, -1),
     (''boxHu;'', 0x2567, -1), (''boxUL;'', 0x255D, -1), (''boxUR;'', 0x255A, -1),
     (''boxUl;'', 0x255C, -1), (''boxUr;'', 0x2559, -1), (''boxV;'', 0x2551, -1),
     (''boxVH;'', 0x256C, -1), (''boxVL;'', 0x2563, -1), (''boxVR;'', 0x2560, -1),
     (''boxVh;'', 0x256B, -1), (''boxVl;'', 0x2562, -1), (''boxVr;'', 0x255F, -1),
     (''boxbox;'', 0x29C9, -1), (''boxdL;'', 0x2555, -1), (''boxdR;'', 0x2552, -1),
     (''boxdl;'', 0x2510, -1), (''boxdr;'', 0x250C, -1), (''boxh;'', 0x2500, -1),
     (''boxhD;'', 0x2565, -1), (''boxhU;'', 0x2568, -1), (''boxhd;'', 0x252C, -1),
     (''boxhu;'', 0x2534, -1), (''boxminus;'', 0x229F, -1), (''boxplus;'', 0x229E, -1),
     (''boxtimes;'', 0x22A0, -1), (''boxuL;'', 0x255B, -1), (''boxuR;'', 0x2558, -1),
     (''boxul;'', 0x2518, -1), (''boxur;'', 0x2514, -1), (''boxv;'', 0x2502, -1),
     (''boxvH;'', 0x256A, -1), (''boxvL;'', 0x2561, -1), (''boxvR;'', 0x255E, -1),
     (''boxvh;'', 0x253C, -1), (''boxvl;'', 0x2524, -1), (''boxvr;'', 0x251C, -1),
     (''bprime;'', 0x2035, -1), (''breve;'', 0x2D8, -1), (''brvbar;'', 0xA6, -1),
     (''brvbar'', 0xA6, -1), (''bscr;'', 0x1D4B7, -1), (''bsemi;'', 0x204F, -1),
     (''bsim;'', 0x223D, -1), (''bsime;'', 0x22CD, -1), (''bsol;'', 0x5C, -1),
     (''bsolb;'', 0x29C5, -1), (''bsolhsub;'', 0x27C8, -1), (''bull;'', 0x2022, -1),
     (''bullet;'', 0x2022, -1), (''bump;'', 0x224E, -1), (''bumpE;'', 0x2AAE, -1),
     (''bumpe;'', 0x224F, -1), (''bumpeq;'', 0x224F, -1), (''cacute;'', 0x107, -1),
     (''cap;'', 0x2229, -1), (''capand;'', 0x2A44, -1), (''capbrcup;'', 0x2A49, -1),
     (''capcap;'', 0x2A4B, -1), (''capcup;'', 0x2A47, -1), (''capdot;'', 0x2A40, -1),
     (''caps;'', 0x2229, 0xFE00), (''caret;'', 0x2041, -1), (''caron;'', 0x2C7, -1),
     (''ccaps;'', 0x2A4D, -1), (''ccaron;'', 0x10D, -1), (''ccedil;'', 0xE7, -1),
     (''ccedil'', 0xE7, -1), (''ccirc;'', 0x109, -1), (''ccups;'', 0x2A4C, -1),
     (''ccupssm;'', 0x2A50, -1), (''cdot;'', 0x10B, -1), (''cedil;'', 0xB8, -1), (''cedil'', 0xB8, -1),
     (''cemptyv;'', 0x29B2, -1), (''cent;'', 0xA2, -1)]"

definition entities_7 :: "named_char_ref list" where
  "entities_7 =
    [(''cent'', 0xA2, -1), (''centerdot;'', 0xB7, -1), (''cfr;'', 0x1D520, -1), (''chcy;'', 0x447, -1),
     (''check;'', 0x2713, -1), (''checkmark;'', 0x2713, -1), (''chi;'', 0x3C7, -1),
     (''cir;'', 0x25CB, -1), (''cirE;'', 0x29C3, -1), (''circ;'', 0x2C6, -1),
     (''circeq;'', 0x2257, -1), (''circlearrowleft;'', 0x21BA, -1),
     (''circlearrowright;'', 0x21BB, -1), (''circledR;'', 0xAE, -1), (''circledS;'', 0x24C8, -1),
     (''circledast;'', 0x229B, -1), (''circledcirc;'', 0x229A, -1), (''circleddash;'', 0x229D, -1),
     (''cire;'', 0x2257, -1), (''cirfnint;'', 0x2A10, -1), (''cirmid;'', 0x2AEF, -1),
     (''cirscir;'', 0x29C2, -1), (''clubs;'', 0x2663, -1), (''clubsuit;'', 0x2663, -1),
     (''colon;'', 0x3A, -1), (''colone;'', 0x2254, -1), (''coloneq;'', 0x2254, -1),
     (''comma;'', 0x2C, -1), (''commat;'', 0x40, -1), (''comp;'', 0x2201, -1),
     (''compfn;'', 0x2218, -1), (''complement;'', 0x2201, -1), (''complexes;'', 0x2102, -1),
     (''cong;'', 0x2245, -1), (''congdot;'', 0x2A6D, -1), (''conint;'', 0x222E, -1),
     (''copf;'', 0x1D554, -1), (''coprod;'', 0x2210, -1), (''copy;'', 0xA9, -1), (''copy'', 0xA9, -1),
     (''copysr;'', 0x2117, -1), (''crarr;'', 0x21B5, -1), (''cross;'', 0x2717, -1),
     (''cscr;'', 0x1D4B8, -1), (''csub;'', 0x2ACF, -1), (''csube;'', 0x2AD1, -1),
     (''csup;'', 0x2AD0, -1), (''csupe;'', 0x2AD2, -1), (''ctdot;'', 0x22EF, -1),
     (''cudarrl;'', 0x2938, -1), (''cudarrr;'', 0x2935, -1), (''cuepr;'', 0x22DE, -1),
     (''cuesc;'', 0x22DF, -1), (''cularr;'', 0x21B6, -1), (''cularrp;'', 0x293D, -1),
     (''cup;'', 0x222A, -1), (''cupbrcap;'', 0x2A48, -1), (''cupcap;'', 0x2A46, -1),
     (''cupcup;'', 0x2A4A, -1), (''cupdot;'', 0x228D, -1), (''cupor;'', 0x2A45, -1),
     (''cups;'', 0x222A, 0xFE00), (''curarr;'', 0x21B7, -1), (''curarrm;'', 0x293C, -1),
     (''curlyeqprec;'', 0x22DE, -1), (''curlyeqsucc;'', 0x22DF, -1), (''curlyvee;'', 0x22CE, -1),
     (''curlywedge;'', 0x22CF, -1), (''curren;'', 0xA4, -1), (''curren'', 0xA4, -1),
     (''curvearrowleft;'', 0x21B6, -1), (''curvearrowright;'', 0x21B7, -1), (''cuvee;'', 0x22CE, -1),
     (''cuwed;'', 0x22CF, -1), (''cwconint;'', 0x2232, -1), (''cwint;'', 0x2231, -1),
     (''cylcty;'', 0x232D, -1), (''dArr;'', 0x21D3, -1), (''dHar;'', 0x2965, -1),
     (''dagger;'', 0x2020, -1), (''daleth;'', 0x2138, -1), (''darr;'', 0x2193, -1),
     (''dash;'', 0x2010, -1), (''dashv;'', 0x22A3, -1), (''dbkarow;'', 0x290F, -1),
     (''dblac;'', 0x2DD, -1), (''dcaron;'', 0x10F, -1), (''dcy;'', 0x434, -1), (''dd;'', 0x2146, -1),
     (''ddagger;'', 0x2021, -1), (''ddarr;'', 0x21CA, -1), (''ddotseq;'', 0x2A77, -1),
     (''deg;'', 0xB0, -1), (''deg'', 0xB0, -1), (''delta;'', 0x3B4, -1), (''demptyv;'', 0x29B1, -1),
     (''dfisht;'', 0x297F, -1), (''dfr;'', 0x1D521, -1), (''dharl;'', 0x21C3, -1),
     (''dharr;'', 0x21C2, -1), (''diam;'', 0x22C4, -1), (''diamond;'', 0x22C4, -1),
     (''diamondsuit;'', 0x2666, -1), (''diams;'', 0x2666, -1), (''die;'', 0xA8, -1),
     (''digamma;'', 0x3DD, -1), (''disin;'', 0x22F2, -1), (''div;'', 0xF7, -1),
     (''divide;'', 0xF7, -1), (''divide'', 0xF7, -1), (''divideontimes;'', 0x22C7, -1),
     (''divonx;'', 0x22C7, -1), (''djcy;'', 0x452, -1), (''dlcorn;'', 0x231E, -1),
     (''dlcrop;'', 0x230D, -1), (''dollar;'', 0x24, -1), (''dopf;'', 0x1D555, -1),
     (''dot;'', 0x2D9, -1), (''doteq;'', 0x2250, -1), (''doteqdot;'', 0x2251, -1),
     (''dotminus;'', 0x2238, -1), (''dotplus;'', 0x2214, -1), (''dotsquare;'', 0x22A1, -1),
     (''doublebarwedge;'', 0x2306, -1), (''downarrow;'', 0x2193, -1),
     (''downdownarrows;'', 0x21CA, -1), (''downharpoonleft;'', 0x21C3, -1),
     (''downharpoonright;'', 0x21C2, -1), (''drbkarow;'', 0x2910, -1), (''drcorn;'', 0x231F, -1),
     (''drcrop;'', 0x230C, -1), (''dscr;'', 0x1D4B9, -1), (''dscy;'', 0x455, -1),
     (''dsol;'', 0x29F6, -1), (''dstrok;'', 0x111, -1), (''dtdot;'', 0x22F1, -1),
     (''dtri;'', 0x25BF, -1), (''dtrif;'', 0x25BE, -1), (''duarr;'', 0x21F5, -1),
     (''duhar;'', 0x296F, -1)]"

definition entities_8 :: "named_char_ref list" where
  "entities_8 =
    [(''dwangle;'', 0x29A6, -1), (''dzcy;'', 0x45F, -1), (''dzigrarr;'', 0x27FF, -1),
     (''eDDot;'', 0x2A77, -1), (''eDot;'', 0x2251, -1), (''eacute;'', 0xE9, -1),
     (''eacute'', 0xE9, -1), (''easter;'', 0x2A6E, -1), (''ecaron;'', 0x11B, -1),
     (''ecir;'', 0x2256, -1), (''ecirc;'', 0xEA, -1), (''ecirc'', 0xEA, -1), (''ecolon;'', 0x2255, -1),
     (''ecy;'', 0x44D, -1), (''edot;'', 0x117, -1), (''ee;'', 0x2147, -1), (''efDot;'', 0x2252, -1),
     (''efr;'', 0x1D522, -1), (''eg;'', 0x2A9A, -1), (''egrave;'', 0xE8, -1), (''egrave'', 0xE8, -1),
     (''egs;'', 0x2A96, -1), (''egsdot;'', 0x2A98, -1), (''el;'', 0x2A99, -1),
     (''elinters;'', 0x23E7, -1), (''ell;'', 0x2113, -1), (''els;'', 0x2A95, -1),
     (''elsdot;'', 0x2A97, -1), (''emacr;'', 0x113, -1), (''empty;'', 0x2205, -1),
     (''emptyset;'', 0x2205, -1), (''emptyv;'', 0x2205, -1), (''emsp13;'', 0x2004, -1),
     (''emsp14;'', 0x2005, -1), (''emsp;'', 0x2003, -1), (''eng;'', 0x14B, -1),
     (''ensp;'', 0x2002, -1), (''eogon;'', 0x119, -1), (''eopf;'', 0x1D556, -1),
     (''epar;'', 0x22D5, -1), (''eparsl;'', 0x29E3, -1), (''eplus;'', 0x2A71, -1),
     (''epsi;'', 0x3B5, -1), (''epsilon;'', 0x3B5, -1), (''epsiv;'', 0x3F5, -1),
     (''eqcirc;'', 0x2256, -1), (''eqcolon;'', 0x2255, -1), (''eqsim;'', 0x2242, -1),
     (''eqslantgtr;'', 0x2A96, -1), (''eqslantless;'', 0x2A95, -1), (''equals;'', 0x3D, -1),
     (''equest;'', 0x225F, -1), (''equiv;'', 0x2261, -1), (''equivDD;'', 0x2A78, -1),
     (''eqvparsl;'', 0x29E5, -1), (''erDot;'', 0x2253, -1), (''erarr;'', 0x2971, -1),
     (''escr;'', 0x212F, -1), (''esdot;'', 0x2250, -1), (''esim;'', 0x2242, -1), (''eta;'', 0x3B7, -1),
     (''eth;'', 0xF0, -1), (''eth'', 0xF0, -1), (''euml;'', 0xEB, -1), (''euml'', 0xEB, -1),
     (''euro;'', 0x20AC, -1), (''excl;'', 0x21, -1), (''exist;'', 0x2203, -1),
     (''expectation;'', 0x2130, -1), (''exponentiale;'', 0x2147, -1), (''fallingdotseq;'', 0x2252, -1),
     (''fcy;'', 0x444, -1), (''female;'', 0x2640, -1), (''ffilig;'', 0xFB03, -1),
     (''fflig;'', 0xFB00, -1), (''ffllig;'', 0xFB04, -1), (''ffr;'', 0x1D523, -1),
     (''filig;'', 0xFB01, -1), (''fjlig;'', 0x66, 0x6A), (''flat;'', 0x266D, -1),
     (''fllig;'', 0xFB02, -1), (''fltns;'', 0x25B1, -1), (''fnof;'', 0x192, -1),
     (''fopf;'', 0x1D557, -1), (''forall;'', 0x2200, -1), (''fork;'', 0x22D4, -1),
     (''forkv;'', 0x2AD9, -1), (''fpartint;'', 0x2A0D, -1), (''frac12'', 0xBD, -1),
     (''frac12;'', 0xBD, -1), (''frac13;'', 0x2153, -1), (''frac14'', 0xBC, -1),
     (''frac14;'', 0xBC, -1), (''frac15;'', 0x2155, -1), (''frac16;'', 0x2159, -1),
     (''frac18;'', 0x215B, -1), (''frac23;'', 0x2154, -1), (''frac25;'', 0x2156, -1),
     (''frac34'', 0xBE, -1), (''frac34;'', 0xBE, -1), (''frac35;'', 0x2157, -1),
     (''frac38;'', 0x215C, -1), (''frac45;'', 0x2158, -1), (''frac56;'', 0x215A, -1),
     (''frac58;'', 0x215D, -1), (''frac78;'', 0x215E, -1), (''frasl;'', 0x2044, -1),
     (''frown;'', 0x2322, -1), (''fscr;'', 0x1D4BB, -1), (''gE;'', 0x2267, -1), (''gEl;'', 0x2A8C, -1),
     (''gacute;'', 0x1F5, -1), (''gamma;'', 0x3B3, -1), (''gammad;'', 0x3DD, -1),
     (''gap;'', 0x2A86, -1), (''gbreve;'', 0x11F, -1), (''gcirc;'', 0x11D, -1), (''gcy;'', 0x433, -1),
     (''gdot;'', 0x121, -1), (''ge;'', 0x2265, -1), (''gel;'', 0x22DB, -1), (''geq;'', 0x2265, -1),
     (''geqq;'', 0x2267, -1), (''geqslant;'', 0x2A7E, -1), (''ges;'', 0x2A7E, -1),
     (''gescc;'', 0x2AA9, -1), (''gesdot;'', 0x2A80, -1), (''gesdoto;'', 0x2A82, -1),
     (''gesdotol;'', 0x2A84, -1), (''gesl;'', 0x22DB, 0xFE00), (''gesles;'', 0x2A94, -1),
     (''gfr;'', 0x1D524, -1), (''gg;'', 0x226B, -1), (''ggg;'', 0x22D9, -1), (''gimel;'', 0x2137, -1),
     (''gjcy;'', 0x453, -1), (''gl;'', 0x2277, -1), (''glE;'', 0x2A92, -1), (''gla;'', 0x2AA5, -1),
     (''glj;'', 0x2AA4, -1)]"

definition entities_9 :: "named_char_ref list" where
  "entities_9 =
    [(''gnE;'', 0x2269, -1), (''gnap;'', 0x2A8A, -1), (''gnapprox;'', 0x2A8A, -1),
     (''gne;'', 0x2A88, -1), (''gneq;'', 0x2A88, -1), (''gneqq;'', 0x2269, -1),
     (''gnsim;'', 0x22E7, -1), (''gopf;'', 0x1D558, -1), (''grave;'', 0x60, -1),
     (''gscr;'', 0x210A, -1), (''gsim;'', 0x2273, -1), (''gsime;'', 0x2A8E, -1),
     (''gsiml;'', 0x2A90, -1), (''gt;'', 0x3E, -1), (''gt'', 0x3E, -1), (''gtcc;'', 0x2AA7, -1),
     (''gtcir;'', 0x2A7A, -1), (''gtdot;'', 0x22D7, -1), (''gtlPar;'', 0x2995, -1),
     (''gtquest;'', 0x2A7C, -1), (''gtrapprox;'', 0x2A86, -1), (''gtrarr;'', 0x2978, -1),
     (''gtrdot;'', 0x22D7, -1), (''gtreqless;'', 0x22DB, -1), (''gtreqqless;'', 0x2A8C, -1),
     (''gtrless;'', 0x2277, -1), (''gtrsim;'', 0x2273, -1), (''gvertneqq;'', 0x2269, 0xFE00),
     (''gvnE;'', 0x2269, 0xFE00), (''hArr;'', 0x21D4, -1), (''hairsp;'', 0x200A, -1),
     (''half;'', 0xBD, -1), (''hamilt;'', 0x210B, -1), (''hardcy;'', 0x44A, -1),
     (''harr;'', 0x2194, -1), (''harrcir;'', 0x2948, -1), (''harrw;'', 0x21AD, -1),
     (''hbar;'', 0x210F, -1), (''hcirc;'', 0x125, -1), (''hearts;'', 0x2665, -1),
     (''heartsuit;'', 0x2665, -1), (''hellip;'', 0x2026, -1), (''hercon;'', 0x22B9, -1),
     (''hfr;'', 0x1D525, -1), (''hksearow;'', 0x2925, -1), (''hkswarow;'', 0x2926, -1),
     (''hoarr;'', 0x21FF, -1), (''homtht;'', 0x223B, -1), (''hookleftarrow;'', 0x21A9, -1),
     (''hookrightarrow;'', 0x21AA, -1), (''hopf;'', 0x1D559, -1), (''horbar;'', 0x2015, -1),
     (''hscr;'', 0x1D4BD, -1), (''hslash;'', 0x210F, -1), (''hstrok;'', 0x127, -1),
     (''hybull;'', 0x2043, -1), (''hyphen;'', 0x2010, -1), (''iacute;'', 0xED, -1),
     (''iacute'', 0xED, -1), (''ic;'', 0x2063, -1), (''icirc;'', 0xEE, -1), (''icirc'', 0xEE, -1),
     (''icy;'', 0x438, -1), (''iecy;'', 0x435, -1), (''iexcl;'', 0xA1, -1), (''iexcl'', 0xA1, -1),
     (''iff;'', 0x21D4, -1), (''ifr;'', 0x1D526, -1), (''igrave;'', 0xEC, -1), (''igrave'', 0xEC, -1),
     (''ii;'', 0x2148, -1), (''iiiint;'', 0x2A0C, -1), (''iiint;'', 0x222D, -1),
     (''iinfin;'', 0x29DC, -1), (''iiota;'', 0x2129, -1), (''ijlig;'', 0x133, -1),
     (''imacr;'', 0x12B, -1), (''image;'', 0x2111, -1), (''imagline;'', 0x2110, -1),
     (''imagpart;'', 0x2111, -1), (''imath;'', 0x131, -1), (''imof;'', 0x22B7, -1),
     (''imped;'', 0x1B5, -1), (''in;'', 0x2208, -1), (''incare;'', 0x2105, -1),
     (''infin;'', 0x221E, -1), (''infintie;'', 0x29DD, -1), (''inodot;'', 0x131, -1),
     (''int;'', 0x222B, -1), (''intcal;'', 0x22BA, -1), (''integers;'', 0x2124, -1),
     (''intercal;'', 0x22BA, -1), (''intlarhk;'', 0x2A17, -1), (''intprod;'', 0x2A3C, -1),
     (''iocy;'', 0x451, -1), (''iogon;'', 0x12F, -1), (''iopf;'', 0x1D55A, -1), (''iota;'', 0x3B9, -1),
     (''iprod;'', 0x2A3C, -1), (''iquest;'', 0xBF, -1), (''iquest'', 0xBF, -1),
     (''iscr;'', 0x1D4BE, -1), (''isin;'', 0x2208, -1), (''isinE;'', 0x22F9, -1),
     (''isindot;'', 0x22F5, -1), (''isins;'', 0x22F4, -1), (''isinsv;'', 0x22F3, -1),
     (''isinv;'', 0x2208, -1), (''it;'', 0x2062, -1), (''itilde;'', 0x129, -1),
     (''iukcy;'', 0x456, -1), (''iuml;'', 0xEF, -1), (''iuml'', 0xEF, -1), (''jcirc;'', 0x135, -1),
     (''jcy;'', 0x439, -1), (''jfr;'', 0x1D527, -1), (''jmath;'', 0x237, -1), (''jopf;'', 0x1D55B, -1),
     (''jscr;'', 0x1D4BF, -1), (''jsercy;'', 0x458, -1), (''jukcy;'', 0x454, -1),
     (''kappa;'', 0x3BA, -1), (''kappav;'', 0x3F0, -1), (''kcedil;'', 0x137, -1),
     (''kcy;'', 0x43A, -1), (''kfr;'', 0x1D528, -1), (''kgreen;'', 0x138, -1), (''khcy;'', 0x445, -1),
     (''kjcy;'', 0x45C, -1), (''kopf;'', 0x1D55C, -1), (''kscr;'', 0x1D4C0, -1),
     (''lAarr;'', 0x21DA, -1), (''lArr;'', 0x21D0, -1), (''lAtail;'', 0x291B, -1),
     (''lBarr;'', 0x290E, -1), (''lE;'', 0x2266, -1), (''lEg;'', 0x2A8B, -1), (''lHar;'', 0x2962, -1),
     (''lacute;'', 0x13A, -1), (''laemptyv;'', 0x29B4, -1)]"

definition entities_10 :: "named_char_ref list" where
  "entities_10 =
    [(''lagran;'', 0x2112, -1), (''lambda;'', 0x3BB, -1), (''lang;'', 0x27E8, -1),
     (''langd;'', 0x2991, -1), (''langle;'', 0x27E8, -1), (''lap;'', 0x2A85, -1),
     (''laquo;'', 0xAB, -1), (''laquo'', 0xAB, -1), (''larr;'', 0x2190, -1), (''larrb;'', 0x21E4, -1),
     (''larrbfs;'', 0x291F, -1), (''larrfs;'', 0x291D, -1), (''larrhk;'', 0x21A9, -1),
     (''larrlp;'', 0x21AB, -1), (''larrpl;'', 0x2939, -1), (''larrsim;'', 0x2973, -1),
     (''larrtl;'', 0x21A2, -1), (''lat;'', 0x2AAB, -1), (''latail;'', 0x2919, -1),
     (''late;'', 0x2AAD, -1), (''lates;'', 0x2AAD, 0xFE00), (''lbarr;'', 0x290C, -1),
     (''lbbrk;'', 0x2772, -1), (''lbrace;'', 0x7B, -1), (''lbrack;'', 0x5B, -1),
     (''lbrke;'', 0x298B, -1), (''lbrksld;'', 0x298F, -1), (''lbrkslu;'', 0x298D, -1),
     (''lcaron;'', 0x13E, -1), (''lcedil;'', 0x13C, -1), (''lceil;'', 0x2308, -1),
     (''lcub;'', 0x7B, -1), (''lcy;'', 0x43B, -1), (''ldca;'', 0x2936, -1), (''ldquo;'', 0x201C, -1),
     (''ldquor;'', 0x201E, -1), (''ldrdhar;'', 0x2967, -1), (''ldrushar;'', 0x294B, -1),
     (''ldsh;'', 0x21B2, -1), (''le;'', 0x2264, -1), (''leftarrow;'', 0x2190, -1),
     (''leftarrowtail;'', 0x21A2, -1), (''leftharpoondown;'', 0x21BD, -1),
     (''leftharpoonup;'', 0x21BC, -1), (''leftleftarrows;'', 0x21C7, -1),
     (''leftrightarrow;'', 0x2194, -1), (''leftrightarrows;'', 0x21C6, -1),
     (''leftrightharpoons;'', 0x21CB, -1), (''leftrightsquigarrow;'', 0x21AD, -1),
     (''leftthreetimes;'', 0x22CB, -1), (''leg;'', 0x22DA, -1), (''leq;'', 0x2264, -1),
     (''leqq;'', 0x2266, -1), (''leqslant;'', 0x2A7D, -1), (''les;'', 0x2A7D, -1),
     (''lescc;'', 0x2AA8, -1), (''lesdot;'', 0x2A7F, -1), (''lesdoto;'', 0x2A81, -1),
     (''lesdotor;'', 0x2A83, -1), (''lesg;'', 0x22DA, 0xFE00), (''lesges;'', 0x2A93, -1),
     (''lessapprox;'', 0x2A85, -1), (''lessdot;'', 0x22D6, -1), (''lesseqgtr;'', 0x22DA, -1),
     (''lesseqqgtr;'', 0x2A8B, -1), (''lessgtr;'', 0x2276, -1), (''lesssim;'', 0x2272, -1),
     (''lfisht;'', 0x297C, -1), (''lfloor;'', 0x230A, -1), (''lfr;'', 0x1D529, -1),
     (''lg;'', 0x2276, -1), (''lgE;'', 0x2A91, -1), (''lhard;'', 0x21BD, -1), (''lharu;'', 0x21BC, -1),
     (''lharul;'', 0x296A, -1), (''lhblk;'', 0x2584, -1), (''ljcy;'', 0x459, -1),
     (''ll;'', 0x226A, -1), (''llarr;'', 0x21C7, -1), (''llcorner;'', 0x231E, -1),
     (''llhard;'', 0x296B, -1), (''lltri;'', 0x25FA, -1), (''lmidot;'', 0x140, -1),
     (''lmoust;'', 0x23B0, -1), (''lmoustache;'', 0x23B0, -1), (''lnE;'', 0x2268, -1),
     (''lnap;'', 0x2A89, -1), (''lnapprox;'', 0x2A89, -1), (''lne;'', 0x2A87, -1),
     (''lneq;'', 0x2A87, -1), (''lneqq;'', 0x2268, -1), (''lnsim;'', 0x22E6, -1),
     (''loang;'', 0x27EC, -1), (''loarr;'', 0x21FD, -1), (''lobrk;'', 0x27E6, -1),
     (''longleftarrow;'', 0x27F5, -1), (''longleftrightarrow;'', 0x27F7, -1),
     (''longmapsto;'', 0x27FC, -1), (''longrightarrow;'', 0x27F6, -1),
     (''looparrowleft;'', 0x21AB, -1), (''looparrowright;'', 0x21AC, -1), (''lopar;'', 0x2985, -1),
     (''lopf;'', 0x1D55D, -1), (''loplus;'', 0x2A2D, -1), (''lotimes;'', 0x2A34, -1),
     (''lowast;'', 0x2217, -1), (''lowbar;'', 0x5F, -1), (''loz;'', 0x25CA, -1),
     (''lozenge;'', 0x25CA, -1), (''lozf;'', 0x29EB, -1), (''lpar;'', 0x28, -1),
     (''lparlt;'', 0x2993, -1), (''lrarr;'', 0x21C6, -1), (''lrcorner;'', 0x231F, -1),
     (''lrhar;'', 0x21CB, -1), (''lrhard;'', 0x296D, -1), (''lrm;'', 0x200E, -1),
     (''lrtri;'', 0x22BF, -1), (''lsaquo;'', 0x2039, -1), (''lscr;'', 0x1D4C1, -1),
     (''lsh;'', 0x21B0, -1), (''lsim;'', 0x2272, -1), (''lsime;'', 0x2A8D, -1),
     (''lsimg;'', 0x2A8F, -1), (''lsqb;'', 0x5B, -1), (''lsquo;'', 0x2018, -1),
     (''lsquor;'', 0x201A, -1), (''lstrok;'', 0x142, -1), (''lt;'', 0x3C, -1), (''lt'', 0x3C, -1),
     (''ltcc;'', 0x2AA6, -1), (''ltcir;'', 0x2A79, -1), (''ltdot;'', 0x22D6, -1),
     (''lthree;'', 0x22CB, -1), (''ltimes;'', 0x22C9, -1), (''ltlarr;'', 0x2976, -1),
     (''ltquest;'', 0x2A7B, -1), (''ltrPar;'', 0x2996, -1), (''ltri;'', 0x25C3, -1),
     (''ltrie;'', 0x22B4, -1)]"

definition entities_11 :: "named_char_ref list" where
  "entities_11 =
    [(''ltrif;'', 0x25C2, -1), (''lurdshar;'', 0x294A, -1), (''luruhar;'', 0x2966, -1),
     (''lvertneqq;'', 0x2268, 0xFE00), (''lvnE;'', 0x2268, 0xFE00), (''mDDot;'', 0x223A, -1),
     (''macr;'', 0xAF, -1), (''macr'', 0xAF, -1), (''male;'', 0x2642, -1), (''malt;'', 0x2720, -1),
     (''maltese;'', 0x2720, -1), (''map;'', 0x21A6, -1), (''mapsto;'', 0x21A6, -1),
     (''mapstodown;'', 0x21A7, -1), (''mapstoleft;'', 0x21A4, -1), (''mapstoup;'', 0x21A5, -1),
     (''marker;'', 0x25AE, -1), (''mcomma;'', 0x2A29, -1), (''mcy;'', 0x43C, -1),
     (''mdash;'', 0x2014, -1), (''measuredangle;'', 0x2221, -1), (''mfr;'', 0x1D52A, -1),
     (''mho;'', 0x2127, -1), (''micro;'', 0xB5, -1), (''micro'', 0xB5, -1), (''mid;'', 0x2223, -1),
     (''midast;'', 0x2A, -1), (''midcir;'', 0x2AF0, -1), (''middot;'', 0xB7, -1),
     (''middot'', 0xB7, -1), (''minus;'', 0x2212, -1), (''minusb;'', 0x229F, -1),
     (''minusd;'', 0x2238, -1), (''minusdu;'', 0x2A2A, -1), (''mlcp;'', 0x2ADB, -1),
     (''mldr;'', 0x2026, -1), (''mnplus;'', 0x2213, -1), (''models;'', 0x22A7, -1),
     (''mopf;'', 0x1D55E, -1), (''mp;'', 0x2213, -1), (''mscr;'', 0x1D4C2, -1),
     (''mstpos;'', 0x223E, -1), (''mu;'', 0x3BC, -1), (''multimap;'', 0x22B8, -1),
     (''mumap;'', 0x22B8, -1), (''nGg;'', 0x22D9, 0x338), (''nGt;'', 0x226B, 0x20D2),
     (''nGtv;'', 0x226B, 0x338), (''nLeftarrow;'', 0x21CD, -1), (''nLeftrightarrow;'', 0x21CE, -1),
     (''nLl;'', 0x22D8, 0x338), (''nLt;'', 0x226A, 0x20D2), (''nLtv;'', 0x226A, 0x338),
     (''nRightarrow;'', 0x21CF, -1), (''nVDash;'', 0x22AF, -1), (''nVdash;'', 0x22AE, -1),
     (''nabla;'', 0x2207, -1), (''nacute;'', 0x144, -1), (''nang;'', 0x2220, 0x20D2),
     (''nap;'', 0x2249, -1), (''napE;'', 0x2A70, 0x338), (''napid;'', 0x224B, 0x338),
     (''napos;'', 0x149, -1), (''napprox;'', 0x2249, -1), (''natur;'', 0x266E, -1),
     (''natural;'', 0x266E, -1), (''naturals;'', 0x2115, -1), (''nbsp;'', 0xA0, -1),
     (''nbsp'', 0xA0, -1), (''nbump;'', 0x224E, 0x338), (''nbumpe;'', 0x224F, 0x338),
     (''ncap;'', 0x2A43, -1), (''ncaron;'', 0x148, -1), (''ncedil;'', 0x146, -1),
     (''ncong;'', 0x2247, -1), (''ncongdot;'', 0x2A6D, 0x338), (''ncup;'', 0x2A42, -1),
     (''ncy;'', 0x43D, -1), (''ndash;'', 0x2013, -1), (''ne;'', 0x2260, -1), (''neArr;'', 0x21D7, -1),
     (''nearhk;'', 0x2924, -1), (''nearr;'', 0x2197, -1), (''nearrow;'', 0x2197, -1),
     (''nedot;'', 0x2250, 0x338), (''nequiv;'', 0x2262, -1), (''nesear;'', 0x2928, -1),
     (''nesim;'', 0x2242, 0x338), (''nexist;'', 0x2204, -1), (''nexists;'', 0x2204, -1),
     (''nfr;'', 0x1D52B, -1), (''ngE;'', 0x2267, 0x338), (''nge;'', 0x2271, -1),
     (''ngeq;'', 0x2271, -1), (''ngeqq;'', 0x2267, 0x338), (''ngeqslant;'', 0x2A7E, 0x338),
     (''nges;'', 0x2A7E, 0x338), (''ngsim;'', 0x2275, -1), (''ngt;'', 0x226F, -1),
     (''ngtr;'', 0x226F, -1), (''nhArr;'', 0x21CE, -1), (''nharr;'', 0x21AE, -1),
     (''nhpar;'', 0x2AF2, -1), (''ni;'', 0x220B, -1), (''nis;'', 0x22FC, -1), (''nisd;'', 0x22FA, -1),
     (''niv;'', 0x220B, -1), (''njcy;'', 0x45A, -1), (''nlArr;'', 0x21CD, -1),
     (''nlE;'', 0x2266, 0x338), (''nlarr;'', 0x219A, -1), (''nldr;'', 0x2025, -1),
     (''nle;'', 0x2270, -1), (''nleftarrow;'', 0x219A, -1), (''nleftrightarrow;'', 0x21AE, -1),
     (''nleq;'', 0x2270, -1), (''nleqq;'', 0x2266, 0x338), (''nleqslant;'', 0x2A7D, 0x338),
     (''nles;'', 0x2A7D, 0x338), (''nless;'', 0x226E, -1), (''nlsim;'', 0x2274, -1),
     (''nlt;'', 0x226E, -1), (''nltri;'', 0x22EA, -1), (''nltrie;'', 0x22EC, -1),
     (''nmid;'', 0x2224, -1), (''nopf;'', 0x1D55F, -1), (''not;'', 0xAC, -1), (''notin;'', 0x2209, -1),
     (''notinE;'', 0x22F9, 0x338), (''notindot;'', 0x22F5, 0x338), (''notinva;'', 0x2209, -1),
     (''notinvb;'', 0x22F7, -1), (''notinvc;'', 0x22F6, -1), (''notni;'', 0x220C, -1),
     (''notniva;'', 0x220C, -1), (''notnivb;'', 0x22FE, -1), (''notnivc;'', 0x22FD, -1),
     (''not'', 0xAC, -1), (''npar;'', 0x2226, -1), (''nparallel;'', 0x2226, -1)]"

definition entities_12 :: "named_char_ref list" where
  "entities_12 =
    [(''nparsl;'', 0x2AFD, 0x20E5), (''npart;'', 0x2202, 0x338), (''npolint;'', 0x2A14, -1),
     (''npr;'', 0x2280, -1), (''nprcue;'', 0x22E0, -1), (''npre;'', 0x2AAF, 0x338),
     (''nprec;'', 0x2280, -1), (''npreceq;'', 0x2AAF, 0x338), (''nrArr;'', 0x21CF, -1),
     (''nrarr;'', 0x219B, -1), (''nrarrc;'', 0x2933, 0x338), (''nrarrw;'', 0x219D, 0x338),
     (''nrightarrow;'', 0x219B, -1), (''nrtri;'', 0x22EB, -1), (''nrtrie;'', 0x22ED, -1),
     (''nsc;'', 0x2281, -1), (''nsccue;'', 0x22E1, -1), (''nsce;'', 0x2AB0, 0x338),
     (''nscr;'', 0x1D4C3, -1), (''nshortmid;'', 0x2224, -1), (''nshortparallel;'', 0x2226, -1),
     (''nsim;'', 0x2241, -1), (''nsime;'', 0x2244, -1), (''nsimeq;'', 0x2244, -1),
     (''nsmid;'', 0x2224, -1), (''nspar;'', 0x2226, -1), (''nsqsube;'', 0x22E2, -1),
     (''nsqsupe;'', 0x22E3, -1), (''nsub;'', 0x2284, -1), (''nsubE;'', 0x2AC5, 0x338),
     (''nsube;'', 0x2288, -1), (''nsubset;'', 0x2282, 0x20D2), (''nsubseteq;'', 0x2288, -1),
     (''nsubseteqq;'', 0x2AC5, 0x338), (''nsucc;'', 0x2281, -1), (''nsucceq;'', 0x2AB0, 0x338),
     (''nsup;'', 0x2285, -1), (''nsupE;'', 0x2AC6, 0x338), (''nsupe;'', 0x2289, -1),
     (''nsupset;'', 0x2283, 0x20D2), (''nsupseteq;'', 0x2289, -1), (''nsupseteqq;'', 0x2AC6, 0x338),
     (''ntgl;'', 0x2279, -1), (''ntilde;'', 0xF1, -1), (''ntilde'', 0xF1, -1), (''ntlg;'', 0x2278, -1),
     (''ntriangleleft;'', 0x22EA, -1), (''ntrianglelefteq;'', 0x22EC, -1),
     (''ntriangleright;'', 0x22EB, -1), (''ntrianglerighteq;'', 0x22ED, -1), (''nu;'', 0x3BD, -1),
     (''num;'', 0x23, -1), (''numero;'', 0x2116, -1), (''numsp;'', 0x2007, -1),
     (''nvDash;'', 0x22AD, -1), (''nvHarr;'', 0x2904, -1), (''nvap;'', 0x224D, 0x20D2),
     (''nvdash;'', 0x22AC, -1), (''nvge;'', 0x2265, 0x20D2), (''nvgt;'', 0x3E, 0x20D2),
     (''nvinfin;'', 0x29DE, -1), (''nvlArr;'', 0x2902, -1), (''nvle;'', 0x2264, 0x20D2),
     (''nvlt;'', 0x3C, 0x20D2), (''nvltrie;'', 0x22B4, 0x20D2), (''nvrArr;'', 0x2903, -1),
     (''nvrtrie;'', 0x22B5, 0x20D2), (''nvsim;'', 0x223C, 0x20D2), (''nwArr;'', 0x21D6, -1),
     (''nwarhk;'', 0x2923, -1), (''nwarr;'', 0x2196, -1), (''nwarrow;'', 0x2196, -1),
     (''nwnear;'', 0x2927, -1), (''oS;'', 0x24C8, -1), (''oacute;'', 0xF3, -1), (''oacute'', 0xF3, -1),
     (''oast;'', 0x229B, -1), (''ocir;'', 0x229A, -1), (''ocirc;'', 0xF4, -1), (''ocirc'', 0xF4, -1),
     (''ocy;'', 0x43E, -1), (''odash;'', 0x229D, -1), (''odblac;'', 0x151, -1),
     (''odiv;'', 0x2A38, -1), (''odot;'', 0x2299, -1), (''odsold;'', 0x29BC, -1),
     (''oelig;'', 0x153, -1), (''ofcir;'', 0x29BF, -1), (''ofr;'', 0x1D52C, -1),
     (''ogon;'', 0x2DB, -1), (''ograve;'', 0xF2, -1), (''ograve'', 0xF2, -1), (''ogt;'', 0x29C1, -1),
     (''ohbar;'', 0x29B5, -1), (''ohm;'', 0x3A9, -1), (''oint;'', 0x222E, -1),
     (''olarr;'', 0x21BA, -1), (''olcir;'', 0x29BE, -1), (''olcross;'', 0x29BB, -1),
     (''oline;'', 0x203E, -1), (''olt;'', 0x29C0, -1), (''omacr;'', 0x14D, -1),
     (''omega;'', 0x3C9, -1), (''omicron;'', 0x3BF, -1), (''omid;'', 0x29B6, -1),
     (''ominus;'', 0x2296, -1), (''oopf;'', 0x1D560, -1), (''opar;'', 0x29B7, -1),
     (''operp;'', 0x29B9, -1), (''oplus;'', 0x2295, -1), (''or;'', 0x2228, -1),
     (''orarr;'', 0x21BB, -1), (''ord;'', 0x2A5D, -1), (''order;'', 0x2134, -1),
     (''orderof;'', 0x2134, -1), (''ordf;'', 0xAA, -1), (''ordf'', 0xAA, -1), (''ordm;'', 0xBA, -1),
     (''ordm'', 0xBA, -1), (''origof;'', 0x22B6, -1), (''oror;'', 0x2A56, -1),
     (''orslope;'', 0x2A57, -1), (''orv;'', 0x2A5B, -1), (''oscr;'', 0x2134, -1),
     (''oslash;'', 0xF8, -1), (''oslash'', 0xF8, -1), (''osol;'', 0x2298, -1), (''otilde;'', 0xF5, -1),
     (''otilde'', 0xF5, -1), (''otimes;'', 0x2297, -1), (''otimesas;'', 0x2A36, -1),
     (''ouml;'', 0xF6, -1), (''ouml'', 0xF6, -1), (''ovbar;'', 0x233D, -1), (''par;'', 0x2225, -1),
     (''para;'', 0xB6, -1), (''para'', 0xB6, -1), (''parallel;'', 0x2225, -1),
     (''parsim;'', 0x2AF3, -1), (''parsl;'', 0x2AFD, -1)]"

definition entities_13 :: "named_char_ref list" where
  "entities_13 =
    [(''part;'', 0x2202, -1), (''pcy;'', 0x43F, -1), (''percnt;'', 0x25, -1), (''period;'', 0x2E, -1),
     (''permil;'', 0x2030, -1), (''perp;'', 0x22A5, -1), (''pertenk;'', 0x2031, -1),
     (''pfr;'', 0x1D52D, -1), (''phi;'', 0x3C6, -1), (''phiv;'', 0x3D5, -1), (''phmmat;'', 0x2133, -1),
     (''phone;'', 0x260E, -1), (''pi;'', 0x3C0, -1), (''pitchfork;'', 0x22D4, -1),
     (''piv;'', 0x3D6, -1), (''planck;'', 0x210F, -1), (''planckh;'', 0x210E, -1),
     (''plankv;'', 0x210F, -1), (''plus;'', 0x2B, -1), (''plusacir;'', 0x2A23, -1),
     (''plusb;'', 0x229E, -1), (''pluscir;'', 0x2A22, -1), (''plusdo;'', 0x2214, -1),
     (''plusdu;'', 0x2A25, -1), (''pluse;'', 0x2A72, -1), (''plusmn;'', 0xB1, -1),
     (''plusmn'', 0xB1, -1), (''plussim;'', 0x2A26, -1), (''plustwo;'', 0x2A27, -1),
     (''pm;'', 0xB1, -1), (''pointint;'', 0x2A15, -1), (''popf;'', 0x1D561, -1),
     (''pound;'', 0xA3, -1), (''pound'', 0xA3, -1), (''pr;'', 0x227A, -1), (''prE;'', 0x2AB3, -1),
     (''prap;'', 0x2AB7, -1), (''prcue;'', 0x227C, -1), (''pre;'', 0x2AAF, -1),
     (''prec;'', 0x227A, -1), (''precapprox;'', 0x2AB7, -1), (''preccurlyeq;'', 0x227C, -1),
     (''preceq;'', 0x2AAF, -1), (''precnapprox;'', 0x2AB9, -1), (''precneqq;'', 0x2AB5, -1),
     (''precnsim;'', 0x22E8, -1), (''precsim;'', 0x227E, -1), (''prime;'', 0x2032, -1),
     (''primes;'', 0x2119, -1), (''prnE;'', 0x2AB5, -1), (''prnap;'', 0x2AB9, -1),
     (''prnsim;'', 0x22E8, -1), (''prod;'', 0x220F, -1), (''profalar;'', 0x232E, -1),
     (''profline;'', 0x2312, -1), (''profsurf;'', 0x2313, -1), (''prop;'', 0x221D, -1),
     (''propto;'', 0x221D, -1), (''prsim;'', 0x227E, -1), (''prurel;'', 0x22B0, -1),
     (''pscr;'', 0x1D4C5, -1), (''psi;'', 0x3C8, -1), (''puncsp;'', 0x2008, -1),
     (''qfr;'', 0x1D52E, -1), (''qint;'', 0x2A0C, -1), (''qopf;'', 0x1D562, -1),
     (''qprime;'', 0x2057, -1), (''qscr;'', 0x1D4C6, -1), (''quaternions;'', 0x210D, -1),
     (''quatint;'', 0x2A16, -1), (''quest;'', 0x3F, -1), (''questeq;'', 0x225F, -1),
     (''quot;'', 0x22, -1), (''quot'', 0x22, -1), (''rAarr;'', 0x21DB, -1), (''rArr;'', 0x21D2, -1),
     (''rAtail;'', 0x291C, -1), (''rBarr;'', 0x290F, -1), (''rHar;'', 0x2964, -1),
     (''race;'', 0x223D, 0x331), (''racute;'', 0x155, -1), (''radic;'', 0x221A, -1),
     (''raemptyv;'', 0x29B3, -1), (''rang;'', 0x27E9, -1), (''rangd;'', 0x2992, -1),
     (''range;'', 0x29A5, -1), (''rangle;'', 0x27E9, -1), (''raquo;'', 0xBB, -1),
     (''raquo'', 0xBB, -1), (''rarr;'', 0x2192, -1), (''rarrap;'', 0x2975, -1),
     (''rarrb;'', 0x21E5, -1), (''rarrbfs;'', 0x2920, -1), (''rarrc;'', 0x2933, -1),
     (''rarrfs;'', 0x291E, -1), (''rarrhk;'', 0x21AA, -1), (''rarrlp;'', 0x21AC, -1),
     (''rarrpl;'', 0x2945, -1), (''rarrsim;'', 0x2974, -1), (''rarrtl;'', 0x21A3, -1),
     (''rarrw;'', 0x219D, -1), (''ratail;'', 0x291A, -1), (''ratio;'', 0x2236, -1),
     (''rationals;'', 0x211A, -1), (''rbarr;'', 0x290D, -1), (''rbbrk;'', 0x2773, -1),
     (''rbrace;'', 0x7D, -1), (''rbrack;'', 0x5D, -1), (''rbrke;'', 0x298C, -1),
     (''rbrksld;'', 0x298E, -1), (''rbrkslu;'', 0x2990, -1), (''rcaron;'', 0x159, -1),
     (''rcedil;'', 0x157, -1), (''rceil;'', 0x2309, -1), (''rcub;'', 0x7D, -1), (''rcy;'', 0x440, -1),
     (''rdca;'', 0x2937, -1), (''rdldhar;'', 0x2969, -1), (''rdquo;'', 0x201D, -1),
     (''rdquor;'', 0x201D, -1), (''rdsh;'', 0x21B3, -1), (''real;'', 0x211C, -1),
     (''realine;'', 0x211B, -1), (''realpart;'', 0x211C, -1), (''reals;'', 0x211D, -1),
     (''rect;'', 0x25AD, -1), (''reg;'', 0xAE, -1), (''reg'', 0xAE, -1), (''rfisht;'', 0x297D, -1),
     (''rfloor;'', 0x230B, -1), (''rfr;'', 0x1D52F, -1), (''rhard;'', 0x21C1, -1),
     (''rharu;'', 0x21C0, -1), (''rharul;'', 0x296C, -1), (''rho;'', 0x3C1, -1),
     (''rhov;'', 0x3F1, -1), (''rightarrow;'', 0x2192, -1), (''rightarrowtail;'', 0x21A3, -1),
     (''rightharpoondown;'', 0x21C1, -1), (''rightharpoonup;'', 0x21C0, -1)]"

definition entities_14 :: "named_char_ref list" where
  "entities_14 =
    [(''rightleftarrows;'', 0x21C4, -1), (''rightleftharpoons;'', 0x21CC, -1),
     (''rightrightarrows;'', 0x21C9, -1), (''rightsquigarrow;'', 0x219D, -1),
     (''rightthreetimes;'', 0x22CC, -1), (''ring;'', 0x2DA, -1), (''risingdotseq;'', 0x2253, -1),
     (''rlarr;'', 0x21C4, -1), (''rlhar;'', 0x21CC, -1), (''rlm;'', 0x200F, -1),
     (''rmoust;'', 0x23B1, -1), (''rmoustache;'', 0x23B1, -1), (''rnmid;'', 0x2AEE, -1),
     (''roang;'', 0x27ED, -1), (''roarr;'', 0x21FE, -1), (''robrk;'', 0x27E7, -1),
     (''ropar;'', 0x2986, -1), (''ropf;'', 0x1D563, -1), (''roplus;'', 0x2A2E, -1),
     (''rotimes;'', 0x2A35, -1), (''rpar;'', 0x29, -1), (''rpargt;'', 0x2994, -1),
     (''rppolint;'', 0x2A12, -1), (''rrarr;'', 0x21C9, -1), (''rsaquo;'', 0x203A, -1),
     (''rscr;'', 0x1D4C7, -1), (''rsh;'', 0x21B1, -1), (''rsqb;'', 0x5D, -1), (''rsquo;'', 0x2019, -1),
     (''rsquor;'', 0x2019, -1), (''rthree;'', 0x22CC, -1), (''rtimes;'', 0x22CA, -1),
     (''rtri;'', 0x25B9, -1), (''rtrie;'', 0x22B5, -1), (''rtrif;'', 0x25B8, -1),
     (''rtriltri;'', 0x29CE, -1), (''ruluhar;'', 0x2968, -1), (''rx;'', 0x211E, -1),
     (''sacute;'', 0x15B, -1), (''sbquo;'', 0x201A, -1), (''sc;'', 0x227B, -1), (''scE;'', 0x2AB4, -1),
     (''scap;'', 0x2AB8, -1), (''scaron;'', 0x161, -1), (''sccue;'', 0x227D, -1),
     (''sce;'', 0x2AB0, -1), (''scedil;'', 0x15F, -1), (''scirc;'', 0x15D, -1),
     (''scnE;'', 0x2AB6, -1), (''scnap;'', 0x2ABA, -1), (''scnsim;'', 0x22E9, -1),
     (''scpolint;'', 0x2A13, -1), (''scsim;'', 0x227F, -1), (''scy;'', 0x441, -1),
     (''sdot;'', 0x22C5, -1), (''sdotb;'', 0x22A1, -1), (''sdote;'', 0x2A66, -1),
     (''seArr;'', 0x21D8, -1), (''searhk;'', 0x2925, -1), (''searr;'', 0x2198, -1),
     (''searrow;'', 0x2198, -1), (''sect;'', 0xA7, -1), (''sect'', 0xA7, -1), (''semi;'', 0x3B, -1),
     (''seswar;'', 0x2929, -1), (''setminus;'', 0x2216, -1), (''setmn;'', 0x2216, -1),
     (''sext;'', 0x2736, -1), (''sfr;'', 0x1D530, -1), (''sfrown;'', 0x2322, -1),
     (''sharp;'', 0x266F, -1), (''shchcy;'', 0x449, -1), (''shcy;'', 0x448, -1),
     (''shortmid;'', 0x2223, -1), (''shortparallel;'', 0x2225, -1), (''shy;'', 0xAD, -1),
     (''shy'', 0xAD, -1), (''sigma;'', 0x3C3, -1), (''sigmaf;'', 0x3C2, -1), (''sigmav;'', 0x3C2, -1),
     (''sim;'', 0x223C, -1), (''simdot;'', 0x2A6A, -1), (''sime;'', 0x2243, -1),
     (''simeq;'', 0x2243, -1), (''simg;'', 0x2A9E, -1), (''simgE;'', 0x2AA0, -1),
     (''siml;'', 0x2A9D, -1), (''simlE;'', 0x2A9F, -1), (''simne;'', 0x2246, -1),
     (''simplus;'', 0x2A24, -1), (''simrarr;'', 0x2972, -1), (''slarr;'', 0x2190, -1),
     (''smallsetminus;'', 0x2216, -1), (''smashp;'', 0x2A33, -1), (''smeparsl;'', 0x29E4, -1),
     (''smid;'', 0x2223, -1), (''smile;'', 0x2323, -1), (''smt;'', 0x2AAA, -1),
     (''smte;'', 0x2AAC, -1), (''smtes;'', 0x2AAC, 0xFE00), (''softcy;'', 0x44C, -1),
     (''sol;'', 0x2F, -1), (''solb;'', 0x29C4, -1), (''solbar;'', 0x233F, -1),
     (''sopf;'', 0x1D564, -1), (''spades;'', 0x2660, -1), (''spadesuit;'', 0x2660, -1),
     (''spar;'', 0x2225, -1), (''sqcap;'', 0x2293, -1), (''sqcaps;'', 0x2293, 0xFE00),
     (''sqcup;'', 0x2294, -1), (''sqcups;'', 0x2294, 0xFE00), (''sqsub;'', 0x228F, -1),
     (''sqsube;'', 0x2291, -1), (''sqsubset;'', 0x228F, -1), (''sqsubseteq;'', 0x2291, -1),
     (''sqsup;'', 0x2290, -1), (''sqsupe;'', 0x2292, -1), (''sqsupset;'', 0x2290, -1),
     (''sqsupseteq;'', 0x2292, -1), (''squ;'', 0x25A1, -1), (''square;'', 0x25A1, -1),
     (''squarf;'', 0x25AA, -1), (''squf;'', 0x25AA, -1), (''srarr;'', 0x2192, -1),
     (''sscr;'', 0x1D4C8, -1), (''ssetmn;'', 0x2216, -1), (''ssmile;'', 0x2323, -1),
     (''sstarf;'', 0x22C6, -1), (''star;'', 0x2606, -1), (''starf;'', 0x2605, -1),
     (''straightepsilon;'', 0x3F5, -1), (''straightphi;'', 0x3D5, -1), (''strns;'', 0xAF, -1),
     (''sub;'', 0x2282, -1), (''subE;'', 0x2AC5, -1), (''subdot;'', 0x2ABD, -1),
     (''sube;'', 0x2286, -1), (''subedot;'', 0x2AC3, -1), (''submult;'', 0x2AC1, -1)]"

definition entities_15 :: "named_char_ref list" where
  "entities_15 =
    [(''subnE;'', 0x2ACB, -1), (''subne;'', 0x228A, -1), (''subplus;'', 0x2ABF, -1),
     (''subrarr;'', 0x2979, -1), (''subset;'', 0x2282, -1), (''subseteq;'', 0x2286, -1),
     (''subseteqq;'', 0x2AC5, -1), (''subsetneq;'', 0x228A, -1), (''subsetneqq;'', 0x2ACB, -1),
     (''subsim;'', 0x2AC7, -1), (''subsub;'', 0x2AD5, -1), (''subsup;'', 0x2AD3, -1),
     (''succ;'', 0x227B, -1), (''succapprox;'', 0x2AB8, -1), (''succcurlyeq;'', 0x227D, -1),
     (''succeq;'', 0x2AB0, -1), (''succnapprox;'', 0x2ABA, -1), (''succneqq;'', 0x2AB6, -1),
     (''succnsim;'', 0x22E9, -1), (''succsim;'', 0x227F, -1), (''sum;'', 0x2211, -1),
     (''sung;'', 0x266A, -1), (''sup1;'', 0xB9, -1), (''sup1'', 0xB9, -1), (''sup2;'', 0xB2, -1),
     (''sup2'', 0xB2, -1), (''sup3;'', 0xB3, -1), (''sup3'', 0xB3, -1), (''sup;'', 0x2283, -1),
     (''supE;'', 0x2AC6, -1), (''supdot;'', 0x2ABE, -1), (''supdsub;'', 0x2AD8, -1),
     (''supe;'', 0x2287, -1), (''supedot;'', 0x2AC4, -1), (''suphsol;'', 0x27C9, -1),
     (''suphsub;'', 0x2AD7, -1), (''suplarr;'', 0x297B, -1), (''supmult;'', 0x2AC2, -1),
     (''supnE;'', 0x2ACC, -1), (''supne;'', 0x228B, -1), (''supplus;'', 0x2AC0, -1),
     (''supset;'', 0x2283, -1), (''supseteq;'', 0x2287, -1), (''supseteqq;'', 0x2AC6, -1),
     (''supsetneq;'', 0x228B, -1), (''supsetneqq;'', 0x2ACC, -1), (''supsim;'', 0x2AC8, -1),
     (''supsub;'', 0x2AD4, -1), (''supsup;'', 0x2AD6, -1), (''swArr;'', 0x21D9, -1),
     (''swarhk;'', 0x2926, -1), (''swarr;'', 0x2199, -1), (''swarrow;'', 0x2199, -1),
     (''swnwar;'', 0x292A, -1), (''szlig;'', 0xDF, -1), (''szlig'', 0xDF, -1),
     (''target;'', 0x2316, -1), (''tau;'', 0x3C4, -1), (''tbrk;'', 0x23B4, -1),
     (''tcaron;'', 0x165, -1), (''tcedil;'', 0x163, -1), (''tcy;'', 0x442, -1),
     (''tdot;'', 0x20DB, -1), (''telrec;'', 0x2315, -1), (''tfr;'', 0x1D531, -1),
     (''there4;'', 0x2234, -1), (''therefore;'', 0x2234, -1), (''theta;'', 0x3B8, -1),
     (''thetasym;'', 0x3D1, -1), (''thetav;'', 0x3D1, -1), (''thickapprox;'', 0x2248, -1),
     (''thicksim;'', 0x223C, -1), (''thinsp;'', 0x2009, -1), (''thkap;'', 0x2248, -1),
     (''thksim;'', 0x223C, -1), (''thorn;'', 0xFE, -1), (''thorn'', 0xFE, -1), (''tilde;'', 0x2DC, -1),
     (''times;'', 0xD7, -1), (''times'', 0xD7, -1), (''timesb;'', 0x22A0, -1),
     (''timesbar;'', 0x2A31, -1), (''timesd;'', 0x2A30, -1), (''tint;'', 0x222D, -1),
     (''toea;'', 0x2928, -1), (''top;'', 0x22A4, -1), (''topbot;'', 0x2336, -1),
     (''topcir;'', 0x2AF1, -1), (''topf;'', 0x1D565, -1), (''topfork;'', 0x2ADA, -1),
     (''tosa;'', 0x2929, -1), (''tprime;'', 0x2034, -1), (''trade;'', 0x2122, -1),
     (''triangle;'', 0x25B5, -1), (''triangledown;'', 0x25BF, -1), (''triangleleft;'', 0x25C3, -1),
     (''trianglelefteq;'', 0x22B4, -1), (''triangleq;'', 0x225C, -1), (''triangleright;'', 0x25B9, -1),
     (''trianglerighteq;'', 0x22B5, -1), (''tridot;'', 0x25EC, -1), (''trie;'', 0x225C, -1),
     (''triminus;'', 0x2A3A, -1), (''triplus;'', 0x2A39, -1), (''trisb;'', 0x29CD, -1),
     (''tritime;'', 0x2A3B, -1), (''trpezium;'', 0x23E2, -1), (''tscr;'', 0x1D4C9, -1),
     (''tscy;'', 0x446, -1), (''tshcy;'', 0x45B, -1), (''tstrok;'', 0x167, -1),
     (''twixt;'', 0x226C, -1), (''twoheadleftarrow;'', 0x219E, -1),
     (''twoheadrightarrow;'', 0x21A0, -1), (''uArr;'', 0x21D1, -1), (''uHar;'', 0x2963, -1),
     (''uacute;'', 0xFA, -1), (''uacute'', 0xFA, -1), (''uarr;'', 0x2191, -1), (''ubrcy;'', 0x45E, -1),
     (''ubreve;'', 0x16D, -1), (''ucirc;'', 0xFB, -1), (''ucirc'', 0xFB, -1), (''ucy;'', 0x443, -1),
     (''udarr;'', 0x21C5, -1), (''udblac;'', 0x171, -1), (''udhar;'', 0x296E, -1),
     (''ufisht;'', 0x297E, -1), (''ufr;'', 0x1D532, -1), (''ugrave;'', 0xF9, -1),
     (''ugrave'', 0xF9, -1), (''uharl;'', 0x21BF, -1), (''uharr;'', 0x21BE, -1),
     (''uhblk;'', 0x2580, -1), (''ulcorn;'', 0x231C, -1), (''ulcorner;'', 0x231C, -1),
     (''ulcrop;'', 0x230F, -1), (''ultri;'', 0x25F8, -1), (''umacr;'', 0x16B, -1),
     (''uml;'', 0xA8, -1)]"

definition entities_16 :: "named_char_ref list" where
  "entities_16 =
    [(''uml'', 0xA8, -1), (''uogon;'', 0x173, -1), (''uopf;'', 0x1D566, -1),
     (''uparrow;'', 0x2191, -1), (''updownarrow;'', 0x2195, -1), (''upharpoonleft;'', 0x21BF, -1),
     (''upharpoonright;'', 0x21BE, -1), (''uplus;'', 0x228E, -1), (''upsi;'', 0x3C5, -1),
     (''upsih;'', 0x3D2, -1), (''upsilon;'', 0x3C5, -1), (''upuparrows;'', 0x21C8, -1),
     (''urcorn;'', 0x231D, -1), (''urcorner;'', 0x231D, -1), (''urcrop;'', 0x230E, -1),
     (''uring;'', 0x16F, -1), (''urtri;'', 0x25F9, -1), (''uscr;'', 0x1D4CA, -1),
     (''utdot;'', 0x22F0, -1), (''utilde;'', 0x169, -1), (''utri;'', 0x25B5, -1),
     (''utrif;'', 0x25B4, -1), (''uuarr;'', 0x21C8, -1), (''uuml;'', 0xFC, -1), (''uuml'', 0xFC, -1),
     (''uwangle;'', 0x29A7, -1), (''vArr;'', 0x21D5, -1), (''vBar;'', 0x2AE8, -1),
     (''vBarv;'', 0x2AE9, -1), (''vDash;'', 0x22A8, -1), (''vangrt;'', 0x299C, -1),
     (''varepsilon;'', 0x3F5, -1), (''varkappa;'', 0x3F0, -1), (''varnothing;'', 0x2205, -1),
     (''varphi;'', 0x3D5, -1), (''varpi;'', 0x3D6, -1), (''varpropto;'', 0x221D, -1),
     (''varr;'', 0x2195, -1), (''varrho;'', 0x3F1, -1), (''varsigma;'', 0x3C2, -1),
     (''varsubsetneq;'', 0x228A, 0xFE00), (''varsubsetneqq;'', 0x2ACB, 0xFE00),
     (''varsupsetneq;'', 0x228B, 0xFE00), (''varsupsetneqq;'', 0x2ACC, 0xFE00),
     (''vartheta;'', 0x3D1, -1), (''vartriangleleft;'', 0x22B2, -1),
     (''vartriangleright;'', 0x22B3, -1), (''vcy;'', 0x432, -1), (''vdash;'', 0x22A2, -1),
     (''vee;'', 0x2228, -1), (''veebar;'', 0x22BB, -1), (''veeeq;'', 0x225A, -1),
     (''vellip;'', 0x22EE, -1), (''verbar;'', 0x7C, -1), (''vert;'', 0x7C, -1),
     (''vfr;'', 0x1D533, -1), (''vltri;'', 0x22B2, -1), (''vnsub;'', 0x2282, 0x20D2),
     (''vnsup;'', 0x2283, 0x20D2), (''vopf;'', 0x1D567, -1), (''vprop;'', 0x221D, -1),
     (''vrtri;'', 0x22B3, -1), (''vscr;'', 0x1D4CB, -1), (''vsubnE;'', 0x2ACB, 0xFE00),
     (''vsubne;'', 0x228A, 0xFE00), (''vsupnE;'', 0x2ACC, 0xFE00), (''vsupne;'', 0x228B, 0xFE00),
     (''vzigzag;'', 0x299A, -1), (''wcirc;'', 0x175, -1), (''wedbar;'', 0x2A5F, -1),
     (''wedge;'', 0x2227, -1), (''wedgeq;'', 0x2259, -1), (''weierp;'', 0x2118, -1),
     (''wfr;'', 0x1D534, -1), (''wopf;'', 0x1D568, -1), (''wp;'', 0x2118, -1), (''wr;'', 0x2240, -1),
     (''wreath;'', 0x2240, -1), (''wscr;'', 0x1D4CC, -1), (''xcap;'', 0x22C2, -1),
     (''xcirc;'', 0x25EF, -1), (''xcup;'', 0x22C3, -1), (''xdtri;'', 0x25BD, -1),
     (''xfr;'', 0x1D535, -1), (''xhArr;'', 0x27FA, -1), (''xharr;'', 0x27F7, -1), (''xi;'', 0x3BE, -1),
     (''xlArr;'', 0x27F8, -1), (''xlarr;'', 0x27F5, -1), (''xmap;'', 0x27FC, -1),
     (''xnis;'', 0x22FB, -1), (''xodot;'', 0x2A00, -1), (''xopf;'', 0x1D569, -1),
     (''xoplus;'', 0x2A01, -1), (''xotime;'', 0x2A02, -1), (''xrArr;'', 0x27F9, -1),
     (''xrarr;'', 0x27F6, -1), (''xscr;'', 0x1D4CD, -1), (''xsqcup;'', 0x2A06, -1),
     (''xuplus;'', 0x2A04, -1), (''xutri;'', 0x25B3, -1), (''xvee;'', 0x22C1, -1),
     (''xwedge;'', 0x22C0, -1), (''yacute;'', 0xFD, -1), (''yacute'', 0xFD, -1),
     (''yacy;'', 0x44F, -1), (''ycirc;'', 0x177, -1), (''ycy;'', 0x44B, -1), (''yen;'', 0xA5, -1),
     (''yen'', 0xA5, -1), (''yfr;'', 0x1D536, -1), (''yicy;'', 0x457, -1), (''yopf;'', 0x1D56A, -1),
     (''yscr;'', 0x1D4CE, -1), (''yucy;'', 0x44E, -1), (''yuml;'', 0xFF, -1), (''yuml'', 0xFF, -1),
     (''zacute;'', 0x17A, -1), (''zcaron;'', 0x17E, -1), (''zcy;'', 0x437, -1), (''zdot;'', 0x17C, -1),
     (''zeetrf;'', 0x2128, -1), (''zeta;'', 0x3B6, -1), (''zfr;'', 0x1D537, -1),
     (''zhcy;'', 0x436, -1), (''zigrarr;'', 0x21DD, -1), (''zopf;'', 0x1D56B, -1),
     (''zscr;'', 0x1D4CF, -1), (''zwj;'', 0x200D, -1), (''zwnj;'', 0x200C, -1)]"

definition kNamedEntities :: "named_char_ref list" where
  "kNamedEntities =
     entities_1 @ entities_2 @ entities_3 @ entities_4 @ entities_5 @ entities_6 @ entities_7 @ entities_8 @ entities_9 @ entities_10 @ entities_11 @ entities_12 @ entities_13 @ entities_14 @ entities_15 @ entities_16"

lemmas entities_defs =
  entities_1_def entities_2_def entities_3_def entities_4_def entities_5_def entities_6_def entities_7_def entities_8_def entities_9_def entities_10_def entities_11_def entities_12_def entities_13_def entities_14_def entities_15_def entities_16_def

end
