(* ===== verification/GumboCharRef.thy ===== *)
theory GumboCharRef
  imports GumboDecode GumboEntities
begin

text \<open>
  Character references: \<^verbatim>\<open>src/html_parser/char_ref.cpp\<close>.  An \<^verbatim>\<open>OneOrTwoCodepoints\<close> is a
  pair.  The two loops over the input take a fuel, the number of bytes left; the ghost \<open>ut_ok\<close> would
  turn false if it ran out, and the lemmas show it never does.  \<^verbatim>\<open>int\<close> arithmetic wraps.
\<close>

section \<open>Definitions\<close>

definition kGumboNoChar :: int where
  "kGumboNoChar = -1"

definition kCharReplacements :: "(int \<times> int) list" where
  "kCharReplacements =
     [(0x00, 0xfffd), (0x0d, 0x000d), (0x80, 0x20ac), (0x81, 0x0081), (0x82, 0x201A), (0x83, 0x0192),
      (0x84, 0x201E), (0x85, 0x2026), (0x86, 0x2020), (0x87, 0x2021), (0x88, 0x02C6), (0x89, 0x2030),
      (0x8A, 0x0160), (0x8B, 0x2039), (0x8C, 0x0152), (0x8D, 0x008D), (0x8E, 0x017D), (0x8F, 0x008F),
      (0x90, 0x0090), (0x91, 0x2018), (0x92, 0x2019), (0x93, 0x201C), (0x94, 0x201D), (0x95, 0x2022),
      (0x96, 0x2013), (0x97, 0x2014), (0x98, 0x02DC), (0x99, 0x2122), (0x9A, 0x0161), (0x9B, 0x203A),
      (0x9C, 0x0153), (0x9D, 0x009D), (0x9E, 0x017E), (0x9F, 0x0178)]"

definition parse_digit :: "int \<Rightarrow> bool \<Rightarrow> int" where
  "parse_digit c allow_hex =
     (if 0x30 \<le> c \<and> c \<le> 0x39 then c - 0x30
      else if allow_hex \<and> 0x61 \<le> c \<and> c \<le> 0x66 then c - 0x61 + 10
      else if allow_hex \<and> 0x41 \<le> c \<and> c \<le> 0x46 then c - 0x41 + 10
      else -1)"

definition error_at_mark :: "error_type \<Rightarrow> error_info \<Rightarrow> utf8_iterator \<Rightarrow> utf8_iterator" where
  "error_at_mark ty v it =
     gumbo_add_error \<lparr>er_type = ty, er_position = ut_mark_pos it, er_original_text = ut_mark it, er_v = v\<rparr> it"

definition add_no_digit_error :: "utf8_iterator \<Rightarrow> utf8_iterator" where
  "add_no_digit_error it = error_at_mark GUMBO_ERR_NUMERIC_CHAR_REF_NO_DIGITS No_info it"

definition add_codepoint_error :: "error_type \<Rightarrow> int \<Rightarrow> utf8_iterator \<Rightarrow> utf8_iterator" where
  "add_codepoint_error ty codepoint it = error_at_mark ty (Codepoint_info (word_of_int codepoint)) it"

definition add_named_reference_error :: "error_type \<Rightarrow> error_info \<Rightarrow> utf8_iterator \<Rightarrow> utf8_iterator" where
  "add_named_reference_error ty text it = error_at_mark ty text it"

definition maybe_replace_codepoint :: "int \<Rightarrow> int" where
  "maybe_replace_codepoint codepoint =
     (case map_of kCharReplacements codepoint of Some r \<Rightarrow> r | None \<Rightarrow> -1)"

text \<open>The loop over the digits.\<close>

fun numeric_loop :: "nat \<Rightarrow> bool \<Rightarrow> int \<Rightarrow> int \<Rightarrow> utf8_iterator \<Rightarrow> int \<times> utf8_iterator" where
  "numeric_loop 0 is_hex codepoint digit it = (codepoint, assert_it False it)"
| "numeric_loop (Suc fuel) is_hex codepoint digit it =
     (let codepoint = to_int (codepoint * (if is_hex then 16 else 10) + digit);
          it = utf8iterator_next it;
          digit = parse_digit (ut_current it) is_hex
      in if digit \<noteq> -1 then numeric_loop fuel is_hex codepoint digit it else (codepoint, it))"

definition bytes_left :: "utf8_iterator \<Rightarrow> nat" where
  "bytes_left it = nat (ut_end it - ut_start it)"

definition consume_numeric_ref :: "utf8_iterator \<Rightarrow> bool \<times> int \<times> utf8_iterator" where
  "consume_numeric_ref it =
     (let it = utf8iterator_next it;
          is_hex = (ut_current it = 0x78 \<or> ut_current it = 0x58);
          it = (if is_hex then utf8iterator_next it else it);
          digit = parse_digit (ut_current it) is_hex
      in if digit = -1
         then (False, kGumboNoChar, utf8iterator_reset (add_no_digit_error it))
         else
           let (codepoint, it) = numeric_loop (bytes_left it) is_hex 0 digit it;
               (status, it) =
                 (if ut_current it \<noteq> C_SEMI
                  then (False, add_codepoint_error GUMBO_ERR_NUMERIC_CHAR_REF_WITHOUT_SEMICOLON codepoint it)
                  else (True, utf8iterator_next it));
               replacement = maybe_replace_codepoint codepoint
           in if replacement \<noteq> -1
              then (False, replacement, add_codepoint_error GUMBO_ERR_NUMERIC_CHAR_REF_INVALID codepoint it)
              else if (0xd800 \<le> codepoint \<and> codepoint \<le> 0xdfff) \<or> codepoint > 0x10ffff
              then (False, 0xfffd, add_codepoint_error GUMBO_ERR_NUMERIC_CHAR_REF_INVALID codepoint it)
              else if utf8_is_invalid_code_point codepoint \<or> codepoint = 0xb
              then (False, codepoint, add_codepoint_error GUMBO_ERR_NUMERIC_CHAR_REF_INVALID codepoint it)
              else (status, codepoint, it))"

fun find_loop :: "named_char_ref list \<Rightarrow> utf8_iterator \<Rightarrow> named_char_ref option \<times> utf8_iterator" where
  "find_loop [] it = (None, it)"
| "find_loop ((name, first, second) # es) it =
     (case utf8iterator_maybe_consume_match (bytes_of name) True it of
        (True, it') \<Rightarrow> (Some (name, first, second), assert_it (name \<noteq> [] \<and> first \<noteq> kGumboNoChar) it')
      | (False, _) \<Rightarrow> find_loop es it)"

definition find_named_char_ref :: "utf8_iterator \<Rightarrow> named_char_ref option \<times> utf8_iterator" where
  "find_named_char_ref it = find_loop kNamedEntities it"

definition is_legal_attribute_char_next :: "utf8_iterator \<Rightarrow> bool" where
  "is_legal_attribute_char_next it \<longleftrightarrow> ut_current it = C_EQ \<or> ut_isalnum it (ut_current it)"

definition is_alnum_char :: "int \<Rightarrow> bool" where
  "is_alnum_char c \<longleftrightarrow> (0x61 \<le> c \<and> c \<le> 0x7A) \<or> (0x41 \<le> c \<and> c \<le> 0x5A) \<or> (0x30 \<le> c \<and> c \<le> 0x39)"

fun alnum_loop :: "nat \<Rightarrow> utf8_iterator \<Rightarrow> utf8_iterator" where
  "alnum_loop 0 it = (if is_alnum_char (ut_current it) then assert_it False it else it)"
| "alnum_loop (Suc fuel) it =
     (if is_alnum_char (ut_current it) then alnum_loop fuel (utf8iterator_next it) else it)"

definition maybe_add_invalid_named_reference :: "utf8_iterator \<Rightarrow> bool \<times> utf8_iterator" where
  "maybe_add_invalid_named_reference it =
     (let start = ut_start it;
          it = alnum_loop (bytes_left it) it
      in if ut_current it = C_SEMI
         then (False, add_named_reference_error GUMBO_ERR_NAMED_CHAR_REF_INVALID
                        (Source_text_info start (ut_start it - start)) it)
         else (True, it))"

definition consume_named_ref :: "bool \<Rightarrow> utf8_iterator \<Rightarrow> bool \<times> (int \<times> int) \<times> utf8_iterator" where
  "consume_named_ref is_in_attribute it =
     (case find_named_char_ref it of
        (Some (name, first, second), it) \<Rightarrow>
          if last name = CHR '';'' then (True, (first, second), it)
          else if is_in_attribute \<and> is_legal_attribute_char_next it
          then (True, (kGumboNoChar, kGumboNoChar), utf8iterator_reset it)
          else (False, (first, second),
                add_named_reference_error GUMBO_ERR_NAMED_CHAR_REF_WITHOUT_SEMICOLON (Name_text_info name) it)
      | (None, it) \<Rightarrow>
          (case maybe_add_invalid_named_reference it of
             (status, it) \<Rightarrow> (status, (kGumboNoChar, kGumboNoChar), utf8iterator_reset it)))"

definition consume_char_ref :: "int \<Rightarrow> bool \<Rightarrow> utf8_iterator \<Rightarrow> bool \<times> (int \<times> int) \<times> utf8_iterator" where
  "consume_char_ref additional_allowed_char is_in_attribute it =
     (let it = utf8iterator_next (utf8iterator_mark it); c = ut_current it in
      if c = additional_allowed_char then (True, (kGumboNoChar, kGumboNoChar), utf8iterator_reset it)
      else if c = C_TAB \<or> c = C_LF \<or> c = C_FF \<or> c = C_SPACE \<or> c = C_LT \<or> c = C_AMP \<or> c = C_EOF
      then (True, (kGumboNoChar, kGumboNoChar), utf8iterator_reset it)
      else if c = C_HASH
      then case consume_numeric_ref it of (status, first, it) \<Rightarrow> (status, (first, kGumboNoChar), it)
      else consume_named_ref is_in_attribute it)"

section \<open>Movement of the iterator\<close>

text \<open>Same source and mark, invariant kept, ghost unchanged, not moved back.\<close>

definition forward :: "utf8_iterator \<Rightarrow> utf8_iterator \<Rightarrow> bool" where
  "forward it it' \<longleftrightarrow> it_ok it' \<and> ut_ok it' = ut_ok it \<and> ut_end it' = ut_end it \<and> ut_mem it' = ut_mem it
     \<and> ut_mark it' = ut_mark it \<and> ut_start it \<le> ut_start it'"

lemma forward_refl: "it_ok it \<Longrightarrow> forward it it"
  by (simp add: forward_def)

lemma forward_trans: "forward a b \<Longrightarrow> forward b c \<Longrightarrow> forward a c"
  by (auto simp: forward_def)

lemma forward_next: "it_ok it \<Longrightarrow> forward it (utf8iterator_next it)"
  by (simp add: forward_def it_ok_next)

lemma it_ok_add_error [simp]: "it_ok (gumbo_add_error e it) = it_ok it"
  by (simp add: it_ok_def)

lemma it_ok_mark: "it_ok (utf8iterator_mark it) = it_ok it"
  by (simp add: utf8iterator_mark_def it_ok_def)

lemma forward_error [simp]: "forward it (gumbo_add_error e it') = forward it it'"
  by (simp add: forward_def)

lemma forward_errors [simp]:
  "forward it (error_at_mark ty v it') = forward it it'"
  "forward it (add_no_digit_error it') = forward it it'"
  "forward it (add_codepoint_error ty cp it') = forward it it'"
  "forward it (add_named_reference_error ty v it') = forward it it'"
  by (simp_all add: error_at_mark_def add_no_digit_error_def add_codepoint_error_def add_named_reference_error_def)

lemma error_at_mark_frame [simp]:
  "ut_start (error_at_mark ty v it) = ut_start it" "ut_current (error_at_mark ty v it) = ut_current it"
  "ut_end (error_at_mark ty v it) = ut_end it" "ut_mark (error_at_mark ty v it) = ut_mark it"
  "ut_mem (error_at_mark ty v it) = ut_mem it" "ut_ok (error_at_mark ty v it) = ut_ok it"
  by (simp_all add: error_at_mark_def)

lemmas ref_error_defs = add_no_digit_error_def add_codepoint_error_def add_named_reference_error_def

lemma forward_reset:
  assumes "ut_mark it < ut_end it"
  shows "it_ok (utf8iterator_reset it)" "ut_ok (utf8iterator_reset it) = ut_ok it"
    "ut_end (utf8iterator_reset it) = ut_end it" "ut_mem (utf8iterator_reset it) = ut_mem it"
    "ut_mark (utf8iterator_reset it) = ut_mark it" "ut_mark it \<le> ut_start (utf8iterator_reset it)"
  using it_ok_read_char [of "it\<lparr>ut_start := ut_mark it, ut_pos := ut_mark_pos it\<rparr>"] assms
  by (simp_all add: utf8iterator_reset_def)

lemma forward_next_pow: "it_ok it \<Longrightarrow> forward it ((utf8iterator_next ^^ k) it)"
proof (induction k)
  case (Suc k)
  then have "forward it ((utf8iterator_next ^^ k) it)" by simp
  then show ?case using forward_next [of "(utf8iterator_next ^^ k) it"] by (auto simp: forward_def)
qed (simp add: forward_refl)

lemma next_pow_strict:
  "it_ok it \<Longrightarrow> 0 < k \<Longrightarrow> ut_start it < ut_end it \<Longrightarrow> ut_start it < ut_start ((utf8iterator_next ^^ k) it)"
proof (induction k)
  case (Suc k)
  then have f: "forward it ((utf8iterator_next ^^ k) it)" by (intro forward_next_pow)
  show ?case
  proof (cases "k = 0")
    case False
    with Suc have "ut_start it < ut_start ((utf8iterator_next ^^ k) it)" by simp
    also have "... \<le> ut_start (utf8iterator_next ((utf8iterator_next ^^ k) it))"
      using f it_ok_next(5) by (auto simp: forward_def)
    finally show ?thesis by simp
  qed (use Suc.prems it_ok_next(4) in simp)
qed simp

lemma consume_match_forward:
  assumes "it_ok it" "utf8iterator_maybe_consume_match s cs it = (m, it')"
  shows "forward it it'" "m \<Longrightarrow> s \<noteq> [] \<Longrightarrow> ut_start it < ut_start it'" "\<not> m \<Longrightarrow> it' = it"
proof -
  show "forward it it'" "\<not> m \<Longrightarrow> it' = it"
    using assms forward_next_pow [of it "length s"] forward_refl [of it]
    by (auto simp: utf8iterator_maybe_consume_match_def split: if_splits)
  show "ut_start it < ut_start it'" if "m" "s \<noteq> []"
  proof -
    have "ut_start it + int (length s) \<le> ut_end it" "it' = (utf8iterator_next ^^ length s) it"
      using assms(2) that(1) by (auto simp: utf8iterator_maybe_consume_match_def split: if_splits)
    moreover have "ut_start it < ut_end it" using calculation(1) that(2) by (cases s) auto
    ultimately show ?thesis using next_pow_strict [OF assms(1), of "length s"] that(2) by simp
  qed
qed

lemma numeric_loop_forward:
  "it_ok it \<Longrightarrow> ut_start it < ut_end it \<Longrightarrow> bytes_left it \<le> fuel \<Longrightarrow>
    numeric_loop fuel hex cp d it = (cp', it') \<Longrightarrow> forward it it' \<and> ut_start it < ut_start it'"
proof (induction fuel arbitrary: cp d it)
  case 0
  then show ?case by (simp add: bytes_left_def)
next
  case (Suc fuel)
  let ?it = "utf8iterator_next it"
  have n: "it_ok ?it" "ut_start it < ut_start ?it" using it_ok_next(1,4) Suc.prems by blast+
  have f: "forward it ?it" using forward_next Suc.prems(1) .
  show ?case
  proof (cases "parse_digit (ut_current ?it) hex = -1")
    case True
    with Suc.prems f n show ?thesis by (simp add: Let_def)
  next
    case False
    then have "ut_current ?it \<noteq> C_EOF" by (auto simp: parse_digit_def)
    then have "ut_start ?it < ut_end ?it" using it_ok_EOF [OF n(1)] by simp
    moreover have "bytes_left ?it \<le> fuel" using Suc.prems(3) n(2) Suc.prems(2) by (simp add: bytes_left_def)
    ultimately have "forward ?it it' \<and> ut_start ?it < ut_start it'"
      using Suc.prems(4) False by (intro Suc.IH [OF n(1)]) (auto simp: Let_def)
    then show ?thesis using forward_trans [OF f] n(2) by auto
  qed
qed

lemma alnum_loop_forward:
  "it_ok it \<Longrightarrow> bytes_left it \<le> fuel \<Longrightarrow> forward it (alnum_loop fuel it)"
proof (induction fuel arbitrary: it)
  case 0
  then have "ut_current it = C_EOF" using it_ok_EOF by (simp add: bytes_left_def)
  then show ?case using 0 by (simp add: is_alnum_char_def forward_refl)
next
  case (Suc fuel)
  show ?case
  proof (cases "is_alnum_char (ut_current it)")
    case True
    then have "ut_current it \<noteq> C_EOF" by (auto simp: is_alnum_char_def)
    then have "ut_start it < ut_end it" using it_ok_EOF [OF Suc.prems(1)] by simp
    then have "bytes_left (utf8iterator_next it) \<le> fuel"
      using Suc.prems it_ok_next(4) [OF Suc.prems(1)] by (simp add: bytes_left_def)
    then have "forward (utf8iterator_next it) (alnum_loop fuel (utf8iterator_next it))"
      using it_ok_next(1) [OF Suc.prems(1)] by (intro Suc.IH)
    then show ?thesis using True forward_trans [OF forward_next [OF Suc.prems(1)]] by simp
  qed (use Suc.prems in \<open>simp add: forward_refl\<close>)
qed

section \<open>References\<close>

text \<open>What a call on a character reference leaves behind: the iterator stands at or after the mark.\<close>

definition settled :: "utf8_iterator \<Rightarrow> utf8_iterator \<Rightarrow> bool" where
  "settled it it' \<longleftrightarrow> it_ok it' \<and> ut_ok it' = ut_ok it \<and> ut_end it' = ut_end it \<and> ut_mem it' = ut_mem it
     \<and> ut_mark it' = ut_mark it \<and> ut_mark it \<le> ut_start it'"

lemma settled_forward: "forward it it' \<Longrightarrow> ut_mark it \<le> ut_start it \<Longrightarrow> settled it it'"
  by (auto simp: forward_def settled_def)

lemma settled_reset: "forward it it' \<Longrightarrow> ut_mark it < ut_end it \<Longrightarrow> settled it (utf8iterator_reset it')"
  using forward_reset [of it'] by (auto simp: forward_def settled_def)

lemma consume_numeric_ref_settled:
  assumes "it_ok it" "ut_mark it \<le> ut_start it" "ut_mark it < ut_end it" "consume_numeric_ref it = (st, cp, it')"
  shows "settled it it' \<and> (cp \<noteq> kGumboNoChar \<longrightarrow> ut_start it \<le> ut_start it')"
proof -
  define is_hex where "is_hex \<longleftrightarrow> ut_current (utf8iterator_next it) = 0x78 \<or> ut_current (utf8iterator_next it) = 0x58"
  define it1 where "it1 = (if is_hex then utf8iterator_next (utf8iterator_next it) else utf8iterator_next it)"
  define digit where "digit = parse_digit (ut_current it1) is_hex"
  have f1: "forward it it1"
    unfolding it1_def using assms(1) it_ok_next(1) by (auto intro: forward_next forward_trans)
  show ?thesis
  proof (cases "digit = -1")
    case True
    then have "cp = kGumboNoChar" "it' = utf8iterator_reset (add_no_digit_error it1)"
      using assms(4) by (simp_all add: consume_numeric_ref_def Let_def is_hex_def [symmetric] it1_def [symmetric] digit_def [symmetric])
    then show ?thesis using settled_reset [of it "add_no_digit_error it1"] f1 assms(3) by simp
  next
    case False
    obtain codepoint it2 where l: "numeric_loop (bytes_left it1) is_hex 0 digit it1 = (codepoint, it2)" by fastforce
    have ok1: "it_ok it1" using f1 by (simp add: forward_def)
    have "ut_current it1 \<noteq> C_EOF" using False by (auto simp: digit_def parse_digit_def)
    then have "ut_start it1 < ut_end it1" using it_ok_EOF [OF ok1] by simp
    then have f2: "forward it1 it2" using numeric_loop_forward [OF ok1 _ order_refl l] by blast
    define it3 where "it3 = (if ut_current it2 \<noteq> C_SEMI
      then add_codepoint_error GUMBO_ERR_NUMERIC_CHAR_REF_WITHOUT_SEMICOLON codepoint it2 else utf8iterator_next it2)"
    have ok2: "it_ok it2" using f2 by (simp add: forward_def)
    then have "forward it2 it3" by (simp add: it3_def forward_refl forward_next)
    then have f3: "forward it it3" using f1 f2 forward_trans by blast
    have "it' = it3 \<or> it' = add_codepoint_error GUMBO_ERR_NUMERIC_CHAR_REF_INVALID codepoint it3"
      using assms(4) False l
      by (auto simp: consume_numeric_ref_def Let_def is_hex_def [symmetric] it1_def [symmetric] digit_def [symmetric]
          it3_def split: if_splits)
    then have "forward it it'" using f3 by auto
    then show ?thesis using settled_forward assms(2) by (auto simp: forward_def)
  qed
qed

lemma find_loop_forward:
  "it_ok it \<Longrightarrow> find_loop es it = (r, it') \<Longrightarrow> list_all (\<lambda>(n, a, b). n \<noteq> [] \<and> a \<noteq> kGumboNoChar) es \<Longrightarrow>
    forward it it' \<and> (r = None \<longrightarrow> it' = it) \<and> (\<forall>n a b. r = Some (n, a, b) \<longrightarrow> (n, a, b) \<in> set es \<and> ut_start it < ut_start it')"
proof (induction es)
  case (Cons e es)
  obtain n a b where e: "e = (n, a, b)" by (cases e)
  obtain m it1 where m: "utf8iterator_maybe_consume_match (bytes_of n) True it = (m, it1)" by fastforce
  have ne: "n \<noteq> [] \<and> a \<noteq> kGumboNoChar" using Cons.prems(3) e by simp
  then have "bytes_of n \<noteq> []" by (simp add: bytes_of_def)
  note c = consume_match_forward [OF Cons.prems(1) m]
  show ?case
  proof (cases m)
    case True
    then have "r = Some (n, a, b)" "it' = assert_it True it1" using Cons.prems(2) m ne by (auto simp: e)
    then show ?thesis
      using c(1) c(2) [OF True \<open>bytes_of n \<noteq> []\<close>] e by (simp add: assert_it_def)
  next
    case False
    then show ?thesis using Cons m e by auto
  qed
qed (simp add: forward_refl)

lemma entities_ok: "list_all (\<lambda>(n, a, b). n \<noteq> [] \<and> a \<noteq> kGumboNoChar) kNamedEntities"
  by (simp add: kNamedEntities_def entities_defs kGumboNoChar_def)

lemma maybe_add_invalid_forward:
  "it_ok it \<Longrightarrow> maybe_add_invalid_named_reference it = (s, it') \<Longrightarrow> forward it it'"
  using alnum_loop_forward [of it "bytes_left it"]
  by (auto simp: maybe_add_invalid_named_reference_def Let_def split: if_splits)

lemma consume_named_ref_settled:
  assumes "it_ok it" "ut_mark it \<le> ut_start it" "ut_mark it < ut_end it" "consume_named_ref attr it = (st, (a, b), it')"
  shows "settled it it' \<and> (a \<noteq> kGumboNoChar \<longrightarrow> ut_start it \<le> ut_start it')"
proof -
  obtain r it1 where r: "find_named_char_ref it = (r, it1)" by fastforce
  have f: "forward it it1" "r = None \<longrightarrow> it1 = it"
    using find_loop_forward [OF assms(1) _ entities_ok] r by (auto simp: find_named_char_ref_def)
  show ?thesis
  proof (cases r)
    case None
    obtain s it2 where m: "maybe_add_invalid_named_reference it1 = (s, it2)" by fastforce
    then have "forward it it2" using maybe_add_invalid_forward f None assms(1) by auto
    then show ?thesis using settled_reset assms r None m by (auto simp: consume_named_ref_def)
  next
    case (Some e)
    obtain n a' b' where e: "e = (n, a', b')" by (cases e)
    show ?thesis
    proof (cases "last n \<noteq> CHR '';'' \<and> attr \<and> is_legal_attribute_char_next it1")
      case True
      then show ?thesis
        using assms(3,4) r Some e settled_reset [OF f(1)] by (auto simp: consume_named_ref_def)
    next
      case False
      then have "it' = it1 \<or> it' = add_named_reference_error GUMBO_ERR_NAMED_CHAR_REF_WITHOUT_SEMICOLON (Name_text_info n) it1"
        using assms(4) r Some e by (auto simp: consume_named_ref_def split: if_splits)
      then have "forward it it'" using f(1) by auto
      then show ?thesis using settled_forward assms(2) by (auto simp: forward_def)
    qed
  qed
qed

lemma consume_char_ref_ok:
  assumes "it_ok it" "ut_start it < ut_end it" "consume_char_ref add attr it = (st, (a, b), it')"
  shows "it_ok it' \<and> ut_ok it' = ut_ok it \<and> ut_end it' = ut_end it \<and> ut_mem it' = ut_mem it
    \<and> ut_start it \<le> ut_start it' \<and> (a \<noteq> kGumboNoChar \<longrightarrow> ut_start it < ut_start it')"
proof -
  define it1 where "it1 = utf8iterator_next (utf8iterator_mark it)"
  have m: "it_ok (utf8iterator_mark it)" using assms(1) by (simp only: it_ok_mark)
  have i1: "it_ok it1" "ut_ok it1 = ut_ok it" "ut_start it < ut_start it1" "ut_end it1 = ut_end it"
    "ut_mem it1 = ut_mem it" "ut_mark it1 = ut_start it"
    using it_ok_next [OF m] assms(2) by (simp_all add: it1_def) (simp_all add: utf8iterator_mark_def)
  have le: "ut_mark it1 \<le> ut_start it1" "ut_mark it1 < ut_end it1" using i1 assms(2) by simp_all
  have r: "settled it1 (utf8iterator_reset it1)" using settled_reset [OF forward_refl [OF i1(1)] le(2)] .
  have "settled it1 it' \<and> (a \<noteq> kGumboNoChar \<longrightarrow> ut_start it1 \<le> ut_start it')"
  proof (cases "it' = utf8iterator_reset it1 \<and> a = kGumboNoChar")
    case False
    then consider "\<exists>st. consume_numeric_ref it1 = (st, a, it')" | "consume_named_ref attr it1 = (st, (a, b), it')"
      using assms(3) by (auto simp: consume_char_ref_def Let_def it1_def [symmetric] split: if_splits prod.splits)
    then show ?thesis
      using consume_numeric_ref_settled [OF i1(1) le] consume_named_ref_settled [OF i1(1) le] by cases blast+
  qed (use r in simp)
  then show ?thesis using i1 by (auto simp: settled_def)
qed

section \<open>Digits\<close>

lemma to_int_step: "to_int (to_int v * k + d) = to_int (v * k + d)"
proof -
  have "(to_int v * k + d) mod 2 ^ 32 = (v * k + d) mod 2 ^ 32"
  proof -
    have "to_int v mod 2 ^ 32 = v mod 2 ^ 32" by (simp add: to_int_def mod_diff_left_eq)
    then show ?thesis by (metis mod_add_left_eq mod_mult_left_eq)
  qed
  then have "(to_int v * k + d + 2 ^ 31) mod 2 ^ 32 = (v * k + d + 2 ^ 31) mod 2 ^ 32" by (metis mod_add_left_eq)
  then show ?thesis by (simp add: to_int_def [of "to_int v * k + d"] to_int_def [of "v * k + d"])
qed

lemma next_ascii:
  assumes "it_ok it" "ut_mem it (ut_start it) < 0x80" "ut_start it + 1 < ut_end it"
    "ut_mem it (ut_start it + 1) < 0x80" "ut_mem it (ut_start it + 1) \<noteq> 0x0D"
  shows "ut_start (utf8iterator_next it) = ut_start it + 1"
    "ut_current (utf8iterator_next it) = ascii_value (ut_mem it (ut_start it + 1))"
proof -
  let ?it = "update_position (it\<lparr>ut_start := ut_start it + ut_width it\<rparr>)"
  have w: "ut_width it = 1" using assms(1-3) by (simp add: it_ok_def)
  have n: "utf8iterator_next it = read_char ?it" using assms(3) w by (simp add: utf8iterator_next_def Let_def)
  have "decoded (ut_mem it) (ut_start it + 1) (ut_end it) \<noteq> C_CR"
    using decoded_ascii(2) [of "ut_start it + 1" "ut_end it" "ut_mem it", OF assms(3,4)] assms(5)
    by (auto simp: kUtf8ReplacementChar_def word_uint_eq_iff)
  then show s: "ut_start (utf8iterator_next it) = ut_start it + 1" by (simp add: n read_char_result w)
  show "ut_current (utf8iterator_next it) = ascii_value (ut_mem it (ut_start it + 1))"
    using it_ok_next(1) [OF assms(1)] s assms(3,4) by (simp add: it_ok_def)
qed

definition is_digit8 :: "byte \<Rightarrow> bool" where
  "is_digit8 d \<longleftrightarrow> 0x30 \<le> d \<and> d \<le> 0x39"

lemma and_FFFF: "0 \<le> c \<Longrightarrow> c < 65536 \<Longrightarrow> c AND 0xFFFF = (c :: int)"
  using take_bit_int_eq_self [of c 16] by (simp add: take_bit_eq_mask mask_eq_exp_minus_1)

lemma digit_ascii:
  "is_digit8 d \<Longrightarrow> d < 0x80 \<and> d \<noteq> 0x0D \<and> ascii_value d = uint d \<and> parse_digit (uint d) hex = uint d - 0x30
     \<and> uint d - 0x30 \<noteq> -1"
  by (auto simp: is_digit8_def word_le_def word_less_def word_uint_eq_iff ascii_value_def parse_digit_def
      utf8_is_invalid_code_point_def and_FFFF)

lemma semi_ascii: "(0x3B :: byte) < 0x80 \<and> (0x3B :: byte) \<noteq> 0x0D \<and> ascii_value 0x3B = C_SEMI \<and> parse_digit C_SEMI hex = -1"
  by (simp add: ascii_value_def parse_digit_def utf8_is_invalid_code_point_def)

definition decimal :: "byte list \<Rightarrow> int" where
  "decimal ds = foldl (\<lambda>v d. v * 10 + (uint d - 0x30)) 0 ds"

lemma numeric_loop_digits:
  "it_ok it \<Longrightarrow> list_all is_digit8 (d # ds) \<Longrightarrow> holds_at (ut_mem it) (ut_start it) (d # ds @ [0x3B]) \<Longrightarrow>
    ut_start it + int (length ds) + 2 \<le> ut_end it \<Longrightarrow> length ds < fuel \<Longrightarrow>
    \<exists>it'. numeric_loop fuel False (to_int v) (uint d - 0x30) it
            = (to_int (foldl (\<lambda>v d. v * 10 + (uint d - 0x30)) v (d # ds)), it')
      \<and> it_ok it' \<and> ut_start it' = ut_start it + int (length ds) + 1 \<and> ut_current it' = C_SEMI"
proof (induction ds arbitrary: d v it fuel)
  case Nil
  then obtain f where f: "fuel = Suc f" by (cases fuel) auto
  have m: "ut_mem it (ut_start it) < 0x80" "ut_mem it (ut_start it + 1) = 0x3B"
    using Nil.prems(2,3) digit_ascii by (simp_all add: holds_at_Cons)
  note n = next_ascii [OF Nil.prems(1) m(1)]
  show ?case
    using n m(2) Nil.prems(4) it_ok_next(1) [OF Nil.prems(1)] semi_ascii [of False]
    by (simp add: f Let_def to_int_step)
next
  case (Cons e ds)
  then obtain f where f: "fuel = Suc f" by (cases fuel) auto
  have d: "is_digit8 d" "is_digit8 e" using Cons.prems(2) by simp_all
  have m: "ut_mem it (ut_start it) < 0x80" "ut_mem it (ut_start it + 1) = e"
    using Cons.prems(3) digit_ascii [OF d(1)] by (simp_all add: holds_at_Cons)
  let ?it = "utf8iterator_next it"
  have n: "ut_start ?it = ut_start it + 1" "ut_current ?it = uint e"
    using next_ascii [OF Cons.prems(1) m(1)] m(2) digit_ascii [OF d(2)] Cons.prems(4) by simp_all
  have "\<exists>it'. numeric_loop f False (to_int (v * 10 + (uint d - 0x30))) (uint e - 0x30) ?it
            = (to_int (foldl (\<lambda>v d. v * 10 + (uint d - 0x30)) (v * 10 + (uint d - 0x30)) (e # ds)), it')
      \<and> it_ok it' \<and> ut_start it' = ut_start ?it + int (length ds) + 1 \<and> ut_current it' = C_SEMI"
  proof (rule Cons.IH)
    show "it_ok ?it" using it_ok_next(1) Cons.prems(1) .
    show "holds_at (ut_mem ?it) (ut_start ?it) (e # ds @ [0x3B])" using Cons.prems(3) n by (simp add: holds_at_Cons)
  qed (use Cons.prems n f in auto)
  then show ?case using n digit_ascii [OF d(2)] by (simp add: f Let_def to_int_step)
qed

section \<open>Properties\<close>

lemma strncmp_eq_prefix: "strncmp_eq mem a (xs @ ys) \<Longrightarrow> strncmp_eq mem a xs"
  by (induction xs arbitrary: a) auto

definition name_here :: "utf8_iterator \<Rightarrow> string \<Rightarrow> bool" where
  "name_here it n \<longleftrightarrow> ut_start it + int (length n) \<le> ut_end it \<and> strncmp_eq (ut_mem it) (ut_start it) (bytes_of n)"

lemma consume_match_here: "fst (utf8iterator_maybe_consume_match (bytes_of n) True it) = name_here it n"
  by (simp add: utf8iterator_maybe_consume_match_def name_here_def bytes_of_def)

lemma find_loop_first: "fst (find_loop es it) = List.find (\<lambda>e. name_here it (fst e)) es"
proof (induction es)
  case (Cons e es)
  obtain n c d where "e = (n, c, d)" by (cases e)
  with Cons consume_match_here [of n it] show ?case
    by (cases "utf8iterator_maybe_consume_match (bytes_of n) True it") (auto split: bool.splits)
qed simp

lemma find_loop_stops:
  "it_ok it \<Longrightarrow> utf8iterator_maybe_consume_match (bytes_of m) True it = (True, it1) \<Longrightarrow>
    find_loop (pre @ (m, a, b) # post) it = find_loop (pre @ [(m, a, b)]) it"
proof (induction pre)
  case (Cons e pre)
  obtain n c d where "e = (n, c, d)" by (cases e)
  with Cons show ?case by (simp split: prod.split bool.split)
qed simp


definition demo_input :: "string \<Rightarrow> utf8_iterator" where
  "demo_input s = utf8iterator_init 0 (int (length s)) (iter_on (bytes_of s))"

lemma demo_input_ok: "it_ok (demo_input s)"
  unfolding demo_input_def by (rule it_ok_init) simp


text \<open>C34: an entity whose name extends the name of an entity earlier in the table is dead: on any input
  where its name could be read, the search stops at the earlier entity or before it, as if the rest of the
  table did not exist.\<close>

theorem dead_entities:
  assumes "it_ok it" and "kNamedEntities = pre @ (m, a, b) # post"
    and "n = m @ k" and "fst (utf8iterator_maybe_consume_match (bytes_of n) True it)"
  shows "find_named_char_ref it = find_loop (pre @ [(m, a, b)]) it
    \<and> (\<exists>e. fst (find_named_char_ref it) = Some e)"
proof -
  have "ut_start it + int (length (bytes_of n)) \<le> ut_end it" "strncmp_eq (ut_mem it) (ut_start it) (bytes_of n)"
    using assms(4) by (auto simp: utf8iterator_maybe_consume_match_def split: if_splits)
  then have "ut_start it + int (length (bytes_of m)) \<le> ut_end it" "strncmp_eq (ut_mem it) (ut_start it) (bytes_of m)"
    using strncmp_eq_prefix by (auto simp: assms(3) bytes_of_def)
  then obtain it1 where m: "utf8iterator_maybe_consume_match (bytes_of m) True it = (True, it1)"
    by (simp add: utf8iterator_maybe_consume_match_def)
  have "\<exists>e. fst (find_loop (pre @ [(m, a, b)]) it) = Some e"
    by (induction pre) (use m in \<open>auto split: prod.split bool.split\<close>)
  then show ?thesis
    unfolding find_named_char_ref_def assms(2) find_loop_stops [OF assms(1) m, of pre a b post] by simp
qed

theorem dead_entities_witness:
  "fst (find_named_char_ref (demo_input ''Agrave;'')) = Some (''Agrave'', 0xC0, -1)"
proof -
  let ?it = "demo_input ''Agrave;''"
  obtain post where "kNamedEntities = take 10 entities_1 @ (''Agrave'', 0xC0, -1) # post"
    by (simp add: kNamedEntities_def entities_1_def)
  moreover have "fst (utf8iterator_maybe_consume_match (bytes_of ''Agrave;'') True ?it)"
    unfolding consume_match_here by code_simp
  moreover have "fst (find_loop (take 10 entities_1 @ [(''Agrave'', 0xC0, -1)]) ?it) = Some (''Agrave'', 0xC0, -1)"
    unfolding find_loop_first by code_simp
  ultimately show ?thesis
    using dead_entities [OF demo_input_ok, of "take 10 entities_1" "''Agrave''" "0xC0" "-1" post "''Agrave;''" "'';''" "''Agrave;''"]
    by simp
qed

end
