(* ===== verification/GumboTag.thy ===== *)
theory GumboTag
  imports GumboBuffer
begin

text \<open>
  Tag names and attributes: \<^verbatim>\<open>src/html_parser/tag.cpp\<close> and \<^verbatim>\<open>attribute.cpp\<close>.  The enum
  \<^verbatim>\<open>GumboTag\<close> is its number, the index of the name in \<open>kGumboTagNames\<close>.  A C string is the
  list of its bytes without the terminating zero.
\<close>

section \<open>Tags\<close>

type_synonym gumbo_tag = nat

definition kGumboTagNames :: "string list" where
  "kGumboTagNames =
    [''html'', ''head'', ''title'', ''base'', ''link'', ''meta'', ''style'', ''script'',
     ''noscript'', ''template'', ''body'', ''article'', ''section'', ''nav'', ''aside'', ''h1'',
     ''h2'', ''h3'', ''h4'', ''h5'', ''h6'', ''hgroup'', ''header'', ''footer'', ''address'',
     ''p'', ''hr'', ''pre'', ''blockquote'', ''ol'', ''ul'', ''li'', ''dl'', ''dt'', ''dd'',
     ''figure'', ''figcaption'', ''main'', ''div'', ''a'', ''em'', ''strong'', ''small'', ''s'',
     ''cite'', ''q'', ''dfn'', ''abbr'', ''data'', ''time'', ''code'', ''var'', ''samp'', ''kbd'',
     ''sub'', ''sup'', ''i'', ''b'', ''u'', ''mark'', ''ruby'', ''rt'', ''rp'', ''bdi'', ''bdo'',
     ''span'', ''br'', ''wbr'', ''ins'', ''del'', ''image'', ''img'', ''iframe'', ''embed'',
     ''object'', ''param'', ''video'', ''audio'', ''source'', ''track'', ''canvas'', ''map'',
     ''area'', ''math'', ''mi'', ''mo'', ''mn'', ''ms'', ''mtext'', ''mglyph'', ''malignmark'',
     ''annotation-xml'', ''svg'', ''foreignobject'', ''desc'', ''table'', ''caption'',
     ''colgroup'', ''col'', ''tbody'', ''thead'', ''tfoot'', ''tr'', ''td'', ''th'', ''form'',
     ''fieldset'', ''legend'', ''label'', ''input'', ''button'', ''select'', ''datalist'',
     ''optgroup'', ''option'', ''textarea'', ''keygen'', ''output'', ''progress'', ''meter'',
     ''details'', ''summary'', ''menu'', ''menuitem'', ''applet'', ''acronym'', ''bgsound'',
     ''dir'', ''frame'', ''frameset'', ''noframes'', ''isindex'', ''listing'', ''xmp'', ''nextid'',
     ''noembed'', ''plaintext'', ''rb'', ''strike'', ''basefont'', ''big'', ''blink'', ''center'',
     ''font'', ''marquee'', ''multicol'', ''nobr'', ''spacer'', ''tt'', '''', '''']"

definition GUMBO_TAG_UNKNOWN :: gumbo_tag where
  "GUMBO_TAG_UNKNOWN = 149"

definition GUMBO_TAG_LAST :: gumbo_tag where
  "GUMBO_TAG_LAST = 150"

definition gumbo_normalized_tagname :: "gumbo_tag \<Rightarrow> fault + byte list" where
  "gumbo_normalized_tagname tag =
     (if tag \<le> GUMBO_TAG_LAST then Inr (bytes_of (kGumboTagNames ! tag)) else Inl Assert_failed)"

text \<open>\<^verbatim>\<open>_strcasecmp\<close> of two C strings is zero.\<close>

definition strcasecmp_eq :: "byte list \<Rightarrow> byte list \<Rightarrow> bool" where
  "strcasecmp_eq a b \<longleftrightarrow> map to_lower8 a = map to_lower8 b"

fun tag_enum_loop :: "byte list \<Rightarrow> nat \<Rightarrow> string list \<Rightarrow> gumbo_tag" where
  "tag_enum_loop tagname i [] = GUMBO_TAG_UNKNOWN"
| "tag_enum_loop tagname i (n # ns) =
     (if strcasecmp_eq tagname (bytes_of n) then i else tag_enum_loop tagname (i + 1) ns)"

definition gumbo_tag_enum :: "byte list \<Rightarrow> gumbo_tag" where
  "gumbo_tag_enum tagname = tag_enum_loop tagname 0 (take GUMBO_TAG_LAST kGumboTagNames)"

text \<open>\<^verbatim>\<open>isspace\<close> in the C locale.\<close>

definition is_space8 :: "byte \<Rightarrow> bool" where
  "is_space8 c \<longleftrightarrow> c = 0x20 \<or> (0x09 \<le> c \<and> c \<le> 0x0D)"

definition gumbo_tag_from_original_text :: "byte list option \<Rightarrow> fault + byte list option" where
  "gumbo_tag_from_original_text text =
     (case text of
        None \<Rightarrow> Inr None
      | Some t \<Rightarrow>
          if \<not> (2 \<le> length t \<and> t ! 0 = 0x3C \<and> t ! (length t - 1) = 0x3E) then Inl Assert_failed
          else if t ! 1 = 0x2F
          then if \<not> 3 \<le> length t then Inl Assert_failed
               else Inr (Some (take (length t - 3) (drop 2 t)))
          else Inr (Some (takeWhile (\<lambda>c. \<not> (is_space8 c \<or> c = 0x2F)) (take (length t - 2) (drop 1 t)))))"

section \<open>Attributes\<close>

datatype attribute_namespace =
    GUMBO_ATTR_NAMESPACE_NONE
  | GUMBO_ATTR_NAMESPACE_XLINK
  | GUMBO_ATTR_NAMESPACE_XML
  | GUMBO_ATTR_NAMESPACE_XMLNS

text \<open>The two positions of the value are \<open>None\<close> while the code has not written them.\<close>

record gumbo_attribute =
  at_namespace :: attribute_namespace
  at_name :: "byte list"
  at_original_name :: "int \<times> int"
  at_value :: "byte list"
  at_original_value :: "int \<times> int"
  at_name_start :: source_position
  at_name_end :: source_position
  at_value_start :: "source_position option"
  at_value_end :: "source_position option"

fun gumbo_get_attribute :: "gumbo_attribute list \<Rightarrow> byte list \<Rightarrow> gumbo_attribute option" where
  "gumbo_get_attribute [] name = None"
| "gumbo_get_attribute (a # as) name =
     (if strcasecmp_eq (at_name a) name then Some a else gumbo_get_attribute as name)"

section \<open>Lemmas\<close>

lemma kGumboTagNames_length: "length kGumboTagNames = 151"
  by (simp add: kGumboTagNames_def)

lemma tag_enum_loop_distinct:
  "k < length ns \<Longrightarrow> (\<And>j. j < k \<Longrightarrow> \<not> strcasecmp_eq t (bytes_of (ns ! j))) \<Longrightarrow>
    strcasecmp_eq t (bytes_of (ns ! k)) \<Longrightarrow> tag_enum_loop t i ns = i + k"
proof (induction ns arbitrary: i k)
  case (Cons n ns)
  show ?case
  proof (cases k)
    case (Suc k')
    have "tag_enum_loop t (i + 1) ns = i + 1 + k'"
      using Cons.prems(1,3) Cons.prems(2) [of "Suc _"] Suc by (intro Cons.IH) auto
    moreover have "\<not> strcasecmp_eq t (bytes_of n)" using Cons.prems(2) [of 0] Suc by simp
    ultimately show ?thesis by (simp add: Suc)
  qed (use Cons.prems in simp)
qed simp

lemma tag_enum_loop_range: "tag_enum_loop t i ns = GUMBO_TAG_UNKNOWN \<or> tag_enum_loop t i ns < i + length ns"
  by (induction ns arbitrary: i) (auto, metis add_Suc)

lemma gumbo_tag_enum_range: "gumbo_tag_enum t \<le> GUMBO_TAG_UNKNOWN"
  using tag_enum_loop_range [of t 0 "take GUMBO_TAG_LAST kGumboTagNames"]
  by (auto simp: gumbo_tag_enum_def kGumboTagNames_length GUMBO_TAG_LAST_def GUMBO_TAG_UNKNOWN_def)

lemma unat_of_char: "unat (of_char c :: byte) = of_char c"
  by (subst of_nat_of_char [symmetric], simp only: unat_of_nat) (simp add: of_char_mod_256)

lemma bytes_of_inj: "bytes_of s = bytes_of t \<longleftrightarrow> s = t"
proof
  have "inj (of_char :: char \<Rightarrow> byte)"
    by (rule injI) (metis unat_of_char of_char_eq_iff)
  then show "s = t" if "bytes_of s = bytes_of t"
    using that by (simp add: bytes_of_def inj_map_eq_map)
qed simp

text \<open>The names of the table are distinct and in lower case.\<close>

lemma kGumboTagNames_distinct: "distinct (take 149 kGumboTagNames)"
  by (simp add: kGumboTagNames_def)

lemma kGumboTagNames_lower:
  "list_all (list_all (\<lambda>c. \<not> (0x41 \<le> (of_char c :: nat) \<and> (of_char c :: nat) \<le> 0x5A))) kGumboTagNames"
  by (simp add: kGumboTagNames_def)

lemma to_lower8_of_char:
  "\<not> (0x41 \<le> (of_char c :: nat) \<and> (of_char c :: nat) \<le> 0x5A) \<Longrightarrow> to_lower8 (of_char c) = of_char c"
  by (simp add: to_lower8_def word_le_nat_alt unat_of_char)

lemma kGumboTagNames_to_lower: "n \<in> set kGumboTagNames \<Longrightarrow> map to_lower8 (bytes_of n) = bytes_of n"
  using kGumboTagNames_lower by (auto simp: list_all_iff bytes_of_def to_lower8_of_char)

lemma tag_name_eq:
  assumes "i < 150"
  shows "strcasecmp_eq s (bytes_of (kGumboTagNames ! i)) \<longleftrightarrow> map to_lower8 s = bytes_of (kGumboTagNames ! i)"
  using kGumboTagNames_to_lower [of "kGumboTagNames ! i"] assms kGumboTagNames_length
  by (simp add: strcasecmp_eq_def)

lemma tag_enum_hit:
  assumes "k < 149" "map to_lower8 s = bytes_of (kGumboTagNames ! k)"
  shows "gumbo_tag_enum s = k"
proof -
  have "\<not> strcasecmp_eq s (bytes_of (kGumboTagNames ! j))" if "j < k" for j
  proof
    assume "strcasecmp_eq s (bytes_of (kGumboTagNames ! j))"
    then have "bytes_of (kGumboTagNames ! j) = bytes_of (kGumboTagNames ! k)"
      using assms that tag_name_eq [of j s] by simp
    then have "kGumboTagNames ! j = kGumboTagNames ! k" by (simp only: bytes_of_inj)
    moreover have "take 149 kGumboTagNames ! j \<noteq> take 149 kGumboTagNames ! k"
      using kGumboTagNames_distinct assms(1) that by (simp only: distinct_conv_nth) (simp add: kGumboTagNames_length)
    ultimately show False using assms(1) that by simp
  qed
  then have "tag_enum_loop s 0 (take 150 kGumboTagNames) = 0 + k"
    using assms by (intro tag_enum_loop_distinct) (simp_all add: kGumboTagNames_length tag_name_eq)
  then show ?thesis by (simp add: gumbo_tag_enum_def GUMBO_TAG_LAST_def)
qed

lemma tag_enum_loop_hit:
  "tag_enum_loop s i ns = t \<Longrightarrow> t \<noteq> GUMBO_TAG_UNKNOWN \<Longrightarrow>
    \<exists>k < length ns. t = i + k \<and> strcasecmp_eq s (bytes_of (ns ! k))"
proof (induction ns arbitrary: i)
  case (Cons n ns)
  show ?case
  proof (cases "strcasecmp_eq s (bytes_of n)")
    case True
    then show ?thesis using Cons.prems by (intro exI [of _ 0]) simp
  next
    case False
    then obtain k where "k < length ns" "t = i + 1 + k" "strcasecmp_eq s (bytes_of (ns ! k))"
      using Cons.IH [of "i + 1"] Cons.prems by auto
    then show ?thesis by (intro exI [of _ "Suc k"]) simp
  qed
qed simp

section \<open>Properties\<close>

text \<open>C20: tag names and tag numbers correspond one to one: a known tag is returned exactly for the
  spellings, in any case, of its own normalized name.\<close>

theorem tag_enum_round_trip:
  assumes "t < GUMBO_TAG_UNKNOWN"
  shows "\<exists>n. gumbo_normalized_tagname t = Inr n \<and> (\<forall>s. gumbo_tag_enum s = t \<longleftrightarrow> map to_lower8 s = n)"
proof -
  have t: "t < 149" using assms by (simp add: GUMBO_TAG_UNKNOWN_def)
  have "map to_lower8 s = bytes_of (kGumboTagNames ! t)" if "gumbo_tag_enum s = t" for s
  proof -
    have "tag_enum_loop s 0 (take 150 kGumboTagNames) = t"
      using that by (simp add: gumbo_tag_enum_def GUMBO_TAG_LAST_def)
    from tag_enum_loop_hit [OF this] assms t show ?thesis by (auto simp: tag_name_eq)
  qed
  moreover have "gumbo_normalized_tagname t = Inr (bytes_of (kGumboTagNames ! t))"
    using t by (simp add: gumbo_normalized_tagname_def GUMBO_TAG_LAST_def)
  ultimately show ?thesis using tag_enum_hit [OF t] by blast
qed

theorem tag_enum_round_trip_witness: "gumbo_tag_enum (bytes_of ''ScRiPt'') = 7"
proof -
  have n: "gumbo_normalized_tagname 7 = Inr (bytes_of ''script'')"
    by (simp add: gumbo_normalized_tagname_def GUMBO_TAG_LAST_def kGumboTagNames_def)
  have "map to_lower8 (bytes_of ''ScRiPt'') = bytes_of ''script''" by code_simp
  moreover obtain m where "gumbo_normalized_tagname 7 = Inr m" "\<forall>s. gumbo_tag_enum s = 7 \<longleftrightarrow> map to_lower8 s = m"
    using tag_enum_round_trip [of 7] by (auto simp: GUMBO_TAG_UNKNOWN_def)
  ultimately show ?thesis using n by simp
qed

end
