(* ===== verification/GumboTokenizer.thy ===== *)
theory GumboTokenizer
  imports GumboCharRef GumboTag
begin

text \<open>
  The state of the HTML tokenizer and the functions its states use:
  \<^verbatim>\<open>src/html_parser/tokenizer.cpp\<close> up to the state functions, \<^verbatim>\<open>tokenizer.h\<close>,
  \<^verbatim>\<open>tokenizer_states.h\<close> and \<^verbatim>\<open>token_type.h\<close>.

  Each function takes the record of the tokenizer and returns it updated; the token the caller passes as
  \<^verbatim>\<open>output\<close> is the field \<open>tk_output\<close>, the parser's error list lies in \<open>tk_input\<close>.  String
  buffers and the attribute vector are the lists of their contents, which \<open>GumboBuffer\<close> justifies;
  \<open>None\<close> is a NULL pointer or, for the positions of an attribute value, a field never assigned.
  Assertions are recorded in the ghost field of the input.  The build is one with assertions, in which
  \<^verbatim>\<open>mark_tag_state_as_empty\<close> clears the attribute vector.
\<close>

section \<open>State\<close>

datatype lexer_state =
    GUMBO_LEX_DATA
  | GUMBO_LEX_CHAR_REF_IN_DATA
  | GUMBO_LEX_RCDATA
  | GUMBO_LEX_CHAR_REF_IN_RCDATA
  | GUMBO_LEX_RAWTEXT
  | GUMBO_LEX_SCRIPT
  | GUMBO_LEX_PLAINTEXT
  | GUMBO_LEX_TAG_OPEN
  | GUMBO_LEX_END_TAG_OPEN
  | GUMBO_LEX_TAG_NAME
  | GUMBO_LEX_RCDATA_LT
  | GUMBO_LEX_RCDATA_END_TAG_OPEN
  | GUMBO_LEX_RCDATA_END_TAG_NAME
  | GUMBO_LEX_RAWTEXT_LT
  | GUMBO_LEX_RAWTEXT_END_TAG_OPEN
  | GUMBO_LEX_RAWTEXT_END_TAG_NAME
  | GUMBO_LEX_SCRIPT_LT
  | GUMBO_LEX_SCRIPT_END_TAG_OPEN
  | GUMBO_LEX_SCRIPT_END_TAG_NAME
  | GUMBO_LEX_SCRIPT_ESCAPED_START
  | GUMBO_LEX_SCRIPT_ESCAPED_START_DASH
  | GUMBO_LEX_SCRIPT_ESCAPED
  | GUMBO_LEX_SCRIPT_ESCAPED_DASH
  | GUMBO_LEX_SCRIPT_ESCAPED_DASH_DASH
  | GUMBO_LEX_SCRIPT_ESCAPED_LT
  | GUMBO_LEX_SCRIPT_ESCAPED_END_TAG_OPEN
  | GUMBO_LEX_SCRIPT_ESCAPED_END_TAG_NAME
  | GUMBO_LEX_SCRIPT_DOUBLE_ESCAPED_START
  | GUMBO_LEX_SCRIPT_DOUBLE_ESCAPED
  | GUMBO_LEX_SCRIPT_DOUBLE_ESCAPED_DASH
  | GUMBO_LEX_SCRIPT_DOUBLE_ESCAPED_DASH_DASH
  | GUMBO_LEX_SCRIPT_DOUBLE_ESCAPED_LT
  | GUMBO_LEX_SCRIPT_DOUBLE_ESCAPED_END
  | GUMBO_LEX_BEFORE_ATTR_NAME
  | GUMBO_LEX_ATTR_NAME
  | GUMBO_LEX_AFTER_ATTR_NAME
  | GUMBO_LEX_BEFORE_ATTR_VALUE
  | GUMBO_LEX_ATTR_VALUE_DOUBLE_QUOTED
  | GUMBO_LEX_ATTR_VALUE_SINGLE_QUOTED
  | GUMBO_LEX_ATTR_VALUE_UNQUOTED
  | GUMBO_LEX_CHAR_REF_IN_ATTR_VALUE
  | GUMBO_LEX_AFTER_ATTR_VALUE_QUOTED
  | GUMBO_LEX_SELF_CLOSING_START_TAG
  | GUMBO_LEX_BOGUS_COMMENT
  | GUMBO_LEX_MARKUP_DECLARATION
  | GUMBO_LEX_COMMENT_START
  | GUMBO_LEX_COMMENT_START_DASH
  | GUMBO_LEX_COMMENT
  | GUMBO_LEX_COMMENT_END_DASH
  | GUMBO_LEX_COMMENT_END
  | GUMBO_LEX_COMMENT_END_BANG
  | GUMBO_LEX_DOCTYPE
  | GUMBO_LEX_BEFORE_DOCTYPE_NAME
  | GUMBO_LEX_DOCTYPE_NAME
  | GUMBO_LEX_AFTER_DOCTYPE_NAME
  | GUMBO_LEX_AFTER_DOCTYPE_PUBLIC_KEYWORD
  | GUMBO_LEX_BEFORE_DOCTYPE_PUBLIC_ID
  | GUMBO_LEX_DOCTYPE_PUBLIC_ID_DOUBLE_QUOTED
  | GUMBO_LEX_DOCTYPE_PUBLIC_ID_SINGLE_QUOTED
  | GUMBO_LEX_AFTER_DOCTYPE_PUBLIC_ID
  | GUMBO_LEX_BETWEEN_DOCTYPE_PUBLIC_SYSTEM_ID
  | GUMBO_LEX_AFTER_DOCTYPE_SYSTEM_KEYWORD
  | GUMBO_LEX_BEFORE_DOCTYPE_SYSTEM_ID
  | GUMBO_LEX_DOCTYPE_SYSTEM_ID_DOUBLE_QUOTED
  | GUMBO_LEX_DOCTYPE_SYSTEM_ID_SINGLE_QUOTED
  | GUMBO_LEX_AFTER_DOCTYPE_SYSTEM_ID
  | GUMBO_LEX_BOGUS_DOCTYPE
  | GUMBO_LEX_CDATA

fun error_state :: "lexer_state \<Rightarrow> tokenizer_error_state" where
  "error_state GUMBO_LEX_DATA = GUMBO_ERR_TOKENIZER_DATA"
| "error_state GUMBO_LEX_CHAR_REF_IN_DATA = GUMBO_ERR_TOKENIZER_CHAR_REF"
| "error_state GUMBO_LEX_RCDATA = GUMBO_ERR_TOKENIZER_RCDATA"
| "error_state GUMBO_LEX_CHAR_REF_IN_RCDATA = GUMBO_ERR_TOKENIZER_CHAR_REF"
| "error_state GUMBO_LEX_RAWTEXT = GUMBO_ERR_TOKENIZER_RAWTEXT"
| "error_state GUMBO_LEX_SCRIPT = GUMBO_ERR_TOKENIZER_SCRIPT"
| "error_state GUMBO_LEX_PLAINTEXT = GUMBO_ERR_TOKENIZER_PLAINTEXT"
| "error_state GUMBO_LEX_TAG_OPEN = GUMBO_ERR_TOKENIZER_TAG"
| "error_state GUMBO_LEX_END_TAG_OPEN = GUMBO_ERR_TOKENIZER_TAG"
| "error_state GUMBO_LEX_TAG_NAME = GUMBO_ERR_TOKENIZER_TAG"
| "error_state GUMBO_LEX_RCDATA_LT = GUMBO_ERR_TOKENIZER_RCDATA"
| "error_state GUMBO_LEX_RCDATA_END_TAG_OPEN = GUMBO_ERR_TOKENIZER_RCDATA"
| "error_state GUMBO_LEX_RCDATA_END_TAG_NAME = GUMBO_ERR_TOKENIZER_RCDATA"
| "error_state GUMBO_LEX_RAWTEXT_LT = GUMBO_ERR_TOKENIZER_RAWTEXT"
| "error_state GUMBO_LEX_RAWTEXT_END_TAG_OPEN = GUMBO_ERR_TOKENIZER_RAWTEXT"
| "error_state GUMBO_LEX_RAWTEXT_END_TAG_NAME = GUMBO_ERR_TOKENIZER_RAWTEXT"
| "error_state GUMBO_LEX_SCRIPT_LT = GUMBO_ERR_TOKENIZER_SCRIPT"
| "error_state GUMBO_LEX_SCRIPT_END_TAG_OPEN = GUMBO_ERR_TOKENIZER_SCRIPT"
| "error_state GUMBO_LEX_SCRIPT_END_TAG_NAME = GUMBO_ERR_TOKENIZER_SCRIPT"
| "error_state GUMBO_LEX_SCRIPT_ESCAPED_START = GUMBO_ERR_TOKENIZER_SCRIPT"
| "error_state GUMBO_LEX_SCRIPT_ESCAPED_START_DASH = GUMBO_ERR_TOKENIZER_SCRIPT"
| "error_state GUMBO_LEX_SCRIPT_ESCAPED = GUMBO_ERR_TOKENIZER_SCRIPT"
| "error_state GUMBO_LEX_SCRIPT_ESCAPED_DASH = GUMBO_ERR_TOKENIZER_SCRIPT"
| "error_state GUMBO_LEX_SCRIPT_ESCAPED_DASH_DASH = GUMBO_ERR_TOKENIZER_SCRIPT"
| "error_state GUMBO_LEX_SCRIPT_ESCAPED_LT = GUMBO_ERR_TOKENIZER_SCRIPT"
| "error_state GUMBO_LEX_SCRIPT_ESCAPED_END_TAG_OPEN = GUMBO_ERR_TOKENIZER_SCRIPT"
| "error_state GUMBO_LEX_SCRIPT_ESCAPED_END_TAG_NAME = GUMBO_ERR_TOKENIZER_SCRIPT"
| "error_state GUMBO_LEX_SCRIPT_DOUBLE_ESCAPED_START = GUMBO_ERR_TOKENIZER_SCRIPT"
| "error_state GUMBO_LEX_SCRIPT_DOUBLE_ESCAPED = GUMBO_ERR_TOKENIZER_SCRIPT"
| "error_state GUMBO_LEX_SCRIPT_DOUBLE_ESCAPED_DASH = GUMBO_ERR_TOKENIZER_SCRIPT"
| "error_state GUMBO_LEX_SCRIPT_DOUBLE_ESCAPED_DASH_DASH = GUMBO_ERR_TOKENIZER_SCRIPT"
| "error_state GUMBO_LEX_SCRIPT_DOUBLE_ESCAPED_LT = GUMBO_ERR_TOKENIZER_SCRIPT"
| "error_state GUMBO_LEX_SCRIPT_DOUBLE_ESCAPED_END = GUMBO_ERR_TOKENIZER_SCRIPT"
| "error_state GUMBO_LEX_BEFORE_ATTR_NAME = GUMBO_ERR_TOKENIZER_TAG"
| "error_state GUMBO_LEX_ATTR_NAME = GUMBO_ERR_TOKENIZER_ATTR_NAME"
| "error_state GUMBO_LEX_AFTER_ATTR_NAME = GUMBO_ERR_TOKENIZER_ATTR_NAME"
| "error_state GUMBO_LEX_BEFORE_ATTR_VALUE = GUMBO_ERR_TOKENIZER_ATTR_NAME"
| "error_state GUMBO_LEX_ATTR_VALUE_DOUBLE_QUOTED = GUMBO_ERR_TOKENIZER_ATTR_VALUE"
| "error_state GUMBO_LEX_ATTR_VALUE_SINGLE_QUOTED = GUMBO_ERR_TOKENIZER_ATTR_VALUE"
| "error_state GUMBO_LEX_ATTR_VALUE_UNQUOTED = GUMBO_ERR_TOKENIZER_ATTR_VALUE"
| "error_state GUMBO_LEX_CHAR_REF_IN_ATTR_VALUE = GUMBO_ERR_TOKENIZER_CHAR_REF"
| "error_state GUMBO_LEX_AFTER_ATTR_VALUE_QUOTED = GUMBO_ERR_TOKENIZER_ATTR_VALUE"
| "error_state GUMBO_LEX_SELF_CLOSING_START_TAG = GUMBO_ERR_TOKENIZER_SELF_CLOSING_TAG"
| "error_state GUMBO_LEX_BOGUS_COMMENT = GUMBO_ERR_TOKENIZER_COMMENT"
| "error_state GUMBO_LEX_MARKUP_DECLARATION = GUMBO_ERR_TOKENIZER_DOCTYPE"
| "error_state GUMBO_LEX_COMMENT_START = GUMBO_ERR_TOKENIZER_COMMENT"
| "error_state GUMBO_LEX_COMMENT_START_DASH = GUMBO_ERR_TOKENIZER_COMMENT"
| "error_state GUMBO_LEX_COMMENT = GUMBO_ERR_TOKENIZER_COMMENT"
| "error_state GUMBO_LEX_COMMENT_END_DASH = GUMBO_ERR_TOKENIZER_COMMENT"
| "error_state GUMBO_LEX_COMMENT_END = GUMBO_ERR_TOKENIZER_COMMENT"
| "error_state GUMBO_LEX_COMMENT_END_BANG = GUMBO_ERR_TOKENIZER_COMMENT"
| "error_state GUMBO_LEX_DOCTYPE = GUMBO_ERR_TOKENIZER_DOCTYPE"
| "error_state GUMBO_LEX_BEFORE_DOCTYPE_NAME = GUMBO_ERR_TOKENIZER_DOCTYPE"
| "error_state GUMBO_LEX_DOCTYPE_NAME = GUMBO_ERR_TOKENIZER_DOCTYPE"
| "error_state GUMBO_LEX_AFTER_DOCTYPE_NAME = GUMBO_ERR_TOKENIZER_DOCTYPE"
| "error_state GUMBO_LEX_AFTER_DOCTYPE_PUBLIC_KEYWORD = GUMBO_ERR_TOKENIZER_DOCTYPE"
| "error_state GUMBO_LEX_BEFORE_DOCTYPE_PUBLIC_ID = GUMBO_ERR_TOKENIZER_DOCTYPE"
| "error_state GUMBO_LEX_DOCTYPE_PUBLIC_ID_DOUBLE_QUOTED = GUMBO_ERR_TOKENIZER_DOCTYPE"
| "error_state GUMBO_LEX_DOCTYPE_PUBLIC_ID_SINGLE_QUOTED = GUMBO_ERR_TOKENIZER_DOCTYPE"
| "error_state GUMBO_LEX_AFTER_DOCTYPE_PUBLIC_ID = GUMBO_ERR_TOKENIZER_DOCTYPE"
| "error_state GUMBO_LEX_BETWEEN_DOCTYPE_PUBLIC_SYSTEM_ID = GUMBO_ERR_TOKENIZER_DOCTYPE"
| "error_state GUMBO_LEX_AFTER_DOCTYPE_SYSTEM_KEYWORD = GUMBO_ERR_TOKENIZER_DOCTYPE"
| "error_state GUMBO_LEX_BEFORE_DOCTYPE_SYSTEM_ID = GUMBO_ERR_TOKENIZER_DOCTYPE"
| "error_state GUMBO_LEX_DOCTYPE_SYSTEM_ID_DOUBLE_QUOTED = GUMBO_ERR_TOKENIZER_DOCTYPE"
| "error_state GUMBO_LEX_DOCTYPE_SYSTEM_ID_SINGLE_QUOTED = GUMBO_ERR_TOKENIZER_DOCTYPE"
| "error_state GUMBO_LEX_AFTER_DOCTYPE_SYSTEM_ID = GUMBO_ERR_TOKENIZER_DOCTYPE"
| "error_state GUMBO_LEX_BOGUS_DOCTYPE = GUMBO_ERR_TOKENIZER_DOCTYPE"
| "error_state GUMBO_LEX_CDATA = GUMBO_ERR_TOKENIZER_CDATA"

datatype state_result = RETURN_ERROR | RETURN_SUCCESS | NEXT_CHAR

record doc_type =
  dt_name :: "byte list option"
  dt_public_identifier :: "byte list option"
  dt_system_identifier :: "byte list option"
  dt_force_quirks :: bool
  dt_has_public_identifier :: bool
  dt_has_system_identifier :: bool

datatype token_value =
    V_doc_type doc_type
  | V_start_tag gumbo_tag "gumbo_attribute list option" bool
  | V_end_tag gumbo_tag
  | V_text "byte list"
  | V_character int

record token =
  to_type :: token_type
  to_position :: source_position
  to_text_data :: int
  to_text_length :: int
  to_v :: token_value

record tag_state =
  tg_buffer :: "byte list"
  tg_original_text :: int
  tg_tag :: gumbo_tag
  tg_start_pos :: source_position
  tg_attributes :: "gumbo_attribute list option"
  tg_drop_next_attr_value :: bool
  tg_attr_value_state :: lexer_state
  tg_last_start_tag :: gumbo_tag
  tg_is_start_tag :: bool
  tg_is_self_closing :: bool

record tokenizer =
  tk_state :: lexer_state
  tk_reconsume_current_input :: bool
  tk_is_current_node_foreign :: bool
  tk_buffered_emit_char :: int
  tk_temporary_buffer :: "byte list"
  tk_temporary_buffer_emit :: "nat option"
  tk_script_data_buffer :: "byte list"
  tk_token_start :: int
  tk_token_start_pos :: source_position
  tk_tag_state :: tag_state
  tk_doc_type_state :: doc_type
  tk_input :: utf8_iterator
  tk_output :: token

section \<open>Helpers\<close>

definition assert_tk :: "bool \<Rightarrow> tokenizer \<Rightarrow> tokenizer" where
  "assert_tk b p = p\<lparr>tk_input := assert_it b (tk_input p)\<rparr>"

definition next_input :: "tokenizer \<Rightarrow> tokenizer" where
  "next_input p = p\<lparr>tk_input := utf8iterator_next (tk_input p)\<rparr>"

definition reconsume :: "bool \<Rightarrow> tokenizer \<Rightarrow> tokenizer" where
  "reconsume b p = p\<lparr>tk_reconsume_current_input := b\<rparr>"

definition gumbo_tokenizer_set_state :: "lexer_state \<Rightarrow> tokenizer \<Rightarrow> tokenizer" where
  "gumbo_tokenizer_set_state s p = p\<lparr>tk_state := s\<rparr>"

definition gumbo_tokenizer_set_is_current_node_foreign :: "bool \<Rightarrow> tokenizer \<Rightarrow> tokenizer" where
  "gumbo_tokenizer_set_is_current_node_foreign b p = p\<lparr>tk_is_current_node_foreign := b\<rparr>"

definition set_force_quirks :: "bool \<Rightarrow> tokenizer \<Rightarrow> tokenizer" where
  "set_force_quirks b p = p\<lparr>tk_doc_type_state := (tk_doc_type_state p)\<lparr>dt_force_quirks := b\<rparr>\<rparr>"

definition add_parse_error :: "error_type \<Rightarrow> tokenizer \<Rightarrow> tokenizer" where
  "add_parse_error ty p =
     p\<lparr>tk_input := gumbo_add_error
        \<lparr>er_type = ty, er_position = ut_pos (tk_input p), er_original_text = ut_start (tk_input p),
         er_v = Tokenizer_info (ut_current (tk_input p)) (error_state (tk_state p))\<rparr> (tk_input p)\<rparr>"

definition is_alpha :: "int \<Rightarrow> bool" where
  "is_alpha c \<longleftrightarrow> (0x41 \<le> c \<and> c \<le> 0x5A) \<or> (0x61 \<le> c \<and> c \<le> 0x7A)"

definition ensure_lowercase :: "int \<Rightarrow> int" where
  "ensure_lowercase c = (if 0x41 \<le> c \<and> c \<le> 0x5A then c + 0x20 else c)"

definition get_char_token_type :: "int \<Rightarrow> token_type" where
  "get_char_token_type c =
     (if c = C_TAB \<or> c = C_LF \<or> c = C_CR \<or> c = C_FF \<or> c = C_SPACE then GUMBO_TOKEN_WHITESPACE
      else if c = 0 then GUMBO_TOKEN_NULL
      else if c = -1 then GUMBO_TOKEN_EOF
      else GUMBO_TOKEN_CHARACTER)"

definition clear_temporary_buffer :: "tokenizer \<Rightarrow> tokenizer" where
  "clear_temporary_buffer p =
     (let p = assert_tk (tk_temporary_buffer_emit p = None) p in
      p\<lparr>tk_input := utf8iterator_mark (tk_input p), tk_temporary_buffer := [], tk_script_data_buffer := []\<rparr>)"

definition append_char_to_temporary_buffer :: "int \<Rightarrow> tokenizer \<Rightarrow> tokenizer" where
  "append_char_to_temporary_buffer c p = p\<lparr>tk_temporary_buffer := tk_temporary_buffer p @ utf8_bytes c\<rparr>"

definition append_char_to_script_data_buffer :: "int \<Rightarrow> tokenizer \<Rightarrow> tokenizer" where
  "append_char_to_script_data_buffer c p = p\<lparr>tk_script_data_buffer := tk_script_data_buffer p @ utf8_bytes c\<rparr>"

definition temporary_buffer_equals :: "string \<Rightarrow> tokenizer \<Rightarrow> bool" where
  "temporary_buffer_equals text p \<longleftrightarrow> tk_temporary_buffer p = bytes_of text"

definition empty_doc_type :: doc_type where
  "empty_doc_type = \<lparr>dt_name = None, dt_public_identifier = None, dt_system_identifier = None,
     dt_force_quirks = False, dt_has_public_identifier = False, dt_has_system_identifier = False\<rparr>"

definition doc_type_state_init :: "tokenizer \<Rightarrow> tokenizer" where
  "doc_type_state_init p = p\<lparr>tk_doc_type_state := empty_doc_type\<rparr>"

definition reset_token_start_point :: "tokenizer \<Rightarrow> tokenizer" where
  "reset_token_start_point p =
     p\<lparr>tk_token_start := ut_start (tk_input p), tk_token_start_pos := ut_pos (tk_input p)\<rparr>"

definition reset_tag_buffer_start_point :: "tokenizer \<Rightarrow> tokenizer" where
  "reset_tag_buffer_start_point p =
     p\<lparr>tk_tag_state := (tk_tag_state p)\<lparr>tg_start_pos := ut_pos (tk_input p),
        tg_original_text := ut_start (tk_input p)\<rparr>\<rparr>"

text \<open>The string a C function reads from a buffer that was given a terminating zero.\<close>

definition c_string :: "byte list \<Rightarrow> byte list" where
  "c_string b = takeWhile (\<lambda>c. c \<noteq> 0) b"

definition finish_temporary_buffer :: "tokenizer \<Rightarrow> byte list \<times> tokenizer" where
  "finish_temporary_buffer p = (tk_temporary_buffer p, clear_temporary_buffer p)"

definition finish_token :: "tokenizer \<Rightarrow> tokenizer" where
  "finish_token p =
     (let p = (if \<not> tk_reconsume_current_input p then next_input p else p);
          pos = tk_token_start_pos p; data = tk_token_start p;
          p = reset_token_start_point p;
          len = tk_token_start p - data;
          len = (if len > 0 \<and> ut_mem (tk_input p) (data + len - 1) = 0x0D then len - 1 else len)
      in p\<lparr>tk_output := (tk_output p)\<lparr>to_position := pos, to_text_data := data, to_text_length := len\<rparr>\<rparr>)"

definition finish_doctype_name :: "tokenizer \<Rightarrow> tokenizer" where
  "finish_doctype_name p =
     (case finish_temporary_buffer p of (s, p) \<Rightarrow>
        p\<lparr>tk_doc_type_state := (tk_doc_type_state p)\<lparr>dt_name := Some s\<rparr>\<rparr>)"

definition finish_doctype_public_id :: "tokenizer \<Rightarrow> tokenizer" where
  "finish_doctype_public_id p =
     (case finish_temporary_buffer p of (s, p) \<Rightarrow>
        p\<lparr>tk_doc_type_state := (tk_doc_type_state p)\<lparr>dt_public_identifier := Some s, dt_has_public_identifier := True\<rparr>\<rparr>)"

definition finish_doctype_system_id :: "tokenizer \<Rightarrow> tokenizer" where
  "finish_doctype_system_id p =
     (case finish_temporary_buffer p of (s, p) \<Rightarrow>
        p\<lparr>tk_doc_type_state := (tk_doc_type_state p)\<lparr>dt_system_identifier := Some s, dt_has_system_identifier := True\<rparr>\<rparr>)"

section \<open>Emitting\<close>

definition set_output :: "token_type \<Rightarrow> token_value \<Rightarrow> tokenizer \<Rightarrow> tokenizer" where
  "set_output ty v p = p\<lparr>tk_output := (tk_output p)\<lparr>to_type := ty, to_v := v\<rparr>\<rparr>"

definition emit_char :: "int \<Rightarrow> tokenizer \<Rightarrow> tokenizer" where
  "emit_char c p = finish_token (set_output (get_char_token_type c) (V_character c) p)"

definition emit_replacement_char :: "tokenizer \<Rightarrow> state_result \<times> tokenizer" where
  "emit_replacement_char p = (RETURN_ERROR, emit_char kUtf8ReplacementChar (add_parse_error GUMBO_ERR_UTF8_NULL p))"

definition emit_eof :: "tokenizer \<Rightarrow> state_result \<times> tokenizer" where
  "emit_eof p = (RETURN_SUCCESS, emit_char C_EOF p)"

definition emit_current_char :: "tokenizer \<Rightarrow> state_result \<times> tokenizer" where
  "emit_current_char p = (RETURN_SUCCESS, emit_char (ut_current (tk_input p)) p)"

definition emit_doctype :: "tokenizer \<Rightarrow> tokenizer" where
  "emit_doctype p =
     doc_type_state_init (finish_token (set_output GUMBO_TOKEN_DOCTYPE (V_doc_type (tk_doc_type_state p)) p))"

definition mark_tag_state_as_empty :: "tokenizer \<Rightarrow> tokenizer" where
  "mark_tag_state_as_empty p = p\<lparr>tk_tag_state := (tk_tag_state p)\<lparr>tg_attributes := None\<rparr>\<rparr>"

definition emit_current_tag :: "tokenizer \<Rightarrow> state_result \<times> tokenizer" where
  "emit_current_tag p =
     (let t = tk_tag_state p;
          p = (if tg_is_start_tag t
               then mark_tag_state_as_empty
                 ((set_output GUMBO_TOKEN_START_TAG (V_start_tag (tg_tag t) (tg_attributes t) (tg_is_self_closing t)) p)
                    \<lparr>tk_tag_state := t\<lparr>tg_last_start_tag := tg_tag t\<rparr>\<rparr>)
               else mark_tag_state_as_empty (set_output GUMBO_TOKEN_END_TAG (V_end_tag (tg_tag t)) p));
          p = finish_token p;
          out = tk_output p; mem = ut_mem (tk_input p)
      in (RETURN_SUCCESS,
          assert_tk (to_text_length out \<ge> 2 \<and> mem (to_text_data out) = 0x3C
                     \<and> mem (to_text_data out + to_text_length out - 1) = 0x3E) p))"

definition abandon_current_tag :: "tokenizer \<Rightarrow> tokenizer" where
  "abandon_current_tag p = mark_tag_state_as_empty p"

definition emit_char_ref :: "int \<Rightarrow> bool \<Rightarrow> tokenizer \<Rightarrow> state_result \<times> tokenizer" where
  "emit_char_ref additional_allowed_char is_in_attribute p =
     (case consume_char_ref additional_allowed_char False (tk_input p) of
        (status, (first, second), it) \<Rightarrow>
          let p = p\<lparr>tk_input := it\<rparr>;
              p = (if first \<noteq> kGumboNoChar
                   then (emit_char first (reconsume True p))\<lparr>tk_buffered_emit_char := second\<rparr>
                   else emit_char C_AMP p)
          in (if status then RETURN_SUCCESS else RETURN_ERROR, p))"

definition emit_comment :: "tokenizer \<Rightarrow> state_result \<times> tokenizer" where
  "emit_comment p =
     (case finish_temporary_buffer p of (s, p) \<Rightarrow>
        (RETURN_SUCCESS, finish_token (set_output GUMBO_TOKEN_COMMENT (V_text s) p)))"

definition maybe_emit_from_temporary_buffer :: "tokenizer \<Rightarrow> bool \<times> tokenizer" where
  "maybe_emit_from_temporary_buffer p =
     (case tk_temporary_buffer_emit p of
        None \<Rightarrow> (False, p\<lparr>tk_temporary_buffer_emit := None\<rparr>)
      | Some i \<Rightarrow>
          if i \<ge> length (tk_temporary_buffer p) then (False, p\<lparr>tk_temporary_buffer_emit := None\<rparr>)
          else
            let c = uint (tk_temporary_buffer p ! i);
                p = assert_tk (c = ut_current (tk_input p)) p;
                saved_reconsume_state = tk_reconsume_current_input p;
                p = reconsume False p;
                p = emit_char c p;
                p = p\<lparr>tk_temporary_buffer_emit := Some (i + 1)\<rparr>;
                p = reconsume saved_reconsume_state p
            in (True, p))"

definition emit_temporary_buffer :: "tokenizer \<Rightarrow> bool \<times> tokenizer" where
  "emit_temporary_buffer p =
     maybe_emit_from_temporary_buffer
       (p\<lparr>tk_input := utf8iterator_reset (tk_input p), tk_temporary_buffer_emit := Some 0\<rparr>)"

text \<open>\<^verbatim>\<open>emit_temporary_buffer(parser, output) ? RETURN_SUCCESS : RETURN_ERROR\<close>\<close>

definition flush_temporary_buffer :: "tokenizer \<Rightarrow> state_result \<times> tokenizer" where
  "flush_temporary_buffer p =
     (case emit_temporary_buffer p of (b, p) \<Rightarrow> (if b then RETURN_SUCCESS else RETURN_ERROR, p))"

section \<open>Tags\<close>

definition append_char_to_tag_buffer :: "int \<Rightarrow> bool \<Rightarrow> tokenizer \<Rightarrow> tokenizer" where
  "append_char_to_tag_buffer c reinitilize_position_on_first p =
     (let p = (if tg_buffer (tk_tag_state p) = [] \<and> reinitilize_position_on_first
               then reset_tag_buffer_start_point p else p)
      in p\<lparr>tk_tag_state := (tk_tag_state p)\<lparr>tg_buffer := tg_buffer (tk_tag_state p) @ utf8_bytes c\<rparr>\<rparr>)"

definition initialize_tag_buffer :: "tokenizer \<Rightarrow> tokenizer" where
  "initialize_tag_buffer p =
     reset_tag_buffer_start_point (p\<lparr>tk_tag_state := (tk_tag_state p)\<lparr>tg_buffer := []\<rparr>\<rparr>)"

definition start_new_tag :: "bool \<Rightarrow> tokenizer \<Rightarrow> tokenizer" where
  "start_new_tag is_start_tag p =
     (let c = ut_current (tk_input p);
          p = assert_tk (is_alpha c) p;
          c = ensure_lowercase c;
          p = assert_tk (is_alpha c) p;
          p = initialize_tag_buffer p;
          p = p\<lparr>tk_tag_state := (tk_tag_state p)\<lparr>tg_buffer := tg_buffer (tk_tag_state p) @ utf8_bytes c\<rparr>\<rparr>;
          p = assert_tk (tg_attributes (tk_tag_state p) = None) p
      in p\<lparr>tk_tag_state := (tk_tag_state p)\<lparr>tg_attributes := Some [], tg_drop_next_attr_value := False,
             tg_is_start_tag := is_start_tag, tg_is_self_closing := False\<rparr>\<rparr>)"

definition copy_over_original_tag_text :: "tokenizer \<Rightarrow> (int \<times> int) \<times> source_position \<times> source_position" where
  "copy_over_original_tag_text p =
     (let data = tg_original_text (tk_tag_state p);
          len = ut_start (tk_input p) - data;
          len = (if ut_mem (tk_input p) (data + len - 1) = 0x0D then len - 1 else len)
      in ((data, len), tg_start_pos (tk_tag_state p), ut_pos (tk_input p)))"

definition reinitialize_tag_buffer :: "tokenizer \<Rightarrow> tokenizer" where
  "reinitialize_tag_buffer p = initialize_tag_buffer p"

definition finish_tag_name :: "tokenizer \<Rightarrow> tokenizer" where
  "finish_tag_name p =
     (let p = p\<lparr>tk_tag_state := (tk_tag_state p)\<lparr>tg_tag := gumbo_tag_enum (c_string (tg_buffer (tk_tag_state p)))\<rparr>\<rparr>
      in reinitialize_tag_buffer p)"

definition add_duplicate_attr_error :: "nat \<Rightarrow> nat \<Rightarrow> tokenizer \<Rightarrow> tokenizer" where
  "add_duplicate_attr_error original_index new_index p =
     (if errors_full (tk_input p) then p
      else let t = tk_tag_state p in
        reinitialize_tag_buffer
          (p\<lparr>tk_input := gumbo_add_error
             \<lparr>er_type = GUMBO_ERR_DUPLICATE_ATTR, er_position = tg_start_pos t, er_original_text = tg_original_text t,
              er_v = Duplicate_attr_info (tg_buffer t) original_index new_index\<rparr> (tk_input p)\<rparr>))"

text \<open>The index of the attribute of a given name: \<^verbatim>\<open>strlen\<close> and \<^verbatim>\<open>memcmp\<close> on its name.\<close>

definition same_name :: "byte list \<Rightarrow> byte list \<Rightarrow> bool" where
  "same_name name buffer \<longleftrightarrow>
     length (c_string name) = length buffer \<and> take (length buffer) name = buffer"

fun find_attribute :: "nat \<Rightarrow> gumbo_attribute list \<Rightarrow> byte list \<Rightarrow> nat option" where
  "find_attribute i [] buffer = None"
| "find_attribute i (a # as) buffer =
     (if same_name (at_name a) buffer then Some i else find_attribute (i + 1) as buffer)"

definition finish_attribute_name :: "tokenizer \<Rightarrow> bool \<times> tokenizer" where
  "finish_attribute_name p =
     (let p = p\<lparr>tk_tag_state := (tk_tag_state p)\<lparr>tg_drop_next_attr_value := False\<rparr>\<rparr>;
          p = assert_tk (tg_attributes (tk_tag_state p) \<noteq> None) p;
          attributes = (case tg_attributes (tk_tag_state p) of Some as \<Rightarrow> as | None \<Rightarrow> [])
      in case find_attribute 0 attributes (tg_buffer (tk_tag_state p)) of
           Some i \<Rightarrow>
             let p = add_duplicate_attr_error i (length attributes) p
             in (False, p\<lparr>tk_tag_state := (tk_tag_state p)\<lparr>tg_drop_next_attr_value := True\<rparr>\<rparr>)
         | None \<Rightarrow>
             let (text, start_pos, end_pos) = copy_over_original_tag_text p;
                 attr = \<lparr>at_namespace = GUMBO_ATTR_NAMESPACE_NONE, at_name = tg_buffer (tk_tag_state p), at_original_name = text, at_value = [],
                         at_original_value = text, at_name_start = start_pos, at_name_end = end_pos,
                         at_value_start = None, at_value_end = None\<rparr>;
                 p = p\<lparr>tk_tag_state := (tk_tag_state p)\<lparr>tg_attributes := Some (attributes @ [attr])\<rparr>\<rparr>
             in (True, reinitialize_tag_buffer p))"

definition finish_attribute_value :: "tokenizer \<Rightarrow> tokenizer" where
  "finish_attribute_value p =
     (let t = tk_tag_state p in
      if tg_drop_next_attr_value t
      then reinitialize_tag_buffer (p\<lparr>tk_tag_state := t\<lparr>tg_drop_next_attr_value := False\<rparr>\<rparr>)
      else
        let attributes = (case tg_attributes t of Some as \<Rightarrow> as | None \<Rightarrow> []);
            p = assert_tk (attributes \<noteq> []) p;
            (text, start_pos, end_pos) = copy_over_original_tag_text p;
            attr = (last attributes)\<lparr>at_value := tg_buffer t, at_original_value := text,
                     at_value_start := Some start_pos, at_value_end := Some end_pos\<rparr>;
            p = p\<lparr>tk_tag_state := t\<lparr>tg_attributes := Some (butlast attributes @ [attr])\<rparr>\<rparr>
        in reinitialize_tag_buffer p)"

definition is_appropriate_end_tag :: "tokenizer \<Rightarrow> bool \<times> tokenizer" where
  "is_appropriate_end_tag p =
     (let t = tk_tag_state p; p = assert_tk (\<not> tg_is_start_tag t) p
      in (tg_last_start_tag t \<noteq> GUMBO_TAG_LAST
          \<and> tg_last_start_tag t = gumbo_tag_enum (c_string (tg_buffer t)), p))"

section \<open>Start and end\<close>

text \<open>\<open>p\<close> is the freshly allocated memory, with the parser's errors and options in its input.\<close>

definition gumbo_tokenizer_state_init :: "int \<Rightarrow> int \<Rightarrow> tokenizer \<Rightarrow> tokenizer" where
  "gumbo_tokenizer_state_init text text_length p =
     (let p = gumbo_tokenizer_set_state GUMBO_LEX_DATA p;
          p = p\<lparr>tk_reconsume_current_input := False, tk_is_current_node_foreign := False,
                tk_tag_state := (tk_tag_state p)\<lparr>tg_last_start_tag := GUMBO_TAG_LAST\<rparr>,
                tk_buffered_emit_char := kGumboNoChar, tk_temporary_buffer := [],
                tk_temporary_buffer_emit := None\<rparr>;
          p = mark_tag_state_as_empty p;
          p = p\<lparr>tk_script_data_buffer := [], tk_token_start := text,
                tk_input := utf8iterator_init text text_length (tk_input p)\<rparr>;
          p = p\<lparr>tk_token_start_pos := ut_pos (tk_input p)\<rparr>
      in doc_type_state_init p)"

definition gumbo_tokenizer_state_destroy :: "tokenizer \<Rightarrow> tokenizer" where
  "gumbo_tokenizer_state_destroy p =
     (let d = tk_doc_type_state p in
      assert_tk (dt_name d = None \<and> dt_public_identifier d = None \<and> dt_system_identifier d = None) p)"

end
