(* ===== verification/GumboLex.thy ===== *)
theory GumboLex
  imports GumboTokenizer
begin

text \<open>
  The state machine of the tokenizer (\<^verbatim>\<open>src/html_parser/tokenizer.cpp\<close>, from
  \<^verbatim>\<open>handle_data_state\<close> on): one definition per handler, in the order of the source, the dispatch
  table and \<^verbatim>\<open>gumbo_lex\<close>.  A handler takes the tokenizer and the current character and returns the
  result code with the updated tokenizer; a \<^verbatim>\<open>switch\<close> is a chain of conditions, and a case that falls
  through to the default adds its error first.  The loop of \<open>gumbo_lex\<close> is a partial function whose
  value \<open>None\<close> is a run that does not end.
\<close>

type_synonym handler = "tokenizer \<Rightarrow> int \<Rightarrow> state_result \<times> tokenizer"

definition kScriptTag :: "byte list" where
  "kScriptTag = bytes_of ''script''"

section \<open>Text\<close>

definition handle_data_state :: handler where
  "handle_data_state p c =
     (if c = C_AMP then
       let p = gumbo_tokenizer_set_state GUMBO_LEX_CHAR_REF_IN_DATA p;
           p = reconsume True p
       in (NEXT_CHAR, p)
     else if c = C_LT then
       let p = gumbo_tokenizer_set_state GUMBO_LEX_TAG_OPEN p;
           p = clear_temporary_buffer p;
           p = append_char_to_temporary_buffer C_LT p
       in (NEXT_CHAR, p)
     else if c = 0 then
       let p = add_parse_error GUMBO_ERR_UTF8_NULL p;
           p = emit_char c p
       in (RETURN_ERROR, p)
     else
       emit_current_char p)"

definition handle_char_ref_in_data_state :: handler where
  "handle_char_ref_in_data_state p c =
     (let p = gumbo_tokenizer_set_state GUMBO_LEX_DATA p
      in emit_char_ref C_SPACE False p)"

definition handle_rcdata_state :: handler where
  "handle_rcdata_state p c =
     (if c = C_AMP then
       let p = gumbo_tokenizer_set_state GUMBO_LEX_CHAR_REF_IN_RCDATA p;
           p = reconsume True p
       in (NEXT_CHAR, p)
     else if c = C_LT then
       let p = gumbo_tokenizer_set_state GUMBO_LEX_RCDATA_LT p;
           p = clear_temporary_buffer p;
           p = append_char_to_temporary_buffer C_LT p
       in (NEXT_CHAR, p)
     else if c = 0 then
       emit_replacement_char p
     else if c = C_EOF then
       emit_eof p
     else
       emit_current_char p)"

definition handle_char_ref_in_rcdata_state :: handler where
  "handle_char_ref_in_rcdata_state p c =
     (let p = gumbo_tokenizer_set_state GUMBO_LEX_RCDATA p
      in emit_char_ref C_SPACE False p)"

definition handle_rawtext_state :: handler where
  "handle_rawtext_state p c =
     (if c = C_LT then
       let p = gumbo_tokenizer_set_state GUMBO_LEX_RAWTEXT_LT p;
           p = clear_temporary_buffer p;
           p = append_char_to_temporary_buffer C_LT p
       in (NEXT_CHAR, p)
     else if c = 0 then
       emit_replacement_char p
     else if c = C_EOF then
       emit_eof p
     else
       emit_current_char p)"

definition handle_script_state :: handler where
  "handle_script_state p c =
     (if c = C_LT then
       let p = gumbo_tokenizer_set_state GUMBO_LEX_SCRIPT_LT p;
           p = clear_temporary_buffer p;
           p = append_char_to_temporary_buffer C_LT p
       in (NEXT_CHAR, p)
     else if c = 0 then
       emit_replacement_char p
     else if c = C_EOF then
       emit_eof p
     else
       emit_current_char p)"

definition handle_plaintext_state :: handler where
  "handle_plaintext_state p c =
     (if c = 0 then
       emit_replacement_char p
     else if c = C_EOF then
       emit_eof p
     else
       emit_current_char p)"

section \<open>Tags\<close>

definition handle_tag_open_state :: handler where
  "handle_tag_open_state p c =
     (let p = assert_tk (temporary_buffer_equals ''<'' p) p
      in if c = C_BANG then
          let p = gumbo_tokenizer_set_state GUMBO_LEX_MARKUP_DECLARATION p;
              p = clear_temporary_buffer p
          in (NEXT_CHAR, p)
        else if c = C_SLASH then
          let p = gumbo_tokenizer_set_state GUMBO_LEX_END_TAG_OPEN p;
              p = append_char_to_temporary_buffer C_SLASH p
          in (NEXT_CHAR, p)
        else if c = C_QM then
          let p = gumbo_tokenizer_set_state GUMBO_LEX_BOGUS_COMMENT p;
              p = clear_temporary_buffer p;
              p = append_char_to_temporary_buffer C_QM p;
              p = add_parse_error GUMBO_ERR_TAG_STARTS_WITH_QUESTION p
          in (NEXT_CHAR, p)
        else if is_alpha c then
          let p = gumbo_tokenizer_set_state GUMBO_LEX_TAG_NAME p;
              p = start_new_tag True p
          in (NEXT_CHAR, p)
        else
          let p = add_parse_error GUMBO_ERR_TAG_INVALID p;
              p = gumbo_tokenizer_set_state GUMBO_LEX_DATA p;
              p = snd (emit_temporary_buffer p)
          in (RETURN_ERROR, p))"

definition handle_end_tag_open_state :: handler where
  "handle_end_tag_open_state p c =
     (let p = assert_tk (temporary_buffer_equals ''</'' p) p
      in if c = C_GT then
          let p = add_parse_error GUMBO_ERR_CLOSE_TAG_EMPTY p;
              p = gumbo_tokenizer_set_state GUMBO_LEX_DATA p
          in (NEXT_CHAR, p)
        else if c = C_EOF then
          let p = add_parse_error GUMBO_ERR_CLOSE_TAG_EOF p;
              p = gumbo_tokenizer_set_state GUMBO_LEX_DATA p
          in flush_temporary_buffer p
        else if is_alpha c then
          let p = gumbo_tokenizer_set_state GUMBO_LEX_TAG_NAME p;
              p = start_new_tag False p
          in (NEXT_CHAR, p)
        else
          let p = add_parse_error GUMBO_ERR_CLOSE_TAG_INVALID p;
              p = gumbo_tokenizer_set_state GUMBO_LEX_BOGUS_COMMENT p;
              p = clear_temporary_buffer p;
              p = append_char_to_temporary_buffer c p
          in (NEXT_CHAR, p))"

definition handle_tag_name_state :: handler where
  "handle_tag_name_state p c =
     (if c = C_TAB \<or> c = C_LF \<or> c = C_FF \<or> c = C_SPACE then
       let p = finish_tag_name p;
           p = gumbo_tokenizer_set_state GUMBO_LEX_BEFORE_ATTR_NAME p
       in (NEXT_CHAR, p)
     else if c = C_SLASH then
       let p = finish_tag_name p;
           p = gumbo_tokenizer_set_state GUMBO_LEX_SELF_CLOSING_START_TAG p
       in (NEXT_CHAR, p)
     else if c = C_GT then
       let p = finish_tag_name p;
           p = gumbo_tokenizer_set_state GUMBO_LEX_DATA p
       in emit_current_tag p
     else if c = 0 then
       let p = add_parse_error GUMBO_ERR_UTF8_NULL p;
           p = append_char_to_tag_buffer kUtf8ReplacementChar True p
       in (NEXT_CHAR, p)
     else if c = C_EOF then
       let p = add_parse_error GUMBO_ERR_TAG_EOF p;
           p = abandon_current_tag p;
           p = gumbo_tokenizer_set_state GUMBO_LEX_DATA p
       in (NEXT_CHAR, p)
     else
       let p = append_char_to_tag_buffer (ensure_lowercase c) True p
       in (NEXT_CHAR, p))"

section \<open>End tags in text\<close>

definition handle_rcdata_lt_state :: handler where
  "handle_rcdata_lt_state p c =
     (let p = assert_tk (temporary_buffer_equals ''<'' p) p
      in if c = C_SLASH then
          let p = gumbo_tokenizer_set_state GUMBO_LEX_RCDATA_END_TAG_OPEN p;
              p = append_char_to_temporary_buffer C_SLASH p
          in (NEXT_CHAR, p)
        else
          let p = gumbo_tokenizer_set_state GUMBO_LEX_RCDATA p;
              p = reconsume True p
          in flush_temporary_buffer p)"

definition handle_rcdata_end_tag_open_state :: handler where
  "handle_rcdata_end_tag_open_state p c =
     (let p = assert_tk (temporary_buffer_equals ''</'' p) p
      in if is_alpha c then
          let p = gumbo_tokenizer_set_state GUMBO_LEX_RCDATA_END_TAG_NAME p;
              p = start_new_tag False p;
              p = append_char_to_temporary_buffer c p
          in (NEXT_CHAR, p)
        else
          let p = gumbo_tokenizer_set_state GUMBO_LEX_RCDATA p
          in flush_temporary_buffer p)"

definition handle_rcdata_end_tag_name_state :: handler where
  "handle_rcdata_end_tag_name_state p c =
     (let p = assert_tk (length (tk_temporary_buffer p) \<ge> 2) p
      in if is_alpha c then
           let p = append_char_to_tag_buffer (ensure_lowercase c) True p;
               p = append_char_to_temporary_buffer c p
           in (NEXT_CHAR, p)
         else
           let (appropriate, p) = is_appropriate_end_tag p
           in if appropriate \<and> (c = C_TAB \<or> c = C_LF \<or> c = C_FF \<or> c = C_SPACE) then
                let p = finish_tag_name p;
                    p = gumbo_tokenizer_set_state GUMBO_LEX_BEFORE_ATTR_NAME p
                in (NEXT_CHAR, p)
              else if appropriate \<and> c = C_SLASH then
                let p = finish_tag_name p;
                    p = gumbo_tokenizer_set_state GUMBO_LEX_SELF_CLOSING_START_TAG p
                in (NEXT_CHAR, p)
              else if appropriate \<and> c = C_GT then
                let p = finish_tag_name p;
                    p = gumbo_tokenizer_set_state GUMBO_LEX_DATA p
                in emit_current_tag p
              else
                let p = gumbo_tokenizer_set_state GUMBO_LEX_RCDATA p;
                    p = abandon_current_tag p
                in flush_temporary_buffer p)"

definition handle_rawtext_lt_state :: handler where
  "handle_rawtext_lt_state p c =
     (let p = assert_tk (temporary_buffer_equals ''<'' p) p
      in if c = C_SLASH then
          let p = gumbo_tokenizer_set_state GUMBO_LEX_RAWTEXT_END_TAG_OPEN p;
              p = append_char_to_temporary_buffer C_SLASH p
          in (NEXT_CHAR, p)
        else
          let p = gumbo_tokenizer_set_state GUMBO_LEX_RAWTEXT p;
              p = reconsume True p
          in flush_temporary_buffer p)"

definition handle_rawtext_end_tag_open_state :: handler where
  "handle_rawtext_end_tag_open_state p c =
     (let p = assert_tk (temporary_buffer_equals ''</'' p) p
      in if is_alpha c then
          let p = gumbo_tokenizer_set_state GUMBO_LEX_RAWTEXT_END_TAG_NAME p;
              p = start_new_tag False p;
              p = append_char_to_temporary_buffer c p
          in (NEXT_CHAR, p)
        else
          let p = gumbo_tokenizer_set_state GUMBO_LEX_RAWTEXT p
          in flush_temporary_buffer p)"

definition handle_rawtext_end_tag_name_state :: handler where
  "handle_rawtext_end_tag_name_state p c =
     (let p = assert_tk (length (tk_temporary_buffer p) \<ge> 2) p
      in if is_alpha c then
           let p = append_char_to_tag_buffer (ensure_lowercase c) True p;
               p = append_char_to_temporary_buffer c p
           in (NEXT_CHAR, p)
         else
           let (appropriate, p) = is_appropriate_end_tag p
           in if appropriate \<and> (c = C_TAB \<or> c = C_LF \<or> c = C_FF \<or> c = C_SPACE) then
                let p = finish_tag_name p;
                    p = gumbo_tokenizer_set_state GUMBO_LEX_BEFORE_ATTR_NAME p
                in (NEXT_CHAR, p)
              else if appropriate \<and> c = C_SLASH then
                let p = finish_tag_name p;
                    p = gumbo_tokenizer_set_state GUMBO_LEX_SELF_CLOSING_START_TAG p
                in (NEXT_CHAR, p)
              else if appropriate \<and> c = C_GT then
                let p = finish_tag_name p;
                    p = gumbo_tokenizer_set_state GUMBO_LEX_DATA p
                in emit_current_tag p
              else
                let p = gumbo_tokenizer_set_state GUMBO_LEX_RAWTEXT p;
                    p = abandon_current_tag p
                in flush_temporary_buffer p)"

definition handle_script_lt_state :: handler where
  "handle_script_lt_state p c =
     (let p = assert_tk (temporary_buffer_equals ''<'' p) p
      in if c = C_SLASH then
          let p = gumbo_tokenizer_set_state GUMBO_LEX_SCRIPT_END_TAG_OPEN p;
              p = append_char_to_temporary_buffer C_SLASH p
          in (NEXT_CHAR, p)
        else if c = C_BANG then
          let p = gumbo_tokenizer_set_state GUMBO_LEX_SCRIPT_ESCAPED_START p;
              p = append_char_to_temporary_buffer C_BANG p
          in flush_temporary_buffer p
        else
          let p = gumbo_tokenizer_set_state GUMBO_LEX_SCRIPT p;
              p = reconsume True p
          in flush_temporary_buffer p)"

definition handle_script_end_tag_open_state :: handler where
  "handle_script_end_tag_open_state p c =
     (let p = assert_tk (temporary_buffer_equals ''</'' p) p
      in if is_alpha c then
          let p = gumbo_tokenizer_set_state GUMBO_LEX_SCRIPT_END_TAG_NAME p;
              p = start_new_tag False p;
              p = append_char_to_temporary_buffer c p
          in (NEXT_CHAR, p)
        else
          let p = gumbo_tokenizer_set_state GUMBO_LEX_SCRIPT p
          in flush_temporary_buffer p)"

definition handle_script_end_tag_name_state :: handler where
  "handle_script_end_tag_name_state p c =
     (let p = assert_tk (length (tk_temporary_buffer p) \<ge> 2) p
      in if is_alpha c then
           let p = append_char_to_tag_buffer (ensure_lowercase c) True p;
               p = append_char_to_temporary_buffer c p
           in (NEXT_CHAR, p)
         else
           let (appropriate, p) = is_appropriate_end_tag p
           in if appropriate \<and> (c = C_TAB \<or> c = C_LF \<or> c = C_FF \<or> c = C_SPACE) then
                let p = finish_tag_name p;
                    p = gumbo_tokenizer_set_state GUMBO_LEX_BEFORE_ATTR_NAME p
                in (NEXT_CHAR, p)
              else if appropriate \<and> c = C_SLASH then
                let p = finish_tag_name p;
                    p = gumbo_tokenizer_set_state GUMBO_LEX_SELF_CLOSING_START_TAG p
                in (NEXT_CHAR, p)
              else if appropriate \<and> c = C_GT then
                let p = finish_tag_name p;
                    p = gumbo_tokenizer_set_state GUMBO_LEX_DATA p
                in emit_current_tag p
              else
                let p = gumbo_tokenizer_set_state GUMBO_LEX_SCRIPT p;
                    p = abandon_current_tag p
                in flush_temporary_buffer p)"

section \<open>Escaped scripts\<close>

definition handle_script_escaped_start_state :: handler where
  "handle_script_escaped_start_state p c =
     (if c = C_DASH then
       let p = gumbo_tokenizer_set_state GUMBO_LEX_SCRIPT_ESCAPED_START_DASH p
       in emit_current_char p
     else
       let p = gumbo_tokenizer_set_state GUMBO_LEX_SCRIPT p;
           p = reconsume True p
       in (NEXT_CHAR, p))"

definition handle_script_escaped_start_dash_state :: handler where
  "handle_script_escaped_start_dash_state p c =
     (if c = C_DASH then
       let p = gumbo_tokenizer_set_state GUMBO_LEX_SCRIPT_ESCAPED_DASH_DASH p
       in emit_current_char p
     else
       let p = gumbo_tokenizer_set_state GUMBO_LEX_SCRIPT p;
           p = reconsume True p
       in (NEXT_CHAR, p))"

definition handle_script_escaped_state :: handler where
  "handle_script_escaped_state p c =
     (if c = C_DASH then
       let p = gumbo_tokenizer_set_state GUMBO_LEX_SCRIPT_ESCAPED_DASH p
       in emit_current_char p
     else if c = C_LT then
       let p = gumbo_tokenizer_set_state GUMBO_LEX_SCRIPT_ESCAPED_LT p;
           p = clear_temporary_buffer p;
           p = append_char_to_temporary_buffer c p
       in (NEXT_CHAR, p)
     else if c = 0 then
       emit_replacement_char p
     else if c = C_EOF then
       let p = add_parse_error GUMBO_ERR_SCRIPT_EOF p
       in emit_eof p
     else
       emit_current_char p)"

definition handle_script_escaped_dash_state :: handler where
  "handle_script_escaped_dash_state p c =
     (if c = C_DASH then
       let p = gumbo_tokenizer_set_state GUMBO_LEX_SCRIPT_ESCAPED_DASH_DASH p
       in emit_current_char p
     else if c = C_LT then
       let p = gumbo_tokenizer_set_state GUMBO_LEX_SCRIPT_ESCAPED_LT p;
           p = clear_temporary_buffer p;
           p = append_char_to_temporary_buffer c p
       in (NEXT_CHAR, p)
     else if c = 0 then
       let p = gumbo_tokenizer_set_state GUMBO_LEX_SCRIPT_ESCAPED p
       in emit_replacement_char p
     else if c = C_EOF then
       let p = add_parse_error GUMBO_ERR_SCRIPT_EOF p;
           p = gumbo_tokenizer_set_state GUMBO_LEX_DATA p
       in (NEXT_CHAR, p)
     else
       let p = gumbo_tokenizer_set_state GUMBO_LEX_SCRIPT_ESCAPED p
       in emit_current_char p)"

definition handle_script_escaped_dash_dash_state :: handler where
  "handle_script_escaped_dash_dash_state p c =
     (if c = C_DASH then
       emit_current_char p
     else if c = C_LT then
       let p = gumbo_tokenizer_set_state GUMBO_LEX_SCRIPT_ESCAPED_LT p;
           p = clear_temporary_buffer p;
           p = append_char_to_temporary_buffer c p
       in (NEXT_CHAR, p)
     else if c = C_GT then
       let p = gumbo_tokenizer_set_state GUMBO_LEX_SCRIPT p
       in emit_current_char p
     else if c = 0 then
       let p = gumbo_tokenizer_set_state GUMBO_LEX_SCRIPT_ESCAPED p
       in emit_replacement_char p
     else if c = C_EOF then
       let p = add_parse_error GUMBO_ERR_SCRIPT_EOF p;
           p = gumbo_tokenizer_set_state GUMBO_LEX_DATA p
       in (NEXT_CHAR, p)
     else
       let p = gumbo_tokenizer_set_state GUMBO_LEX_SCRIPT_ESCAPED p
       in emit_current_char p)"

definition handle_script_escaped_lt_state :: handler where
  "handle_script_escaped_lt_state p c =
     (let p = assert_tk (temporary_buffer_equals ''<'' p) p;
         p = assert_tk (tk_script_data_buffer p = []) p
      in if c = C_SLASH then
          let p = gumbo_tokenizer_set_state GUMBO_LEX_SCRIPT_ESCAPED_END_TAG_OPEN p;
              p = append_char_to_temporary_buffer c p
          in (NEXT_CHAR, p)
        else if is_alpha c then
          let p = gumbo_tokenizer_set_state GUMBO_LEX_SCRIPT_DOUBLE_ESCAPED_START p;
              p = append_char_to_temporary_buffer c p;
              p = append_char_to_script_data_buffer (ensure_lowercase c) p
          in flush_temporary_buffer p
        else
          let p = gumbo_tokenizer_set_state GUMBO_LEX_SCRIPT_ESCAPED p
          in flush_temporary_buffer p)"

definition handle_script_escaped_end_tag_open_state :: handler where
  "handle_script_escaped_end_tag_open_state p c =
     (let p = assert_tk (temporary_buffer_equals ''</'' p) p
      in if is_alpha c then
          let p = gumbo_tokenizer_set_state GUMBO_LEX_SCRIPT_ESCAPED_END_TAG_NAME p;
              p = start_new_tag False p;
              p = append_char_to_temporary_buffer c p
          in (NEXT_CHAR, p)
        else
          let p = gumbo_tokenizer_set_state GUMBO_LEX_SCRIPT_ESCAPED p
          in flush_temporary_buffer p)"

definition handle_script_escaped_end_tag_name_state :: handler where
  "handle_script_escaped_end_tag_name_state p c =
     (let p = assert_tk (length (tk_temporary_buffer p) \<ge> 2) p
      in if is_alpha c then
           let p = append_char_to_tag_buffer (ensure_lowercase c) True p;
               p = append_char_to_temporary_buffer c p
           in (NEXT_CHAR, p)
         else
           let (appropriate, p) = is_appropriate_end_tag p
           in if appropriate \<and> (c = C_TAB \<or> c = C_LF \<or> c = C_FF \<or> c = C_SPACE) then
                let p = finish_tag_name p;
                    p = gumbo_tokenizer_set_state GUMBO_LEX_BEFORE_ATTR_NAME p
                in (NEXT_CHAR, p)
              else if appropriate \<and> c = C_SLASH then
                let p = finish_tag_name p;
                    p = gumbo_tokenizer_set_state GUMBO_LEX_SELF_CLOSING_START_TAG p
                in (NEXT_CHAR, p)
              else if appropriate \<and> c = C_GT then
                let p = finish_tag_name p;
                    p = gumbo_tokenizer_set_state GUMBO_LEX_DATA p
                in emit_current_tag p
              else
                let p = gumbo_tokenizer_set_state GUMBO_LEX_SCRIPT_ESCAPED p;
                    p = abandon_current_tag p
                in flush_temporary_buffer p)"

definition handle_script_double_escaped_start_state :: handler where
  "handle_script_double_escaped_start_state p c =
     (if c = C_TAB \<or> c = C_LF \<or> c = C_FF \<or> c = C_SPACE \<or> c = C_SLASH \<or> c = C_GT then
       let p = gumbo_tokenizer_set_state (if gumbo_string_equals kScriptTag (tk_script_data_buffer p)
           then GUMBO_LEX_SCRIPT_DOUBLE_ESCAPED else GUMBO_LEX_SCRIPT_ESCAPED) p
       in emit_current_char p
     else if is_alpha c then
       let p = append_char_to_script_data_buffer (ensure_lowercase c) p
       in emit_current_char p
     else
       let p = gumbo_tokenizer_set_state GUMBO_LEX_SCRIPT_ESCAPED p;
           p = reconsume True p
       in (NEXT_CHAR, p))"

definition handle_script_double_escaped_state :: handler where
  "handle_script_double_escaped_state p c =
     (if c = C_DASH then
       let p = gumbo_tokenizer_set_state GUMBO_LEX_SCRIPT_DOUBLE_ESCAPED_DASH p
       in emit_current_char p
     else if c = C_LT then
       let p = gumbo_tokenizer_set_state GUMBO_LEX_SCRIPT_DOUBLE_ESCAPED_LT p
       in emit_current_char p
     else if c = 0 then
       emit_replacement_char p
     else if c = C_EOF then
       let p = add_parse_error GUMBO_ERR_SCRIPT_EOF p;
           p = gumbo_tokenizer_set_state GUMBO_LEX_DATA p
       in (NEXT_CHAR, p)
     else
       emit_current_char p)"

definition handle_script_double_escaped_dash_state :: handler where
  "handle_script_double_escaped_dash_state p c =
     (if c = C_DASH then
       let p = gumbo_tokenizer_set_state GUMBO_LEX_SCRIPT_DOUBLE_ESCAPED_DASH_DASH p
       in emit_current_char p
     else if c = C_LT then
       let p = gumbo_tokenizer_set_state GUMBO_LEX_SCRIPT_DOUBLE_ESCAPED_LT p
       in emit_current_char p
     else if c = 0 then
       let p = gumbo_tokenizer_set_state GUMBO_LEX_SCRIPT_DOUBLE_ESCAPED p
       in emit_replacement_char p
     else if c = C_EOF then
       let p = add_parse_error GUMBO_ERR_SCRIPT_EOF p;
           p = gumbo_tokenizer_set_state GUMBO_LEX_DATA p
       in (NEXT_CHAR, p)
     else
       let p = gumbo_tokenizer_set_state GUMBO_LEX_SCRIPT_DOUBLE_ESCAPED p
       in emit_current_char p)"

definition handle_script_double_escaped_dash_dash_state :: handler where
  "handle_script_double_escaped_dash_dash_state p c =
     (if c = C_DASH then
       emit_current_char p
     else if c = C_LT then
       let p = gumbo_tokenizer_set_state GUMBO_LEX_SCRIPT_DOUBLE_ESCAPED_LT p
       in emit_current_char p
     else if c = C_GT then
       let p = gumbo_tokenizer_set_state GUMBO_LEX_SCRIPT p
       in emit_current_char p
     else if c = 0 then
       let p = gumbo_tokenizer_set_state GUMBO_LEX_SCRIPT_DOUBLE_ESCAPED p
       in emit_replacement_char p
     else if c = C_EOF then
       let p = add_parse_error GUMBO_ERR_SCRIPT_EOF p;
           p = gumbo_tokenizer_set_state GUMBO_LEX_DATA p
       in (NEXT_CHAR, p)
     else
       let p = gumbo_tokenizer_set_state GUMBO_LEX_SCRIPT_DOUBLE_ESCAPED p
       in emit_current_char p)"

definition handle_script_double_escaped_lt_state :: handler where
  "handle_script_double_escaped_lt_state p c =
     (if c = C_SLASH then
       let p = gumbo_tokenizer_set_state GUMBO_LEX_SCRIPT_DOUBLE_ESCAPED_END p;
           p = p\<lparr>tk_script_data_buffer := []\<rparr>
       in emit_current_char p
     else
       let p = gumbo_tokenizer_set_state GUMBO_LEX_SCRIPT_DOUBLE_ESCAPED p;
           p = reconsume True p
       in (NEXT_CHAR, p))"

definition handle_script_double_escaped_end_state :: handler where
  "handle_script_double_escaped_end_state p c =
     (if c = C_TAB \<or> c = C_LF \<or> c = C_FF \<or> c = C_SPACE \<or> c = C_SLASH \<or> c = C_GT then
       let p = gumbo_tokenizer_set_state (if gumbo_string_equals kScriptTag (tk_script_data_buffer p)
           then GUMBO_LEX_SCRIPT_ESCAPED else GUMBO_LEX_SCRIPT_DOUBLE_ESCAPED) p
       in emit_current_char p
     else if is_alpha c then
       let p = append_char_to_script_data_buffer (ensure_lowercase c) p
       in emit_current_char p
     else
       let p = gumbo_tokenizer_set_state GUMBO_LEX_SCRIPT_DOUBLE_ESCAPED p;
           p = reconsume True p
       in (NEXT_CHAR, p))"

section \<open>Attributes\<close>

definition handle_before_attr_name_state :: handler where
  "handle_before_attr_name_state p c =
     (if c = C_TAB \<or> c = C_LF \<or> c = C_FF \<or> c = C_SPACE then
       (NEXT_CHAR, p)
     else if c = C_SLASH then
       let p = gumbo_tokenizer_set_state GUMBO_LEX_SELF_CLOSING_START_TAG p
       in (NEXT_CHAR, p)
     else if c = C_GT then
       let p = gumbo_tokenizer_set_state GUMBO_LEX_DATA p
       in emit_current_tag p
     else if c = 0 then
       let p = add_parse_error GUMBO_ERR_UTF8_NULL p;
           p = gumbo_tokenizer_set_state GUMBO_LEX_ATTR_NAME p;
           p = append_char_to_temporary_buffer 0xFFFD p
       in (NEXT_CHAR, p)
     else if c = C_EOF then
       let p = add_parse_error GUMBO_ERR_ATTR_NAME_EOF p;
           p = gumbo_tokenizer_set_state GUMBO_LEX_DATA p;
           p = abandon_current_tag p
       in (NEXT_CHAR, p)
     else
       let p = (if c = C_QUOT \<or> c = C_APOS \<or> c = C_LT \<or> c = C_EQ then add_parse_error GUMBO_ERR_ATTR_NAME_INVALID p else p);
           p = gumbo_tokenizer_set_state GUMBO_LEX_ATTR_NAME p;
           p = append_char_to_tag_buffer (ensure_lowercase c) True p
       in (NEXT_CHAR, p))"

definition handle_attr_name_state :: handler where
  "handle_attr_name_state p c =
     (if c = C_TAB \<or> c = C_LF \<or> c = C_FF \<or> c = C_SPACE then
       let p = snd (finish_attribute_name p);
           p = gumbo_tokenizer_set_state GUMBO_LEX_AFTER_ATTR_NAME p
       in (NEXT_CHAR, p)
     else if c = C_SLASH then
       let p = snd (finish_attribute_name p);
           p = gumbo_tokenizer_set_state GUMBO_LEX_SELF_CLOSING_START_TAG p
       in (NEXT_CHAR, p)
     else if c = C_EQ then
       let p = snd (finish_attribute_name p);
           p = gumbo_tokenizer_set_state GUMBO_LEX_BEFORE_ATTR_VALUE p
       in (NEXT_CHAR, p)
     else if c = C_GT then
       let p = snd (finish_attribute_name p);
           p = gumbo_tokenizer_set_state GUMBO_LEX_DATA p
       in emit_current_tag p
     else if c = 0 then
       let p = add_parse_error GUMBO_ERR_UTF8_NULL p;
           p = append_char_to_tag_buffer kUtf8ReplacementChar True p
       in (NEXT_CHAR, p)
     else if c = C_EOF then
       let p = gumbo_tokenizer_set_state GUMBO_LEX_DATA p;
           p = abandon_current_tag p;
           p = add_parse_error GUMBO_ERR_ATTR_NAME_EOF p
       in (NEXT_CHAR, p)
     else
       let p = (if c = C_QUOT \<or> c = C_APOS \<or> c = C_LT then add_parse_error GUMBO_ERR_ATTR_NAME_INVALID p else p);
           p = append_char_to_tag_buffer (ensure_lowercase c) True p
       in (NEXT_CHAR, p))"

definition handle_after_attr_name_state :: handler where
  "handle_after_attr_name_state p c =
     (if c = C_TAB \<or> c = C_LF \<or> c = C_FF \<or> c = C_SPACE then
       (NEXT_CHAR, p)
     else if c = C_SLASH then
       let p = gumbo_tokenizer_set_state GUMBO_LEX_SELF_CLOSING_START_TAG p
       in (NEXT_CHAR, p)
     else if c = C_EQ then
       let p = gumbo_tokenizer_set_state GUMBO_LEX_BEFORE_ATTR_VALUE p
       in (NEXT_CHAR, p)
     else if c = C_GT then
       let p = gumbo_tokenizer_set_state GUMBO_LEX_DATA p
       in emit_current_tag p
     else if c = 0 then
       let p = add_parse_error GUMBO_ERR_UTF8_NULL p;
           p = gumbo_tokenizer_set_state GUMBO_LEX_ATTR_NAME p;
           p = append_char_to_temporary_buffer 0xFFFD p
       in (NEXT_CHAR, p)
     else if c = C_EOF then
       let p = add_parse_error GUMBO_ERR_ATTR_NAME_EOF p;
           p = gumbo_tokenizer_set_state GUMBO_LEX_DATA p;
           p = abandon_current_tag p
       in (NEXT_CHAR, p)
     else
       let p = (if c = C_QUOT \<or> c = C_APOS \<or> c = C_LT then add_parse_error GUMBO_ERR_ATTR_NAME_INVALID p else p);
           p = gumbo_tokenizer_set_state GUMBO_LEX_ATTR_NAME p;
           p = append_char_to_tag_buffer (ensure_lowercase c) True p
       in (NEXT_CHAR, p))"

definition handle_before_attr_value_state :: handler where
  "handle_before_attr_value_state p c =
     (if c = C_TAB \<or> c = C_LF \<or> c = C_FF \<or> c = C_SPACE then
       (NEXT_CHAR, p)
     else if c = C_QUOT then
       let p = gumbo_tokenizer_set_state GUMBO_LEX_ATTR_VALUE_DOUBLE_QUOTED p;
           p = reset_tag_buffer_start_point p
       in (NEXT_CHAR, p)
     else if c = C_AMP then
       let p = gumbo_tokenizer_set_state GUMBO_LEX_ATTR_VALUE_UNQUOTED p;
           p = reconsume True p
       in (NEXT_CHAR, p)
     else if c = C_APOS then
       let p = gumbo_tokenizer_set_state GUMBO_LEX_ATTR_VALUE_SINGLE_QUOTED p;
           p = reset_tag_buffer_start_point p
       in (NEXT_CHAR, p)
     else if c = 0 then
       let p = add_parse_error GUMBO_ERR_UTF8_NULL p;
           p = gumbo_tokenizer_set_state GUMBO_LEX_ATTR_VALUE_UNQUOTED p;
           p = append_char_to_tag_buffer kUtf8ReplacementChar True p
       in (NEXT_CHAR, p)
     else if c = C_EOF then
       let p = add_parse_error GUMBO_ERR_ATTR_UNQUOTED_EOF p;
           p = gumbo_tokenizer_set_state GUMBO_LEX_DATA p;
           p = abandon_current_tag p;
           p = reconsume True p
       in (NEXT_CHAR, p)
     else if c = C_GT then
       let p = add_parse_error GUMBO_ERR_ATTR_UNQUOTED_RIGHT_BRACKET p;
           p = gumbo_tokenizer_set_state GUMBO_LEX_DATA p;
           p = snd (emit_current_tag p)
       in (RETURN_ERROR, p)
     else
       let p = (if c = C_LT \<or> c = C_EQ \<or> c = C_GRAVE then add_parse_error GUMBO_ERR_ATTR_UNQUOTED_EQUALS p else p);
           p = gumbo_tokenizer_set_state GUMBO_LEX_ATTR_VALUE_UNQUOTED p;
           p = append_char_to_tag_buffer c True p
       in (NEXT_CHAR, p))"

definition handle_attr_value_double_quoted_state :: handler where
  "handle_attr_value_double_quoted_state p c =
     (if c = C_QUOT then
       let p = gumbo_tokenizer_set_state GUMBO_LEX_AFTER_ATTR_VALUE_QUOTED p
       in (NEXT_CHAR, p)
     else if c = C_AMP then
       let p = p\<lparr>tk_tag_state := (tk_tag_state p)\<lparr>tg_attr_value_state := tk_state p\<rparr>\<rparr>;
           p = gumbo_tokenizer_set_state GUMBO_LEX_CHAR_REF_IN_ATTR_VALUE p;
           p = reconsume True p
       in (NEXT_CHAR, p)
     else if c = 0 then
       let p = add_parse_error GUMBO_ERR_UTF8_NULL p;
           p = append_char_to_tag_buffer kUtf8ReplacementChar False p
       in (NEXT_CHAR, p)
     else if c = C_EOF then
       let p = add_parse_error GUMBO_ERR_ATTR_DOUBLE_QUOTE_EOF p;
           p = gumbo_tokenizer_set_state GUMBO_LEX_DATA p;
           p = abandon_current_tag p;
           p = reconsume True p
       in (NEXT_CHAR, p)
     else
       let p = append_char_to_tag_buffer c False p
       in (NEXT_CHAR, p))"

definition handle_attr_value_single_quoted_state :: handler where
  "handle_attr_value_single_quoted_state p c =
     (if c = C_APOS then
       let p = gumbo_tokenizer_set_state GUMBO_LEX_AFTER_ATTR_VALUE_QUOTED p
       in (NEXT_CHAR, p)
     else if c = C_AMP then
       let p = p\<lparr>tk_tag_state := (tk_tag_state p)\<lparr>tg_attr_value_state := tk_state p\<rparr>\<rparr>;
           p = gumbo_tokenizer_set_state GUMBO_LEX_CHAR_REF_IN_ATTR_VALUE p;
           p = reconsume True p
       in (NEXT_CHAR, p)
     else if c = 0 then
       let p = add_parse_error GUMBO_ERR_UTF8_NULL p;
           p = append_char_to_tag_buffer kUtf8ReplacementChar False p
       in (NEXT_CHAR, p)
     else if c = C_EOF then
       let p = add_parse_error GUMBO_ERR_ATTR_SINGLE_QUOTE_EOF p;
           p = gumbo_tokenizer_set_state GUMBO_LEX_DATA p;
           p = abandon_current_tag p;
           p = reconsume True p
       in (NEXT_CHAR, p)
     else
       let p = append_char_to_tag_buffer c False p
       in (NEXT_CHAR, p))"

definition handle_attr_value_unquoted_state :: handler where
  "handle_attr_value_unquoted_state p c =
     (if c = C_TAB \<or> c = C_LF \<or> c = C_FF \<or> c = C_SPACE then
       let p = gumbo_tokenizer_set_state GUMBO_LEX_BEFORE_ATTR_NAME p;
           p = finish_attribute_value p
       in (NEXT_CHAR, p)
     else if c = C_AMP then
       let p = p\<lparr>tk_tag_state := (tk_tag_state p)\<lparr>tg_attr_value_state := tk_state p\<rparr>\<rparr>;
           p = gumbo_tokenizer_set_state GUMBO_LEX_CHAR_REF_IN_ATTR_VALUE p;
           p = reconsume True p
       in (NEXT_CHAR, p)
     else if c = C_GT then
       let p = gumbo_tokenizer_set_state GUMBO_LEX_DATA p;
           p = finish_attribute_value p
       in emit_current_tag p
     else if c = 0 then
       let p = add_parse_error GUMBO_ERR_UTF8_NULL p;
           p = append_char_to_tag_buffer kUtf8ReplacementChar True p
       in (NEXT_CHAR, p)
     else if c = C_EOF then
       let p = add_parse_error GUMBO_ERR_ATTR_UNQUOTED_EOF p;
           p = gumbo_tokenizer_set_state GUMBO_LEX_DATA p;
           p = reconsume True p;
           p = abandon_current_tag p
       in (NEXT_CHAR, p)
     else
       let p = (if c = C_LT \<or> c = C_EQ \<or> c = C_QUOT \<or> c = C_APOS \<or> c = C_GRAVE then add_parse_error GUMBO_ERR_ATTR_UNQUOTED_EQUALS p else p);
           p = append_char_to_tag_buffer c True p
       in (NEXT_CHAR, p))"

definition handle_char_ref_in_attr_value_state :: handler where
  "handle_char_ref_in_attr_value_state p c =
     (let st = tg_attr_value_state (tk_tag_state p);
          p = assert_tk (st = GUMBO_LEX_ATTR_VALUE_DOUBLE_QUOTED \<or> st = GUMBO_LEX_ATTR_VALUE_SINGLE_QUOTED
                         \<or> st = GUMBO_LEX_ATTR_VALUE_UNQUOTED) p;
          allowed_char = (if st = GUMBO_LEX_ATTR_VALUE_DOUBLE_QUOTED then C_QUOT
                          else if st = GUMBO_LEX_ATTR_VALUE_SINGLE_QUOTED then C_APOS
                          else if st = GUMBO_LEX_ATTR_VALUE_UNQUOTED then C_GT else C_SPACE);
          is_unquoted = (st = GUMBO_LEX_ATTR_VALUE_UNQUOTED)
      in case consume_char_ref allowed_char True (tk_input p) of
           (status, (first, second), it) \<Rightarrow>
             let p = p\<lparr>tk_input := it\<rparr>;
                 p = (if first \<noteq> kGumboNoChar then
                        let p = reconsume True p;
                            p = append_char_to_tag_buffer first is_unquoted p
                        in if second \<noteq> kGumboNoChar then append_char_to_tag_buffer second is_unquoted p else p
                      else append_char_to_tag_buffer C_AMP is_unquoted p);
                 p = gumbo_tokenizer_set_state (tg_attr_value_state (tk_tag_state p)) p
             in (NEXT_CHAR, p))"

definition handle_after_attr_value_quoted_state :: handler where
  "handle_after_attr_value_quoted_state p c =
     (let p = finish_attribute_value p
      in if c = C_TAB \<or> c = C_LF \<or> c = C_FF \<or> c = C_SPACE then
          let p = gumbo_tokenizer_set_state GUMBO_LEX_BEFORE_ATTR_NAME p
          in (NEXT_CHAR, p)
        else if c = C_SLASH then
          let p = gumbo_tokenizer_set_state GUMBO_LEX_SELF_CLOSING_START_TAG p
          in (NEXT_CHAR, p)
        else if c = C_GT then
          let p = gumbo_tokenizer_set_state GUMBO_LEX_DATA p
          in emit_current_tag p
        else if c = C_EOF then
          let p = add_parse_error GUMBO_ERR_ATTR_AFTER_EOF p;
              p = gumbo_tokenizer_set_state GUMBO_LEX_DATA p;
              p = abandon_current_tag p;
              p = reconsume True p
          in (NEXT_CHAR, p)
        else
          let p = add_parse_error GUMBO_ERR_ATTR_AFTER_INVALID p;
              p = gumbo_tokenizer_set_state GUMBO_LEX_BEFORE_ATTR_NAME p;
              p = reconsume True p
          in (NEXT_CHAR, p))"

definition handle_self_closing_start_tag_state :: handler where
  "handle_self_closing_start_tag_state p c =
     (if c = C_GT then
       let p = gumbo_tokenizer_set_state GUMBO_LEX_DATA p;
           p = p\<lparr>tk_tag_state := (tk_tag_state p)\<lparr>tg_is_self_closing := True\<rparr>\<rparr>
       in emit_current_tag p
     else if c = C_EOF then
       let p = add_parse_error GUMBO_ERR_SOLIDUS_EOF p;
           p = gumbo_tokenizer_set_state GUMBO_LEX_DATA p;
           p = abandon_current_tag p
       in (NEXT_CHAR, p)
     else
       let p = add_parse_error GUMBO_ERR_SOLIDUS_INVALID p;
           p = gumbo_tokenizer_set_state GUMBO_LEX_BEFORE_ATTR_NAME p;
           p = reconsume True p
       in (NEXT_CHAR, p))"

section \<open>Comments\<close>

text \<open>The loop of the next handler; the fuel is the number of bytes left.\<close>

fun bogus_comment_loop :: "nat \<Rightarrow> tokenizer \<Rightarrow> int \<Rightarrow> tokenizer" where
  "bogus_comment_loop 0 p c = assert_tk (c = C_GT \<or> c = C_EOF) p"
| "bogus_comment_loop (Suc fuel) p c =
     (if c \<noteq> C_GT \<and> c \<noteq> C_EOF then
        let c = (if c = 0 then 0xFFFD else c);
            p = append_char_to_temporary_buffer c p;
            p = next_input p
        in bogus_comment_loop fuel p (ut_current (tk_input p))
      else p)"

definition handle_bogus_comment_state :: handler where
  "handle_bogus_comment_state p c =
     (let p = bogus_comment_loop (bytes_left (tk_input p)) p c;
          p = gumbo_tokenizer_set_state GUMBO_LEX_DATA p
      in emit_comment p)"

text \<open>\<^verbatim>\<open>utf8iterator_maybe_consume_match\<close> on the input of the tokenizer.\<close>

definition maybe_consume :: "string \<Rightarrow> bool \<Rightarrow> tokenizer \<Rightarrow> bool \<times> tokenizer" where
  "maybe_consume str case_sensitive p =
     (case utf8iterator_maybe_consume_match (bytes_of str) case_sensitive (tk_input p) of
        (m, it) \<Rightarrow> (m, p\<lparr>tk_input := it\<rparr>))"

definition handle_markup_declaration_state :: handler where
  "handle_markup_declaration_state p c =
     (let (dashes, p) = maybe_consume ''--'' True p
      in if dashes then
           let p = gumbo_tokenizer_set_state GUMBO_LEX_COMMENT_START p;
               p = reconsume True p
           in (NEXT_CHAR, p)
         else
           let (doctype, p) = maybe_consume ''DOCTYPE'' False p
           in if doctype then
                let p = gumbo_tokenizer_set_state GUMBO_LEX_DOCTYPE p;
                    p = reconsume True p;
                    p = p\<lparr>tk_doc_type_state := (tk_doc_type_state p)\<lparr>dt_name := Some [],
                          dt_public_identifier := Some [], dt_system_identifier := Some []\<rparr>\<rparr>
                in (NEXT_CHAR, p)
              else
                let (cdata, p) = (if tk_is_current_node_foreign p then maybe_consume ''[CDATA['' True p else (False, p))
                in if cdata then
                     let p = gumbo_tokenizer_set_state GUMBO_LEX_CDATA p;
                         p = reconsume True p
                     in (NEXT_CHAR, p)
                   else
                     let p = add_parse_error GUMBO_ERR_DASHES_OR_DOCTYPE p;
                         p = gumbo_tokenizer_set_state GUMBO_LEX_BOGUS_COMMENT p;
                         p = reconsume True p;
                         p = clear_temporary_buffer p
                     in (NEXT_CHAR, p))"

definition handle_comment_start_state :: handler where
  "handle_comment_start_state p c =
     (if c = C_DASH then
       let p = gumbo_tokenizer_set_state GUMBO_LEX_COMMENT_START_DASH p
       in (NEXT_CHAR, p)
     else if c = 0 then
       let p = add_parse_error GUMBO_ERR_UTF8_NULL p;
           p = gumbo_tokenizer_set_state GUMBO_LEX_COMMENT p;
           p = append_char_to_temporary_buffer kUtf8ReplacementChar p
       in (NEXT_CHAR, p)
     else if c = C_GT then
       let p = add_parse_error GUMBO_ERR_COMMENT_INVALID p;
           p = gumbo_tokenizer_set_state GUMBO_LEX_DATA p;
           p = snd (emit_comment p)
       in (RETURN_ERROR, p)
     else if c = C_EOF then
       let p = add_parse_error GUMBO_ERR_COMMENT_EOF p;
           p = gumbo_tokenizer_set_state GUMBO_LEX_DATA p;
           p = snd (emit_comment p)
       in (RETURN_ERROR, p)
     else
       let p = gumbo_tokenizer_set_state GUMBO_LEX_COMMENT p;
           p = append_char_to_temporary_buffer c p
       in (NEXT_CHAR, p))"

definition handle_comment_start_dash_state :: handler where
  "handle_comment_start_dash_state p c =
     (if c = C_DASH then
       let p = gumbo_tokenizer_set_state GUMBO_LEX_COMMENT_END p
       in (NEXT_CHAR, p)
     else if c = 0 then
       let p = add_parse_error GUMBO_ERR_UTF8_NULL p;
           p = gumbo_tokenizer_set_state GUMBO_LEX_COMMENT p;
           p = append_char_to_temporary_buffer C_DASH p;
           p = append_char_to_temporary_buffer kUtf8ReplacementChar p
       in (NEXT_CHAR, p)
     else if c = C_GT then
       let p = add_parse_error GUMBO_ERR_COMMENT_INVALID p;
           p = gumbo_tokenizer_set_state GUMBO_LEX_DATA p;
           p = snd (emit_comment p)
       in (RETURN_ERROR, p)
     else if c = C_EOF then
       let p = add_parse_error GUMBO_ERR_COMMENT_EOF p;
           p = gumbo_tokenizer_set_state GUMBO_LEX_DATA p;
           p = snd (emit_comment p)
       in (RETURN_ERROR, p)
     else
       let p = gumbo_tokenizer_set_state GUMBO_LEX_COMMENT p;
           p = append_char_to_temporary_buffer C_DASH p;
           p = append_char_to_temporary_buffer c p
       in (NEXT_CHAR, p))"

definition handle_comment_state :: handler where
  "handle_comment_state p c =
     (if c = C_DASH then
       let p = gumbo_tokenizer_set_state GUMBO_LEX_COMMENT_END_DASH p
       in (NEXT_CHAR, p)
     else if c = 0 then
       let p = add_parse_error GUMBO_ERR_UTF8_NULL p;
           p = append_char_to_temporary_buffer kUtf8ReplacementChar p
       in (NEXT_CHAR, p)
     else if c = C_EOF then
       let p = add_parse_error GUMBO_ERR_COMMENT_EOF p;
           p = gumbo_tokenizer_set_state GUMBO_LEX_DATA p;
           p = snd (emit_comment p)
       in (RETURN_ERROR, p)
     else
       let p = append_char_to_temporary_buffer c p
       in (NEXT_CHAR, p))"

definition handle_comment_end_dash_state :: handler where
  "handle_comment_end_dash_state p c =
     (if c = C_DASH then
       let p = gumbo_tokenizer_set_state GUMBO_LEX_COMMENT_END p
       in (NEXT_CHAR, p)
     else if c = 0 then
       let p = add_parse_error GUMBO_ERR_UTF8_NULL p;
           p = gumbo_tokenizer_set_state GUMBO_LEX_COMMENT p;
           p = append_char_to_temporary_buffer C_DASH p;
           p = append_char_to_temporary_buffer kUtf8ReplacementChar p
       in (NEXT_CHAR, p)
     else if c = C_EOF then
       let p = add_parse_error GUMBO_ERR_COMMENT_EOF p;
           p = gumbo_tokenizer_set_state GUMBO_LEX_DATA p;
           p = snd (emit_comment p)
       in (RETURN_ERROR, p)
     else
       let p = gumbo_tokenizer_set_state GUMBO_LEX_COMMENT p;
           p = append_char_to_temporary_buffer C_DASH p;
           p = append_char_to_temporary_buffer c p
       in (NEXT_CHAR, p))"

definition handle_comment_end_state :: handler where
  "handle_comment_end_state p c =
     (if c = C_GT then
       let p = gumbo_tokenizer_set_state GUMBO_LEX_DATA p
       in emit_comment p
     else if c = 0 then
       let p = add_parse_error GUMBO_ERR_UTF8_NULL p;
           p = gumbo_tokenizer_set_state GUMBO_LEX_COMMENT p;
           p = append_char_to_temporary_buffer C_DASH p;
           p = append_char_to_temporary_buffer C_DASH p;
           p = append_char_to_temporary_buffer kUtf8ReplacementChar p
       in (NEXT_CHAR, p)
     else if c = C_BANG then
       let p = add_parse_error GUMBO_ERR_COMMENT_BANG_AFTER_DOUBLE_DASH p;
           p = gumbo_tokenizer_set_state GUMBO_LEX_COMMENT_END_BANG p
       in (NEXT_CHAR, p)
     else if c = C_DASH then
       let p = add_parse_error GUMBO_ERR_COMMENT_DASH_AFTER_DOUBLE_DASH p;
           p = append_char_to_temporary_buffer C_DASH p
       in (NEXT_CHAR, p)
     else if c = C_EOF then
       let p = add_parse_error GUMBO_ERR_UTF8_NULL p;
           p = gumbo_tokenizer_set_state GUMBO_LEX_DATA p;
           p = snd (emit_comment p)
       in (RETURN_ERROR, p)
     else
       let p = add_parse_error GUMBO_ERR_COMMENT_INVALID p;
           p = gumbo_tokenizer_set_state GUMBO_LEX_COMMENT p;
           p = append_char_to_temporary_buffer C_DASH p;
           p = append_char_to_temporary_buffer C_DASH p;
           p = append_char_to_temporary_buffer c p
       in (NEXT_CHAR, p))"

definition handle_comment_end_bang_state :: handler where
  "handle_comment_end_bang_state p c =
     (if c = C_DASH then
       let p = gumbo_tokenizer_set_state GUMBO_LEX_COMMENT_END_DASH p;
           p = append_char_to_temporary_buffer C_DASH p;
           p = append_char_to_temporary_buffer C_DASH p;
           p = append_char_to_temporary_buffer C_BANG p
       in (NEXT_CHAR, p)
     else if c = C_GT then
       let p = gumbo_tokenizer_set_state GUMBO_LEX_DATA p
       in emit_comment p
     else if c = 0 then
       let p = add_parse_error GUMBO_ERR_UTF8_NULL p;
           p = gumbo_tokenizer_set_state GUMBO_LEX_COMMENT p;
           p = append_char_to_temporary_buffer C_DASH p;
           p = append_char_to_temporary_buffer C_DASH p;
           p = append_char_to_temporary_buffer C_BANG p;
           p = append_char_to_temporary_buffer kUtf8ReplacementChar p
       in (NEXT_CHAR, p)
     else if c = C_EOF then
       let p = add_parse_error GUMBO_ERR_COMMENT_END_BANG_EOF p;
           p = gumbo_tokenizer_set_state GUMBO_LEX_DATA p;
           p = snd (emit_comment p)
       in (RETURN_ERROR, p)
     else
       let p = gumbo_tokenizer_set_state GUMBO_LEX_COMMENT p;
           p = append_char_to_temporary_buffer C_DASH p;
           p = append_char_to_temporary_buffer C_DASH p;
           p = append_char_to_temporary_buffer C_BANG p;
           p = append_char_to_temporary_buffer c p
       in (NEXT_CHAR, p))"

section \<open>Doctypes\<close>

definition handle_doctype_state :: handler where
  "handle_doctype_state p c =
     (let p = assert_tk (tk_temporary_buffer p = []) p
      in if c = C_TAB \<or> c = C_LF \<or> c = C_FF \<or> c = C_SPACE then
          let p = gumbo_tokenizer_set_state GUMBO_LEX_BEFORE_DOCTYPE_NAME p
          in (NEXT_CHAR, p)
        else if c = C_EOF then
          let p = add_parse_error GUMBO_ERR_DOCTYPE_EOF p;
              p = gumbo_tokenizer_set_state GUMBO_LEX_DATA p;
              p = set_force_quirks True p;
              p = emit_doctype p
          in (RETURN_ERROR, p)
        else
          let p = add_parse_error GUMBO_ERR_DOCTYPE_SPACE p;
              p = gumbo_tokenizer_set_state GUMBO_LEX_BEFORE_DOCTYPE_NAME p;
              p = reconsume True p;
              p = set_force_quirks True p
          in (NEXT_CHAR, p))"

definition handle_before_doctype_name_state :: handler where
  "handle_before_doctype_name_state p c =
     (if c = C_TAB \<or> c = C_LF \<or> c = C_FF \<or> c = C_SPACE then
       (NEXT_CHAR, p)
     else if c = 0 then
       let p = add_parse_error GUMBO_ERR_UTF8_NULL p;
           p = gumbo_tokenizer_set_state GUMBO_LEX_DOCTYPE_NAME p;
           p = set_force_quirks True p;
           p = append_char_to_temporary_buffer kUtf8ReplacementChar p
       in (NEXT_CHAR, p)
     else if c = C_GT then
       let p = add_parse_error GUMBO_ERR_DOCTYPE_RIGHT_BRACKET p;
           p = gumbo_tokenizer_set_state GUMBO_LEX_DATA p;
           p = set_force_quirks True p;
           p = emit_doctype p
       in (RETURN_ERROR, p)
     else if c = C_EOF then
       let p = add_parse_error GUMBO_ERR_DOCTYPE_EOF p;
           p = gumbo_tokenizer_set_state GUMBO_LEX_DATA p;
           p = set_force_quirks True p;
           p = emit_doctype p
       in (RETURN_ERROR, p)
     else
       let p = gumbo_tokenizer_set_state GUMBO_LEX_DOCTYPE_NAME p;
           p = set_force_quirks False p;
           p = append_char_to_temporary_buffer (ensure_lowercase c) p
       in (NEXT_CHAR, p))"

definition handle_doctype_name_state :: handler where
  "handle_doctype_name_state p c =
     (if c = C_TAB \<or> c = C_LF \<or> c = C_FF \<or> c = C_SPACE then
       let p = gumbo_tokenizer_set_state GUMBO_LEX_AFTER_DOCTYPE_NAME p;
           p = finish_doctype_name p
       in (NEXT_CHAR, p)
     else if c = C_GT then
       let p = gumbo_tokenizer_set_state GUMBO_LEX_DATA p;
           p = finish_doctype_name p;
           p = emit_doctype p
       in (RETURN_SUCCESS, p)
     else if c = 0 then
       let p = add_parse_error GUMBO_ERR_UTF8_NULL p;
           p = append_char_to_temporary_buffer kUtf8ReplacementChar p
       in (NEXT_CHAR, p)
     else if c = C_EOF then
       let p = add_parse_error GUMBO_ERR_DOCTYPE_EOF p;
           p = gumbo_tokenizer_set_state GUMBO_LEX_DATA p;
           p = set_force_quirks True p;
           p = finish_doctype_name p;
           p = emit_doctype p
       in (RETURN_ERROR, p)
     else
       let p = gumbo_tokenizer_set_state GUMBO_LEX_DOCTYPE_NAME p;
           p = set_force_quirks False p;
           p = append_char_to_temporary_buffer (ensure_lowercase c) p
       in (NEXT_CHAR, p))"

definition handle_after_doctype_name_state :: handler where
  "handle_after_doctype_name_state p c =
     (if c = C_TAB \<or> c = C_LF \<or> c = C_FF \<or> c = C_SPACE then
       (NEXT_CHAR, p)
     else if c = C_GT then
       let p = gumbo_tokenizer_set_state GUMBO_LEX_DATA p;
           p = emit_doctype p
       in (RETURN_SUCCESS, p)
     else if c = C_EOF then
       let p = add_parse_error GUMBO_ERR_DOCTYPE_EOF p;
           p = gumbo_tokenizer_set_state GUMBO_LEX_DATA p;
           p = set_force_quirks True p;
           p = emit_doctype p
       in (RETURN_ERROR, p)
     else
       let (public, p) = maybe_consume ''PUBLIC'' False p
       in if public then
            let p = gumbo_tokenizer_set_state GUMBO_LEX_AFTER_DOCTYPE_PUBLIC_KEYWORD p;
                p = reconsume True p
            in (NEXT_CHAR, p)
          else
            let (system, p) = maybe_consume ''SYSTEM'' False p
            in if system then
                 let p = gumbo_tokenizer_set_state GUMBO_LEX_AFTER_DOCTYPE_SYSTEM_KEYWORD p;
                     p = reconsume True p
                 in (NEXT_CHAR, p)
               else
                 let p = add_parse_error GUMBO_ERR_DOCTYPE_SPACE_OR_RIGHT_BRACKET p;
                     p = gumbo_tokenizer_set_state GUMBO_LEX_BOGUS_DOCTYPE p;
                     p = set_force_quirks True p
                 in (NEXT_CHAR, p))"

definition handle_after_doctype_public_keyword_state :: handler where
  "handle_after_doctype_public_keyword_state p c =
     (if c = C_TAB \<or> c = C_LF \<or> c = C_FF \<or> c = C_SPACE then
       let p = gumbo_tokenizer_set_state GUMBO_LEX_BEFORE_DOCTYPE_PUBLIC_ID p
       in (NEXT_CHAR, p)
     else if c = C_QUOT then
       let p = add_parse_error GUMBO_ERR_DOCTYPE_INVALID p;
           p = assert_tk (temporary_buffer_equals '''' p) p;
           p = gumbo_tokenizer_set_state GUMBO_LEX_DOCTYPE_PUBLIC_ID_DOUBLE_QUOTED p
       in (NEXT_CHAR, p)
     else if c = C_APOS then
       let p = add_parse_error GUMBO_ERR_DOCTYPE_INVALID p;
           p = assert_tk (temporary_buffer_equals '''' p) p;
           p = gumbo_tokenizer_set_state GUMBO_LEX_DOCTYPE_PUBLIC_ID_SINGLE_QUOTED p
       in (NEXT_CHAR, p)
     else if c = C_GT then
       let p = add_parse_error GUMBO_ERR_DOCTYPE_RIGHT_BRACKET p;
           p = gumbo_tokenizer_set_state GUMBO_LEX_DATA p;
           p = set_force_quirks True p;
           p = emit_doctype p
       in (RETURN_ERROR, p)
     else if c = C_EOF then
       let p = add_parse_error GUMBO_ERR_DOCTYPE_EOF p;
           p = gumbo_tokenizer_set_state GUMBO_LEX_DATA p;
           p = set_force_quirks True p;
           p = emit_doctype p
       in (RETURN_ERROR, p)
     else
       let p = add_parse_error GUMBO_ERR_DOCTYPE_INVALID p;
           p = gumbo_tokenizer_set_state GUMBO_LEX_BOGUS_DOCTYPE p;
           p = set_force_quirks True p;
           p = emit_doctype p
       in (RETURN_ERROR, p))"

definition handle_before_doctype_public_id_state :: handler where
  "handle_before_doctype_public_id_state p c =
     (if c = C_TAB \<or> c = C_LF \<or> c = C_FF \<or> c = C_SPACE then
       (NEXT_CHAR, p)
     else if c = C_QUOT then
       let p = assert_tk (temporary_buffer_equals '''' p) p;
           p = gumbo_tokenizer_set_state GUMBO_LEX_DOCTYPE_PUBLIC_ID_DOUBLE_QUOTED p
       in (NEXT_CHAR, p)
     else if c = C_APOS then
       let p = assert_tk (temporary_buffer_equals '''' p) p;
           p = gumbo_tokenizer_set_state GUMBO_LEX_DOCTYPE_PUBLIC_ID_SINGLE_QUOTED p
       in (NEXT_CHAR, p)
     else if c = C_GT then
       let p = add_parse_error GUMBO_ERR_DOCTYPE_END p;
           p = gumbo_tokenizer_set_state GUMBO_LEX_DATA p;
           p = set_force_quirks True p;
           p = emit_doctype p
       in (RETURN_ERROR, p)
     else if c = C_EOF then
       let p = add_parse_error GUMBO_ERR_DOCTYPE_EOF p;
           p = gumbo_tokenizer_set_state GUMBO_LEX_DATA p;
           p = set_force_quirks True p;
           p = emit_doctype p
       in (RETURN_ERROR, p)
     else
       let p = add_parse_error GUMBO_ERR_DOCTYPE_INVALID p;
           p = gumbo_tokenizer_set_state GUMBO_LEX_BOGUS_DOCTYPE p;
           p = set_force_quirks True p;
           p = emit_doctype p
       in (RETURN_ERROR, p))"

definition handle_doctype_public_id_double_quoted_state :: handler where
  "handle_doctype_public_id_double_quoted_state p c =
     (if c = C_QUOT then
       let p = gumbo_tokenizer_set_state GUMBO_LEX_AFTER_DOCTYPE_PUBLIC_ID p;
           p = finish_doctype_public_id p
       in (NEXT_CHAR, p)
     else if c = 0 then
       let p = add_parse_error GUMBO_ERR_UTF8_NULL p;
           p = append_char_to_temporary_buffer kUtf8ReplacementChar p
       in (NEXT_CHAR, p)
     else if c = C_GT then
       let p = add_parse_error GUMBO_ERR_DOCTYPE_END p;
           p = gumbo_tokenizer_set_state GUMBO_LEX_DATA p;
           p = set_force_quirks True p;
           p = finish_doctype_public_id p;
           p = emit_doctype p
       in (RETURN_ERROR, p)
     else if c = C_EOF then
       let p = add_parse_error GUMBO_ERR_DOCTYPE_EOF p;
           p = gumbo_tokenizer_set_state GUMBO_LEX_DATA p;
           p = set_force_quirks True p;
           p = finish_doctype_public_id p;
           p = emit_doctype p
       in (RETURN_ERROR, p)
     else
       let p = append_char_to_temporary_buffer c p
       in (NEXT_CHAR, p))"

definition handle_doctype_public_id_single_quoted_state :: handler where
  "handle_doctype_public_id_single_quoted_state p c =
     (if c = C_APOS then
       let p = gumbo_tokenizer_set_state GUMBO_LEX_AFTER_DOCTYPE_PUBLIC_ID p;
           p = finish_doctype_public_id p
       in (NEXT_CHAR, p)
     else if c = 0 then
       let p = add_parse_error GUMBO_ERR_UTF8_NULL p;
           p = append_char_to_temporary_buffer kUtf8ReplacementChar p
       in (NEXT_CHAR, p)
     else if c = C_GT then
       let p = add_parse_error GUMBO_ERR_DOCTYPE_END p;
           p = gumbo_tokenizer_set_state GUMBO_LEX_DATA p;
           p = set_force_quirks True p;
           p = finish_doctype_public_id p;
           p = emit_doctype p
       in (RETURN_ERROR, p)
     else if c = C_EOF then
       let p = add_parse_error GUMBO_ERR_DOCTYPE_EOF p;
           p = gumbo_tokenizer_set_state GUMBO_LEX_DATA p;
           p = set_force_quirks True p;
           p = finish_doctype_public_id p;
           p = emit_doctype p
       in (RETURN_ERROR, p)
     else
       let p = append_char_to_temporary_buffer c p
       in (NEXT_CHAR, p))"

definition handle_after_doctype_public_id_state :: handler where
  "handle_after_doctype_public_id_state p c =
     (if c = C_TAB \<or> c = C_LF \<or> c = C_FF \<or> c = C_SPACE then
       let p = gumbo_tokenizer_set_state GUMBO_LEX_BETWEEN_DOCTYPE_PUBLIC_SYSTEM_ID p
       in (NEXT_CHAR, p)
     else if c = C_GT then
       let p = gumbo_tokenizer_set_state GUMBO_LEX_DATA p;
           p = emit_doctype p
       in (RETURN_SUCCESS, p)
     else if c = C_QUOT then
       let p = add_parse_error GUMBO_ERR_DOCTYPE_INVALID p;
           p = assert_tk (temporary_buffer_equals '''' p) p;
           p = gumbo_tokenizer_set_state GUMBO_LEX_DOCTYPE_SYSTEM_ID_DOUBLE_QUOTED p
       in (NEXT_CHAR, p)
     else if c = C_APOS then
       let p = add_parse_error GUMBO_ERR_DOCTYPE_INVALID p;
           p = assert_tk (temporary_buffer_equals '''' p) p;
           p = gumbo_tokenizer_set_state GUMBO_LEX_DOCTYPE_SYSTEM_ID_SINGLE_QUOTED p
       in (NEXT_CHAR, p)
     else if c = C_EOF then
       let p = add_parse_error GUMBO_ERR_DOCTYPE_EOF p;
           p = gumbo_tokenizer_set_state GUMBO_LEX_DATA p;
           p = reconsume True p;
           p = set_force_quirks True p
       in (NEXT_CHAR, p)
     else
       let p = add_parse_error GUMBO_ERR_DOCTYPE_INVALID p;
           p = gumbo_tokenizer_set_state GUMBO_LEX_BOGUS_DOCTYPE p;
           p = set_force_quirks True p
       in (NEXT_CHAR, p))"

definition handle_between_doctype_public_system_id_state :: handler where
  "handle_between_doctype_public_system_id_state p c =
     (if c = C_TAB \<or> c = C_LF \<or> c = C_FF \<or> c = C_SPACE then
       (NEXT_CHAR, p)
     else if c = C_GT then
       let p = gumbo_tokenizer_set_state GUMBO_LEX_DATA p;
           p = emit_doctype p
       in (RETURN_SUCCESS, p)
     else if c = C_QUOT then
       let p = assert_tk (temporary_buffer_equals '''' p) p;
           p = gumbo_tokenizer_set_state GUMBO_LEX_DOCTYPE_SYSTEM_ID_DOUBLE_QUOTED p
       in (NEXT_CHAR, p)
     else if c = C_APOS then
       let p = assert_tk (temporary_buffer_equals '''' p) p;
           p = gumbo_tokenizer_set_state GUMBO_LEX_DOCTYPE_SYSTEM_ID_SINGLE_QUOTED p
       in (NEXT_CHAR, p)
     else if c = C_EOF then
       let p = add_parse_error GUMBO_ERR_DOCTYPE_EOF p;
           p = gumbo_tokenizer_set_state GUMBO_LEX_DATA p;
           p = set_force_quirks True p;
           p = emit_doctype p
       in (RETURN_ERROR, p)
     else
       let p = add_parse_error GUMBO_ERR_DOCTYPE_INVALID p;
           p = gumbo_tokenizer_set_state GUMBO_LEX_BOGUS_DOCTYPE p;
           p = set_force_quirks True p;
           p = emit_doctype p
       in (RETURN_ERROR, p))"

definition handle_after_doctype_system_keyword_state :: handler where
  "handle_after_doctype_system_keyword_state p c =
     (if c = C_TAB \<or> c = C_LF \<or> c = C_FF \<or> c = C_SPACE then
       let p = gumbo_tokenizer_set_state GUMBO_LEX_BEFORE_DOCTYPE_SYSTEM_ID p
       in (NEXT_CHAR, p)
     else if c = C_QUOT then
       let p = add_parse_error GUMBO_ERR_DOCTYPE_INVALID p;
           p = assert_tk (temporary_buffer_equals '''' p) p;
           p = gumbo_tokenizer_set_state GUMBO_LEX_DOCTYPE_SYSTEM_ID_DOUBLE_QUOTED p
       in (NEXT_CHAR, p)
     else if c = C_APOS then
       let p = add_parse_error GUMBO_ERR_DOCTYPE_INVALID p;
           p = assert_tk (temporary_buffer_equals '''' p) p;
           p = gumbo_tokenizer_set_state GUMBO_LEX_DOCTYPE_SYSTEM_ID_SINGLE_QUOTED p
       in (NEXT_CHAR, p)
     else if c = C_GT then
       let p = add_parse_error GUMBO_ERR_DOCTYPE_END p;
           p = gumbo_tokenizer_set_state GUMBO_LEX_DATA p;
           p = set_force_quirks True p;
           p = emit_doctype p
       in (RETURN_ERROR, p)
     else if c = C_EOF then
       let p = add_parse_error GUMBO_ERR_DOCTYPE_EOF p;
           p = gumbo_tokenizer_set_state GUMBO_LEX_DATA p;
           p = set_force_quirks True p;
           p = emit_doctype p
       in (RETURN_ERROR, p)
     else
       let p = add_parse_error GUMBO_ERR_DOCTYPE_INVALID p;
           p = gumbo_tokenizer_set_state GUMBO_LEX_BOGUS_DOCTYPE p;
           p = set_force_quirks True p
       in (NEXT_CHAR, p))"

definition handle_before_doctype_system_id_state :: handler where
  "handle_before_doctype_system_id_state p c =
     (if c = C_TAB \<or> c = C_LF \<or> c = C_FF \<or> c = C_SPACE then
       (NEXT_CHAR, p)
     else if c = C_QUOT then
       let p = assert_tk (temporary_buffer_equals '''' p) p;
           p = gumbo_tokenizer_set_state GUMBO_LEX_DOCTYPE_SYSTEM_ID_DOUBLE_QUOTED p
       in (NEXT_CHAR, p)
     else if c = C_APOS then
       let p = assert_tk (temporary_buffer_equals '''' p) p;
           p = gumbo_tokenizer_set_state GUMBO_LEX_DOCTYPE_SYSTEM_ID_SINGLE_QUOTED p
       in (NEXT_CHAR, p)
     else if c = C_GT then
       let p = add_parse_error GUMBO_ERR_DOCTYPE_END p;
           p = gumbo_tokenizer_set_state GUMBO_LEX_DATA p;
           p = set_force_quirks True p;
           p = emit_doctype p
       in (RETURN_ERROR, p)
     else if c = C_EOF then
       let p = add_parse_error GUMBO_ERR_DOCTYPE_EOF p;
           p = gumbo_tokenizer_set_state GUMBO_LEX_DATA p;
           p = set_force_quirks True p;
           p = emit_doctype p
       in (RETURN_ERROR, p)
     else
       let p = add_parse_error GUMBO_ERR_DOCTYPE_INVALID p;
           p = gumbo_tokenizer_set_state GUMBO_LEX_BOGUS_DOCTYPE p;
           p = set_force_quirks True p
       in (NEXT_CHAR, p))"

definition handle_doctype_system_id_double_quoted_state :: handler where
  "handle_doctype_system_id_double_quoted_state p c =
     (if c = C_QUOT then
       let p = gumbo_tokenizer_set_state GUMBO_LEX_AFTER_DOCTYPE_SYSTEM_ID p;
           p = finish_doctype_system_id p
       in (NEXT_CHAR, p)
     else if c = 0 then
       let p = add_parse_error GUMBO_ERR_UTF8_NULL p;
           p = append_char_to_temporary_buffer kUtf8ReplacementChar p
       in (NEXT_CHAR, p)
     else if c = C_GT then
       let p = add_parse_error GUMBO_ERR_DOCTYPE_END p;
           p = gumbo_tokenizer_set_state GUMBO_LEX_DATA p;
           p = set_force_quirks True p;
           p = finish_doctype_system_id p;
           p = emit_doctype p
       in (RETURN_ERROR, p)
     else if c = C_EOF then
       let p = add_parse_error GUMBO_ERR_DOCTYPE_EOF p;
           p = gumbo_tokenizer_set_state GUMBO_LEX_DATA p;
           p = set_force_quirks True p;
           p = finish_doctype_system_id p;
           p = emit_doctype p
       in (RETURN_ERROR, p)
     else
       let p = append_char_to_temporary_buffer c p
       in (NEXT_CHAR, p))"

definition handle_doctype_system_id_single_quoted_state :: handler where
  "handle_doctype_system_id_single_quoted_state p c =
     (if c = C_APOS then
       let p = gumbo_tokenizer_set_state GUMBO_LEX_AFTER_DOCTYPE_SYSTEM_ID p;
           p = finish_doctype_system_id p
       in (NEXT_CHAR, p)
     else if c = 0 then
       let p = add_parse_error GUMBO_ERR_UTF8_NULL p;
           p = append_char_to_temporary_buffer kUtf8ReplacementChar p
       in (NEXT_CHAR, p)
     else if c = C_GT then
       let p = add_parse_error GUMBO_ERR_DOCTYPE_END p;
           p = gumbo_tokenizer_set_state GUMBO_LEX_DATA p;
           p = set_force_quirks True p;
           p = finish_doctype_system_id p;
           p = emit_doctype p
       in (RETURN_ERROR, p)
     else if c = C_EOF then
       let p = add_parse_error GUMBO_ERR_DOCTYPE_INVALID p;
           p = gumbo_tokenizer_set_state GUMBO_LEX_DATA p;
           p = set_force_quirks True p;
           p = finish_doctype_system_id p;
           p = emit_doctype p
       in (RETURN_ERROR, p)
     else
       let p = append_char_to_temporary_buffer c p
       in (NEXT_CHAR, p))"

definition handle_after_doctype_system_id_state :: handler where
  "handle_after_doctype_system_id_state p c =
     (if c = C_TAB \<or> c = C_LF \<or> c = C_FF \<or> c = C_SPACE then
       (NEXT_CHAR, p)
     else if c = C_GT then
       let p = gumbo_tokenizer_set_state GUMBO_LEX_DATA p;
           p = emit_doctype p
       in (RETURN_SUCCESS, p)
     else if c = C_EOF then
       let p = add_parse_error GUMBO_ERR_DOCTYPE_EOF p;
           p = gumbo_tokenizer_set_state GUMBO_LEX_DATA p;
           p = set_force_quirks True p;
           p = emit_doctype p
       in (RETURN_ERROR, p)
     else
       let p = add_parse_error GUMBO_ERR_DOCTYPE_INVALID p;
           p = gumbo_tokenizer_set_state GUMBO_LEX_BOGUS_DOCTYPE p
       in (NEXT_CHAR, p))"

definition handle_bogus_doctype_state :: handler where
  "handle_bogus_doctype_state p c =
     (if c = C_GT \<or> c = C_EOF then
       let p = gumbo_tokenizer_set_state GUMBO_LEX_DATA p;
           p = emit_doctype p
       in (RETURN_ERROR, p)
     else
       (NEXT_CHAR, p))"

section \<open>CDATA sections\<close>

definition handle_cdata_state :: handler where
  "handle_cdata_state p c =
     (let (finished, p) = (if c = C_EOF then (True, p) else maybe_consume '']]>'' True p)
      in if finished then
           let p = reconsume True p;
               p = reset_token_start_point p;
               p = gumbo_tokenizer_set_state GUMBO_LEX_DATA p
           in (NEXT_CHAR, p)
         else emit_current_char p)"

section \<open>The dispatch table and the loop\<close>

fun dispatch_table :: "lexer_state \<Rightarrow> handler" where
  "dispatch_table GUMBO_LEX_DATA = handle_data_state"
| "dispatch_table GUMBO_LEX_CHAR_REF_IN_DATA = handle_char_ref_in_data_state"
| "dispatch_table GUMBO_LEX_RCDATA = handle_rcdata_state"
| "dispatch_table GUMBO_LEX_CHAR_REF_IN_RCDATA = handle_char_ref_in_rcdata_state"
| "dispatch_table GUMBO_LEX_RAWTEXT = handle_rawtext_state"
| "dispatch_table GUMBO_LEX_SCRIPT = handle_script_state"
| "dispatch_table GUMBO_LEX_PLAINTEXT = handle_plaintext_state"
| "dispatch_table GUMBO_LEX_TAG_OPEN = handle_tag_open_state"
| "dispatch_table GUMBO_LEX_END_TAG_OPEN = handle_end_tag_open_state"
| "dispatch_table GUMBO_LEX_TAG_NAME = handle_tag_name_state"
| "dispatch_table GUMBO_LEX_RCDATA_LT = handle_rcdata_lt_state"
| "dispatch_table GUMBO_LEX_RCDATA_END_TAG_OPEN = handle_rcdata_end_tag_open_state"
| "dispatch_table GUMBO_LEX_RCDATA_END_TAG_NAME = handle_rcdata_end_tag_name_state"
| "dispatch_table GUMBO_LEX_RAWTEXT_LT = handle_rawtext_lt_state"
| "dispatch_table GUMBO_LEX_RAWTEXT_END_TAG_OPEN = handle_rawtext_end_tag_open_state"
| "dispatch_table GUMBO_LEX_RAWTEXT_END_TAG_NAME = handle_rawtext_end_tag_name_state"
| "dispatch_table GUMBO_LEX_SCRIPT_LT = handle_script_lt_state"
| "dispatch_table GUMBO_LEX_SCRIPT_END_TAG_OPEN = handle_script_end_tag_open_state"
| "dispatch_table GUMBO_LEX_SCRIPT_END_TAG_NAME = handle_script_end_tag_name_state"
| "dispatch_table GUMBO_LEX_SCRIPT_ESCAPED_START = handle_script_escaped_start_state"
| "dispatch_table GUMBO_LEX_SCRIPT_ESCAPED_START_DASH = handle_script_escaped_start_dash_state"
| "dispatch_table GUMBO_LEX_SCRIPT_ESCAPED = handle_script_escaped_state"
| "dispatch_table GUMBO_LEX_SCRIPT_ESCAPED_DASH = handle_script_escaped_dash_state"
| "dispatch_table GUMBO_LEX_SCRIPT_ESCAPED_DASH_DASH = handle_script_escaped_dash_dash_state"
| "dispatch_table GUMBO_LEX_SCRIPT_ESCAPED_LT = handle_script_escaped_lt_state"
| "dispatch_table GUMBO_LEX_SCRIPT_ESCAPED_END_TAG_OPEN = handle_script_escaped_end_tag_open_state"
| "dispatch_table GUMBO_LEX_SCRIPT_ESCAPED_END_TAG_NAME = handle_script_escaped_end_tag_name_state"
| "dispatch_table GUMBO_LEX_SCRIPT_DOUBLE_ESCAPED_START = handle_script_double_escaped_start_state"
| "dispatch_table GUMBO_LEX_SCRIPT_DOUBLE_ESCAPED = handle_script_double_escaped_state"
| "dispatch_table GUMBO_LEX_SCRIPT_DOUBLE_ESCAPED_DASH = handle_script_double_escaped_dash_state"
| "dispatch_table GUMBO_LEX_SCRIPT_DOUBLE_ESCAPED_DASH_DASH = handle_script_double_escaped_dash_dash_state"
| "dispatch_table GUMBO_LEX_SCRIPT_DOUBLE_ESCAPED_LT = handle_script_double_escaped_lt_state"
| "dispatch_table GUMBO_LEX_SCRIPT_DOUBLE_ESCAPED_END = handle_script_double_escaped_end_state"
| "dispatch_table GUMBO_LEX_BEFORE_ATTR_NAME = handle_before_attr_name_state"
| "dispatch_table GUMBO_LEX_ATTR_NAME = handle_attr_name_state"
| "dispatch_table GUMBO_LEX_AFTER_ATTR_NAME = handle_after_attr_name_state"
| "dispatch_table GUMBO_LEX_BEFORE_ATTR_VALUE = handle_before_attr_value_state"
| "dispatch_table GUMBO_LEX_ATTR_VALUE_DOUBLE_QUOTED = handle_attr_value_double_quoted_state"
| "dispatch_table GUMBO_LEX_ATTR_VALUE_SINGLE_QUOTED = handle_attr_value_single_quoted_state"
| "dispatch_table GUMBO_LEX_ATTR_VALUE_UNQUOTED = handle_attr_value_unquoted_state"
| "dispatch_table GUMBO_LEX_CHAR_REF_IN_ATTR_VALUE = handle_char_ref_in_attr_value_state"
| "dispatch_table GUMBO_LEX_AFTER_ATTR_VALUE_QUOTED = handle_after_attr_value_quoted_state"
| "dispatch_table GUMBO_LEX_SELF_CLOSING_START_TAG = handle_self_closing_start_tag_state"
| "dispatch_table GUMBO_LEX_BOGUS_COMMENT = handle_bogus_comment_state"
| "dispatch_table GUMBO_LEX_MARKUP_DECLARATION = handle_markup_declaration_state"
| "dispatch_table GUMBO_LEX_COMMENT_START = handle_comment_start_state"
| "dispatch_table GUMBO_LEX_COMMENT_START_DASH = handle_comment_start_dash_state"
| "dispatch_table GUMBO_LEX_COMMENT = handle_comment_state"
| "dispatch_table GUMBO_LEX_COMMENT_END_DASH = handle_comment_end_dash_state"
| "dispatch_table GUMBO_LEX_COMMENT_END = handle_comment_end_state"
| "dispatch_table GUMBO_LEX_COMMENT_END_BANG = handle_comment_end_bang_state"
| "dispatch_table GUMBO_LEX_DOCTYPE = handle_doctype_state"
| "dispatch_table GUMBO_LEX_BEFORE_DOCTYPE_NAME = handle_before_doctype_name_state"
| "dispatch_table GUMBO_LEX_DOCTYPE_NAME = handle_doctype_name_state"
| "dispatch_table GUMBO_LEX_AFTER_DOCTYPE_NAME = handle_after_doctype_name_state"
| "dispatch_table GUMBO_LEX_AFTER_DOCTYPE_PUBLIC_KEYWORD = handle_after_doctype_public_keyword_state"
| "dispatch_table GUMBO_LEX_BEFORE_DOCTYPE_PUBLIC_ID = handle_before_doctype_public_id_state"
| "dispatch_table GUMBO_LEX_DOCTYPE_PUBLIC_ID_DOUBLE_QUOTED = handle_doctype_public_id_double_quoted_state"
| "dispatch_table GUMBO_LEX_DOCTYPE_PUBLIC_ID_SINGLE_QUOTED = handle_doctype_public_id_single_quoted_state"
| "dispatch_table GUMBO_LEX_AFTER_DOCTYPE_PUBLIC_ID = handle_after_doctype_public_id_state"
| "dispatch_table GUMBO_LEX_BETWEEN_DOCTYPE_PUBLIC_SYSTEM_ID = handle_between_doctype_public_system_id_state"
| "dispatch_table GUMBO_LEX_AFTER_DOCTYPE_SYSTEM_KEYWORD = handle_after_doctype_system_keyword_state"
| "dispatch_table GUMBO_LEX_BEFORE_DOCTYPE_SYSTEM_ID = handle_before_doctype_system_id_state"
| "dispatch_table GUMBO_LEX_DOCTYPE_SYSTEM_ID_DOUBLE_QUOTED = handle_doctype_system_id_double_quoted_state"
| "dispatch_table GUMBO_LEX_DOCTYPE_SYSTEM_ID_SINGLE_QUOTED = handle_doctype_system_id_single_quoted_state"
| "dispatch_table GUMBO_LEX_AFTER_DOCTYPE_SYSTEM_ID = handle_after_doctype_system_id_state"
| "dispatch_table GUMBO_LEX_BOGUS_DOCTYPE = handle_bogus_doctype_state"
| "dispatch_table GUMBO_LEX_CDATA = handle_cdata_state"

text \<open>The part of an iteration after the handler: clear the reconsume flag, advance unless it was set.\<close>

definition advance :: "tokenizer \<Rightarrow> tokenizer" where
  "advance p = (if tk_reconsume_current_input p then reconsume False p else next_input (reconsume False p))"

partial_function (option) lex_loop :: "tokenizer \<Rightarrow> (bool \<times> tokenizer) option" where
  "lex_loop p =
     (let p = assert_tk (tk_temporary_buffer_emit p = None) p;
          p = assert_tk (tk_buffered_emit_char p = kGumboNoChar) p
      in case dispatch_table (tk_state p) p (ut_current (tk_input p)) of
           (result, p) \<Rightarrow>
             if result = RETURN_SUCCESS then Some (True, reconsume False p)
             else if result = RETURN_ERROR then Some (False, reconsume False p)
             else lex_loop (advance p))"

declare lex_loop.simps [code]

definition gumbo_lex :: "tokenizer \<Rightarrow> (bool \<times> tokenizer) option" where
  "gumbo_lex p =
     (if tk_buffered_emit_char p \<noteq> kGumboNoChar then
        let p = reconsume True p;
            p = emit_char (tk_buffered_emit_char p) p;
            p = reconsume False p;
            p = p\<lparr>tk_buffered_emit_char := kGumboNoChar\<rparr>
        in Some (True, p)
      else
        let (emitted, p) = maybe_emit_from_temporary_buffer p
        in if emitted then Some (True, p) else lex_loop p)"

end
