(* ===== verification/GumboNodes.thy ===== *)
theory GumboNodes
  imports GumboLex
begin

text \<open>
  The parse tree and the state of the tree builder: \<^verbatim>\<open>src/html_parser/gumbo.h\<close> and the first part of
  \<^verbatim>\<open>src/html_parser/parser.cpp\<close>, up to the functions that insert elements.

  Nodes live in a heap: a node is an address (\<open>node_id\<close>), and \<open>pa_nodes\<close> maps the allocated
  addresses to their contents; a released node is no longer there.  The vectors of the parser are lists, which the
  theory on vectors justifies.  \<^verbatim>\<open>_current_token\<close> always points to the one token of the main loop, the token
  the handlers get as an argument, so both are the field \<open>pa_token\<close>; an attribute vector whose data pointer is
  NULL is \<open>None\<close>.  Strings that the code compares as C strings hold no zero byte.  \<open>pa_ok\<close> is a
  ghost: an \<^verbatim>\<open>assert\<close> that does not hold, or a null or released node that is dereferenced, makes it false.
\<close>

section \<open>Tags\<close>

abbreviation (input) GUMBO_TAG_HTML :: gumbo_tag where "GUMBO_TAG_HTML \<equiv> 0"
abbreviation (input) GUMBO_TAG_HEAD :: gumbo_tag where "GUMBO_TAG_HEAD \<equiv> 1"
abbreviation (input) GUMBO_TAG_TITLE :: gumbo_tag where "GUMBO_TAG_TITLE \<equiv> 2"
abbreviation (input) GUMBO_TAG_BASE :: gumbo_tag where "GUMBO_TAG_BASE \<equiv> 3"
abbreviation (input) GUMBO_TAG_LINK :: gumbo_tag where "GUMBO_TAG_LINK \<equiv> 4"
abbreviation (input) GUMBO_TAG_META :: gumbo_tag where "GUMBO_TAG_META \<equiv> 5"
abbreviation (input) GUMBO_TAG_STYLE :: gumbo_tag where "GUMBO_TAG_STYLE \<equiv> 6"
abbreviation (input) GUMBO_TAG_SCRIPT :: gumbo_tag where "GUMBO_TAG_SCRIPT \<equiv> 7"
abbreviation (input) GUMBO_TAG_NOSCRIPT :: gumbo_tag where "GUMBO_TAG_NOSCRIPT \<equiv> 8"
abbreviation (input) GUMBO_TAG_BODY :: gumbo_tag where "GUMBO_TAG_BODY \<equiv> 10"
abbreviation (input) GUMBO_TAG_ARTICLE :: gumbo_tag where "GUMBO_TAG_ARTICLE \<equiv> 11"
abbreviation (input) GUMBO_TAG_SECTION :: gumbo_tag where "GUMBO_TAG_SECTION \<equiv> 12"
abbreviation (input) GUMBO_TAG_NAV :: gumbo_tag where "GUMBO_TAG_NAV \<equiv> 13"
abbreviation (input) GUMBO_TAG_ASIDE :: gumbo_tag where "GUMBO_TAG_ASIDE \<equiv> 14"
abbreviation (input) GUMBO_TAG_H1 :: gumbo_tag where "GUMBO_TAG_H1 \<equiv> 15"
abbreviation (input) GUMBO_TAG_H2 :: gumbo_tag where "GUMBO_TAG_H2 \<equiv> 16"
abbreviation (input) GUMBO_TAG_H3 :: gumbo_tag where "GUMBO_TAG_H3 \<equiv> 17"
abbreviation (input) GUMBO_TAG_H4 :: gumbo_tag where "GUMBO_TAG_H4 \<equiv> 18"
abbreviation (input) GUMBO_TAG_H5 :: gumbo_tag where "GUMBO_TAG_H5 \<equiv> 19"
abbreviation (input) GUMBO_TAG_H6 :: gumbo_tag where "GUMBO_TAG_H6 \<equiv> 20"
abbreviation (input) GUMBO_TAG_HGROUP :: gumbo_tag where "GUMBO_TAG_HGROUP \<equiv> 21"
abbreviation (input) GUMBO_TAG_HEADER :: gumbo_tag where "GUMBO_TAG_HEADER \<equiv> 22"
abbreviation (input) GUMBO_TAG_FOOTER :: gumbo_tag where "GUMBO_TAG_FOOTER \<equiv> 23"
abbreviation (input) GUMBO_TAG_ADDRESS :: gumbo_tag where "GUMBO_TAG_ADDRESS \<equiv> 24"
abbreviation (input) GUMBO_TAG_P :: gumbo_tag where "GUMBO_TAG_P \<equiv> 25"
abbreviation (input) GUMBO_TAG_HR :: gumbo_tag where "GUMBO_TAG_HR \<equiv> 26"
abbreviation (input) GUMBO_TAG_PRE :: gumbo_tag where "GUMBO_TAG_PRE \<equiv> 27"
abbreviation (input) GUMBO_TAG_BLOCKQUOTE :: gumbo_tag where "GUMBO_TAG_BLOCKQUOTE \<equiv> 28"
abbreviation (input) GUMBO_TAG_OL :: gumbo_tag where "GUMBO_TAG_OL \<equiv> 29"
abbreviation (input) GUMBO_TAG_UL :: gumbo_tag where "GUMBO_TAG_UL \<equiv> 30"
abbreviation (input) GUMBO_TAG_LI :: gumbo_tag where "GUMBO_TAG_LI \<equiv> 31"
abbreviation (input) GUMBO_TAG_DL :: gumbo_tag where "GUMBO_TAG_DL \<equiv> 32"
abbreviation (input) GUMBO_TAG_DT :: gumbo_tag where "GUMBO_TAG_DT \<equiv> 33"
abbreviation (input) GUMBO_TAG_DD :: gumbo_tag where "GUMBO_TAG_DD \<equiv> 34"
abbreviation (input) GUMBO_TAG_FIGURE :: gumbo_tag where "GUMBO_TAG_FIGURE \<equiv> 35"
abbreviation (input) GUMBO_TAG_FIGCAPTION :: gumbo_tag where "GUMBO_TAG_FIGCAPTION \<equiv> 36"
abbreviation (input) GUMBO_TAG_DIV :: gumbo_tag where "GUMBO_TAG_DIV \<equiv> 38"
abbreviation (input) GUMBO_TAG_A :: gumbo_tag where "GUMBO_TAG_A \<equiv> 39"
abbreviation (input) GUMBO_TAG_EM :: gumbo_tag where "GUMBO_TAG_EM \<equiv> 40"
abbreviation (input) GUMBO_TAG_STRONG :: gumbo_tag where "GUMBO_TAG_STRONG \<equiv> 41"
abbreviation (input) GUMBO_TAG_SMALL :: gumbo_tag where "GUMBO_TAG_SMALL \<equiv> 42"
abbreviation (input) GUMBO_TAG_S :: gumbo_tag where "GUMBO_TAG_S \<equiv> 43"
abbreviation (input) GUMBO_TAG_CODE :: gumbo_tag where "GUMBO_TAG_CODE \<equiv> 50"
abbreviation (input) GUMBO_TAG_VAR :: gumbo_tag where "GUMBO_TAG_VAR \<equiv> 51"
abbreviation (input) GUMBO_TAG_SUB :: gumbo_tag where "GUMBO_TAG_SUB \<equiv> 54"
abbreviation (input) GUMBO_TAG_SUP :: gumbo_tag where "GUMBO_TAG_SUP \<equiv> 55"
abbreviation (input) GUMBO_TAG_I :: gumbo_tag where "GUMBO_TAG_I \<equiv> 56"
abbreviation (input) GUMBO_TAG_B :: gumbo_tag where "GUMBO_TAG_B \<equiv> 57"
abbreviation (input) GUMBO_TAG_U :: gumbo_tag where "GUMBO_TAG_U \<equiv> 58"
abbreviation (input) GUMBO_TAG_RUBY :: gumbo_tag where "GUMBO_TAG_RUBY \<equiv> 60"
abbreviation (input) GUMBO_TAG_RT :: gumbo_tag where "GUMBO_TAG_RT \<equiv> 61"
abbreviation (input) GUMBO_TAG_RP :: gumbo_tag where "GUMBO_TAG_RP \<equiv> 62"
abbreviation (input) GUMBO_TAG_SPAN :: gumbo_tag where "GUMBO_TAG_SPAN \<equiv> 65"
abbreviation (input) GUMBO_TAG_BR :: gumbo_tag where "GUMBO_TAG_BR \<equiv> 66"
abbreviation (input) GUMBO_TAG_WBR :: gumbo_tag where "GUMBO_TAG_WBR \<equiv> 67"
abbreviation (input) GUMBO_TAG_IMAGE :: gumbo_tag where "GUMBO_TAG_IMAGE \<equiv> 70"
abbreviation (input) GUMBO_TAG_IMG :: gumbo_tag where "GUMBO_TAG_IMG \<equiv> 71"
abbreviation (input) GUMBO_TAG_IFRAME :: gumbo_tag where "GUMBO_TAG_IFRAME \<equiv> 72"
abbreviation (input) GUMBO_TAG_EMBED :: gumbo_tag where "GUMBO_TAG_EMBED \<equiv> 73"
abbreviation (input) GUMBO_TAG_OBJECT :: gumbo_tag where "GUMBO_TAG_OBJECT \<equiv> 74"
abbreviation (input) GUMBO_TAG_PARAM :: gumbo_tag where "GUMBO_TAG_PARAM \<equiv> 75"
abbreviation (input) GUMBO_TAG_SOURCE :: gumbo_tag where "GUMBO_TAG_SOURCE \<equiv> 78"
abbreviation (input) GUMBO_TAG_TRACK :: gumbo_tag where "GUMBO_TAG_TRACK \<equiv> 79"
abbreviation (input) GUMBO_TAG_AREA :: gumbo_tag where "GUMBO_TAG_AREA \<equiv> 82"
abbreviation (input) GUMBO_TAG_MATH :: gumbo_tag where "GUMBO_TAG_MATH \<equiv> 83"
abbreviation (input) GUMBO_TAG_MI :: gumbo_tag where "GUMBO_TAG_MI \<equiv> 84"
abbreviation (input) GUMBO_TAG_MO :: gumbo_tag where "GUMBO_TAG_MO \<equiv> 85"
abbreviation (input) GUMBO_TAG_MN :: gumbo_tag where "GUMBO_TAG_MN \<equiv> 86"
abbreviation (input) GUMBO_TAG_MS :: gumbo_tag where "GUMBO_TAG_MS \<equiv> 87"
abbreviation (input) GUMBO_TAG_MTEXT :: gumbo_tag where "GUMBO_TAG_MTEXT \<equiv> 88"
abbreviation (input) GUMBO_TAG_MGLYPH :: gumbo_tag where "GUMBO_TAG_MGLYPH \<equiv> 89"
abbreviation (input) GUMBO_TAG_MALIGNMARK :: gumbo_tag where "GUMBO_TAG_MALIGNMARK \<equiv> 90"
abbreviation (input) GUMBO_TAG_ANNOTATION_XML :: gumbo_tag where "GUMBO_TAG_ANNOTATION_XML \<equiv> 91"
abbreviation (input) GUMBO_TAG_SVG :: gumbo_tag where "GUMBO_TAG_SVG \<equiv> 92"
abbreviation (input) GUMBO_TAG_FOREIGNOBJECT :: gumbo_tag where "GUMBO_TAG_FOREIGNOBJECT \<equiv> 93"
abbreviation (input) GUMBO_TAG_DESC :: gumbo_tag where "GUMBO_TAG_DESC \<equiv> 94"
abbreviation (input) GUMBO_TAG_TABLE :: gumbo_tag where "GUMBO_TAG_TABLE \<equiv> 95"
abbreviation (input) GUMBO_TAG_CAPTION :: gumbo_tag where "GUMBO_TAG_CAPTION \<equiv> 96"
abbreviation (input) GUMBO_TAG_COLGROUP :: gumbo_tag where "GUMBO_TAG_COLGROUP \<equiv> 97"
abbreviation (input) GUMBO_TAG_COL :: gumbo_tag where "GUMBO_TAG_COL \<equiv> 98"
abbreviation (input) GUMBO_TAG_TBODY :: gumbo_tag where "GUMBO_TAG_TBODY \<equiv> 99"
abbreviation (input) GUMBO_TAG_THEAD :: gumbo_tag where "GUMBO_TAG_THEAD \<equiv> 100"
abbreviation (input) GUMBO_TAG_TFOOT :: gumbo_tag where "GUMBO_TAG_TFOOT \<equiv> 101"
abbreviation (input) GUMBO_TAG_TR :: gumbo_tag where "GUMBO_TAG_TR \<equiv> 102"
abbreviation (input) GUMBO_TAG_TD :: gumbo_tag where "GUMBO_TAG_TD \<equiv> 103"
abbreviation (input) GUMBO_TAG_TH :: gumbo_tag where "GUMBO_TAG_TH \<equiv> 104"
abbreviation (input) GUMBO_TAG_FORM :: gumbo_tag where "GUMBO_TAG_FORM \<equiv> 105"
abbreviation (input) GUMBO_TAG_FIELDSET :: gumbo_tag where "GUMBO_TAG_FIELDSET \<equiv> 106"
abbreviation (input) GUMBO_TAG_LABEL :: gumbo_tag where "GUMBO_TAG_LABEL \<equiv> 108"
abbreviation (input) GUMBO_TAG_INPUT :: gumbo_tag where "GUMBO_TAG_INPUT \<equiv> 109"
abbreviation (input) GUMBO_TAG_BUTTON :: gumbo_tag where "GUMBO_TAG_BUTTON \<equiv> 110"
abbreviation (input) GUMBO_TAG_SELECT :: gumbo_tag where "GUMBO_TAG_SELECT \<equiv> 111"
abbreviation (input) GUMBO_TAG_OPTGROUP :: gumbo_tag where "GUMBO_TAG_OPTGROUP \<equiv> 113"
abbreviation (input) GUMBO_TAG_OPTION :: gumbo_tag where "GUMBO_TAG_OPTION \<equiv> 114"
abbreviation (input) GUMBO_TAG_TEXTAREA :: gumbo_tag where "GUMBO_TAG_TEXTAREA \<equiv> 115"
abbreviation (input) GUMBO_TAG_KEYGEN :: gumbo_tag where "GUMBO_TAG_KEYGEN \<equiv> 116"
abbreviation (input) GUMBO_TAG_DETAILS :: gumbo_tag where "GUMBO_TAG_DETAILS \<equiv> 120"
abbreviation (input) GUMBO_TAG_SUMMARY :: gumbo_tag where "GUMBO_TAG_SUMMARY \<equiv> 121"
abbreviation (input) GUMBO_TAG_MENU :: gumbo_tag where "GUMBO_TAG_MENU \<equiv> 122"
abbreviation (input) GUMBO_TAG_MENUITEM :: gumbo_tag where "GUMBO_TAG_MENUITEM \<equiv> 123"
abbreviation (input) GUMBO_TAG_APPLET :: gumbo_tag where "GUMBO_TAG_APPLET \<equiv> 124"
abbreviation (input) GUMBO_TAG_BGSOUND :: gumbo_tag where "GUMBO_TAG_BGSOUND \<equiv> 126"
abbreviation (input) GUMBO_TAG_DIR :: gumbo_tag where "GUMBO_TAG_DIR \<equiv> 127"
abbreviation (input) GUMBO_TAG_FRAME :: gumbo_tag where "GUMBO_TAG_FRAME \<equiv> 128"
abbreviation (input) GUMBO_TAG_FRAMESET :: gumbo_tag where "GUMBO_TAG_FRAMESET \<equiv> 129"
abbreviation (input) GUMBO_TAG_NOFRAMES :: gumbo_tag where "GUMBO_TAG_NOFRAMES \<equiv> 130"
abbreviation (input) GUMBO_TAG_ISINDEX :: gumbo_tag where "GUMBO_TAG_ISINDEX \<equiv> 131"
abbreviation (input) GUMBO_TAG_LISTING :: gumbo_tag where "GUMBO_TAG_LISTING \<equiv> 132"
abbreviation (input) GUMBO_TAG_XMP :: gumbo_tag where "GUMBO_TAG_XMP \<equiv> 133"
abbreviation (input) GUMBO_TAG_NOEMBED :: gumbo_tag where "GUMBO_TAG_NOEMBED \<equiv> 135"
abbreviation (input) GUMBO_TAG_PLAINTEXT :: gumbo_tag where "GUMBO_TAG_PLAINTEXT \<equiv> 136"
abbreviation (input) GUMBO_TAG_STRIKE :: gumbo_tag where "GUMBO_TAG_STRIKE \<equiv> 138"
abbreviation (input) GUMBO_TAG_BASEFONT :: gumbo_tag where "GUMBO_TAG_BASEFONT \<equiv> 139"
abbreviation (input) GUMBO_TAG_BIG :: gumbo_tag where "GUMBO_TAG_BIG \<equiv> 140"
abbreviation (input) GUMBO_TAG_CENTER :: gumbo_tag where "GUMBO_TAG_CENTER \<equiv> 142"
abbreviation (input) GUMBO_TAG_FONT :: gumbo_tag where "GUMBO_TAG_FONT \<equiv> 143"
abbreviation (input) GUMBO_TAG_MARQUEE :: gumbo_tag where "GUMBO_TAG_MARQUEE \<equiv> 144"
abbreviation (input) GUMBO_TAG_NOBR :: gumbo_tag where "GUMBO_TAG_NOBR \<equiv> 146"
abbreviation (input) GUMBO_TAG_TT :: gumbo_tag where "GUMBO_TAG_TT \<equiv> 148"

section \<open>Nodes\<close>

datatype node_type =
    GUMBO_NODE_DOCUMENT
  | GUMBO_NODE_ELEMENT
  | GUMBO_NODE_TEXT
  | GUMBO_NODE_CDATA
  | GUMBO_NODE_COMMENT
  | GUMBO_NODE_WHITESPACE

datatype quirks_mode =
    GUMBO_DOCTYPE_NO_QUIRKS
  | GUMBO_DOCTYPE_QUIRKS
  | GUMBO_DOCTYPE_LIMITED_QUIRKS

datatype gumbo_namespace =
    GUMBO_NAMESPACE_HTML
  | GUMBO_NAMESPACE_SVG
  | GUMBO_NAMESPACE_MATHML

type_synonym parse_flags = "32 word"

abbreviation (input) GUMBO_INSERTION_NORMAL :: parse_flags where "GUMBO_INSERTION_NORMAL \<equiv> 0"
abbreviation (input) GUMBO_INSERTION_BY_PARSER :: parse_flags where "GUMBO_INSERTION_BY_PARSER \<equiv> 1"
abbreviation (input) GUMBO_INSERTION_IMPLICIT_END_TAG :: parse_flags where "GUMBO_INSERTION_IMPLICIT_END_TAG \<equiv> 2"
abbreviation (input) GUMBO_INSERTION_IMPLIED :: parse_flags where "GUMBO_INSERTION_IMPLIED \<equiv> 8"
abbreviation (input) GUMBO_INSERTION_CONVERTED_FROM_END_TAG :: parse_flags
  where "GUMBO_INSERTION_CONVERTED_FROM_END_TAG \<equiv> 16"
abbreviation (input) GUMBO_INSERTION_FROM_ISINDEX :: parse_flags where "GUMBO_INSERTION_FROM_ISINDEX \<equiv> 32"
abbreviation (input) GUMBO_INSERTION_FROM_IMAGE :: parse_flags where "GUMBO_INSERTION_FROM_IMAGE \<equiv> 64"
abbreviation (input) GUMBO_INSERTION_RECONSTRUCTED_FORMATTING_ELEMENT :: parse_flags
  where "GUMBO_INSERTION_RECONSTRUCTED_FORMATTING_ELEMENT \<equiv> 128"
abbreviation (input) GUMBO_INSERTION_ADOPTION_AGENCY_CLONED :: parse_flags
  where "GUMBO_INSERTION_ADOPTION_AGENCY_CLONED \<equiv> 256"
abbreviation (input) GUMBO_INSERTION_ADOPTION_AGENCY_MOVED :: parse_flags
  where "GUMBO_INSERTION_ADOPTION_AGENCY_MOVED \<equiv> 512"
abbreviation (input) GUMBO_INSERTION_FOSTER_PARENTED :: parse_flags where "GUMBO_INSERTION_FOSTER_PARENTED \<equiv> 1024"

type_synonym node_id = nat

text \<open>A piece of the source is an address and a length; the address 0 is NULL.  The quirks mode is \<open>None\<close> while
  it has not been written.\<close>

type_synonym string_piece = "int \<times> int"

definition kGumboEmptyString :: string_piece where
  "kGumboEmptyString = (0, 0)"

definition kGumboEmptySourcePosition :: source_position where
  "kGumboEmptySourcePosition = \<lparr>line = 0, column = 0, offset = 0\<rparr>"

record gumbo_document =
  dc_children :: "node_id list"
  dc_has_doctype :: bool
  dc_name :: "byte list option"
  dc_public_identifier :: "byte list option"
  dc_system_identifier :: "byte list option"
  dc_doc_type_quirks_mode :: "quirks_mode option"

record gumbo_text =
  tx_text :: "byte list"
  tx_original_text :: string_piece
  tx_start_pos :: source_position

record gumbo_element =
  el_children :: "node_id list"
  el_tag :: gumbo_tag
  el_tag_namespace :: gumbo_namespace
  el_original_tag :: string_piece
  el_original_end_tag :: string_piece
  el_start_pos :: source_position
  el_end_pos :: source_position
  el_attributes :: "gumbo_attribute list"

datatype node_value =
    Node_document gumbo_document
  | Node_element gumbo_element
  | Node_text gumbo_text

record gumbo_node =
  nd_type :: node_type
  nd_parent :: "node_id option"
  nd_index_within_parent :: int
  nd_parse_flags :: parse_flags
  nd_v :: node_value

definition blank_element :: gumbo_element where
  "blank_element =
     \<lparr>el_children = [], el_tag = 0, el_tag_namespace = GUMBO_NAMESPACE_HTML, el_original_tag = kGumboEmptyString,
      el_original_end_tag = kGumboEmptyString, el_start_pos = kGumboEmptySourcePosition,
      el_end_pos = kGumboEmptySourcePosition, el_attributes = []\<rparr>"

definition blank_node :: gumbo_node where
  "blank_node =
     \<lparr>nd_type = GUMBO_NODE_ELEMENT, nd_parent = None, nd_index_within_parent = -1, nd_parse_flags = 0,
      nd_v = Node_element blank_element\<rparr>"

fun children_of :: "gumbo_node \<Rightarrow> node_id list" where
  "children_of n = (case nd_v n of Node_document d \<Rightarrow> dc_children d | Node_element e \<Rightarrow> el_children e | Node_text t \<Rightarrow> [])"

definition set_children :: "node_id list \<Rightarrow> gumbo_node \<Rightarrow> gumbo_node" where
  "set_children cs n =
     n\<lparr>nd_v := (case nd_v n of
        Node_document d \<Rightarrow> Node_document (d\<lparr>dc_children := cs\<rparr>)
      | Node_element e \<Rightarrow> Node_element (e\<lparr>el_children := cs\<rparr>)
      | Node_text t \<Rightarrow> Node_text t)\<rparr>"

definition map_element :: "(gumbo_element \<Rightarrow> gumbo_element) \<Rightarrow> gumbo_node \<Rightarrow> gumbo_node" where
  "map_element f n = n\<lparr>nd_v := (case nd_v n of Node_element e \<Rightarrow> Node_element (f e) | v \<Rightarrow> v)\<rparr>"

definition map_document :: "(gumbo_document \<Rightarrow> gumbo_document) \<Rightarrow> gumbo_node \<Rightarrow> gumbo_node" where
  "map_document f n = n\<lparr>nd_v := (case nd_v n of Node_document d \<Rightarrow> Node_document (f d) | v \<Rightarrow> v)\<rparr>"

definition add_flags :: "parse_flags \<Rightarrow> gumbo_node \<Rightarrow> gumbo_node" where
  "add_flags fl n = n\<lparr>nd_parse_flags := nd_parse_flags n OR fl\<rparr>"

section \<open>The state of the tree builder\<close>

record text_node_buffer =
  tb_buffer :: "byte list"
  tb_start_original_text :: int
  tb_start_position :: source_position
  tb_type :: node_type

record parser =
  pa_nodes :: "node_id \<Rightarrow> gumbo_node option"
  pa_next :: node_id
  pa_document :: node_id
  pa_root :: "node_id option"
  pa_tokenizer :: tokenizer
  pa_insertion_mode :: insertion_mode
  pa_original_insertion_mode :: insertion_mode
  pa_open_elements :: "node_id list"
  pa_active_formatting_elements :: "node_id option list"
  pa_template_insertion_modes :: "insertion_mode list"
  pa_head_element :: "node_id option"
  pa_form_element :: "node_id option"
  pa_reprocess_current_token :: bool
  pa_self_closing_flag_acknowledged :: bool
  pa_frameset_ok :: bool
  pa_ignore_next_linefeed :: bool
  pa_foster_parent_insertions :: bool
  pa_text_node :: text_node_buffer
  pa_token :: token
  pa_closed_body_tag :: bool
  pa_closed_html_tag :: bool
  pa_ok :: bool

text \<open>An entry \<open>None\<close> of the list of active formatting elements is
  \<^verbatim>\<open>&kActiveFormattingScopeMarker\<close>.\<close>

definition assert_p :: "bool \<Rightarrow> parser \<Rightarrow> parser" where
  "assert_p b p = p\<lparr>pa_ok := pa_ok p \<and> b\<rparr>"

text \<open>Following a pointer to a node.\<close>

definition deref :: "node_id option \<Rightarrow> parser \<Rightarrow> parser" where
  "deref i p = assert_p (case i of None \<Rightarrow> False | Some i \<Rightarrow> pa_nodes p i \<noteq> None) p"

definition node :: "parser \<Rightarrow> node_id \<Rightarrow> gumbo_node" where
  "node p i = (case pa_nodes p i of Some n \<Rightarrow> n | None \<Rightarrow> blank_node)"

definition element :: "parser \<Rightarrow> node_id \<Rightarrow> gumbo_element" where
  "element p i = (case nd_v (node p i) of Node_element e \<Rightarrow> e | _ \<Rightarrow> blank_element)"

text \<open>Writing through a pointer to a node.\<close>

definition modify :: "node_id \<Rightarrow> (gumbo_node \<Rightarrow> gumbo_node) \<Rightarrow> parser \<Rightarrow> parser" where
  "modify i f p =
     (case pa_nodes p i of
        None \<Rightarrow> assert_p False p
      | Some n \<Rightarrow> p\<lparr>pa_nodes := (pa_nodes p)(i \<mapsto> f n)\<rparr>)"

definition create_node :: "node_type \<Rightarrow> node_value \<Rightarrow> parser \<Rightarrow> node_id \<times> parser" where
  "create_node ty v p =
     (pa_next p,
      p\<lparr>pa_nodes := (pa_nodes p)(pa_next p \<mapsto>
           \<lparr>nd_type = ty, nd_parent = None, nd_index_within_parent = -1, nd_parse_flags = GUMBO_INSERTION_NORMAL, nd_v = v\<rparr>),
         pa_next := pa_next p + 1\<rparr>)"

section \<open>Attributes of tokens and elements\<close>

definition strcmp_eq :: "byte list \<Rightarrow> byte list \<Rightarrow> bool" where
  "strcmp_eq a b \<longleftrightarrow> c_string a = c_string b"

fun start_tag_attributes :: "token_value \<Rightarrow> gumbo_attribute list" where
  "start_tag_attributes (V_start_tag tag (Some as) sc) = as"
| "start_tag_attributes v = []"

definition token_has_attribute :: "string \<Rightarrow> token \<Rightarrow> bool" where
  "token_has_attribute name t \<longleftrightarrow> gumbo_get_attribute (start_tag_attributes (to_v t)) (bytes_of name) \<noteq> None"

definition attribute_matches :: "gumbo_attribute list \<Rightarrow> byte list \<Rightarrow> byte list \<Rightarrow> bool" where
  "attribute_matches attributes name val =
     (case gumbo_get_attribute attributes name of Some attr \<Rightarrow> strcasecmp_eq val (at_value attr) | None \<Rightarrow> False)"

definition attribute_matches_case_sensitive :: "gumbo_attribute list \<Rightarrow> byte list \<Rightarrow> byte list \<Rightarrow> bool" where
  "attribute_matches_case_sensitive attributes name val =
     (case gumbo_get_attribute attributes name of Some attr \<Rightarrow> strcmp_eq val (at_value attr) | None \<Rightarrow> False)"

fun match_loop :: "gumbo_attribute list \<Rightarrow> gumbo_attribute list \<Rightarrow> int \<Rightarrow> bool" where
  "match_loop [] attr2 num_unmatched_attr2_elements = (num_unmatched_attr2_elements = 0)"
| "match_loop (attr # attr1) attr2 num_unmatched_attr2_elements =
     (if attribute_matches_case_sensitive attr2 (at_name attr) (at_value attr)
      then match_loop attr1 attr2 (num_unmatched_attr2_elements - 1) else False)"

definition all_attributes_match :: "gumbo_attribute list \<Rightarrow> gumbo_attribute list \<Rightarrow> bool" where
  "all_attributes_match attr1 attr2 = match_loop attr1 attr2 (int (length attr2))"

section \<open>Flags, modes, the current node\<close>

definition set_frameset_not_ok :: "parser \<Rightarrow> parser" where
  "set_frameset_not_ok p = p\<lparr>pa_frameset_ok := False\<rparr>"

definition new_document_node :: "parser \<Rightarrow> node_id \<times> parser" where
  "new_document_node p =
     (let (document_node, p) = create_node GUMBO_NODE_DOCUMENT
            (Node_document \<lparr>dc_children = [], dc_has_doctype = False, dc_name = None, dc_public_identifier = None,
                            dc_system_identifier = None, dc_doc_type_quirks_mode = None\<rparr>) p;
          p = modify document_node (\<lambda>n. n\<lparr>nd_parse_flags := GUMBO_INSERTION_BY_PARSER\<rparr>) p
      in (document_node, p))"

definition output_init :: "parser \<Rightarrow> parser" where
  "output_init p =
     (let p = p\<lparr>pa_root := None\<rparr>;
          (document_node, p) = new_document_node p;
          p = p\<lparr>pa_document := document_node\<rparr>;
          tok = pa_tokenizer p
      in p\<lparr>pa_tokenizer := tok\<lparr>tk_input := (tk_input tok)\<lparr>ut_errors := []\<rparr>\<rparr>\<rparr>)"

definition parser_state_init :: "parser \<Rightarrow> parser" where
  "parser_state_init p =
     p\<lparr>pa_insertion_mode := GUMBO_INSERTION_MODE_INITIAL, pa_reprocess_current_token := False,
       pa_frameset_ok := True, pa_ignore_next_linefeed := False, pa_foster_parent_insertions := False,
       pa_text_node := (pa_text_node p)\<lparr>tb_type := GUMBO_NODE_WHITESPACE, tb_buffer := []\<rparr>,
       pa_open_elements := [], pa_active_formatting_elements := [], pa_template_insertion_modes := [],
       pa_head_element := None, pa_form_element := None, pa_closed_body_tag := False, pa_closed_html_tag := False\<rparr>"

definition get_current_node :: "parser \<Rightarrow> node_id option" where
  "get_current_node p = (if pa_open_elements p = [] then None else Some (last (pa_open_elements p)))"

text \<open>The assertion of \<open>get_current_node\<close>, and a use of the node it returns.\<close>

definition check_current :: "parser \<Rightarrow> parser" where
  "check_current p = assert_p (pa_open_elements p = [] \<longrightarrow> pa_root p = None) p"

definition deref_current :: "parser \<Rightarrow> parser" where
  "deref_current p = deref (get_current_node p) (check_current p)"

definition current :: "parser \<Rightarrow> gumbo_node" where
  "current p = (case get_current_node p of Some i \<Rightarrow> node p i | None \<Rightarrow> blank_node)"

fun is_in_static_list :: "byte list \<Rightarrow> string list \<Rightarrow> bool \<Rightarrow> bool" where
  "is_in_static_list needle [] exact_match = False"
| "is_in_static_list needle (h # haystack) exact_match =
     (if (exact_match \<and> strcmp_eq needle (bytes_of h)) \<or> (\<not> exact_match \<and> strcasecmp_eq needle (bytes_of h)) then True
      else is_in_static_list needle haystack exact_match)"

definition push_template_insertion_mode :: "insertion_mode \<Rightarrow> parser \<Rightarrow> parser" where
  "push_template_insertion_mode mode p =
     p\<lparr>pa_template_insertion_modes := pa_template_insertion_modes p @ [mode]\<rparr>"

definition pop_template_insertion_mode :: "parser \<Rightarrow> parser" where
  "pop_template_insertion_mode p = p\<lparr>pa_template_insertion_modes := butlast (pa_template_insertion_modes p)\<rparr>"

definition get_current_template_insertion_mode :: "parser \<Rightarrow> fault + insertion_mode" where
  "get_current_template_insertion_mode p =
     (if pa_template_insertion_modes p = [] then Inl Assert_failed else Inr (last (pa_template_insertion_modes p)))"

definition set_insertion_mode :: "insertion_mode \<Rightarrow> parser \<Rightarrow> parser" where
  "set_insertion_mode mode p = p\<lparr>pa_insertion_mode := mode\<rparr>"

definition get_appropriate_insertion_mode :: "gumbo_element \<Rightarrow> bool \<Rightarrow> insertion_mode" where
  "get_appropriate_insertion_mode e is_last =
     (if el_tag e = GUMBO_TAG_SELECT then GUMBO_INSERTION_MODE_IN_SELECT
      else if el_tag e \<in> set [GUMBO_TAG_TD, GUMBO_TAG_TH]
      then (if is_last then GUMBO_INSERTION_MODE_IN_BODY else GUMBO_INSERTION_MODE_IN_CELL)
      else if el_tag e = GUMBO_TAG_TR then GUMBO_INSERTION_MODE_IN_ROW
      else if el_tag e \<in> set [GUMBO_TAG_TBODY, GUMBO_TAG_THEAD, GUMBO_TAG_TFOOT] then GUMBO_INSERTION_MODE_IN_TABLE_BODY
      else if el_tag e = GUMBO_TAG_CAPTION then GUMBO_INSERTION_MODE_IN_CAPTION
      else if el_tag e = GUMBO_TAG_COLGROUP then GUMBO_INSERTION_MODE_IN_COLUMN_GROUP
      else if el_tag e = GUMBO_TAG_TABLE then GUMBO_INSERTION_MODE_IN_TABLE
      else if el_tag e \<in> set [GUMBO_TAG_HEAD, GUMBO_TAG_BODY] then GUMBO_INSERTION_MODE_IN_BODY
      else if el_tag e = GUMBO_TAG_FRAMESET then GUMBO_INSERTION_MODE_IN_FRAMESET
      else if el_tag e = GUMBO_TAG_HTML then GUMBO_INSERTION_MODE_BEFORE_HEAD
      else if is_last then GUMBO_INSERTION_MODE_IN_BODY else GUMBO_INSERTION_MODE_INITIAL)"

definition is_element :: "parser \<Rightarrow> node_id \<Rightarrow> bool" where
  "is_element p i \<longleftrightarrow> nd_type (node p i) = GUMBO_NODE_ELEMENT"

text \<open>The loop over the stack from the top down.\<close>

primrec reset_loop :: "nat \<Rightarrow> parser \<Rightarrow> parser" where
  "reset_loop 0 p = assert_p False p"
| "reset_loop (Suc i) p =
     (let nd = pa_open_elements p ! i;
          p = deref (Some nd) p;
          p = assert_p (is_element p nd) p;
          mode = get_appropriate_insertion_mode (element p nd) (i = 0)
      in if mode \<noteq> GUMBO_INSERTION_MODE_INITIAL then set_insertion_mode mode p else reset_loop i p)"

definition reset_insertion_mode_appropriately :: "parser \<Rightarrow> parser" where
  "reset_insertion_mode_appropriately p = reset_loop (length (pa_open_elements p)) p"

section \<open>Tags of tokens and nodes\<close>

fun token_start_tag :: "token_value \<Rightarrow> gumbo_tag" where
  "token_start_tag (V_start_tag tag as sc) = tag"
| "token_start_tag v = GUMBO_TAG_LAST"

fun token_end_tag :: "token_value \<Rightarrow> gumbo_tag" where
  "token_end_tag (V_end_tag tag) = tag"
| "token_end_tag v = GUMBO_TAG_LAST"

abbreviation (input) kStartTag :: bool where "kStartTag \<equiv> True"
abbreviation (input) kEndTag :: bool where "kEndTag \<equiv> False"

definition tag_in :: "token \<Rightarrow> bool \<Rightarrow> gumbo_tag list \<Rightarrow> bool" where
  "tag_in t is_start tags =
     (if is_start \<and> to_type t = GUMBO_TOKEN_START_TAG then token_start_tag (to_v t) \<in> set tags
      else if \<not> is_start \<and> to_type t = GUMBO_TOKEN_END_TAG then token_end_tag (to_v t) \<in> set tags
      else False)"

definition tag_is :: "token \<Rightarrow> bool \<Rightarrow> gumbo_tag \<Rightarrow> bool" where
  "tag_is t is_start tag =
     (if is_start \<and> to_type t = GUMBO_TOKEN_START_TAG then token_start_tag (to_v t) = tag
      else if \<not> is_start \<and> to_type t = GUMBO_TOKEN_END_TAG then token_end_tag (to_v t) = tag
      else False)"

definition node_element :: "gumbo_node \<Rightarrow> gumbo_element" where
  "node_element n = (case nd_v n of Node_element e \<Rightarrow> e | _ \<Rightarrow> blank_element)"

definition node_tag_in :: "gumbo_node \<Rightarrow> gumbo_tag list \<Rightarrow> bool" where
  "node_tag_in n tags \<longleftrightarrow> nd_type n = GUMBO_NODE_ELEMENT \<and> el_tag (node_element n) \<in> set tags"

definition node_tag_is :: "gumbo_node \<Rightarrow> gumbo_tag \<Rightarrow> bool" where
  "node_tag_is n tag \<longleftrightarrow> nd_type n = GUMBO_NODE_ELEMENT \<and> el_tag (node_element n) = tag"

definition is_mathml_integration_point :: "gumbo_node \<Rightarrow> bool" where
  "is_mathml_integration_point n \<longleftrightarrow>
     node_tag_in n [GUMBO_TAG_MI, GUMBO_TAG_MO, GUMBO_TAG_MN, GUMBO_TAG_MS, GUMBO_TAG_MTEXT]
     \<and> el_tag_namespace (node_element n) = GUMBO_NAMESPACE_MATHML"

definition is_html_integration_point :: "gumbo_node \<Rightarrow> bool" where
  "is_html_integration_point n \<longleftrightarrow>
     (node_tag_in n [GUMBO_TAG_FOREIGNOBJECT, GUMBO_TAG_DESC, GUMBO_TAG_TITLE]
      \<and> el_tag_namespace (node_element n) = GUMBO_NAMESPACE_SVG)
     \<or> (node_tag_is n GUMBO_TAG_ANNOTATION_XML
        \<and> (attribute_matches (el_attributes (node_element n)) (bytes_of ''encoding'') (bytes_of ''text/html'')
           \<or> attribute_matches (el_attributes (node_element n)) (bytes_of ''encoding'') (bytes_of ''application/xhtml+xml'')))"

text \<open>\<^verbatim>\<open>add_parse_error\<close> of the tree builder, with the type its caller may set afterwards.\<close>

definition add_error_of :: "error_type \<Rightarrow> parser \<Rightarrow> parser" where
  "add_error_of ty p =
     (let it = tk_input (pa_tokenizer p); t = pa_token p in
      if errors_full it then p
      else
        let tag = (if to_type t = GUMBO_TOKEN_START_TAG then token_start_tag (to_v t)
                   else if to_type t = GUMBO_TOKEN_END_TAG then token_end_tag (to_v t) else GUMBO_TAG_UNKNOWN);
            p = assert_p (list_all (\<lambda>i. pa_nodes p i \<noteq> None \<and> is_element p i) (pa_open_elements p)) p;
            e = \<lparr>er_type = ty, er_position = to_position t, er_original_text = to_text_data t,
                 er_v = Parser_info (to_type t) tag (pa_insertion_mode p)
                   (map (\<lambda>i. el_tag (element p i)) (pa_open_elements p))\<rparr>
        in p\<lparr>pa_tokenizer := (pa_tokenizer p)\<lparr>tk_input := gumbo_add_error e it\<rparr>\<rparr>)"

definition parser_add_parse_error :: "parser \<Rightarrow> parser" where
  "parser_add_parse_error p = add_error_of GUMBO_ERR_PARSER p"

section \<open>Linking nodes\<close>

definition append_node :: "node_id \<Rightarrow> node_id \<Rightarrow> parser \<Rightarrow> parser" where
  "append_node parent nd p =
     (let p = deref (Some nd) p;
          p = assert_p (nd_parent (node p nd) = None) p;
          p = assert_p (nd_index_within_parent (node p nd) = -1) p;
          p = deref (Some parent) p;
          p = assert_p (is_element p parent \<or> nd_type (node p parent) = GUMBO_NODE_DOCUMENT) p;
          n = length (children_of (node p parent));
          p = modify nd (\<lambda>x. x\<lparr>nd_parent := Some parent, nd_index_within_parent := int n\<rparr>) p
      in modify parent (\<lambda>q. set_children (children_of q @ [nd]) q) p)"

text \<open>The loops that number the siblings after a change.\<close>

fun reindex :: "nat \<Rightarrow> node_id list \<Rightarrow> parser \<Rightarrow> parser" where
  "reindex i [] p = p"
| "reindex i (c # cs) p = reindex (i + 1) cs (modify c (\<lambda>x. x\<lparr>nd_index_within_parent := int i\<rparr>) p)"

definition insert_node :: "node_id \<Rightarrow> int \<Rightarrow> node_id \<Rightarrow> parser \<Rightarrow> parser" where
  "insert_node parent index nd p =
     (let p = deref (Some nd) p;
          p = assert_p (nd_parent (node p nd) = None) p;
          p = assert_p (nd_index_within_parent (node p nd) = -1) p;
          p = deref (Some parent) p;
          p = assert_p (is_element p parent) p;
          children = children_of (node p parent);
          p = assert_p (0 \<le> index) p;
          p = assert_p (index < int (length children)) p;
          p = modify nd (\<lambda>x. x\<lparr>nd_parent := Some parent, nd_index_within_parent := index\<rparr>) p;
          k = nat index;
          p = modify parent (set_children (take k children @ nd # drop k children)) p
      in reindex (k + 1) (drop k children) p)"

text \<open>\<open>search_down P n\<close> is the first hit of \<^verbatim>\<open>for (int i = n; --i >= 0;)\<close>.\<close>

fun search_down :: "(nat \<Rightarrow> bool) \<Rightarrow> nat \<Rightarrow> nat option" where
  "search_down P 0 = None"
| "search_down P (Suc i) = (if P i then Some i else search_down P i)"

definition open_element :: "parser \<Rightarrow> nat \<Rightarrow> node_id" where
  "open_element p i = (if i < length (pa_open_elements p) then pa_open_elements p ! i else 0)"

definition push_open_element :: "node_id \<Rightarrow> parser \<Rightarrow> parser" where
  "push_open_element nd p = p\<lparr>pa_open_elements := pa_open_elements p @ [nd]\<rparr>"

definition foster_append :: "node_id \<Rightarrow> node_id \<Rightarrow> parser \<Rightarrow> parser" where
  "foster_append foster_parent nd p =
     append_node foster_parent nd (if is_element p nd then push_open_element nd p else p)"

definition foster_parent_element :: "node_id \<Rightarrow> parser \<Rightarrow> parser" where
  "foster_parent_element nd p =
     (let p = assert_p (length (pa_open_elements p) > 2) p;
          p = modify nd (add_flags GUMBO_INSERTION_FOSTER_PARENTED) p;
          html = open_element p 0;
          p = deref (Some html) p;
          p = assert_p (node_tag_is (node p html) GUMBO_TAG_HTML) p
      in case search_down (\<lambda>i. i > 1 \<and> node_tag_is (node p (open_element p i)) GUMBO_TAG_TABLE)
                (length (pa_open_elements p)) of
           None \<Rightarrow> foster_append html nd p
         | Some i \<Rightarrow>
             let table_element = open_element p i;
                 p = deref (Some table_element) p
             in case nd_parent (node p table_element) of
                  None \<Rightarrow> foster_append (open_element p (i - 1)) nd p
                | Some foster_parent \<Rightarrow>
                    let p = deref (Some foster_parent) p in
                    if \<not> is_element p foster_parent then foster_append (open_element p (i - 1)) nd p
                    else
                      let index = nd_index_within_parent (node p table_element);
                          children = children_of (node p foster_parent);
                          p = assert_p (0 \<le> index \<and> nat index < length children \<and> children ! nat index = table_element) p
                      in insert_node foster_parent index nd p)"

section \<open>Text, popping, comments\<close>

definition token_original_text :: "token \<Rightarrow> string_piece" where
  "token_original_text t = (to_text_data t, to_text_length t)"

abbreviation table_tags :: "gumbo_tag list" where
  "table_tags \<equiv> [GUMBO_TAG_TABLE, GUMBO_TAG_TBODY, GUMBO_TAG_TFOOT, GUMBO_TAG_THEAD, GUMBO_TAG_TR]"

text \<open>Whether an insertion goes to a foster parent, and the node it goes to otherwise.\<close>

definition to_foster_parent :: "parser \<Rightarrow> bool \<times> parser" where
  "to_foster_parent p =
     (if pa_foster_parent_insertions p
      then let p = deref_current p in (node_tag_in (current p) table_tags, p)
      else (False, p))"

definition append_to_current :: "node_id \<Rightarrow> parser \<Rightarrow> parser" where
  "append_to_current nd p =
     (if pa_root p = None then append_node (pa_document p) nd p
      else case get_current_node p of
             None \<Rightarrow> assert_p False p
           | Some c \<Rightarrow> append_node c nd p)"

definition maybe_flush_text_node_buffer :: "parser \<Rightarrow> parser" where
  "maybe_flush_text_node_buffer p =
     (let b = pa_text_node p in
      if tb_buffer b = [] then p
      else
        let p = assert_p (tb_type b = GUMBO_NODE_WHITESPACE \<or> tb_type b = GUMBO_NODE_TEXT) p;
            (text_node, p) = create_node (tb_type b)
              (Node_text \<lparr>tx_text = tb_buffer b,
                 tx_original_text = (tb_start_original_text b, to_text_data (pa_token p) - tb_start_original_text b),
                 tx_start_pos = tb_start_position b\<rparr>) p;
            (foster, p) = to_foster_parent p;
            p = (if foster then foster_parent_element text_node p else append_to_current text_node p)
        in p\<lparr>pa_text_node := (pa_text_node p)\<lparr>tb_buffer := [], tb_type := GUMBO_NODE_WHITESPACE\<rparr>\<rparr>)"

definition record_end_of_element :: "token \<Rightarrow> gumbo_node \<Rightarrow> gumbo_node" where
  "record_end_of_element t =
     map_element (\<lambda>e. e\<lparr>el_end_pos := to_position t,
       el_original_end_tag := (if to_type t = GUMBO_TOKEN_END_TAG then token_original_text t else kGumboEmptyString)\<rparr>)"

definition pop_current_node :: "parser \<Rightarrow> node_id option \<times> parser" where
  "pop_current_node p =
     (let p = maybe_flush_text_node_buffer p in
      if pa_open_elements p = [] then (None, p)
      else
        let html = open_element p 0;
            p = deref (Some html) p;
            p = assert_p (node_tag_is (node p html) GUMBO_TAG_HTML) p;
            current_node = last (pa_open_elements p);
            p = p\<lparr>pa_open_elements := butlast (pa_open_elements p)\<rparr>;
            p = deref (Some current_node) p;
            p = assert_p (is_element p current_node) p;
            n = node p current_node; t = pa_token p;
            is_closed_body_or_html_tag =
              ((node_tag_is n GUMBO_TAG_BODY \<and> pa_closed_body_tag p) \<or> (node_tag_is n GUMBO_TAG_HTML \<and> pa_closed_html_tag p));
            p = (if (to_type t \<noteq> GUMBO_TOKEN_END_TAG \<or> \<not> node_tag_is n (token_end_tag (to_v t))) \<and> \<not> is_closed_body_or_html_tag
                 then modify current_node (add_flags GUMBO_INSERTION_IMPLICIT_END_TAG) p else p);
            p = (if \<not> is_closed_body_or_html_tag then modify current_node (record_end_of_element t) p else p)
        in (Some current_node, p))"

definition pop :: "parser \<Rightarrow> parser" where
  "pop p = snd (pop_current_node p)"

fun token_text :: "token_value \<Rightarrow> byte list" where
  "token_text (V_text t) = t"
| "token_text v = []"

definition append_comment_node :: "node_id option \<Rightarrow> parser \<Rightarrow> parser" where
  "append_comment_node nd p =
     (let p = maybe_flush_text_node_buffer p; t = pa_token p;
          (comment, p) = create_node GUMBO_NODE_COMMENT
            (Node_text \<lparr>tx_text = token_text (to_v t), tx_original_text = token_original_text t, tx_start_pos = to_position t\<rparr>) p
      in case nd of None \<Rightarrow> assert_p False p | Some nd \<Rightarrow> append_node nd comment p)"

end
