(* ===== verification/GumboTree.thy ===== *)
theory GumboTree
  imports GumboNodes
begin

text \<open>
  The helpers of the tree builder (\<^verbatim>\<open>src/html_parser/parser.cpp\<close> from
  \<^verbatim>\<open>clear_stack_to_table_row_context\<close> to \<^verbatim>\<open>finish_parsing\<close>): inserting elements, the list of
  active formatting elements, scopes, implied end tags, foreign attributes, doctypes and the adoption agency
  algorithm.  A loop that pops the stack of open elements ends because popping makes the stack or the pending text
  smaller; where the code would follow the null pointer that popping the empty stack returns, or loop for ever, the
  ghost flag is cleared and the loop ends.
\<close>

section \<open>Tables\<close>

definition kQuirksModePublicIdPrefixes :: "string list" where
  "kQuirksModePublicIdPrefixes =
     [''+//Silmaril//dtd html Pro v0r11 19970101//'',
      ''-//AdvaSoft Ltd//DTD HTML 3.0 asWedit + extensions//'',
      ''-//AS//DTD HTML 3.0 asWedit + extensions//'',
      ''-//IETF//DTD HTML 2.0 Level 1//'',
      ''-//IETF//DTD HTML 2.0 Level 2//'',
      ''-//IETF//DTD HTML 2.0 Strict Level 1//'',
      ''-//IETF//DTD HTML 2.0 Strict Level 2//'',
      ''-//IETF//DTD HTML 2.0 Strict//'',
      ''-//IETF//DTD HTML 2.0//'',
      ''-//IETF//DTD HTML 2.1E//'',
      ''-//IETF//DTD HTML 3.0//'',
      ''-//IETF//DTD HTML 3.2 Final//'',
      ''-//IETF//DTD HTML 3.2//'',
      ''-//IETF//DTD HTML 3//'',
      ''-//IETF//DTD HTML Level 0//'',
      ''-//IETF//DTD HTML Level 1//'',
      ''-//IETF//DTD HTML Level 2//'',
      ''-//IETF//DTD HTML Level 3//'',
      ''-//IETF//DTD HTML Strict Level 0//'',
      ''-//IETF//DTD HTML Strict Level 1//'',
      ''-//IETF//DTD HTML Strict Level 2//'',
      ''-//IETF//DTD HTML Strict Level 3//'',
      ''-//IETF//DTD HTML Strict//'',
      ''-//IETF//DTD HTML//'',
      ''-//Metrius//DTD Metrius Presentational//'',
      ''-//Microsoft//DTD Internet Explorer 2.0 HTML Strict//'',
      ''-//Microsoft//DTD Internet Explorer 2.0 HTML//'',
      ''-//Microsoft//DTD Internet Explorer 2.0 Tables//'',
      ''-//Microsoft//DTD Internet Explorer 3.0 HTML Strict//'',
      ''-//Microsoft//DTD Internet Explorer 3.0 HTML//'',
      ''-//Microsoft//DTD Internet Explorer 3.0 Tables//'',
      ''-//Netscape Comm. Corp.//DTD HTML//'',
      ''-//Netscape Comm. Corp.//DTD Strict HTML//'',
      ''-//O'Reilly and Associates//DTD HTML 2.0//'',
      ''-//O'Reilly and Associates//DTD HTML Extended 1.0//'',
      ''-//O'Reilly and Associates//DTD HTML Extended Relaxed 1.0//'',
      ''-//SoftQuad Software//DTD HoTMetaL PRO 6.0::19990601::)extensions to HTML 4.0//'',
      ''-//SoftQuad//DTD HoTMetaL PRO 4.0::19971010::extensions to HTML 4.0//'',
      ''-//Spyglass//DTD HTML 2.0 Extended//'',
      ''-//SQ//DTD HTML 2.0 HoTMetaL + extensions//'',
      ''-//Sun Microsystems Corp.//DTD HotJava HTML//'',
      ''-//Sun Microsystems Corp.//DTD HotJava Strict HTML//'',
      ''-//W3C//DTD HTML 3 1995-03-24//'',
      ''-//W3C//DTD HTML 3.2 Draft//'',
      ''-//W3C//DTD HTML 3.2 Final//'',
      ''-//W3C//DTD HTML 3.2//'',
      ''-//W3C//DTD HTML 3.2S Draft//'',
      ''-//W3C//DTD HTML 4.0 Frameset//'',
      ''-//W3C//DTD HTML 4.0 Transitional//'',
      ''-//W3C//DTD HTML Experimental 19960712//'',
      ''-//W3C//DTD HTML Experimental 970421//'',
      ''-//W3C//DTD W3 HTML//'',
      ''-//W3O//DTD W3 HTML 3.0//'',
      ''-//WebTechs//DTD Mozilla HTML 2.0//'',
      ''-//WebTechs//DTD Mozilla HTML//'']"

definition kQuirksModePublicIdExactMatches :: "string list" where
  "kQuirksModePublicIdExactMatches =
     [''-//W3O//DTD W3 HTML Strict 3.0//EN//'',
      ''-/W3C/DTD HTML 4.0 Transitional/EN'',
      ''HTML'']"

definition kQuirksModeSystemIdExactMatches :: "string list" where
  "kQuirksModeSystemIdExactMatches =
     [''http://www.ibm.com/data/dtd/v11/ibmxhtml1-transitional.dtd'']"

definition kLimitedQuirksPublicIdPrefixes :: "string list" where
  "kLimitedQuirksPublicIdPrefixes =
     [''-//W3C//DTD XHTML 1.0 Frameset//'',
      ''-//W3C//DTD XHTML 1.0 Transitional//'']"

definition kLimitedQuirksRequiresSystemIdPublicIdPrefixes :: "string list" where
  "kLimitedQuirksRequiresSystemIdPublicIdPrefixes =
     [''-//W3C//DTD HTML 4.01 Frameset//'',
      ''-//W3C//DTD HTML 4.01 Transitional//'']"

definition kSvgAttributeReplacements :: "(string \<times> string) list" where
  "kSvgAttributeReplacements =
     [(''attributename'', ''attributeName''),
      (''attributetype'', ''attributeType''),
      (''basefrequency'', ''baseFrequency''),
      (''baseprofile'', ''baseProfile''),
      (''calcmode'', ''calcMode''),
      (''clippathunits'', ''clipPathUnits''),
      (''contentscripttype'', ''contentScriptType''),
      (''contentstyletype'', ''contentStyleType''),
      (''diffuseconstant'', ''diffuseConstant''),
      (''edgemode'', ''edgeMode''),
      (''externalresourcesrequired'', ''externalResourcesRequired''),
      (''filterres'', ''filterRes''),
      (''filterunits'', ''filterUnits''),
      (''glyphref'', ''glyphRef''),
      (''gradienttransform'', ''gradientTransform''),
      (''gradientunits'', ''gradientUnits''),
      (''kernelmatrix'', ''kernelMatrix''),
      (''kernelunitlength'', ''kernelUnitLength''),
      (''keypoints'', ''keyPoints''),
      (''keysplines'', ''keySplines''),
      (''keytimes'', ''keyTimes''),
      (''lengthadjust'', ''lengthAdjust''),
      (''limitingconeangle'', ''limitingConeAngle''),
      (''markerheight'', ''markerHeight''),
      (''markerunits'', ''markerUnits''),
      (''markerwidth'', ''markerWidth''),
      (''maskcontentunits'', ''maskContentUnits''),
      (''maskunits'', ''maskUnits''),
      (''numoctaves'', ''numOctaves''),
      (''pathlength'', ''pathLength''),
      (''patterncontentunits'', ''patternContentUnits''),
      (''patterntransform'', ''patternTransform''),
      (''patternunits'', ''patternUnits''),
      (''pointsatx'', ''pointsAtX''),
      (''pointsaty'', ''pointsAtY''),
      (''pointsatz'', ''pointsAtZ''),
      (''preservealpha'', ''preserveAlpha''),
      (''preserveaspectratio'', ''preserveAspectRatio''),
      (''primitiveunits'', ''primitiveUnits''),
      (''refx'', ''refX''),
      (''refy'', ''refY''),
      (''repeatcount'', ''repeatCount''),
      (''repeatdur'', ''repeatDur''),
      (''requiredextensions'', ''requiredExtensions''),
      (''requiredfeatures'', ''requiredFeatures''),
      (''specularconstant'', ''specularConstant''),
      (''specularexponent'', ''specularExponent''),
      (''spreadmethod'', ''spreadMethod''),
      (''startoffset'', ''startOffset''),
      (''stddeviation'', ''stdDeviation''),
      (''stitchtiles'', ''stitchTiles''),
      (''surfacescale'', ''surfaceScale''),
      (''systemlanguage'', ''systemLanguage''),
      (''tablevalues'', ''tableValues''),
      (''targetx'', ''targetX''),
      (''targety'', ''targetY''),
      (''textlength'', ''textLength''),
      (''viewbox'', ''viewBox''),
      (''viewtarget'', ''viewTarget''),
      (''xchannelselector'', ''xChannelSelector''),
      (''ychannelselector'', ''yChannelSelector''),
      (''zoomandpan'', ''zoomAndPan'')]"

definition kSvgTagReplacements :: "(string \<times> string) list" where
  "kSvgTagReplacements =
     [(''altglyph'', ''altGlyph''),
      (''altglyphdef'', ''altGlyphDef''),
      (''altglyphitem'', ''altGlyphItem''),
      (''animatecolor'', ''animateColor''),
      (''animatemotion'', ''animateMotion''),
      (''animatetransform'', ''animateTransform''),
      (''clippath'', ''clipPath''),
      (''feblend'', ''feBlend''),
      (''fecolormatrix'', ''feColorMatrix''),
      (''fecomponenttransfer'', ''feComponentTransfer''),
      (''fecomposite'', ''feComposite''),
      (''feconvolvematrix'', ''feConvolveMatrix''),
      (''fediffuselighting'', ''feDiffuseLighting''),
      (''fedisplacementmap'', ''feDisplacementMap''),
      (''fedistantlight'', ''feDistantLight''),
      (''feflood'', ''feFlood''),
      (''fefunca'', ''feFuncA''),
      (''fefuncb'', ''feFuncB''),
      (''fefuncg'', ''feFuncG''),
      (''fefuncr'', ''feFuncR''),
      (''fegaussianblur'', ''feGaussianBlur''),
      (''feimage'', ''feImage''),
      (''femerge'', ''feMerge''),
      (''femergenode'', ''feMergeNode''),
      (''femorphology'', ''feMorphology''),
      (''feoffset'', ''feOffset''),
      (''fepointlight'', ''fePointLight''),
      (''fespecularlighting'', ''feSpecularLighting''),
      (''fespotlight'', ''feSpotLight''),
      (''fetile'', ''feTile''),
      (''feturbulence'', ''feTurbulence''),
      (''foreignobject'', ''foreignObject''),
      (''glyphref'', ''glyphRef''),
      (''lineargradient'', ''linearGradient''),
      (''radialgradient'', ''radialGradient''),
      (''textpath'', ''textPath'')]"

definition kForeignAttributeReplacements :: "(string \<times> string \<times> attribute_namespace) list" where
  "kForeignAttributeReplacements =
     [(''xlink:actuate'', ''actuate'', GUMBO_ATTR_NAMESPACE_XLINK),
      (''xlink:actuate'', ''actuate'', GUMBO_ATTR_NAMESPACE_XLINK),
      (''xlink:href'', ''href'', GUMBO_ATTR_NAMESPACE_XLINK),
      (''xlink:role'', ''role'', GUMBO_ATTR_NAMESPACE_XLINK),
      (''xlink:show'', ''show'', GUMBO_ATTR_NAMESPACE_XLINK),
      (''xlink:title'', ''title'', GUMBO_ATTR_NAMESPACE_XLINK),
      (''xlink:type'', ''type'', GUMBO_ATTR_NAMESPACE_XLINK),
      (''xml:base'', ''base'', GUMBO_ATTR_NAMESPACE_XML),
      (''xml:lang'', ''lang'', GUMBO_ATTR_NAMESPACE_XML),
      (''xml:space'', ''space'', GUMBO_ATTR_NAMESPACE_XML),
      (''xmlns'', ''xmlns'', GUMBO_ATTR_NAMESPACE_XMLNS),
      (''xmlns:xlink'', ''xlink'', GUMBO_ATTR_NAMESPACE_XMLNS)]"

section \<open>Popping\<close>

definition stack_weight :: "parser \<Rightarrow> nat" where
  "stack_weight p = 2 * length (pa_open_elements p) + (if tb_buffer (pa_text_node p) = [] then 0 else 1)"

lemma assert_p_stack [simp]:
  "pa_open_elements (assert_p b p) = pa_open_elements p" "pa_text_node (assert_p b p) = pa_text_node p"
  by (simp_all add: assert_p_def)

lemma deref_stack [simp]:
  "pa_open_elements (deref i p) = pa_open_elements p" "pa_text_node (deref i p) = pa_text_node p"
  "pa_open_elements (deref_current p) = pa_open_elements p" "pa_text_node (deref_current p) = pa_text_node p"
  by (simp_all add: deref_def deref_current_def check_current_def)

lemma modify_stack [simp]:
  "pa_open_elements (modify i f p) = pa_open_elements p" "pa_text_node (modify i f p) = pa_text_node p"
  by (simp_all add: modify_def split: option.split)

lemma create_node_stack [simp]:
  "pa_open_elements (snd (create_node ty v p)) = pa_open_elements p"
  "pa_text_node (snd (create_node ty v p)) = pa_text_node p"
  by (simp_all add: create_node_def)

lemma to_foster_parent_stack [simp]:
  "pa_open_elements (snd (to_foster_parent p)) = pa_open_elements p"
  "pa_text_node (snd (to_foster_parent p)) = pa_text_node p"
  by (simp_all add: to_foster_parent_def Let_def)

lemma append_node_stack [simp]:
  "pa_open_elements (append_node q nd p) = pa_open_elements p" "pa_text_node (append_node q nd p) = pa_text_node p"
  by (simp_all add: append_node_def Let_def)

lemma reindex_stack [simp]:
  "pa_open_elements (reindex i cs p) = pa_open_elements p" "pa_text_node (reindex i cs p) = pa_text_node p"
  by (induction i cs p rule: reindex.induct) simp_all

lemma insert_node_stack [simp]:
  "pa_open_elements (insert_node q i nd p) = pa_open_elements p" "pa_text_node (insert_node q i nd p) = pa_text_node p"
  by (simp_all add: insert_node_def Let_def)

lemma append_to_current_stack [simp]:
  "pa_open_elements (append_to_current nd p) = pa_open_elements p"
  "pa_text_node (append_to_current nd p) = pa_text_node p"
  by (simp_all add: append_to_current_def split: option.split)

lemma foster_append_stack:
  "length (pa_open_elements (foster_append q nd p)) \<le> length (pa_open_elements p) + 1"
  "pa_text_node (foster_append q nd p) = pa_text_node p"
  by (simp_all add: foster_append_def push_open_element_def)

lemma foster_parent_stack:
  "length (pa_open_elements (foster_parent_element nd p)) \<le> length (pa_open_elements p) + 1"
  "pa_text_node (foster_parent_element nd p) = pa_text_node p"
proof -
  show "length (pa_open_elements (foster_parent_element nd p)) \<le> length (pa_open_elements p) + 1"
    by (auto simp: foster_parent_element_def Let_def split: option.split intro!: order.trans [OF foster_append_stack(1)])
  show "pa_text_node (foster_parent_element nd p) = pa_text_node p"
    by (auto simp: foster_parent_element_def Let_def foster_append_stack split: option.split)
qed

lemma flush_stack:
  "length (pa_open_elements (maybe_flush_text_node_buffer p))
     \<le> length (pa_open_elements p) + (if tb_buffer (pa_text_node p) = [] then 0 else 1)"
  "tb_buffer (pa_text_node (maybe_flush_text_node_buffer p)) = []"
  using foster_parent_stack
  by (auto simp: maybe_flush_text_node_buffer_def Let_def create_node_def case_prod_unfold
      intro!: order.trans [OF foster_parent_stack(1)])

lemma pop_stack:
  assumes "pop_current_node p = (Some n, q)"
  shows "pa_open_elements (maybe_flush_text_node_buffer p) \<noteq> []
    \<and> pa_open_elements q = butlast (pa_open_elements (maybe_flush_text_node_buffer p)) \<and> tb_buffer (pa_text_node q) = []"
  using assms flush_stack(2) [of p] by (auto simp: pop_current_node_def Let_def split: if_splits)

lemma weight_simps [simp]:
  "stack_weight (modify i f p) = stack_weight p" "stack_weight (deref_current p) = stack_weight p"
  by (simp_all add: stack_weight_def)

lemma pop_weight: "pop_current_node p = (Some n, q) \<Longrightarrow> stack_weight q < stack_weight p"
  using pop_stack [of p n q] flush_stack(1) [of p]
  by (auto simp: stack_weight_def split: if_splits) (metis One_nat_def diff_less length_greater_0_conv zero_less_one mult_le_mono2 le_less_trans not_less)

text \<open>\<^verbatim>\<open>while (P(get_current_node(parser))) pop_current_node(parser);\<close>\<close>

function pop_while :: "(gumbo_node \<Rightarrow> bool) \<Rightarrow> parser \<Rightarrow> parser" where
  "pop_while P p =
     (let p = deref_current p in
      if pa_open_elements p \<noteq> [] \<and> P (current p)
      then (case pop_current_node p of (None, p) \<Rightarrow> p | (Some n, p) \<Rightarrow> pop_while P p)
      else p)"
  by pat_completeness auto
termination
proof (relation "measure (\<lambda>(P, p). stack_weight p)")
  fix P p x xa y n
  assume "x = deref_current p" "(xa, y) = pop_current_node x" "xa = Some n"
  then show "((P, y), (P, p)) \<in> measure (\<lambda>(P, p). stack_weight p)"
    using pop_weight [of x n y] by simp
qed simp

text \<open>\<^verbatim>\<open>do node = pop_current_node(parser); while (!P(node));\<close>\<close>

function pop_until :: "(node_id \<Rightarrow> gumbo_node \<Rightarrow> bool) \<Rightarrow> parser \<Rightarrow> parser" where
  "pop_until P p =
     (case pop_current_node p of
        (None, p) \<Rightarrow> assert_p False p
      | (Some n, p) \<Rightarrow> if P n (node p n) then p else pop_until P p)"
  by pat_completeness auto
termination
proof (relation "measure (\<lambda>(P, p). stack_weight p)")
  fix P p x y n
  assume "(x, y) = pop_current_node p" "x = Some n"
  then show "((P, y), (P, p)) \<in> measure (\<lambda>(P, p). stack_weight p)"
    using pop_weight [of p n y] by simp
qed simp

declare pop_while.simps [simp del] pop_until.simps [simp del]

definition clear_stack_to_table_row_context :: "parser \<Rightarrow> parser" where
  "clear_stack_to_table_row_context p = pop_while (\<lambda>n. \<not> node_tag_in n [GUMBO_TAG_HTML, GUMBO_TAG_TR]) p"

definition clear_stack_to_table_context :: "parser \<Rightarrow> parser" where
  "clear_stack_to_table_context p = pop_while (\<lambda>n. \<not> node_tag_in n [GUMBO_TAG_HTML, GUMBO_TAG_TABLE]) p"

definition clear_stack_to_table_body_context :: "parser \<Rightarrow> parser" where
  "clear_stack_to_table_body_context p =
     pop_while (\<lambda>n. \<not> node_tag_in n [GUMBO_TAG_HTML, GUMBO_TAG_TBODY, GUMBO_TAG_TFOOT, GUMBO_TAG_THEAD]) p"

section \<open>Creating and inserting elements\<close>

definition create_element :: "gumbo_tag \<Rightarrow> parser \<Rightarrow> node_id \<times> parser" where
  "create_element tag p =
     create_node GUMBO_NODE_ELEMENT
       (Node_element \<lparr>el_children = [], el_tag = tag, el_tag_namespace = GUMBO_NAMESPACE_HTML,
          el_original_tag = kGumboEmptyString, el_original_end_tag = kGumboEmptyString,
          el_start_pos = to_position (pa_token p), el_end_pos = kGumboEmptySourcePosition, el_attributes = []\<rparr>) p"

fun drop_attributes :: "token_value \<Rightarrow> token_value" where
  "drop_attributes (V_start_tag tag as sc) = V_start_tag tag None sc"
| "drop_attributes v = v"

definition set_token_value :: "token_value \<Rightarrow> parser \<Rightarrow> parser" where
  "set_token_value v p = p\<lparr>pa_token := (pa_token p)\<lparr>to_v := v\<rparr>\<rparr>"

definition create_element_from_token :: "gumbo_namespace \<Rightarrow> parser \<Rightarrow> node_id \<times> parser" where
  "create_element_from_token tag_namespace p =
     (let t = pa_token p; mem = ut_mem (tk_input (pa_tokenizer p));
          p = assert_p (to_type t = GUMBO_TOKEN_START_TAG) p;
          (nd, p) = create_node GUMBO_NODE_ELEMENT
            (Node_element \<lparr>el_children = [], el_tag = token_start_tag (to_v t), el_tag_namespace = tag_namespace,
               el_original_tag = token_original_text t, el_original_end_tag = kGumboEmptyString,
               el_start_pos = to_position t, el_end_pos = kGumboEmptySourcePosition,
               el_attributes = start_tag_attributes (to_v t)\<rparr>) p;
          p = assert_p (to_text_length t \<ge> 2 \<and> mem (to_text_data t) = 0x3C
                        \<and> mem (to_text_data t + to_text_length t - 1) = 0x3E) p
      in (nd, set_token_value (drop_attributes (to_v t)) p))"

definition insert_element :: "node_id \<Rightarrow> bool \<Rightarrow> parser \<Rightarrow> parser" where
  "insert_element nd is_reconstructing_formatting_elements p =
     (let p = (if \<not> is_reconstructing_formatting_elements then maybe_flush_text_node_buffer p else p);
          (foster, p) = to_foster_parent p
      in push_open_element nd (if foster then foster_parent_element nd p else append_to_current nd p))"

definition insert_element_from_token :: "parser \<Rightarrow> node_id \<times> parser" where
  "insert_element_from_token p =
     (let (nd, p) = create_element_from_token GUMBO_NAMESPACE_HTML p in (nd, insert_element nd False p))"

definition insert_element_of_tag_type :: "gumbo_tag \<Rightarrow> parse_flags \<Rightarrow> parser \<Rightarrow> node_id \<times> parser" where
  "insert_element_of_tag_type tag reason p =
     (let (nd, p) = create_element tag p;
          p = modify nd (add_flags (GUMBO_INSERTION_BY_PARSER OR reason)) p
      in (nd, insert_element nd False p))"

definition kLegalXmlns :: "gumbo_namespace \<Rightarrow> string" where
  "kLegalXmlns ns = (case ns of
     GUMBO_NAMESPACE_HTML \<Rightarrow> ''http://www.w3.org/1999/xhtml''
   | GUMBO_NAMESPACE_SVG \<Rightarrow> ''http://www.w3.org/2000/svg''
   | GUMBO_NAMESPACE_MATHML \<Rightarrow> ''http://www.w3.org/1998/Math/MathML'')"

definition insert_foreign_element :: "gumbo_namespace \<Rightarrow> parser \<Rightarrow> node_id \<times> parser" where
  "insert_foreign_element tag_namespace p =
     (let p = assert_p (to_type (pa_token p) = GUMBO_TOKEN_START_TAG) p;
          (nd, p) = create_element_from_token tag_namespace p;
          p = insert_element nd False p;
          p = (if token_has_attribute ''xmlns'' (pa_token p)
                  \<and> \<not> attribute_matches_case_sensitive (start_tag_attributes (to_v (pa_token p))) (bytes_of ''xmlns'')
                        (bytes_of (kLegalXmlns tag_namespace))
               then parser_add_parse_error p else p);
          p = (if token_has_attribute ''xmlns:xlink'' (pa_token p)
                  \<and> \<not> attribute_matches_case_sensitive (start_tag_attributes (to_v (pa_token p))) (bytes_of ''xmlns:xlink'')
                        (bytes_of ''http://www.w3.org/1999/xlink'')
               then parser_add_parse_error p else p)
      in (nd, p))"

fun token_character :: "token_value \<Rightarrow> int" where
  "token_character (V_character c) = c"
| "token_character v = 0"

definition insert_text_token :: "parser \<Rightarrow> parser" where
  "insert_text_token p =
     (let t = pa_token p;
          p = assert_p (to_type t = GUMBO_TOKEN_WHITESPACE \<or> to_type t = GUMBO_TOKEN_CHARACTER) p;
          b = pa_text_node p;
          b = (if tb_buffer b = []
               then b\<lparr>tb_start_original_text := to_text_data t, tb_start_position := to_position t\<rparr> else b);
          b = b\<lparr>tb_buffer := tb_buffer b @ utf8_bytes (token_character (to_v t))\<rparr>;
          b = (if to_type t = GUMBO_TOKEN_CHARACTER then b\<lparr>tb_type := GUMBO_NODE_TEXT\<rparr> else b)
      in p\<lparr>pa_text_node := b\<rparr>)"

definition set_lexer_state :: "lexer_state \<Rightarrow> parser \<Rightarrow> parser" where
  "set_lexer_state s p = p\<lparr>pa_tokenizer := gumbo_tokenizer_set_state s (pa_tokenizer p)\<rparr>"

definition run_generic_parsing_algorithm :: "lexer_state \<Rightarrow> parser \<Rightarrow> parser" where
  "run_generic_parsing_algorithm lexer_state p =
     (let (nd, p) = insert_element_from_token p;
          p = set_lexer_state lexer_state p
      in p\<lparr>pa_original_insertion_mode := pa_insertion_mode p, pa_insertion_mode := GUMBO_INSERTION_MODE_TEXT\<rparr>)"

definition acknowledge_self_closing_tag :: "parser \<Rightarrow> parser" where
  "acknowledge_self_closing_tag p = p\<lparr>pa_self_closing_flag_acknowledged := True\<rparr>"

section \<open>Active formatting elements\<close>

text \<open>The searches go through the list from its end: the argument is the reversed list.\<close>

fun find_anchor :: "node_id option list \<Rightarrow> parser \<Rightarrow> nat option \<times> parser" where
  "find_anchor [] p = (None, p)"
| "find_anchor (None # es) p = (None, p)"
| "find_anchor (Some nd # es) p =
     (let p = deref (Some nd) p in
      if node_tag_is (node p nd) GUMBO_TAG_A then (Some (length es), p) else find_anchor es p)"

definition find_last_anchor_index :: "parser \<Rightarrow> nat option \<times> parser" where
  "find_last_anchor_index p = find_anchor (rev (pa_active_formatting_elements p)) p"

definition same_formatting :: "gumbo_element \<Rightarrow> gumbo_node \<Rightarrow> bool" where
  "same_formatting desired n \<longleftrightarrow>
     node_tag_is n (el_tag desired) \<and> el_tag_namespace (node_element n) = el_tag_namespace desired
     \<and> all_attributes_match (el_attributes (node_element n)) (el_attributes desired)"

fun count_formatting :: "gumbo_element \<Rightarrow> node_id option list \<Rightarrow> nat \<Rightarrow> nat \<Rightarrow> parser \<Rightarrow> (nat \<times> nat) \<times> parser" where
  "count_formatting desired [] num earliest p = ((num, earliest), p)"
| "count_formatting desired (None # es) num earliest p = ((num, earliest), p)"
| "count_formatting desired (Some nd # es) num earliest p =
     (let p = deref (Some nd) p; p = assert_p (is_element p nd) p in
      if same_formatting desired (node p nd) then count_formatting desired es (num + 1) (length es) p
      else count_formatting desired es num earliest p)"

text \<open>The scope marker is a static node, all of whose fields are zero.\<close>

definition formatting_element :: "parser \<Rightarrow> node_id option \<Rightarrow> gumbo_element" where
  "formatting_element p nd = (case nd of None \<Rightarrow> blank_element | Some i \<Rightarrow> element p i)"

definition count_formatting_elements_of_tag :: "node_id option \<Rightarrow> nat \<Rightarrow> parser \<Rightarrow> (nat \<times> nat) \<times> parser" where
  "count_formatting_elements_of_tag desired earliest p =
     count_formatting (formatting_element p desired) (rev (pa_active_formatting_elements p)) 0 earliest p"

definition remove_nth :: "nat \<Rightarrow> 'a list \<Rightarrow> 'a list" where
  "remove_nth i xs = take i xs @ drop (i + 1) xs"

definition add_formatting_element :: "node_id option \<Rightarrow> parser \<Rightarrow> parser" where
  "add_formatting_element nd p =
     (let p = (case nd of None \<Rightarrow> p | Some i \<Rightarrow> assert_p (is_element p i) (deref nd p));
          ((num_identical_elements, earliest_identical_element), p) =
            count_formatting_elements_of_tag nd (length (pa_active_formatting_elements p)) p;
          elements = pa_active_formatting_elements p;
          elements = (if num_identical_elements \<ge> 3 then remove_nth earliest_identical_element elements else elements)
      in p\<lparr>pa_active_formatting_elements := elements @ [nd]\<rparr>)"

definition is_open_element :: "parser \<Rightarrow> node_id option \<Rightarrow> bool" where
  "is_open_element p nd = (case nd of None \<Rightarrow> False | Some i \<Rightarrow> i \<in> set (pa_open_elements p))"

definition copy_attribute :: "gumbo_attribute \<Rightarrow> gumbo_attribute" where
  "copy_attribute a = a\<lparr>at_name := c_string (at_name a), at_value := c_string (at_value a)\<rparr>"

definition clone_node :: "node_id \<Rightarrow> parse_flags \<Rightarrow> parser \<Rightarrow> node_id \<times> parser" where
  "clone_node nd reason p =
     (let p = deref (Some nd) p;
          p = assert_p (is_element p nd) p;
          (new_node, p) = create_node GUMBO_NODE_ELEMENT (Node_element
            ((element p nd)\<lparr>el_children := [], el_attributes := map copy_attribute (el_attributes (element p nd))\<rparr>)) p;
          fl = (nd_parse_flags (node p nd) AND NOT GUMBO_INSERTION_IMPLICIT_END_TAG) OR GUMBO_INSERTION_BY_PARSER OR reason
      in (new_node, modify new_node (\<lambda>n. n\<lparr>nd_parse_flags := fl\<rparr>) p))"

primrec reconstruct_loop :: "nat \<Rightarrow> nat \<Rightarrow> parser \<Rightarrow> parser" where
  "reconstruct_loop 0 i p = p"
| "reconstruct_loop (Suc k) i p =
     (case pa_active_formatting_elements p ! i of
        None \<Rightarrow> assert_p False p
      | Some nd \<Rightarrow>
          let (clone, p) = clone_node nd GUMBO_INSERTION_RECONSTRUCTED_FORMATTING_ELEMENT p;
              p = insert_element clone True p;
              p = p\<lparr>pa_active_formatting_elements := (pa_active_formatting_elements p)[i := Some clone]\<rparr>
          in reconstruct_loop k (i + 1) p)"

definition reconstruct_active_formatting_elements :: "parser \<Rightarrow> parser" where
  "reconstruct_active_formatting_elements p =
     (let elements = pa_active_formatting_elements p;
          stop = (\<lambda>i. elements ! i = None \<or> is_open_element p (elements ! i))
      in if elements = [] \<or> stop (length elements - 1) then p
         else
           let i = (case search_down stop (length elements - 1) of None \<Rightarrow> 0 | Some k \<Rightarrow> k + 1);
               p = deref_current p
           in reconstruct_loop (length elements - i) i p)"

text \<open>Pop the list until the scope marker or nothing is popped.\<close>

fun drop_to_marker :: "node_id option list \<Rightarrow> node_id option list" where
  "drop_to_marker [] = []"
| "drop_to_marker (None # es) = es"
| "drop_to_marker (Some nd # es) = drop_to_marker es"

definition clear_active_formatting_elements :: "parser \<Rightarrow> parser" where
  "clear_active_formatting_elements p =
     p\<lparr>pa_active_formatting_elements := rev (drop_to_marker (rev (pa_active_formatting_elements p)))\<rparr>"


section \<open>Doctypes\<close>

definition c_str_of :: "byte list option \<Rightarrow> byte list" where
  "c_str_of s = (case s of Some s \<Rightarrow> s | None \<Rightarrow> [])"

definition compute_quirks_mode :: "doc_type \<Rightarrow> quirks_mode" where
  "compute_quirks_mode d =
     (let public_identifier = c_str_of (dt_public_identifier d); system_identifier = c_str_of (dt_system_identifier d) in
      if dt_force_quirks d
         \<or> \<not> strcmp_eq (c_str_of (dt_name d)) (bytes_of ''html'')
         \<or> is_in_static_list public_identifier kQuirksModePublicIdPrefixes False
         \<or> is_in_static_list public_identifier kQuirksModePublicIdExactMatches True
         \<or> is_in_static_list system_identifier kQuirksModeSystemIdExactMatches True
         \<or> (is_in_static_list public_identifier kLimitedQuirksRequiresSystemIdPublicIdPrefixes False
             \<and> \<not> dt_has_system_identifier d)
      then GUMBO_DOCTYPE_QUIRKS
      else if is_in_static_list public_identifier kLimitedQuirksPublicIdPrefixes False
         \<or> (is_in_static_list public_identifier kLimitedQuirksRequiresSystemIdPublicIdPrefixes False
             \<and> dt_has_system_identifier d)
      then GUMBO_DOCTYPE_LIMITED_QUIRKS
      else GUMBO_DOCTYPE_NO_QUIRKS)"

definition doctype_matches :: "doc_type \<Rightarrow> string \<Rightarrow> string \<Rightarrow> bool \<Rightarrow> bool" where
  "doctype_matches d public_id system_id allow_missing_system_id \<longleftrightarrow>
     strcmp_eq (c_str_of (dt_public_identifier d)) (bytes_of public_id)
     \<and> (allow_missing_system_id \<or> dt_has_system_identifier d)
     \<and> strcmp_eq (c_str_of (dt_system_identifier d)) (bytes_of system_id)"

definition doctype_error :: "doc_type \<Rightarrow> bool" where
  "doctype_error d =
     (let html_doctype = strcmp_eq (c_str_of (dt_name d)) (bytes_of ''html'') in
      \<not> html_doctype
      \<or> dt_has_public_identifier d
      \<or> (dt_has_system_identifier d \<and> strcmp_eq (c_str_of (dt_system_identifier d)) (bytes_of ''about:legacy-compat''))
      \<or> \<not> (html_doctype \<and>
            (doctype_matches d ''-//W3C//DTD HTML 4.0//EN'' ''http://www.w3.org/TR/REC-html40/strict.dtd'' True
             \<or> doctype_matches d ''-//W3C//DTD HTML 4.01//EN'' ''http://www.w3.org/TR/html4/strict.dtd'' True
             \<or> doctype_matches d ''-//W3C//DTD XHTML 1.0 Strict//EN'' ''http://www.w3.org/TR/xhtml1/DTD/xhtml1-strict.dtd'' False
             \<or> doctype_matches d ''-//W3C//DTD XHTML 1.1//EN'' ''http://www.w3.org/TR/xhtml11/DTD/xhtml11.dtd'' False)))"

fun token_doc_type :: "token_value \<Rightarrow> doc_type" where
  "token_doc_type (V_doc_type d) = d"
| "token_doc_type v = empty_doc_type"

definition maybe_add_doctype_error :: "parser \<Rightarrow> bool \<times> parser" where
  "maybe_add_doctype_error p =
     (if doctype_error (token_doc_type (to_v (pa_token p))) then (False, parser_add_parse_error p) else (True, p))"

section \<open>Scopes\<close>

text \<open>The loop over the stack from the top down, which is the argument.\<close>

fun scope_loop :: "parser \<Rightarrow> gumbo_tag list \<Rightarrow> bool \<Rightarrow> gumbo_tag list \<Rightarrow> node_id list \<Rightarrow> bool" where
  "scope_loop p expected negate tags [] = False"
| "scope_loop p expected negate tags (nd # es) =
     (if \<not> is_element p nd then scope_loop p expected negate tags es
      else
        let node_tag = el_tag (element p nd) in
        if node_tag \<in> set expected then True
        else if negate \<noteq> (node_tag \<in> set tags) then False
        else scope_loop p expected negate tags es)"

definition has_an_element_in_specific_scope :: "parser \<Rightarrow> gumbo_tag list \<Rightarrow> bool \<Rightarrow> gumbo_tag list \<Rightarrow> bool" where
  "has_an_element_in_specific_scope p expected negate tags = scope_loop p expected negate tags (rev (pa_open_elements p))"

abbreviation scope_tags :: "gumbo_tag list" where
  "scope_tags \<equiv>
     [GUMBO_TAG_APPLET, GUMBO_TAG_CAPTION, GUMBO_TAG_HTML, GUMBO_TAG_TABLE, GUMBO_TAG_TD, GUMBO_TAG_TH, GUMBO_TAG_MARQUEE,
      GUMBO_TAG_OBJECT, GUMBO_TAG_MI, GUMBO_TAG_MO, GUMBO_TAG_MN, GUMBO_TAG_MS, GUMBO_TAG_MTEXT, GUMBO_TAG_ANNOTATION_XML,
      GUMBO_TAG_FOREIGNOBJECT, GUMBO_TAG_DESC, GUMBO_TAG_TITLE]"

definition has_an_element_in_scope :: "parser \<Rightarrow> gumbo_tag \<Rightarrow> bool" where
  "has_an_element_in_scope p tag = has_an_element_in_specific_scope p [tag] False scope_tags"

fun node_scope_loop :: "parser \<Rightarrow> node_id \<Rightarrow> node_id list \<Rightarrow> bool option" where
  "node_scope_loop p nd [] = None"
| "node_scope_loop p nd (c # es) =
     (if c = nd then Some True
      else if \<not> is_element p c then node_scope_loop p nd es
      else if node_tag_in (node p c) scope_tags then Some False
      else node_scope_loop p nd es)"

definition has_node_in_scope :: "node_id \<Rightarrow> parser \<Rightarrow> bool \<times> parser" where
  "has_node_in_scope nd p =
     (case node_scope_loop p nd (rev (pa_open_elements p)) of
        Some b \<Rightarrow> (b, p)
      | None \<Rightarrow> (False, assert_p False p))"

definition has_an_element_in_scope_with_tagname :: "parser \<Rightarrow> gumbo_tag list \<Rightarrow> bool" where
  "has_an_element_in_scope_with_tagname p tags = has_an_element_in_specific_scope p tags False scope_tags"

definition has_an_element_in_list_scope :: "parser \<Rightarrow> gumbo_tag \<Rightarrow> bool" where
  "has_an_element_in_list_scope p tag =
     has_an_element_in_specific_scope p [tag] False (scope_tags @ [GUMBO_TAG_OL, GUMBO_TAG_UL])"

definition has_an_element_in_button_scope :: "parser \<Rightarrow> gumbo_tag \<Rightarrow> bool" where
  "has_an_element_in_button_scope p tag =
     has_an_element_in_specific_scope p [tag] False (scope_tags @ [GUMBO_TAG_BUTTON])"

definition has_an_element_in_table_scope :: "parser \<Rightarrow> gumbo_tag \<Rightarrow> bool" where
  "has_an_element_in_table_scope p tag =
     has_an_element_in_specific_scope p [tag] False [GUMBO_TAG_HTML, GUMBO_TAG_TABLE]"

definition has_an_element_in_select_scope :: "parser \<Rightarrow> gumbo_tag \<Rightarrow> bool" where
  "has_an_element_in_select_scope p tag =
     has_an_element_in_specific_scope p [tag] True [GUMBO_TAG_OPTGROUP, GUMBO_TAG_OPTION]"

section \<open>Closing elements\<close>

definition generate_implied_end_tags :: "gumbo_tag \<Rightarrow> parser \<Rightarrow> parser" where
  "generate_implied_end_tags exception p =
     pop_while (\<lambda>n. node_tag_in n [GUMBO_TAG_DD, GUMBO_TAG_DT, GUMBO_TAG_LI, GUMBO_TAG_OPTION, GUMBO_TAG_OPTGROUP,
                                   GUMBO_TAG_P, GUMBO_TAG_RP, GUMBO_TAG_RT]
                    \<and> \<not> node_tag_is n exception) p"

definition pop_tag :: "gumbo_tag \<Rightarrow> parser \<Rightarrow> parser" where
  "pop_tag tag p = pop_until (\<lambda>_ n. node_tag_is n tag) p"

definition close_table :: "parser \<Rightarrow> bool \<times> parser" where
  "close_table p =
     (if \<not> has_an_element_in_table_scope p GUMBO_TAG_TABLE then (False, p)
      else (True, reset_insertion_mode_appropriately (pop_tag GUMBO_TAG_TABLE p)))"

definition close_table_cell :: "gumbo_tag \<Rightarrow> parser \<Rightarrow> bool \<times> parser" where
  "close_table_cell cell_tag p =
     (let p = generate_implied_end_tags GUMBO_TAG_LAST p;
          p = deref_current p;
          result = node_tag_is (current p) cell_tag;
          p = (if \<not> result then parser_add_parse_error p else p);
          p = pop_tag cell_tag p;
          p = clear_active_formatting_elements p
      in (result, set_insertion_mode GUMBO_INSERTION_MODE_IN_ROW p))"

definition close_current_cell :: "parser \<Rightarrow> bool \<times> parser" where
  "close_current_cell p =
     (if has_an_element_in_table_scope p GUMBO_TAG_TD
      then close_table_cell GUMBO_TAG_TD (assert_p (\<not> has_an_element_in_table_scope p GUMBO_TAG_TH) p)
      else close_table_cell GUMBO_TAG_TH (assert_p (has_an_element_in_table_scope p GUMBO_TAG_TH) p))"

definition close_current_select :: "parser \<Rightarrow> parser" where
  "close_current_select p = reset_insertion_mode_appropriately (pop_tag GUMBO_TAG_SELECT p)"

definition is_special_node :: "gumbo_node \<Rightarrow> bool" where
  "is_special_node n = (case el_tag_namespace (node_element n) of
     GUMBO_NAMESPACE_HTML \<Rightarrow> node_tag_in n
        [GUMBO_TAG_ADDRESS, GUMBO_TAG_APPLET, GUMBO_TAG_AREA, GUMBO_TAG_ARTICLE, GUMBO_TAG_ASIDE,
         GUMBO_TAG_BASE, GUMBO_TAG_BASEFONT, GUMBO_TAG_BGSOUND, GUMBO_TAG_BLOCKQUOTE,
         GUMBO_TAG_BODY, GUMBO_TAG_BR, GUMBO_TAG_BUTTON, GUMBO_TAG_CAPTION, GUMBO_TAG_CENTER,
         GUMBO_TAG_COL, GUMBO_TAG_COLGROUP, GUMBO_TAG_MENUITEM, GUMBO_TAG_DD, GUMBO_TAG_DETAILS,
         GUMBO_TAG_DIR, GUMBO_TAG_DIV, GUMBO_TAG_DL, GUMBO_TAG_DT, GUMBO_TAG_EMBED,
         GUMBO_TAG_FIELDSET, GUMBO_TAG_FIGCAPTION, GUMBO_TAG_FIGURE, GUMBO_TAG_FOOTER,
         GUMBO_TAG_FORM, GUMBO_TAG_FRAME, GUMBO_TAG_FRAMESET, GUMBO_TAG_H1, GUMBO_TAG_H2,
         GUMBO_TAG_H3, GUMBO_TAG_H4, GUMBO_TAG_H5, GUMBO_TAG_H6, GUMBO_TAG_HEAD, GUMBO_TAG_HEADER,
         GUMBO_TAG_HGROUP, GUMBO_TAG_HR, GUMBO_TAG_HTML, GUMBO_TAG_IFRAME, GUMBO_TAG_IMG,
         GUMBO_TAG_INPUT, GUMBO_TAG_ISINDEX, GUMBO_TAG_LI, GUMBO_TAG_LINK, GUMBO_TAG_LISTING,
         GUMBO_TAG_MARQUEE, GUMBO_TAG_MENU, GUMBO_TAG_META, GUMBO_TAG_NAV, GUMBO_TAG_NOEMBED,
         GUMBO_TAG_NOFRAMES, GUMBO_TAG_NOSCRIPT, GUMBO_TAG_OBJECT, GUMBO_TAG_OL, GUMBO_TAG_P,
         GUMBO_TAG_PARAM, GUMBO_TAG_PLAINTEXT, GUMBO_TAG_PRE, GUMBO_TAG_SCRIPT, GUMBO_TAG_SECTION,
         GUMBO_TAG_SELECT, GUMBO_TAG_STYLE, GUMBO_TAG_SUMMARY, GUMBO_TAG_TABLE, GUMBO_TAG_TBODY,
         GUMBO_TAG_TD, GUMBO_TAG_TEXTAREA, GUMBO_TAG_TFOOT, GUMBO_TAG_TH, GUMBO_TAG_THEAD,
         GUMBO_TAG_TITLE, GUMBO_TAG_TR, GUMBO_TAG_UL, GUMBO_TAG_WBR, GUMBO_TAG_XMP]
   | GUMBO_NAMESPACE_MATHML \<Rightarrow> node_tag_in n
        [GUMBO_TAG_MI, GUMBO_TAG_MO, GUMBO_TAG_MN, GUMBO_TAG_MS, GUMBO_TAG_MTEXT, GUMBO_TAG_ANNOTATION_XML]
   | GUMBO_NAMESPACE_SVG \<Rightarrow> node_tag_in n [GUMBO_TAG_FOREIGNOBJECT, GUMBO_TAG_DESC])"

definition implicitly_close_tags :: "gumbo_tag \<Rightarrow> parser \<Rightarrow> bool \<times> parser" where
  "implicitly_close_tags target p =
     (let p = generate_implied_end_tags target p;
          p = deref_current p;
          result = node_tag_is (current p) target;
          p = (if \<not> result then pop_while (\<lambda>n. \<not> node_tag_is n target) (parser_add_parse_error p) else p);
          p = deref_current p;
          p = assert_p (node_tag_is (current p) target) p
      in (result, pop p))"

definition maybe_implicitly_close_p_tag :: "parser \<Rightarrow> bool \<times> parser" where
  "maybe_implicitly_close_p_tag p =
     (if has_an_element_in_button_scope p GUMBO_TAG_P then implicitly_close_tags GUMBO_TAG_P p else (True, p))"

text \<open>The search of \<^verbatim>\<open>maybe_implicitly_close_list_tag\<close> from the top of the stack down.\<close>

fun list_tag_loop :: "bool \<Rightarrow> node_id list \<Rightarrow> parser \<Rightarrow> parser" where
  "list_tag_loop is_li [] p = p"
| "list_tag_loop is_li (nd # es) p =
     (let p = deref (Some nd) p; n = node p nd;
          is_list_tag = (if is_li then node_tag_is n GUMBO_TAG_LI else node_tag_in n [GUMBO_TAG_DD, GUMBO_TAG_DT])
      in if is_list_tag then snd (implicitly_close_tags (el_tag (node_element n)) p)
         else
           let p = assert_p (is_element p nd) p in
           if is_special_node n \<and> \<not> node_tag_in n [GUMBO_TAG_ADDRESS, GUMBO_TAG_DIV, GUMBO_TAG_P] then p
           else list_tag_loop is_li es p)"

definition maybe_implicitly_close_list_tag :: "bool \<Rightarrow> parser \<Rightarrow> parser" where
  "maybe_implicitly_close_list_tag is_li p =
     list_tag_loop is_li (rev (pa_open_elements p)) (p\<lparr>pa_frameset_ok := False\<rparr>)"

section \<open>Attributes\<close>

fun merge_into :: "gumbo_attribute list \<Rightarrow> gumbo_attribute list \<Rightarrow> gumbo_attribute list" where
  "merge_into [] node_attr = node_attr"
| "merge_into (attr # token_attr) node_attr =
     merge_into token_attr (if gumbo_get_attribute node_attr (at_name attr) = None then node_attr @ [attr] else node_attr)"

definition merge_attributes :: "node_id \<Rightarrow> parser \<Rightarrow> parser" where
  "merge_attributes nd p =
     (let t = pa_token p;
          p = assert_p (to_type t = GUMBO_TOKEN_START_TAG) p;
          p = deref (Some nd) p;
          p = assert_p (is_element p nd) p;
          p = modify nd (map_element (\<lambda>e. e\<lparr>el_attributes := merge_into (start_tag_attributes (to_v t)) (el_attributes e)\<rparr>)) p
      in set_token_value (drop_attributes (to_v t)) p)"

fun svg_tagname_loop :: "(string \<times> string) list \<Rightarrow> byte list \<Rightarrow> string option" where
  "svg_tagname_loop [] tag = None"
| "svg_tagname_loop ((from, to) # es) tag =
     (if gumbo_string_equals_ignore_case tag (bytes_of from) then Some to else svg_tagname_loop es tag)"

definition gumbo_normalize_svg_tagname :: "byte list \<Rightarrow> string option" where
  "gumbo_normalize_svg_tagname tag = svg_tagname_loop kSvgTagReplacements tag"

text \<open>A write through the pointer that \<^verbatim>\<open>gumbo_get_attribute\<close> returns.\<close>

fun map_attribute :: "byte list \<Rightarrow> (gumbo_attribute \<Rightarrow> gumbo_attribute) \<Rightarrow> gumbo_attribute list \<Rightarrow> gumbo_attribute list" where
  "map_attribute name f [] = []"
| "map_attribute name f (a # as) = (if strcasecmp_eq (at_name a) name then f a # as else a # map_attribute name f as)"

fun map_start_tag_attributes :: "(gumbo_attribute list \<Rightarrow> gumbo_attribute list) \<Rightarrow> token_value \<Rightarrow> token_value" where
  "map_start_tag_attributes f (V_start_tag tag as sc) = V_start_tag tag (map_option f as) sc"
| "map_start_tag_attributes f v = v"

definition adjust_attributes :: "(gumbo_attribute list \<Rightarrow> gumbo_attribute list) \<Rightarrow> parser \<Rightarrow> parser" where
  "adjust_attributes f p =
     set_token_value (map_start_tag_attributes f (to_v (pa_token p))) (assert_p (to_type (pa_token p) = GUMBO_TOKEN_START_TAG) p)"

definition adjust_foreign_attributes :: "parser \<Rightarrow> parser" where
  "adjust_foreign_attributes p =
     adjust_attributes
       (fold (\<lambda>(from, local_name, ns). map_attribute (bytes_of from) (\<lambda>a. a\<lparr>at_namespace := ns, at_name := bytes_of local_name\<rparr>))
          kForeignAttributeReplacements) p"

definition adjust_svg_attributes :: "parser \<Rightarrow> parser" where
  "adjust_svg_attributes p =
     adjust_attributes
       (fold (\<lambda>(from, to). map_attribute (bytes_of from) (\<lambda>a. a\<lparr>at_name := bytes_of to\<rparr>)) kSvgAttributeReplacements) p"

definition adjust_mathml_attributes :: "parser \<Rightarrow> parser" where
  "adjust_mathml_attributes p =
     adjust_attributes (map_attribute (bytes_of ''definitionurl'') (\<lambda>a. a\<lparr>at_name := bytes_of ''definitionURL''\<rparr>)) p"


section \<open>The adoption agency algorithm\<close>

definition index_of :: "'a \<Rightarrow> 'a list \<Rightarrow> int" where
  "index_of x xs = (if x \<in> set xs then int (length (takeWhile (\<lambda>y. y \<noteq> x) xs)) else -1)"

definition insert_nth :: "nat \<Rightarrow> 'a \<Rightarrow> 'a list \<Rightarrow> 'a list" where
  "insert_nth i x xs = take i xs @ x # drop i xs"

definition remove_from_parent :: "node_id \<Rightarrow> parser \<Rightarrow> parser" where
  "remove_from_parent nd p =
     (let p = deref (Some nd) p in
      case nd_parent (node p nd) of
        None \<Rightarrow> p
      | Some parent \<Rightarrow>
          let p = deref (Some parent) p;
              p = assert_p (is_element p parent) p;
              children = children_of (node p parent)
          in if nd \<notin> set children then assert_p False p
             else
               let k = nat (index_of nd children);
                   p = modify parent (set_children (remove_nth k children)) p;
                   p = modify nd (\<lambda>x. x\<lparr>nd_parent := None, nd_index_within_parent := -1\<rparr>) p
               in reindex k (drop (k + 1) children) p)"

fun find_formatting :: "gumbo_tag \<Rightarrow> node_id option list \<Rightarrow> parser \<Rightarrow> node_id option \<times> parser" where
  "find_formatting closing_tag [] p = (None, p)"
| "find_formatting closing_tag (None # es) p = (None, p)"
| "find_formatting closing_tag (Some nd # es) p =
     (let p = deref (Some nd) p in
      if node_tag_is (node p nd) closing_tag then (Some nd, p) else find_formatting closing_tag es p)"

fun find_special :: "node_id list \<Rightarrow> parser \<Rightarrow> node_id option \<times> parser" where
  "find_special [] p = (None, p)"
| "find_special (nd # es) p =
     (let p = deref (Some nd) p;
          p = assert_p (is_element p nd) p
      in if is_special_node (node p nd) then (Some nd, p) else find_special es p)"

definition remove_open_element :: "node_id \<Rightarrow> parser \<Rightarrow> parser" where
  "remove_open_element nd p = p\<lparr>pa_open_elements := remove1 nd (pa_open_elements p)\<rparr>"

definition remove_formatting :: "node_id option \<Rightarrow> parser \<Rightarrow> parser" where
  "remove_formatting nd p = p\<lparr>pa_active_formatting_elements := remove1 nd (pa_active_formatting_elements p)\<rparr>"

text \<open>Steps 9.1 to 9.11: the node above the furthest block, the node last moved, the saved index and the
  bookmark.  The source compares the index with the capacity of the stack; an index between its length and its
  capacity would read a stale entry and counts as a failure here.\<close>

primrec adoption_inner ::
  "nat \<Rightarrow> node_id \<Rightarrow> node_id \<Rightarrow> node_id \<Rightarrow> node_id \<Rightarrow> int \<Rightarrow> int \<Rightarrow> parser \<Rightarrow> (node_id \<times> int) \<times> parser" where
  "adoption_inner 0 formatting_node furthest_block nd last_node saved_node_index bookmark p = ((last_node, bookmark), p)"
| "adoption_inner (Suc j) formatting_node furthest_block nd last_node saved_node_index bookmark p =
     (let node_index = index_of nd (pa_open_elements p);
          node_index = (if node_index = -1 then saved_node_index else node_index) - 1;
          p = assert_p (node_index > 0) p;
          p = assert_p (node_index < int (length (pa_open_elements p))) p;
          i = nat node_index;
          nd = open_element p i;
          p = deref (Some nd) p;
          p = assert_p (nd_parent (node p nd) \<noteq> None) p
      in if Some nd \<notin> set (pa_active_formatting_elements p)
         then adoption_inner j formatting_node furthest_block nd last_node node_index bookmark
                (p\<lparr>pa_open_elements := remove_nth i (pa_open_elements p)\<rparr>)
         else if nd = formatting_node then ((last_node, bookmark), p)
         else
           let formatting_index = nat (index_of (Some nd) (pa_active_formatting_elements p));
               (clone, p) = clone_node nd GUMBO_INSERTION_ADOPTION_AGENCY_CLONED p;
               p = p\<lparr>pa_active_formatting_elements := (pa_active_formatting_elements p)[formatting_index := Some clone],
                     pa_open_elements := (pa_open_elements p)[i := clone]\<rparr>;
               bookmark = (if last_node = furthest_block then int formatting_index + 1 else bookmark);
               p = assert_p (last_node = furthest_block \<longrightarrow> bookmark \<le> int (length (pa_active_formatting_elements p))) p;
               p = modify last_node (add_flags GUMBO_INSERTION_ADOPTION_AGENCY_MOVED) p;
               p = remove_from_parent last_node p;
               p = append_node clone last_node p
           in adoption_inner j formatting_node furthest_block clone clone node_index bookmark p)"

fun set_parents :: "node_id \<Rightarrow> node_id list \<Rightarrow> parser \<Rightarrow> parser" where
  "set_parents parent [] p = p"
| "set_parents parent (c # cs) p = set_parents parent cs (modify c (\<lambda>x. x\<lparr>nd_parent := Some parent\<rparr>) p)"

text \<open>Steps 12 and 13.\<close>

definition move_children :: "node_id \<Rightarrow> node_id \<Rightarrow> parser \<Rightarrow> parser" where
  "move_children furthest_block new_node p =
     (let children = children_of (node p furthest_block);
          p = modify new_node (set_children children) p;
          p = modify furthest_block (set_children []) p;
          p = set_parents new_node children p
      in append_node furthest_block new_node p)"

text \<open>Steps 14 and 15.\<close>

definition replace_formatting :: "node_id \<Rightarrow> node_id \<Rightarrow> node_id \<Rightarrow> int \<Rightarrow> parser \<Rightarrow> parser" where
  "replace_formatting formatting_node furthest_block new_node bookmark p =
     (let elements = pa_active_formatting_elements p;
          formatting_node_index = index_of (Some formatting_node) elements;
          p = assert_p (formatting_node_index \<noteq> -1) p;
          bookmark = (if formatting_node_index < bookmark then bookmark - 1 else bookmark);
          elements = remove1 (Some formatting_node) elements;
          p = assert_p (0 \<le> bookmark \<and> bookmark \<le> int (length elements)) p;
          p = p\<lparr>pa_active_formatting_elements := insert_nth (nat bookmark) (Some new_node) elements\<rparr>;
          p = remove_open_element formatting_node p;
          insert_at = index_of furthest_block (pa_open_elements p) + 1
      in p\<lparr>pa_open_elements := insert_nth (nat insert_at) new_node (pa_open_elements p)\<rparr>)"

text \<open>Steps 7 to 15 for one formatting element.\<close>

definition adoption_step :: "node_id \<Rightarrow> node_id \<Rightarrow> parser \<Rightarrow> parser" where
  "adoption_step formatting_node furthest_block p =
     (let p = assert_p (\<not> node_tag_is (node p furthest_block) GUMBO_TAG_HTML) p;
          common_ancestor = open_element p (nat (index_of formatting_node (pa_open_elements p) - 1));
          p = deref (Some common_ancestor) p;
          bookmark = index_of (Some formatting_node) (pa_active_formatting_elements p);
          saved_node_index = index_of furthest_block (pa_open_elements p);
          p = assert_p (saved_node_index > 0) p;
          ((last_node, bookmark), p) =
            adoption_inner 3 formatting_node furthest_block furthest_block furthest_block saved_node_index bookmark p;
          p = remove_from_parent last_node p;
          p = modify last_node (add_flags GUMBO_INSERTION_ADOPTION_AGENCY_MOVED) p;
          p = (if node_tag_in (node p common_ancestor) table_tags then foster_parent_element last_node p
               else append_node common_ancestor last_node p);
          (new_formatting_node, p) = clone_node formatting_node GUMBO_INSERTION_ADOPTION_AGENCY_CLONED p;
          p = modify formatting_node (add_flags GUMBO_INSERTION_IMPLICIT_END_TAG) p;
          p = move_children furthest_block new_formatting_node p
      in replace_formatting formatting_node furthest_block new_formatting_node bookmark p)"

primrec adoption_loop :: "nat \<Rightarrow> gumbo_tag \<Rightarrow> parser \<Rightarrow> bool \<times> parser" where
  "adoption_loop 0 closing_tag p = (True, p)"
| "adoption_loop (Suc i) closing_tag p =
     (case find_formatting closing_tag (rev (pa_active_formatting_elements p)) p of
        (None, p) \<Rightarrow> (False, p)
      | (Some formatting_node, p) \<Rightarrow>
          let formatting_node_in_open_elements = index_of formatting_node (pa_open_elements p) in
          if formatting_node_in_open_elements = -1 then (False, remove_formatting (Some formatting_node) p)
          else if \<not> has_an_element_in_scope p (el_tag (element p formatting_node)) then (False, parser_add_parse_error p)
          else
            let p = check_current p;
                p = (if get_current_node p \<noteq> Some formatting_node then parser_add_parse_error p else p);
                p = assert_p (\<not> node_tag_in (node p formatting_node) [GUMBO_TAG_HTML, GUMBO_TAG_BODY]) p;
                p = assert_p (formatting_node_in_open_elements > 0) p
            in case find_special (drop (nat formatting_node_in_open_elements) (pa_open_elements p)) p of
                 (None, p) \<Rightarrow>
                   (False, remove_formatting (Some formatting_node) (pop_until (\<lambda>n _. n = formatting_node) p))
               | (Some furthest_block, p) \<Rightarrow>
                   adoption_loop i closing_tag (adoption_step formatting_node furthest_block p))"

definition adoption_agency_algorithm :: "gumbo_tag \<Rightarrow> parser \<Rightarrow> bool \<times> parser" where
  "adoption_agency_algorithm closing_tag p = adoption_loop 8 closing_tag p"

section \<open>Ignoring tokens, the end\<close>

text \<open>Releasing the token is visible only in its attribute vector.\<close>

definition ignore_token :: "parser \<Rightarrow> parser" where
  "ignore_token p =
     (if to_type (pa_token p) = GUMBO_TOKEN_START_TAG then set_token_value (drop_attributes (to_v (pa_token p))) p else p)"

definition closed_by_token :: "node_id \<Rightarrow> parser \<Rightarrow> bool" where
  "closed_by_token nd p \<longleftrightarrow>
     (node_tag_is (node p nd) GUMBO_TAG_BODY \<and> pa_closed_body_tag p)
     \<or> (node_tag_is (node p nd) GUMBO_TAG_HTML \<and> pa_closed_html_tag p)"

function finish_loop :: "parser \<Rightarrow> parser" where
  "finish_loop p =
     (case pop_current_node p of
        (None, p) \<Rightarrow> p
      | (Some nd, p) \<Rightarrow>
          finish_loop (if closed_by_token nd p then p else modify nd (add_flags GUMBO_INSERTION_IMPLICIT_END_TAG) p))"
  by pat_completeness auto
termination
proof (relation "measure stack_weight")
  fix p x q n
  assume "(x, q) = pop_current_node p" "x = Some n"
  then show "(if closed_by_token n q then q else modify n (add_flags GUMBO_INSERTION_IMPLICIT_END_TAG) q, p) \<in> measure stack_weight"
    using pop_weight [of p n q] by simp
qed simp

function pop_all :: "parser \<Rightarrow> parser" where
  "pop_all p = (case pop_current_node p of (None, p) \<Rightarrow> p | (Some nd, p) \<Rightarrow> pop_all p)"
  by pat_completeness auto
termination
proof (relation "measure stack_weight")
  fix p x q n
  assume "(x, q) = pop_current_node p" "x = Some n"
  then show "(q, p) \<in> measure stack_weight"
    using pop_weight [of p n q] by simp
qed simp

declare finish_loop.simps [simp del] pop_all.simps [simp del]

definition finish_parsing :: "parser \<Rightarrow> parser" where
  "finish_parsing p = pop_all (finish_loop (maybe_flush_text_node_buffer p))"


end
