(* ===== verification/GumboModes.thy ===== *)
theory GumboModes
  imports GumboTree
begin

text \<open>
  The insertion modes of the tree builder (\<^verbatim>\<open>src/html_parser/parser.cpp\<close> from
  \<^verbatim>\<open>handle_initial\<close> on), up to \<^verbatim>\<open>handle_token\<close>.  A handler takes the state, whose field \<open>pa_token\<close> is
  the token, and returns whether the token was handled without a parse error.  \<^verbatim>\<open>handle_in_head\<close> calls
  \<^verbatim>\<open>handle_in_body\<close> only for an \<^verbatim>\<open>html\<close> start tag, and the branch of
  \<^verbatim>\<open>handle_in_body\<close> for it does not call back; that branch is \<open>handle_in_body_html\<close>.
\<close>

type_synonym mode_handler = "parser \<Rightarrow> bool \<times> parser"

section \<open>Before the body\<close>

text \<open>\<^verbatim>\<open>add_parse_error(parser, token); ignore_token(parser); return false;\<close>\<close>

definition error_ignore :: mode_handler where
  "error_ignore p = (False, ignore_token (parser_add_parse_error p))"

definition set_reprocess :: "parser \<Rightarrow> parser" where
  "set_reprocess p = p\<lparr>pa_reprocess_current_token := True\<rparr>"

definition comment_in_current :: mode_handler where
  "comment_in_current p = (True, append_comment_node (get_current_node p) (check_current p))"

definition comment_in_document :: mode_handler where
  "comment_in_document p = (True, append_comment_node (Some (pa_document p)) p)"

text \<open>The strings of a doctype token that reaches this mode are not NULL.\<close>

definition handle_initial :: mode_handler where
  "handle_initial p =
     (let t = pa_token p in
      if to_type t = GUMBO_TOKEN_WHITESPACE then (True, ignore_token p)
      else if to_type t = GUMBO_TOKEN_COMMENT then comment_in_document p
      else if to_type t = GUMBO_TOKEN_DOCTYPE then
        let d = token_doc_type (to_v t);
            p = assert_p (dt_name d \<noteq> None \<and> dt_public_identifier d \<noteq> None \<and> dt_system_identifier d \<noteq> None) p;
            p = modify (pa_document p) (map_document (\<lambda>doc. doc\<lparr>dc_has_doctype := True, dc_name := dt_name d,
                  dc_public_identifier := dt_public_identifier d, dc_system_identifier := dt_system_identifier d,
                  dc_doc_type_quirks_mode := Some (compute_quirks_mode d)\<rparr>)) p;
            p = set_insertion_mode GUMBO_INSERTION_MODE_BEFORE_HTML p
        in maybe_add_doctype_error p
      else
        let p = parser_add_parse_error p;
            p = modify (pa_document p) (map_document (\<lambda>doc. doc\<lparr>dc_doc_type_quirks_mode := Some GUMBO_DOCTYPE_QUIRKS\<rparr>)) p;
            p = set_insertion_mode GUMBO_INSERTION_MODE_BEFORE_HTML p
        in (True, set_reprocess p))"

definition handle_before_html :: mode_handler where
  "handle_before_html p =
     (let t = pa_token p in
      if to_type t = GUMBO_TOKEN_DOCTYPE then error_ignore p
      else if to_type t = GUMBO_TOKEN_COMMENT then comment_in_document p
      else if to_type t = GUMBO_TOKEN_WHITESPACE then (True, ignore_token p)
      else if tag_is t kStartTag GUMBO_TAG_HTML then
        let (html_node, p) = insert_element_from_token p;
            p = p\<lparr>pa_root := Some html_node\<rparr>
        in (True, set_insertion_mode GUMBO_INSERTION_MODE_BEFORE_HEAD p)
      else if to_type t = GUMBO_TOKEN_END_TAG
           \<and> \<not> tag_in t False [GUMBO_TAG_HEAD, GUMBO_TAG_BODY, GUMBO_TAG_HTML, GUMBO_TAG_BR] then error_ignore p
      else
        let (html_node, p) = insert_element_of_tag_type GUMBO_TAG_HTML GUMBO_INSERTION_IMPLIED p;
            p = p\<lparr>pa_root := Some html_node\<rparr>;
            p = set_insertion_mode GUMBO_INSERTION_MODE_BEFORE_HEAD p
        in (True, set_reprocess p))"

definition handle_before_head :: mode_handler where
  "handle_before_head p =
     (let t = pa_token p in
      if to_type t = GUMBO_TOKEN_DOCTYPE then error_ignore p
      else if to_type t = GUMBO_TOKEN_COMMENT then comment_in_current p
      else if to_type t = GUMBO_TOKEN_WHITESPACE then (True, ignore_token p)
      else if tag_is t kStartTag GUMBO_TAG_HEAD then
        let (nd, p) = insert_element_from_token p;
            p = set_insertion_mode GUMBO_INSERTION_MODE_IN_HEAD p
        in (True, p\<lparr>pa_head_element := Some nd\<rparr>)
      else if to_type t = GUMBO_TOKEN_END_TAG
           \<and> \<not> tag_in t False [GUMBO_TAG_HEAD, GUMBO_TAG_BODY, GUMBO_TAG_HTML, GUMBO_TAG_BR] then error_ignore p
      else
        let (nd, p) = insert_element_of_tag_type GUMBO_TAG_HEAD GUMBO_INSERTION_IMPLIED p;
            p = set_insertion_mode GUMBO_INSERTION_MODE_IN_HEAD p;
            p = p\<lparr>pa_head_element := Some nd\<rparr>
        in (True, set_reprocess p))"

text \<open>An empty element: insert it, pop it, acknowledge its self-closing flag.\<close>

definition insert_void_element :: "parser \<Rightarrow> parser" where
  "insert_void_element p = acknowledge_self_closing_tag (pop (snd (insert_element_from_token p)))"

text \<open>Pop a node whose tag is asserted.\<close>

definition pop_expecting :: "gumbo_tag \<Rightarrow> parser \<Rightarrow> parser" where
  "pop_expecting tag p =
     (case pop_current_node p of (nd, p) \<Rightarrow>
        let p = deref nd p in assert_p (case nd of Some i \<Rightarrow> node_tag_is (node p i) tag | None \<Rightarrow> False) p)"

definition handle_in_body_html :: mode_handler where
  "handle_in_body_html p =
     (let p = assert_p (length (pa_open_elements p) > 0) p;
          p = deref (pa_root p) p
      in case pa_root p of
           None \<Rightarrow> (False, p)
         | Some root \<Rightarrow>
             let p = assert_p (is_element p root) p
             in (False, merge_attributes root (parser_add_parse_error p)))"

definition handle_in_head :: mode_handler where
  "handle_in_head p =
     (let t = pa_token p in
      if to_type t = GUMBO_TOKEN_WHITESPACE then (True, insert_text_token p)
      else if to_type t = GUMBO_TOKEN_DOCTYPE then error_ignore p
      else if to_type t = GUMBO_TOKEN_COMMENT then comment_in_current p
      else if tag_is t kStartTag GUMBO_TAG_HTML then handle_in_body_html p
      else if tag_in t kStartTag [GUMBO_TAG_BASE, GUMBO_TAG_BASEFONT, GUMBO_TAG_BGSOUND, GUMBO_TAG_MENUITEM, GUMBO_TAG_LINK]
      then (True, insert_void_element p)
      else if tag_is t kStartTag GUMBO_TAG_META then (True, insert_void_element p)
      else if tag_is t kStartTag GUMBO_TAG_TITLE then (True, run_generic_parsing_algorithm GUMBO_LEX_RCDATA p)
      else if tag_in t kStartTag [GUMBO_TAG_NOFRAMES, GUMBO_TAG_STYLE]
      then (True, run_generic_parsing_algorithm GUMBO_LEX_RAWTEXT p)
      else if tag_is t kStartTag GUMBO_TAG_NOSCRIPT then
        (True, set_insertion_mode GUMBO_INSERTION_MODE_IN_HEAD_NOSCRIPT (snd (insert_element_from_token p)))
      else if tag_is t kStartTag GUMBO_TAG_SCRIPT then (True, run_generic_parsing_algorithm GUMBO_LEX_SCRIPT p)
      else if tag_is t kEndTag GUMBO_TAG_HEAD then
        (True, set_insertion_mode GUMBO_INSERTION_MODE_AFTER_HEAD (pop_expecting GUMBO_TAG_HEAD p))
      else if tag_is t kStartTag GUMBO_TAG_HEAD then error_ignore p
      else if tag_is t kStartTag GUMBO_TAG_HEAD
           \<or> (to_type t = GUMBO_TOKEN_END_TAG \<and> \<not> tag_in t kEndTag [GUMBO_TAG_BODY, GUMBO_TAG_HTML, GUMBO_TAG_BR])
      then (False, parser_add_parse_error p)
      else (True, set_reprocess (set_insertion_mode GUMBO_INSERTION_MODE_AFTER_HEAD (pop_expecting GUMBO_TAG_HEAD p))))"

definition handle_in_head_noscript :: mode_handler where
  "handle_in_head_noscript p =
     (let t = pa_token p in
      if to_type t = GUMBO_TOKEN_DOCTYPE then (False, parser_add_parse_error p)
      else if tag_is t kStartTag GUMBO_TAG_HTML then handle_in_body_html p
      else if tag_is t kEndTag GUMBO_TAG_NOSCRIPT then
        (True, set_insertion_mode GUMBO_INSERTION_MODE_IN_HEAD (pop_expecting GUMBO_TAG_NOSCRIPT p))
      else if to_type t = GUMBO_TOKEN_WHITESPACE \<or> to_type t = GUMBO_TOKEN_COMMENT
           \<or> tag_in t kStartTag [GUMBO_TAG_BASEFONT, GUMBO_TAG_BGSOUND, GUMBO_TAG_LINK, GUMBO_TAG_META, GUMBO_TAG_NOFRAMES,
                                 GUMBO_TAG_STYLE]
      then handle_in_head p
      else if tag_in t kStartTag [GUMBO_TAG_HEAD, GUMBO_TAG_NOSCRIPT]
           \<or> (to_type t = GUMBO_TOKEN_END_TAG \<and> \<not> tag_is t kEndTag GUMBO_TAG_BR)
      then error_ignore p
      else (False, set_reprocess (set_insertion_mode GUMBO_INSERTION_MODE_IN_HEAD
                     (pop_expecting GUMBO_TAG_NOSCRIPT (parser_add_parse_error p)))))"

definition handle_after_head :: mode_handler where
  "handle_after_head p =
     (let t = pa_token p in
      if to_type t = GUMBO_TOKEN_WHITESPACE then (True, insert_text_token p)
      else if to_type t = GUMBO_TOKEN_DOCTYPE then error_ignore p
      else if to_type t = GUMBO_TOKEN_COMMENT then comment_in_current p
      else if tag_is t kStartTag GUMBO_TAG_HTML then handle_in_body_html p
      else if tag_is t kStartTag GUMBO_TAG_BODY then
        (True, set_insertion_mode GUMBO_INSERTION_MODE_IN_BODY (set_frameset_not_ok (snd (insert_element_from_token p))))
      else if tag_is t kStartTag GUMBO_TAG_FRAMESET then
        (True, set_insertion_mode GUMBO_INSERTION_MODE_IN_FRAMESET (snd (insert_element_from_token p)))
      else if tag_in t kStartTag [GUMBO_TAG_BASE, GUMBO_TAG_BASEFONT, GUMBO_TAG_BGSOUND, GUMBO_TAG_LINK, GUMBO_TAG_META,
                                  GUMBO_TAG_NOFRAMES, GUMBO_TAG_SCRIPT, GUMBO_TAG_STYLE, GUMBO_TAG_TITLE]
      then
        let p = parser_add_parse_error p;
            p = assert_p (pa_head_element p \<noteq> None) p;
            p = maybe_flush_text_node_buffer p
        in case pa_head_element p of
             None \<Rightarrow> (False, p)
           | Some head \<Rightarrow>
               let (result, p) = handle_in_head (push_open_element head p)
               in (result, remove_open_element head p)
      else if tag_is t kStartTag GUMBO_TAG_HEAD
           \<or> (to_type t = GUMBO_TOKEN_END_TAG \<and> \<not> tag_in t kEndTag [GUMBO_TAG_BODY, GUMBO_TAG_HTML, GUMBO_TAG_BR])
      then error_ignore p
      else
        (True, set_reprocess (set_insertion_mode GUMBO_INSERTION_MODE_IN_BODY
                 (snd (insert_element_of_tag_type GUMBO_TAG_BODY GUMBO_INSERTION_IMPLIED p)))))"

section \<open>In the body\<close>

definition in_body_start_body :: mode_handler where
  "in_body_start_body p =
     (let p = parser_add_parse_error p in
      if length (pa_open_elements p) < 2 \<or> \<not> node_tag_is (node p (open_element p 1)) GUMBO_TAG_BODY
      then (False, ignore_token p)
      else (False, merge_attributes (open_element p 1) (p\<lparr>pa_frameset_ok := False\<rparr>)))"

text \<open>The fuel bounds the depth of the tree below the node.\<close>

primrec destroy_below :: "nat \<Rightarrow> node_id \<Rightarrow> parser \<Rightarrow> parser" where
  "destroy_below 0 nd p = assert_p False p"
| "destroy_below (Suc k) nd p =
     (case pa_nodes p nd of
        None \<Rightarrow> assert_p False p
      | Some n \<Rightarrow>
          let p = fold (destroy_below k) (children_of n) p
          in p\<lparr>pa_nodes := (pa_nodes p)(nd := None)\<rparr>)"

definition destroy_node :: "node_id \<Rightarrow> parser \<Rightarrow> parser" where
  "destroy_node nd p = destroy_below (pa_next p) nd p"

text \<open>Popping leaves the second slot of the array behind the stack as it is, so the loop ends when the body is
  popped.  The body is taken out of the children of the root, and released with everything below it.\<close>

definition in_body_frameset :: mode_handler where
  "in_body_frameset p =
     (let p = parser_add_parse_error p in
      if length (pa_open_elements p) < 2 \<or> \<not> node_tag_is (node p (open_element p 1)) GUMBO_TAG_BODY \<or> \<not> pa_frameset_ok p
      then (False, ignore_token p)
      else
        let body_node = open_element p 1;
            p = pop_until (\<lambda>n _. n = body_node) p;
            p = deref (pa_root p) p;
            p = (case pa_root p of None \<Rightarrow> p | Some root \<Rightarrow> modify root (\<lambda>n. set_children (remove1 body_node (children_of n)) n) p);
            p = destroy_node body_node p;
            p = snd (insert_element_from_token p)
        in (True, set_insertion_mode GUMBO_INSERTION_MODE_IN_FRAMESET p))"

definition open_tags_in :: "gumbo_tag list \<Rightarrow> parser \<Rightarrow> bool" where
  "open_tags_in tags p = list_all (\<lambda>nd. node_tag_in (node p nd) tags) (pa_open_elements p)"

definition in_body_eof :: mode_handler where
  "in_body_eof p =
     (if open_tags_in [GUMBO_TAG_DD, GUMBO_TAG_DT, GUMBO_TAG_LI, GUMBO_TAG_P, GUMBO_TAG_TBODY, GUMBO_TAG_TD, GUMBO_TAG_TFOOT,
           GUMBO_TAG_TH, GUMBO_TAG_THEAD, GUMBO_TAG_TR, GUMBO_TAG_BODY, GUMBO_TAG_HTML] p
      then (True, p) else (False, parser_add_parse_error p))"

definition in_body_end_body :: mode_handler where
  "in_body_end_body p =
     (if \<not> has_an_element_in_scope p GUMBO_TAG_BODY then error_ignore p
      else
        let success = open_tags_in [GUMBO_TAG_DD, GUMBO_TAG_DT, GUMBO_TAG_LI, GUMBO_TAG_OPTGROUP, GUMBO_TAG_OPTION, GUMBO_TAG_P,
              GUMBO_TAG_RP, GUMBO_TAG_RT, GUMBO_TAG_TBODY, GUMBO_TAG_TD, GUMBO_TAG_TFOOT, GUMBO_TAG_TH, GUMBO_TAG_THEAD,
              GUMBO_TAG_TR, GUMBO_TAG_BODY, GUMBO_TAG_HTML] p;
            p = (if success then p else parser_add_parse_error p);
            p = set_insertion_mode GUMBO_INSERTION_MODE_AFTER_BODY p
        in if tag_is (pa_token p) kEndTag GUMBO_TAG_HTML then (success, set_reprocess p)
           else
             let body = open_element p 1;
                 p = deref (Some body) p;
                 p = assert_p (node_tag_is (node p body) GUMBO_TAG_BODY) p
             in (success, modify body (record_end_of_element (pa_token p)) p))"

abbreviation heading_tags :: "gumbo_tag list" where
  "heading_tags \<equiv> [GUMBO_TAG_H1, GUMBO_TAG_H2, GUMBO_TAG_H3, GUMBO_TAG_H4, GUMBO_TAG_H5, GUMBO_TAG_H6]"

text \<open>Close an open paragraph and insert the element of the token.\<close>

definition insert_block :: mode_handler where
  "insert_block p =
     (let (result, p) = maybe_implicitly_close_p_tag p in (result, snd (insert_element_from_token p)))"

definition in_body_heading :: mode_handler where
  "in_body_heading p =
     (let (result, p) = maybe_implicitly_close_p_tag p;
          p = deref_current p;
          nested = node_tag_in (current p) heading_tags;
          p = (if nested then pop (parser_add_parse_error p) else p)
      in (result \<and> \<not> nested, snd (insert_element_from_token p)))"

definition in_body_form :: mode_handler where
  "in_body_form p =
     (if pa_form_element p \<noteq> None then error_ignore p
      else
        let (result, p) = maybe_implicitly_close_p_tag p;
            (form, p) = insert_element_from_token p
        in (result, p\<lparr>pa_form_element := Some form\<rparr>))"

definition in_body_button :: mode_handler where
  "in_body_button p =
     (if has_an_element_in_scope p GUMBO_TAG_BUTTON
      then (False, set_reprocess (snd (implicitly_close_tags GUMBO_TAG_BUTTON (parser_add_parse_error p))))
      else (True, (snd (insert_element_from_token (reconstruct_active_formatting_elements p)))\<lparr>pa_frameset_ok := False\<rparr>))"

definition in_body_end_form :: mode_handler where
  "in_body_end_form p =
     (case pa_form_element p of
        None \<Rightarrow> error_ignore p
      | Some nd \<Rightarrow>
          let p = deref (Some nd) p;
              p = assert_p (is_element p nd) p;
              p = p\<lparr>pa_form_element := None\<rparr>;
              (in_scope, p) = has_node_in_scope nd p
          in if \<not> in_scope then error_ignore p
             else
               let p = generate_implied_end_tags GUMBO_TAG_LAST p;
                   p = check_current p;
                   result = (get_current_node p = Some nd);
                   p = (if result then p else parser_add_parse_error p);
                   p = assert_p (nd \<in> set (pa_open_elements p)) p
               in (result, p\<lparr>pa_open_elements := rev (remove1 nd (rev (pa_open_elements p)))\<rparr>))"

definition in_body_end_p :: mode_handler where
  "in_body_end_p p =
     (if \<not> has_an_element_in_button_scope p GUMBO_TAG_P
      then
        let p = reconstruct_active_formatting_elements (parser_add_parse_error p)
        in (False, set_reprocess (snd (insert_element_of_tag_type GUMBO_TAG_P GUMBO_INSERTION_CONVERTED_FROM_END_TAG p)))
      else implicitly_close_tags GUMBO_TAG_P p)"

definition in_body_end_heading :: mode_handler where
  "in_body_end_heading p =
     (if \<not> has_an_element_in_scope_with_tagname p heading_tags then error_ignore p
      else
        let p = generate_implied_end_tags GUMBO_TAG_LAST p;
            p = deref_current p;
            success = node_tag_is (current p) (token_end_tag (to_v (pa_token p)));
            p = (if success then p else parser_add_parse_error p)
        in (success, pop_until (\<lambda>_ n. node_tag_in n heading_tags) p))"

definition insert_formatting_element :: "parser \<Rightarrow> parser" where
  "insert_formatting_element p =
     (let (nd, p) = insert_element_from_token p in add_formatting_element (Some nd) p)"

definition in_body_a :: mode_handler where
  "in_body_a p =
     (let (last_a, p) = find_last_anchor_index p;
          success = (last_a = None);
          p = (if success then p
               else
                 let p = parser_add_parse_error p;
                     p = snd (adoption_agency_algorithm GUMBO_TAG_A p);
                     (last_a, p) = find_last_anchor_index p
                 in case last_a of
                      None \<Rightarrow> p
                    | Some i \<Rightarrow>
                        let last_element = pa_active_formatting_elements p ! i;
                            p = p\<lparr>pa_active_formatting_elements := remove_nth i (pa_active_formatting_elements p)\<rparr>
                        in case last_element of None \<Rightarrow> p | Some nd \<Rightarrow> remove_open_element nd p)
      in (success, insert_formatting_element (reconstruct_active_formatting_elements p)))"

definition in_body_nobr :: mode_handler where
  "in_body_nobr p =
     (let p = reconstruct_active_formatting_elements p;
          nested = has_an_element_in_scope p GUMBO_TAG_NOBR;
          p = (if nested
               then reconstruct_active_formatting_elements (snd (adoption_agency_algorithm GUMBO_TAG_NOBR (parser_add_parse_error p)))
               else p);
          p = snd (insert_element_from_token p)
      in (\<not> nested, add_formatting_element (get_current_node p) p))"

text \<open>\<^verbatim>\<open>get_current_node\<close> after the insertion is the inserted node.\<close>

fun set_start_tag :: "gumbo_tag \<Rightarrow> token_value \<Rightarrow> token_value" where
  "set_start_tag tag (V_start_tag old as sc) = V_start_tag tag as sc"
| "set_start_tag tag v = v"

definition in_body_image :: mode_handler where
  "in_body_image p =
     (let image = tag_is (pa_token p) kStartTag GUMBO_TAG_IMAGE;
          p = (if image then set_token_value (set_start_tag GUMBO_TAG_IMG (to_v (pa_token p))) (parser_add_parse_error p) else p);
          p = reconstruct_active_formatting_elements p;
          (nd, p) = insert_element_from_token p;
          again = tag_is (pa_token p) kStartTag GUMBO_TAG_IMAGE;
          p = (if again
               then modify nd (add_flags GUMBO_INSERTION_FROM_IMAGE \<circ> map_element (\<lambda>e. e\<lparr>el_tag := GUMBO_TAG_IMG\<rparr>))
                      (parser_add_parse_error p)
               else p);
          p = acknowledge_self_closing_tag (pop p)
      in (\<not> image \<and> \<not> again, set_frameset_not_ok p))"

text \<open>The pointers that \<^verbatim>\<open>gumbo_get_attribute\<close> returns for an \<^verbatim>\<open>isindex\<close> tag, as positions
  in the attribute vector.  The names of the attributes of a token are distinct.\<close>

fun attribute_position :: "byte list \<Rightarrow> gumbo_attribute list \<Rightarrow> nat option" where
  "attribute_position name [] = None"
| "attribute_position name (a # as) =
     (if strcasecmp_eq (at_name a) name then Some 0 else map_option Suc (attribute_position name as))"

definition add_attributes :: "gumbo_attribute list \<Rightarrow> gumbo_node \<Rightarrow> gumbo_node" where
  "add_attributes as = map_element (\<lambda>e. e\<lparr>el_attributes := el_attributes e @ as\<rparr>)"

text \<open>The address of a string literal is written as 0.\<close>

definition isindex_name_attribute :: gumbo_attribute where
  "isindex_name_attribute =
     \<lparr>at_namespace = GUMBO_ATTR_NAMESPACE_NONE, at_name = bytes_of ''name'', at_original_name = (0, 4),
      at_value = bytes_of ''isindex'', at_original_value = (0, 7), at_name_start = kGumboEmptySourcePosition,
      at_name_end = kGumboEmptySourcePosition, at_value_start = Some kGumboEmptySourcePosition,
      at_value_end = Some kGumboEmptySourcePosition\<rparr>"

definition isindex_text :: "byte list \<Rightarrow> parser \<Rightarrow> parser" where
  "isindex_text text p =
     p\<lparr>pa_text_node := (pa_text_node p)\<lparr>tb_start_original_text := to_text_data (pa_token p),
         tb_start_position := to_position (pa_token p), tb_type := GUMBO_NODE_TEXT, tb_buffer := text\<rparr>\<rparr>"

definition in_body_isindex :: mode_handler where
  "in_body_isindex p =
     (let p = parser_add_parse_error p in
      if pa_form_element p \<noteq> None then (False, ignore_token p)
      else
        let p = acknowledge_self_closing_tag p;
            p = snd (maybe_implicitly_close_p_tag p);
            p = set_frameset_not_ok p;
            token_attrs = start_tag_attributes (to_v (pa_token p));
            prompt_attr = attribute_position (bytes_of ''prompt'') token_attrs;
            action_attr = attribute_position (bytes_of ''action'') token_attrs;
            name_attr = attribute_position (bytes_of ''isindex'') token_attrs;
            (form, p) = insert_element_of_tag_type GUMBO_TAG_FORM GUMBO_INSERTION_FROM_ISINDEX p;
            p = (case action_attr of None \<Rightarrow> p | Some i \<Rightarrow> modify form (add_attributes [token_attrs ! i]) p);
            p = pop (snd (insert_element_of_tag_type GUMBO_TAG_HR GUMBO_INSERTION_FROM_ISINDEX p));
            p = snd (insert_element_of_tag_type GUMBO_TAG_LABEL GUMBO_INSERTION_FROM_ISINDEX p);
            p = (case prompt_attr of
                   Some i \<Rightarrow> isindex_text (c_string (at_value (token_attrs ! i))) p
                 | None \<Rightarrow> isindex_text (tb_buffer (pa_text_node p)
                             @ bytes_of ''This is a searchable index. Enter search keywords: '') p);
            (input, p) = insert_element_of_tag_type GUMBO_TAG_INPUT GUMBO_INSERTION_FROM_ISINDEX p;
            kept = filter (\<lambda>i. Some i \<noteq> prompt_attr \<and> Some i \<noteq> action_attr \<and> Some i \<noteq> name_attr) [0 ..< length token_attrs];
            p = modify input (add_attributes (map (\<lambda>i. token_attrs ! i) kept)) p;
            p = ignore_token p;
            p = modify input (add_attributes [isindex_name_attribute]) p;
            p = pop (pop p);
            p = pop (snd (insert_element_of_tag_type GUMBO_TAG_HR GUMBO_INSERTION_FROM_ISINDEX p))
        in (False, pop p))"

definition in_body_select :: mode_handler where
  "in_body_select p =
     (let p = reconstruct_active_formatting_elements p;
          p = snd (insert_element_from_token p);
          p = set_frameset_not_ok p;
          state = pa_insertion_mode p
      in (True, set_insertion_mode
            (if state = GUMBO_INSERTION_MODE_IN_TABLE \<or> state = GUMBO_INSERTION_MODE_IN_CAPTION
                \<or> state = GUMBO_INSERTION_MODE_IN_TABLE_BODY \<or> state = GUMBO_INSERTION_MODE_IN_ROW
                \<or> state = GUMBO_INSERTION_MODE_IN_CELL
             then GUMBO_INSERTION_MODE_IN_SELECT_IN_TABLE else GUMBO_INSERTION_MODE_IN_SELECT) p))"

definition in_body_ruby_text :: mode_handler where
  "in_body_ruby_text p =
     (let p = (if has_an_element_in_scope p GUMBO_TAG_RUBY then generate_implied_end_tags GUMBO_TAG_LAST p else p);
          p = deref_current p;
          success = node_tag_is (current p) GUMBO_TAG_RUBY;
          p = (if success then p else parser_add_parse_error p)
      in (success, snd (insert_element_from_token p)))"

fun token_self_closing :: "token_value \<Rightarrow> bool" where
  "token_self_closing (V_start_tag tag as sc) = sc"
| "token_self_closing v = False"

definition pop_if_self_closing :: "parser \<Rightarrow> parser" where
  "pop_if_self_closing p = (if token_self_closing (to_v (pa_token p)) then acknowledge_self_closing_tag (pop p) else p)"

definition in_body_math :: mode_handler where
  "in_body_math p =
     (let p = reconstruct_active_formatting_elements p;
          p = adjust_foreign_attributes (adjust_mathml_attributes p);
          p = snd (insert_foreign_element GUMBO_NAMESPACE_MATHML p)
      in (True, pop_if_self_closing p))"

definition in_body_svg :: mode_handler where
  "in_body_svg p =
     (let p = reconstruct_active_formatting_elements p;
          p = adjust_foreign_attributes (adjust_svg_attributes p);
          p = snd (insert_foreign_element GUMBO_NAMESPACE_SVG p)
      in (True, pop_if_self_closing p))"

text \<open>The walk up the stack for any other end tag.\<close>

fun end_tag_loop :: "gumbo_tag \<Rightarrow> node_id list \<Rightarrow> mode_handler" where
  "end_tag_loop end_tag [] p = (False, assert_p False p)"
| "end_tag_loop end_tag (nd # es) p =
     (let p = deref (Some nd) p; n = node p nd in
      if el_tag_namespace (node_element n) = GUMBO_NAMESPACE_HTML \<and> node_tag_is n end_tag
      then (True, pop_until (\<lambda>i _. i = nd) (generate_implied_end_tags end_tag p))
      else
        let p = assert_p (is_element p nd) p in
        if is_special_node n then error_ignore p else end_tag_loop end_tag es p)"

definition in_body_any_other_end_tag :: mode_handler where
  "in_body_any_other_end_tag p =
     (let p = assert_p (to_type (pa_token p) = GUMBO_TOKEN_END_TAG) p;
          p = assert_p (length (pa_open_elements p) > 0) p;
          html = open_element p 0;
          p = deref (Some html) p;
          p = assert_p (node_tag_is (node p html) GUMBO_TAG_HTML) p
      in end_tag_loop (token_end_tag (to_v (pa_token p))) (rev (pa_open_elements p)) p)"

text \<open>The last part of the chain: from \<^verbatim>\<open>applet\<close> on.\<close>

definition in_body_rest :: mode_handler where
  "in_body_rest p =
     (let t = pa_token p in
      if tag_in t kStartTag [GUMBO_TAG_APPLET, GUMBO_TAG_MARQUEE, GUMBO_TAG_OBJECT] then
        let p = reconstruct_active_formatting_elements p;
            p = snd (insert_element_from_token p);
            p = add_formatting_element None p
        in (True, set_frameset_not_ok p)
      else if tag_in t kEndTag [GUMBO_TAG_APPLET, GUMBO_TAG_MARQUEE, GUMBO_TAG_OBJECT] then
        let token_tag = token_end_tag (to_v t) in
        if \<not> has_an_element_in_table_scope p token_tag then error_ignore p
        else (True, clear_active_formatting_elements (snd (implicitly_close_tags token_tag p)))
      else if tag_is t kStartTag GUMBO_TAG_TABLE then
        let d = (case nd_v (node p (pa_document p)) of Node_document d \<Rightarrow> dc_doc_type_quirks_mode d | _ \<Rightarrow> None);
            p = (if d \<noteq> Some GUMBO_DOCTYPE_QUIRKS then snd (maybe_implicitly_close_p_tag p) else p);
            p = snd (insert_element_from_token p);
            p = set_frameset_not_ok p
        in (True, set_insertion_mode GUMBO_INSERTION_MODE_IN_TABLE p)
      else if tag_in t kStartTag [GUMBO_TAG_AREA, GUMBO_TAG_BR, GUMBO_TAG_EMBED, GUMBO_TAG_IMG, GUMBO_TAG_IMAGE,
                                  GUMBO_TAG_KEYGEN, GUMBO_TAG_WBR] then in_body_image p
      else if tag_is t kStartTag GUMBO_TAG_INPUT then
        let p = (if \<not> attribute_matches (start_tag_attributes (to_v t)) (bytes_of ''type'') (bytes_of ''hidden'')
                 then set_frameset_not_ok p else p)
        in (True, insert_void_element (reconstruct_active_formatting_elements p))
      else if tag_in t kStartTag [GUMBO_TAG_PARAM, GUMBO_TAG_SOURCE, GUMBO_TAG_TRACK] then (True, insert_void_element p)
      else if tag_is t kStartTag GUMBO_TAG_HR then
        let (result, p) = maybe_implicitly_close_p_tag p in (result, set_frameset_not_ok (insert_void_element p))
      else if tag_is t kStartTag GUMBO_TAG_ISINDEX then in_body_isindex p
      else if tag_is t kStartTag GUMBO_TAG_TEXTAREA then
        let p = run_generic_parsing_algorithm GUMBO_LEX_RCDATA p;
            p = p\<lparr>pa_ignore_next_linefeed := True\<rparr>
        in (True, set_frameset_not_ok p)
      else if tag_is t kStartTag GUMBO_TAG_XMP then
        let (result, p) = maybe_implicitly_close_p_tag p;
            p = set_frameset_not_ok (reconstruct_active_formatting_elements p)
        in (result, run_generic_parsing_algorithm GUMBO_LEX_RAWTEXT p)
      else if tag_is t kStartTag GUMBO_TAG_IFRAME then
        (True, run_generic_parsing_algorithm GUMBO_LEX_RAWTEXT (set_frameset_not_ok p))
      else if tag_is t kStartTag GUMBO_TAG_NOEMBED then (True, run_generic_parsing_algorithm GUMBO_LEX_RAWTEXT p)
      else if tag_is t kStartTag GUMBO_TAG_SELECT then in_body_select p
      else if tag_in t kStartTag [GUMBO_TAG_OPTION, GUMBO_TAG_OPTGROUP] then
        let p = deref_current p;
            p = (if node_tag_is (current p) GUMBO_TAG_OPTION then pop p else p)
        in (True, snd (insert_element_from_token (reconstruct_active_formatting_elements p)))
      else if tag_in t kStartTag [GUMBO_TAG_RP, GUMBO_TAG_RT] then in_body_ruby_text p
      else if tag_is t kEndTag GUMBO_TAG_BR then
        let p = reconstruct_active_formatting_elements (parser_add_parse_error p)
        in (False, pop (snd (insert_element_of_tag_type GUMBO_TAG_BR GUMBO_INSERTION_CONVERTED_FROM_END_TAG p)))
      else if tag_is t kStartTag GUMBO_TAG_MATH then in_body_math p
      else if tag_is t kStartTag GUMBO_TAG_SVG then in_body_svg p
      else if tag_in t kStartTag [GUMBO_TAG_CAPTION, GUMBO_TAG_COL, GUMBO_TAG_COLGROUP, GUMBO_TAG_FRAME, GUMBO_TAG_HEAD,
                                  GUMBO_TAG_TBODY, GUMBO_TAG_TD, GUMBO_TAG_TFOOT, GUMBO_TAG_TH, GUMBO_TAG_THEAD, GUMBO_TAG_TR]
      then error_ignore p
      else if to_type t = GUMBO_TOKEN_START_TAG then
        (True, snd (insert_element_from_token (reconstruct_active_formatting_elements p)))
      else in_body_any_other_end_tag p)"

text \<open>The middle part: from \<^verbatim>\<open>address\<close> to the end tags of formatting elements.\<close>

definition in_body_tags :: mode_handler where
  "in_body_tags p =
     (let t = pa_token p in
      if tag_in t kStartTag [GUMBO_TAG_ADDRESS, GUMBO_TAG_ARTICLE, GUMBO_TAG_ASIDE, GUMBO_TAG_BLOCKQUOTE, GUMBO_TAG_CENTER,
           GUMBO_TAG_DETAILS, GUMBO_TAG_DIR, GUMBO_TAG_DIV, GUMBO_TAG_DL, GUMBO_TAG_FIELDSET, GUMBO_TAG_FIGCAPTION,
           GUMBO_TAG_FIGURE, GUMBO_TAG_FOOTER, GUMBO_TAG_HEADER, GUMBO_TAG_HGROUP, GUMBO_TAG_MENU, GUMBO_TAG_NAV, GUMBO_TAG_OL,
           GUMBO_TAG_P, GUMBO_TAG_SECTION, GUMBO_TAG_SUMMARY, GUMBO_TAG_UL]
      then insert_block p
      else if tag_in t kStartTag heading_tags then in_body_heading p
      else if tag_in t kStartTag [GUMBO_TAG_PRE, GUMBO_TAG_LISTING] then
        let (result, p) = insert_block p
        in (result, p\<lparr>pa_ignore_next_linefeed := True, pa_frameset_ok := False\<rparr>)
      else if tag_is t kStartTag GUMBO_TAG_FORM then in_body_form p
      else if tag_is t kStartTag GUMBO_TAG_LI then insert_block (maybe_implicitly_close_list_tag True p)
      else if tag_in t kStartTag [GUMBO_TAG_DD, GUMBO_TAG_DT] then insert_block (maybe_implicitly_close_list_tag False p)
      else if tag_is t kStartTag GUMBO_TAG_PLAINTEXT then
        let (result, p) = insert_block p in (result, set_lexer_state GUMBO_LEX_PLAINTEXT p)
      else if tag_is t kStartTag GUMBO_TAG_BUTTON then in_body_button p
      else if tag_in t kEndTag [GUMBO_TAG_ADDRESS, GUMBO_TAG_ARTICLE, GUMBO_TAG_ASIDE, GUMBO_TAG_BLOCKQUOTE, GUMBO_TAG_BUTTON,
           GUMBO_TAG_CENTER, GUMBO_TAG_DETAILS, GUMBO_TAG_DIR, GUMBO_TAG_DIV, GUMBO_TAG_DL, GUMBO_TAG_FIELDSET,
           GUMBO_TAG_FIGCAPTION, GUMBO_TAG_FIGURE, GUMBO_TAG_FOOTER, GUMBO_TAG_HEADER, GUMBO_TAG_HGROUP, GUMBO_TAG_LISTING,
           GUMBO_TAG_MENU, GUMBO_TAG_NAV, GUMBO_TAG_OL, GUMBO_TAG_PRE, GUMBO_TAG_SECTION, GUMBO_TAG_SUMMARY, GUMBO_TAG_UL]
      then
        let tag = token_end_tag (to_v t) in
        if \<not> has_an_element_in_scope p tag then error_ignore p else (True, snd (implicitly_close_tags tag p))
      else if tag_is t kEndTag GUMBO_TAG_FORM then in_body_end_form p
      else if tag_is t kEndTag GUMBO_TAG_P then in_body_end_p p
      else if tag_is t kEndTag GUMBO_TAG_LI then
        (if \<not> has_an_element_in_list_scope p GUMBO_TAG_LI then error_ignore p else implicitly_close_tags GUMBO_TAG_LI p)
      else if tag_in t kEndTag [GUMBO_TAG_DD, GUMBO_TAG_DT] then
        let token_tag = token_end_tag (to_v t) in
        if \<not> has_an_element_in_scope p token_tag then error_ignore p else implicitly_close_tags token_tag p
      else if tag_in t kEndTag heading_tags then in_body_end_heading p
      else if tag_is t kStartTag GUMBO_TAG_A then in_body_a p
      else if tag_in t kStartTag [GUMBO_TAG_B, GUMBO_TAG_BIG, GUMBO_TAG_CODE, GUMBO_TAG_EM, GUMBO_TAG_FONT, GUMBO_TAG_I,
           GUMBO_TAG_S, GUMBO_TAG_SMALL, GUMBO_TAG_STRIKE, GUMBO_TAG_STRONG, GUMBO_TAG_TT, GUMBO_TAG_U]
      then (True, insert_formatting_element (reconstruct_active_formatting_elements p))
      else if tag_is t kStartTag GUMBO_TAG_NOBR then in_body_nobr p
      else if tag_in t kEndTag [GUMBO_TAG_A, GUMBO_TAG_B, GUMBO_TAG_BIG, GUMBO_TAG_CODE, GUMBO_TAG_EM, GUMBO_TAG_FONT,
           GUMBO_TAG_I, GUMBO_TAG_NOBR, GUMBO_TAG_S, GUMBO_TAG_SMALL, GUMBO_TAG_STRIKE, GUMBO_TAG_STRONG, GUMBO_TAG_TT,
           GUMBO_TAG_U]
      then adoption_agency_algorithm (token_end_tag (to_v t)) p
      else in_body_rest p)"

definition handle_in_body :: mode_handler where
  "handle_in_body p =
     (let t = pa_token p;
          p = assert_p (length (pa_open_elements p) > 0) p
      in if to_type t = GUMBO_TOKEN_NULL then error_ignore p
      else if to_type t = GUMBO_TOKEN_WHITESPACE then (True, insert_text_token (reconstruct_active_formatting_elements p))
      else if to_type t = GUMBO_TOKEN_CHARACTER then
        (True, set_frameset_not_ok (insert_text_token (reconstruct_active_formatting_elements p)))
      else if to_type t = GUMBO_TOKEN_COMMENT then comment_in_current p
      else if to_type t = GUMBO_TOKEN_DOCTYPE then error_ignore p
      else if tag_is t kStartTag GUMBO_TAG_HTML then handle_in_body_html p
      else if tag_in t kStartTag [GUMBO_TAG_BASE, GUMBO_TAG_BASEFONT, GUMBO_TAG_BGSOUND, GUMBO_TAG_MENUITEM, GUMBO_TAG_LINK,
           GUMBO_TAG_META, GUMBO_TAG_NOFRAMES, GUMBO_TAG_SCRIPT, GUMBO_TAG_STYLE, GUMBO_TAG_TITLE]
      then handle_in_head p
      else if tag_is t kStartTag GUMBO_TAG_BODY then in_body_start_body p
      else if tag_is t kStartTag GUMBO_TAG_FRAMESET then in_body_frameset p
      else if to_type t = GUMBO_TOKEN_EOF then in_body_eof p
      else if tag_in t kEndTag [GUMBO_TAG_BODY, GUMBO_TAG_HTML] then in_body_end_body p
      else in_body_tags p)"

section \<open>Text and tables\<close>

definition is_text :: "token \<Rightarrow> bool" where
  "is_text t \<longleftrightarrow> to_type t = GUMBO_TOKEN_CHARACTER \<or> to_type t = GUMBO_TOKEN_WHITESPACE"

definition handle_text :: mode_handler where
  "handle_text p =
     (let t = pa_token p in
      if is_text t then (True, insert_text_token p)
      else
        let p = (if to_type t = GUMBO_TOKEN_EOF then set_reprocess (parser_add_parse_error p) else p);
            p = pop p
        in (True, set_insertion_mode (pa_original_insertion_mode p) p))"

definition in_table_rows :: mode_handler where
  "in_table_rows p =
     (let p = clear_stack_to_table_context p;
          p = set_insertion_mode GUMBO_INSERTION_MODE_IN_TABLE_BODY p
      in if tag_in (pa_token p) kStartTag [GUMBO_TAG_TD, GUMBO_TAG_TH, GUMBO_TAG_TR]
         then (True, set_reprocess (snd (insert_element_of_tag_type GUMBO_TAG_TBODY GUMBO_INSERTION_IMPLIED p)))
         else (True, snd (insert_element_from_token p)))"

definition in_table_form :: mode_handler where
  "in_table_form p =
     (let p = parser_add_parse_error p in
      if pa_form_element p \<noteq> None then (False, ignore_token p)
      else
        let (form, p) = insert_element_from_token p;
            p = p\<lparr>pa_form_element := Some form\<rparr>
        in (False, pop p))"

definition handle_in_table :: mode_handler where
  "handle_in_table p =
     (let t = pa_token p in
      if is_text t then
        let p = assert_p (tb_buffer (pa_text_node p) = []) p;
            p = set_reprocess (p\<lparr>pa_original_insertion_mode := pa_insertion_mode p\<rparr>)
        in (True, set_insertion_mode GUMBO_INSERTION_MODE_IN_TABLE_TEXT p)
      else if to_type t = GUMBO_TOKEN_DOCTYPE then error_ignore p
      else if to_type t = GUMBO_TOKEN_COMMENT then comment_in_current p
      else if tag_is t kStartTag GUMBO_TAG_CAPTION then
        let p = add_formatting_element None (clear_stack_to_table_context p);
            p = snd (insert_element_from_token p)
        in (True, set_insertion_mode GUMBO_INSERTION_MODE_IN_CAPTION p)
      else if tag_is t kStartTag GUMBO_TAG_COLGROUP then
        let p = snd (insert_element_from_token (clear_stack_to_table_context p))
        in (True, set_insertion_mode GUMBO_INSERTION_MODE_IN_COLUMN_GROUP p)
      else if tag_is t kStartTag GUMBO_TAG_COL then
        let p = clear_stack_to_table_context p;
            p = snd (insert_element_of_tag_type GUMBO_TAG_COLGROUP GUMBO_INSERTION_IMPLIED p);
            p = set_reprocess p
        in (True, set_insertion_mode GUMBO_INSERTION_MODE_IN_COLUMN_GROUP p)
      else if tag_in t kStartTag [GUMBO_TAG_TBODY, GUMBO_TAG_TFOOT, GUMBO_TAG_THEAD, GUMBO_TAG_TD, GUMBO_TAG_TH, GUMBO_TAG_TR]
      then in_table_rows p
      else if tag_is t kStartTag GUMBO_TAG_TABLE then
        let (closed, p) = close_table (parser_add_parse_error p)
        in (False, if closed then set_reprocess p else ignore_token p)
      else if tag_is t kEndTag GUMBO_TAG_TABLE then
        let (closed, p) = close_table p in (closed, if closed then p else parser_add_parse_error p)
      else if tag_in t kEndTag [GUMBO_TAG_BODY, GUMBO_TAG_CAPTION, GUMBO_TAG_COL, GUMBO_TAG_COLGROUP, GUMBO_TAG_HTML,
           GUMBO_TAG_TBODY, GUMBO_TAG_TD, GUMBO_TAG_TFOOT, GUMBO_TAG_TH, GUMBO_TAG_THEAD, GUMBO_TAG_TR]
      then error_ignore p
      else if tag_in t kStartTag [GUMBO_TAG_STYLE, GUMBO_TAG_SCRIPT] then handle_in_head p
      else if tag_is t kStartTag GUMBO_TAG_INPUT
           \<and> attribute_matches (start_tag_attributes (to_v t)) (bytes_of ''type'') (bytes_of ''hidden'')
      then (False, pop (snd (insert_element_from_token (parser_add_parse_error p))))
      else if tag_is t kStartTag GUMBO_TAG_FORM then in_table_form p
      else if to_type t = GUMBO_TOKEN_EOF then
        let p = deref_current p
        in if \<not> node_tag_is (current p) GUMBO_TAG_HTML then (False, parser_add_parse_error p) else (True, p)
      else
        let p = parser_add_parse_error p;
            (result, p) = handle_in_body (p\<lparr>pa_foster_parent_insertions := True\<rparr>)
        in (result, p\<lparr>pa_foster_parent_insertions := False\<rparr>))"

definition handle_in_table_text :: mode_handler where
  "handle_in_table_text p =
     (let t = pa_token p in
      if to_type t = GUMBO_TOKEN_NULL then error_ignore p
      else if is_text t then (True, insert_text_token p)
      else
        let p = (if list_ex (\<lambda>c. \<not> is_space8 c \<or> c = 0x0B) (tb_buffer (pa_text_node p))
                 then reconstruct_active_formatting_elements (p\<lparr>pa_foster_parent_insertions := True\<rparr>) else p);
            p = maybe_flush_text_node_buffer p;
            p = p\<lparr>pa_foster_parent_insertions := False\<rparr>;
            p = set_reprocess p
        in (True, set_insertion_mode (pa_original_insertion_mode p) p))"

definition in_caption_close :: mode_handler where
  "in_caption_close p =
     (if \<not> has_an_element_in_table_scope p GUMBO_TAG_CAPTION then error_ignore p
      else
        let p = (if \<not> tag_is (pa_token p) kEndTag GUMBO_TAG_CAPTION then set_reprocess (parser_add_parse_error p) else p);
            p = generate_implied_end_tags GUMBO_TAG_LAST p;
            p = deref_current p;
            result = node_tag_is (current p) GUMBO_TAG_CAPTION;
            p = (if result then p else pop_while (\<lambda>n. \<not> node_tag_is n GUMBO_TAG_CAPTION) (parser_add_parse_error p));
            p = clear_active_formatting_elements (pop p)
        in (result, set_insertion_mode GUMBO_INSERTION_MODE_IN_TABLE p))"

definition handle_in_caption :: mode_handler where
  "handle_in_caption p =
     (let t = pa_token p in
      if tag_in t kStartTag [GUMBO_TAG_CAPTION, GUMBO_TAG_COL, GUMBO_TAG_COLGROUP, GUMBO_TAG_TBODY, GUMBO_TAG_TD,
           GUMBO_TAG_TFOOT, GUMBO_TAG_TH, GUMBO_TAG_THEAD, GUMBO_TAG_TR]
         \<or> tag_in t kEndTag [GUMBO_TAG_CAPTION, GUMBO_TAG_TABLE]
      then in_caption_close p
      else if tag_in t kEndTag [GUMBO_TAG_BODY, GUMBO_TAG_COL, GUMBO_TAG_COLGROUP, GUMBO_TAG_HTML, GUMBO_TAG_TBODY,
           GUMBO_TAG_TD, GUMBO_TAG_TFOOT, GUMBO_TAG_TH, GUMBO_TAG_THEAD, GUMBO_TAG_TR]
      then error_ignore p
      else handle_in_body p)"

definition handle_in_column_group :: mode_handler where
  "handle_in_column_group p =
     (let t = pa_token p in
      if to_type t = GUMBO_TOKEN_WHITESPACE then (True, insert_text_token p)
      else if to_type t = GUMBO_TOKEN_DOCTYPE then error_ignore p
      else if to_type t = GUMBO_TOKEN_COMMENT then comment_in_current p
      else if tag_is t kStartTag GUMBO_TAG_HTML then handle_in_body_html p
      else if tag_is t kStartTag GUMBO_TAG_COL then (True, insert_void_element p)
      else if tag_is t kEndTag GUMBO_TAG_COL then error_ignore p
      else
        let p = check_current p in
        if to_type t = GUMBO_TOKEN_EOF \<and> get_current_node p = pa_root p then (True, p)
        else if get_current_node p = pa_root p then (False, parser_add_parse_error p)
        else
          let p = deref_current p;
              p = assert_p (node_tag_is (current p) GUMBO_TAG_COLGROUP) p;
              p = set_insertion_mode GUMBO_INSERTION_MODE_IN_TABLE (pop p)
          in (True, if \<not> tag_is t kEndTag GUMBO_TAG_COLGROUP then set_reprocess p else p))"

definition handle_in_table_body :: mode_handler where
  "handle_in_table_body p =
     (let t = pa_token p in
      if tag_is t kStartTag GUMBO_TAG_TR then
        let p = snd (insert_element_from_token (clear_stack_to_table_body_context p))
        in (True, set_insertion_mode GUMBO_INSERTION_MODE_IN_ROW p)
      else if tag_in t kStartTag [GUMBO_TAG_TD, GUMBO_TAG_TH] then
        let p = clear_stack_to_table_body_context (parser_add_parse_error p);
            p = snd (insert_element_of_tag_type GUMBO_TAG_TR GUMBO_INSERTION_IMPLIED p);
            p = set_reprocess p
        in (False, set_insertion_mode GUMBO_INSERTION_MODE_IN_ROW p)
      else if tag_in t kEndTag [GUMBO_TAG_TBODY, GUMBO_TAG_TFOOT, GUMBO_TAG_THEAD] then
        (if \<not> has_an_element_in_table_scope p (token_end_tag (to_v t)) then error_ignore p
         else (True, set_insertion_mode GUMBO_INSERTION_MODE_IN_TABLE (pop (clear_stack_to_table_body_context p))))
      else if tag_in t kStartTag [GUMBO_TAG_CAPTION, GUMBO_TAG_COL, GUMBO_TAG_COLGROUP, GUMBO_TAG_TBODY, GUMBO_TAG_TFOOT,
           GUMBO_TAG_THEAD] \<or> tag_is t kEndTag GUMBO_TAG_TABLE
      then
        (if \<not> (has_an_element_in_table_scope p GUMBO_TAG_TBODY \<or> has_an_element_in_table_scope p GUMBO_TAG_THEAD
               \<or> has_an_element_in_table_scope p GUMBO_TAG_TFOOT)
         then error_ignore p
         else
           let p = pop (clear_stack_to_table_body_context p)
           in (True, set_reprocess (set_insertion_mode GUMBO_INSERTION_MODE_IN_TABLE p)))
      else if tag_in t kEndTag [GUMBO_TAG_BODY, GUMBO_TAG_CAPTION, GUMBO_TAG_COL, GUMBO_TAG_TR, GUMBO_TAG_COLGROUP,
           GUMBO_TAG_HTML, GUMBO_TAG_TD, GUMBO_TAG_TH]
      then error_ignore p
      else handle_in_table p)"

definition in_row_close :: mode_handler where
  "in_row_close p =
     (let t = pa_token p;
          desired_tag = (if tag_in t kEndTag [GUMBO_TAG_TBODY, GUMBO_TAG_TFOOT, GUMBO_TAG_THEAD]
                         then token_end_tag (to_v t) else GUMBO_TAG_TR)
      in if \<not> has_an_element_in_table_scope p desired_tag then error_ignore p
         else
           let p = pop_expecting GUMBO_TAG_TR (clear_stack_to_table_row_context p);
               p = set_insertion_mode GUMBO_INSERTION_MODE_IN_TABLE_BODY p
           in (True, if \<not> tag_is t kEndTag GUMBO_TAG_TR then set_reprocess p else p))"

definition handle_in_row :: mode_handler where
  "handle_in_row p =
     (let t = pa_token p in
      if tag_in t kStartTag [GUMBO_TAG_TH, GUMBO_TAG_TD] then
        let p = snd (insert_element_from_token (clear_stack_to_table_row_context p));
            p = set_insertion_mode GUMBO_INSERTION_MODE_IN_CELL p
        in (True, add_formatting_element None p)
      else if tag_in t kStartTag [GUMBO_TAG_CAPTION, GUMBO_TAG_COLGROUP, GUMBO_TAG_TBODY, GUMBO_TAG_TFOOT, GUMBO_TAG_THEAD,
           GUMBO_TAG_TR]
         \<or> tag_in t kEndTag [GUMBO_TAG_TR, GUMBO_TAG_TABLE, GUMBO_TAG_TBODY, GUMBO_TAG_TFOOT, GUMBO_TAG_THEAD]
      then in_row_close p
      else if tag_in t kEndTag [GUMBO_TAG_BODY, GUMBO_TAG_CAPTION, GUMBO_TAG_COL, GUMBO_TAG_COLGROUP, GUMBO_TAG_HTML,
           GUMBO_TAG_TD, GUMBO_TAG_TH]
      then error_ignore p
      else handle_in_table p)"

definition handle_in_cell :: mode_handler where
  "handle_in_cell p =
     (let t = pa_token p in
      if tag_in t kEndTag [GUMBO_TAG_TD, GUMBO_TAG_TH] then
        let token_tag = token_end_tag (to_v t) in
        if \<not> has_an_element_in_table_scope p token_tag then (False, parser_add_parse_error p)
        else close_table_cell token_tag p
      else if tag_in t kStartTag [GUMBO_TAG_CAPTION, GUMBO_TAG_COL, GUMBO_TAG_COLGROUP, GUMBO_TAG_TBODY, GUMBO_TAG_TD,
           GUMBO_TAG_TFOOT, GUMBO_TAG_TH, GUMBO_TAG_THEAD, GUMBO_TAG_TR]
      then
        (if \<not> has_an_element_in_table_scope p GUMBO_TAG_TH \<and> \<not> has_an_element_in_table_scope p GUMBO_TAG_TD
         then error_ignore p
         else close_current_cell (set_reprocess p))
      else if tag_in t kEndTag [GUMBO_TAG_BODY, GUMBO_TAG_CAPTION, GUMBO_TAG_COL, GUMBO_TAG_COLGROUP, GUMBO_TAG_HTML]
      then error_ignore p
      else if tag_in t kEndTag [GUMBO_TAG_TABLE, GUMBO_TAG_TBODY, GUMBO_TAG_TFOOT, GUMBO_TAG_THEAD, GUMBO_TAG_TR] then
        (if \<not> has_an_element_in_table_scope p (token_end_tag (to_v t)) then error_ignore p
         else close_current_cell (set_reprocess p))
      else handle_in_body p)"

section \<open>Select\<close>

definition pop_if_current :: "gumbo_tag \<Rightarrow> parser \<Rightarrow> parser" where
  "pop_if_current tag p =
     (let p = deref_current p in if node_tag_is (current p) tag then pop p else p)"

text \<open>Below an option there is always another element on the stack.\<close>

definition in_select_end_optgroup :: mode_handler where
  "in_select_end_optgroup p =
     (let p = deref_current p; n = length (pa_open_elements p);
          p = (if node_tag_is (current p) GUMBO_TAG_OPTION
               then
                 let p = assert_p (2 \<le> n) p;
                     p = deref (Some (open_element p (n - 2))) p
                 in if node_tag_is (node p (open_element p (n - 2))) GUMBO_TAG_OPTGROUP then pop p else p
               else p);
          p = deref_current p
      in if node_tag_is (current p) GUMBO_TAG_OPTGROUP then (True, pop p) else error_ignore p)"

definition handle_in_select :: mode_handler where
  "handle_in_select p =
     (let t = pa_token p in
      if to_type t = GUMBO_TOKEN_NULL then error_ignore p
      else if is_text t then (True, insert_text_token p)
      else if to_type t = GUMBO_TOKEN_DOCTYPE then error_ignore p
      else if to_type t = GUMBO_TOKEN_COMMENT then comment_in_current p
      else if tag_is t kStartTag GUMBO_TAG_HTML then handle_in_body_html p
      else if tag_is t kStartTag GUMBO_TAG_OPTION then
        (True, snd (insert_element_from_token (pop_if_current GUMBO_TAG_OPTION p)))
      else if tag_is t kStartTag GUMBO_TAG_OPTGROUP then
        (True, snd (insert_element_from_token (pop_if_current GUMBO_TAG_OPTGROUP (pop_if_current GUMBO_TAG_OPTION p))))
      else if tag_is t kEndTag GUMBO_TAG_OPTGROUP then in_select_end_optgroup p
      else if tag_is t kEndTag GUMBO_TAG_OPTION then
        let p = deref_current p
        in if node_tag_is (current p) GUMBO_TAG_OPTION then (True, pop p) else error_ignore p
      else if tag_is t kEndTag GUMBO_TAG_SELECT then
        (if \<not> has_an_element_in_select_scope p GUMBO_TAG_SELECT then error_ignore p
         else (True, close_current_select p))
      else if tag_is t kStartTag GUMBO_TAG_SELECT then
        (False, close_current_select (ignore_token (parser_add_parse_error p)))
      else if tag_in t kStartTag [GUMBO_TAG_INPUT, GUMBO_TAG_KEYGEN, GUMBO_TAG_TEXTAREA] then
        let p = parser_add_parse_error p
        in if \<not> has_an_element_in_select_scope p GUMBO_TAG_SELECT then (False, ignore_token p)
           else (False, set_reprocess (close_current_select p))
      else if tag_is t kStartTag GUMBO_TAG_SCRIPT then handle_in_head p
      else if to_type t = GUMBO_TOKEN_EOF then
        let p = check_current p
        in if get_current_node p \<noteq> pa_root p then (False, parser_add_parse_error p) else (True, p)
      else error_ignore p)"

definition handle_in_select_in_table :: mode_handler where
  "handle_in_select_in_table p =
     (let t = pa_token p;
          tags = [GUMBO_TAG_CAPTION, GUMBO_TAG_TABLE, GUMBO_TAG_TBODY, GUMBO_TAG_TFOOT, GUMBO_TAG_THEAD, GUMBO_TAG_TR,
                  GUMBO_TAG_TD, GUMBO_TAG_TH]
      in if tag_in t kStartTag tags then (False, set_reprocess (close_current_select (parser_add_parse_error p)))
      else if tag_in t kEndTag tags then
        let p = parser_add_parse_error p
        in if has_an_element_in_table_scope p (token_end_tag (to_v t))
           then (False, set_reprocess (reset_insertion_mode_appropriately (close_current_select p)))
           else (False, ignore_token p)
      else handle_in_select p)"

definition handle_in_template :: mode_handler where
  "handle_in_template p = (True, p)"

section \<open>After the body, framesets\<close>

definition handle_after_body :: mode_handler where
  "handle_after_body p =
     (let t = pa_token p in
      if to_type t = GUMBO_TOKEN_WHITESPACE \<or> tag_is t kStartTag GUMBO_TAG_HTML then handle_in_body p
      else if to_type t = GUMBO_TOKEN_COMMENT then
        let p = assert_p (pa_root p \<noteq> None) p in (True, append_comment_node (pa_root p) p)
      else if to_type t = GUMBO_TOKEN_DOCTYPE then error_ignore p
      else if tag_is t kEndTag GUMBO_TAG_HTML then
        let p = set_insertion_mode GUMBO_INSERTION_MODE_AFTER_AFTER_BODY p;
            html = open_element p 0;
            p = deref (Some html) p;
            p = assert_p (node_tag_is (node p html) GUMBO_TAG_HTML) p
        in (True, modify html (record_end_of_element t) p)
      else if to_type t = GUMBO_TOKEN_EOF then (True, p)
      else (False, set_reprocess (set_insertion_mode GUMBO_INSERTION_MODE_IN_BODY (parser_add_parse_error p))))"

definition handle_in_frameset :: mode_handler where
  "handle_in_frameset p =
     (let t = pa_token p in
      if to_type t = GUMBO_TOKEN_WHITESPACE then (True, insert_text_token p)
      else if to_type t = GUMBO_TOKEN_COMMENT then comment_in_current p
      else if to_type t = GUMBO_TOKEN_DOCTYPE then error_ignore p
      else if tag_is t kStartTag GUMBO_TAG_HTML then handle_in_body_html p
      else if tag_is t kStartTag GUMBO_TAG_FRAMESET then (True, snd (insert_element_from_token p))
      else if tag_is t kEndTag GUMBO_TAG_FRAMESET then
        let p = deref_current p
        in if node_tag_is (current p) GUMBO_TAG_HTML then error_ignore p
           else
             let p = deref_current (pop p)
             in (True, if \<not> node_tag_is (current p) GUMBO_TAG_FRAMESET
                       then set_insertion_mode GUMBO_INSERTION_MODE_AFTER_FRAMESET p else p)
      else if tag_is t kStartTag GUMBO_TAG_FRAME then (True, insert_void_element p)
      else if tag_is t kStartTag GUMBO_TAG_NOFRAMES then handle_in_head p
      else if to_type t = GUMBO_TOKEN_EOF then
        let p = deref_current p
        in if \<not> node_tag_is (current p) GUMBO_TAG_HTML then (False, parser_add_parse_error p) else (True, p)
      else error_ignore p)"

definition handle_after_frameset :: mode_handler where
  "handle_after_frameset p =
     (let t = pa_token p in
      if to_type t = GUMBO_TOKEN_WHITESPACE then (True, insert_text_token p)
      else if to_type t = GUMBO_TOKEN_COMMENT then comment_in_current p
      else if to_type t = GUMBO_TOKEN_DOCTYPE then error_ignore p
      else if tag_is t kStartTag GUMBO_TAG_HTML then handle_in_body_html p
      else if tag_is t kEndTag GUMBO_TAG_HTML then
        (True, set_insertion_mode GUMBO_INSERTION_MODE_AFTER_AFTER_FRAMESET p)
      else if tag_is t kStartTag GUMBO_TAG_NOFRAMES then handle_in_head p
      else if to_type t = GUMBO_TOKEN_EOF then (True, p)
      else error_ignore p)"

definition handle_after_after_body :: mode_handler where
  "handle_after_after_body p =
     (let t = pa_token p in
      if to_type t = GUMBO_TOKEN_COMMENT then comment_in_document p
      else if to_type t = GUMBO_TOKEN_DOCTYPE \<or> to_type t = GUMBO_TOKEN_WHITESPACE \<or> tag_is t kStartTag GUMBO_TAG_HTML
      then handle_in_body p
      else if to_type t = GUMBO_TOKEN_EOF then (True, p)
      else (False, set_reprocess (set_insertion_mode GUMBO_INSERTION_MODE_IN_BODY (parser_add_parse_error p))))"

definition handle_after_after_frameset :: mode_handler where
  "handle_after_after_frameset p =
     (let t = pa_token p in
      if to_type t = GUMBO_TOKEN_COMMENT then comment_in_document p
      else if to_type t = GUMBO_TOKEN_DOCTYPE \<or> to_type t = GUMBO_TOKEN_WHITESPACE \<or> tag_is t kStartTag GUMBO_TAG_HTML
      then handle_in_body p
      else if to_type t = GUMBO_TOKEN_EOF then (True, p)
      else if tag_is t kStartTag GUMBO_TAG_NOFRAMES then handle_in_head p
      else error_ignore p)"

section \<open>Dispatch\<close>

fun kTokenHandlers :: "insertion_mode \<Rightarrow> mode_handler" where
  "kTokenHandlers GUMBO_INSERTION_MODE_INITIAL = handle_initial"
| "kTokenHandlers GUMBO_INSERTION_MODE_BEFORE_HTML = handle_before_html"
| "kTokenHandlers GUMBO_INSERTION_MODE_BEFORE_HEAD = handle_before_head"
| "kTokenHandlers GUMBO_INSERTION_MODE_IN_HEAD = handle_in_head"
| "kTokenHandlers GUMBO_INSERTION_MODE_IN_HEAD_NOSCRIPT = handle_in_head_noscript"
| "kTokenHandlers GUMBO_INSERTION_MODE_AFTER_HEAD = handle_after_head"
| "kTokenHandlers GUMBO_INSERTION_MODE_IN_BODY = handle_in_body"
| "kTokenHandlers GUMBO_INSERTION_MODE_TEXT = handle_text"
| "kTokenHandlers GUMBO_INSERTION_MODE_IN_TABLE = handle_in_table"
| "kTokenHandlers GUMBO_INSERTION_MODE_IN_TABLE_TEXT = handle_in_table_text"
| "kTokenHandlers GUMBO_INSERTION_MODE_IN_CAPTION = handle_in_caption"
| "kTokenHandlers GUMBO_INSERTION_MODE_IN_COLUMN_GROUP = handle_in_column_group"
| "kTokenHandlers GUMBO_INSERTION_MODE_IN_TABLE_BODY = handle_in_table_body"
| "kTokenHandlers GUMBO_INSERTION_MODE_IN_ROW = handle_in_row"
| "kTokenHandlers GUMBO_INSERTION_MODE_IN_CELL = handle_in_cell"
| "kTokenHandlers GUMBO_INSERTION_MODE_IN_SELECT = handle_in_select"
| "kTokenHandlers GUMBO_INSERTION_MODE_IN_SELECT_IN_TABLE = handle_in_select_in_table"
| "kTokenHandlers GUMBO_INSERTION_MODE_IN_TEMPLATE = handle_in_template"
| "kTokenHandlers GUMBO_INSERTION_MODE_AFTER_BODY = handle_after_body"
| "kTokenHandlers GUMBO_INSERTION_MODE_IN_FRAMESET = handle_in_frameset"
| "kTokenHandlers GUMBO_INSERTION_MODE_AFTER_FRAMESET = handle_after_frameset"
| "kTokenHandlers GUMBO_INSERTION_MODE_AFTER_AFTER_BODY = handle_after_after_body"
| "kTokenHandlers GUMBO_INSERTION_MODE_AFTER_AFTER_FRAMESET = handle_after_after_frameset"

definition handle_html_content :: mode_handler where
  "handle_html_content p = kTokenHandlers (pa_insertion_mode p) p"

section \<open>Foreign content\<close>

definition piece_text :: "memory \<Rightarrow> string_piece \<Rightarrow> byte list option" where
  "piece_text mem s = (if fst s = 0 then None else Some (map (\<lambda>i. mem (fst s + int i)) [0 ..< nat (snd s)]))"

text \<open>\<^verbatim>\<open>gumbo_tag_from_original_text\<close> on a piece of the source; the name of an empty piece is empty.\<close>

definition tagname :: "string_piece \<Rightarrow> parser \<Rightarrow> byte list \<times> parser" where
  "tagname s p =
     (case gumbo_tag_from_original_text (piece_text (ut_mem (tk_input (pa_tokenizer p))) s) of
        Inl _ \<Rightarrow> ([], assert_p False p)
      | Inr None \<Rightarrow> ([], p)
      | Inr (Some t) \<Rightarrow> (t, p))"

text \<open>The walk up the stack for an end tag; the result is the node to close, or the node it stopped at.\<close>

primrec foreign_loop ::
  "nat \<Rightarrow> node_id \<Rightarrow> byte list \<Rightarrow> byte list \<Rightarrow> parser \<Rightarrow> (node_id + node_id) \<times> parser" where
  "foreign_loop 0 nd node_tagname token_tagname p = (Inr nd, p)"
| "foreign_loop (Suc i) nd node_tagname token_tagname p =
     (if gumbo_string_equals_ignore_case node_tagname token_tagname then (Inl nd, p)
      else
        let nd = open_element p i;
            p = deref (Some nd) p
        in if el_tag_namespace (element p nd) = GUMBO_NAMESPACE_HTML then (Inr nd, p)
           else
             let (node_tagname, p) = tagname (el_original_tag (element p nd)) p
             in foreign_loop i nd node_tagname token_tagname p)"

definition foreign_end_tag :: mode_handler where
  "foreign_end_tag p =
     (let t = pa_token p;
          p = assert_p (to_type t = GUMBO_TOKEN_END_TAG) p;
          p = deref_current p
      in case get_current_node p of
           None \<Rightarrow> (False, p)
         | Some nd \<Rightarrow>
             let (token_tagname, p) = tagname (token_original_text t) p;
                 (node_tagname, p) = tagname (el_original_tag (element p nd)) p;
                 is_success = gumbo_string_equals_ignore_case node_tagname token_tagname;
                 p = (if is_success then p else parser_add_parse_error p)
             in case foreign_loop (length (pa_open_elements p) - 1) nd node_tagname token_tagname p of
                  (Inl nd, p) \<Rightarrow> (is_success, pop_until (\<lambda>i _. i = nd) p)
                | (Inr nd, p) \<Rightarrow>
                    let p = assert_p (el_tag_namespace (element p nd) = GUMBO_NAMESPACE_HTML) p;
                        (result, p) = handle_html_content p
                    in (result \<and> is_success, p))"

definition foreign_breakout :: "token \<Rightarrow> bool" where
  "foreign_breakout t \<longleftrightarrow>
     tag_in t kStartTag [GUMBO_TAG_B, GUMBO_TAG_BIG, GUMBO_TAG_BLOCKQUOTE, GUMBO_TAG_BODY, GUMBO_TAG_BR, GUMBO_TAG_CENTER,
       GUMBO_TAG_CODE, GUMBO_TAG_DD, GUMBO_TAG_DIV, GUMBO_TAG_DL, GUMBO_TAG_DT, GUMBO_TAG_EM, GUMBO_TAG_EMBED, GUMBO_TAG_H1,
       GUMBO_TAG_H2, GUMBO_TAG_H3, GUMBO_TAG_H4, GUMBO_TAG_H5, GUMBO_TAG_H6, GUMBO_TAG_HEAD, GUMBO_TAG_HR, GUMBO_TAG_I,
       GUMBO_TAG_IMG, GUMBO_TAG_LI, GUMBO_TAG_LISTING, GUMBO_TAG_MENU, GUMBO_TAG_META, GUMBO_TAG_NOBR, GUMBO_TAG_OL,
       GUMBO_TAG_P, GUMBO_TAG_PRE, GUMBO_TAG_RUBY, GUMBO_TAG_S, GUMBO_TAG_SMALL, GUMBO_TAG_SPAN, GUMBO_TAG_STRONG,
       GUMBO_TAG_STRIKE, GUMBO_TAG_SUB, GUMBO_TAG_SUP, GUMBO_TAG_TABLE, GUMBO_TAG_TT, GUMBO_TAG_U, GUMBO_TAG_UL,
       GUMBO_TAG_VAR]
     \<or> (tag_is t kStartTag GUMBO_TAG_FONT
        \<and> (token_has_attribute ''color'' t \<or> token_has_attribute ''face'' t \<or> token_has_attribute ''size'' t))"

text \<open>\<^verbatim>\<open>do pop_current_node(parser); while (!(...));\<close>: the first pop is unconditional.\<close>

definition pop_foreign :: "parser \<Rightarrow> parser" where
  "pop_foreign p =
     pop_while (\<lambda>n. \<not> (is_mathml_integration_point n \<or> is_html_integration_point n
                       \<or> el_tag_namespace (node_element n) = GUMBO_NAMESPACE_HTML)) (pop p)"

definition foreign_start_tag :: mode_handler where
  "foreign_start_tag p =
     (let p = deref_current p;
          current_namespace = el_tag_namespace (node_element (current p));
          p = (if current_namespace = GUMBO_NAMESPACE_MATHML then adjust_mathml_attributes p else p);
          p = (if current_namespace = GUMBO_NAMESPACE_SVG then adjust_svg_attributes p else p);
          p = adjust_foreign_attributes p;
          p = snd (insert_foreign_element current_namespace p)
      in (True, pop_if_self_closing p))"

definition handle_in_foreign_content :: mode_handler where
  "handle_in_foreign_content p =
     (let t = pa_token p in
      if to_type t = GUMBO_TOKEN_NULL then
        let p = parser_add_parse_error p;
            p = p\<lparr>pa_token := t\<lparr>to_type := GUMBO_TOKEN_CHARACTER, to_v := V_character kUtf8ReplacementChar\<rparr>\<rparr>
        in (False, insert_text_token p)
      else if to_type t = GUMBO_TOKEN_WHITESPACE then (True, insert_text_token p)
      else if to_type t = GUMBO_TOKEN_CHARACTER then (True, set_frameset_not_ok (insert_text_token p))
      else if to_type t = GUMBO_TOKEN_COMMENT then comment_in_current p
      else if to_type t = GUMBO_TOKEN_DOCTYPE then error_ignore p
      else if foreign_breakout t then (False, set_reprocess (pop_foreign (parser_add_parse_error p)))
      else if to_type t = GUMBO_TOKEN_START_TAG then foreign_start_tag p
      else foreign_end_tag p)"

definition html_content :: "token \<Rightarrow> parser \<Rightarrow> bool" where
  "html_content t p \<longleftrightarrow>
     get_current_node p = None
     \<or> (let n = current p; e = node_element n in
        el_tag_namespace e = GUMBO_NAMESPACE_HTML
        \<or> (is_mathml_integration_point n
            \<and> (is_text t \<or> to_type t = GUMBO_TOKEN_NULL
               \<or> (to_type t = GUMBO_TOKEN_START_TAG \<and> \<not> tag_in t kStartTag [GUMBO_TAG_MGLYPH, GUMBO_TAG_MALIGNMARK])))
        \<or> (el_tag_namespace e = GUMBO_NAMESPACE_MATHML \<and> node_tag_is n GUMBO_TAG_ANNOTATION_XML
            \<and> tag_is t kStartTag GUMBO_TAG_SVG)
        \<or> (is_html_integration_point n
            \<and> (to_type t = GUMBO_TOKEN_START_TAG \<or> is_text t \<or> to_type t = GUMBO_TOKEN_NULL))
        \<or> to_type t = GUMBO_TOKEN_EOF)"

definition handle_token :: mode_handler where
  "handle_token p =
     (let t = pa_token p in
      if pa_ignore_next_linefeed p \<and> to_type t = GUMBO_TOKEN_WHITESPACE \<and> token_character (to_v t) = C_LF
      then (True, ignore_token (p\<lparr>pa_ignore_next_linefeed := False\<rparr>))
      else
        let p = p\<lparr>pa_ignore_next_linefeed := False\<rparr>;
            p = (if tag_is t kEndTag GUMBO_TAG_BODY then p\<lparr>pa_closed_body_tag := True\<rparr> else p);
            p = (if tag_is t kEndTag GUMBO_TAG_HTML then p\<lparr>pa_closed_html_tag := True\<rparr> else p);
            p = check_current p;
            p = (case get_current_node p of
                   None \<Rightarrow> p
                 | Some c \<Rightarrow> assert_p (is_element p c) (deref (Some c) p))
        in if html_content t p then handle_html_content p else handle_in_foreign_content p)"

end
