(* ===== verification/GumboParse.thy ===== *)
theory GumboParse
  imports GumboModes
begin

text \<open>
  The parser of \<^verbatim>\<open>src/html_parser/parser.cpp\<close>: the main loop, which reads a token with
  \<^verbatim>\<open>gumbo_lex\<close> or takes the last one again and hands it to \<^verbatim>\<open>handle_token\<close>, the
  functions \<^verbatim>\<open>gumbo_parse_with_options\<close> and \<^verbatim>\<open>gumbo_parse\<close> of the interface, and the
  release of their output.
\<close>

section \<open>The parser\<close>

text \<open>One iteration of the main loop; \<open>None\<close> when \<^verbatim>\<open>gumbo_lex\<close> does not return.\<close>

definition next_token :: "bool \<Rightarrow> parser \<Rightarrow> (bool \<times> parser) option" where
  "next_token has_error p =
     (if pa_reprocess_current_token p then Some (has_error, p\<lparr>pa_reprocess_current_token := False\<rparr>)
      else
        let p = check_current p;
            p = (if get_current_node p = None then p else deref (get_current_node p) p);
            foreign = (get_current_node p \<noteq> None \<and> el_tag_namespace (node_element (current p)) \<noteq> GUMBO_NAMESPACE_HTML)
        in case gumbo_lex (gumbo_tokenizer_set_is_current_node_foreign foreign (pa_tokenizer p)) of
             None \<Rightarrow> None
           | Some (success, tok) \<Rightarrow> Some (\<not> success \<or> has_error, p\<lparr>pa_tokenizer := tok, pa_token := tk_output tok\<rparr>))"

definition process_token :: "bool \<Rightarrow> parser \<Rightarrow> bool \<times> parser" where
  "process_token has_error p =
     (let t = pa_token p;
          p = p\<lparr>pa_self_closing_flag_acknowledged :=
                 (\<not> (to_type t = GUMBO_TOKEN_START_TAG \<and> token_self_closing (to_v t)))\<rparr>;
          (success, p) = handle_token p;
          t = pa_token p;
          p = assert_p (pa_reprocess_current_token p \<or> to_type t \<noteq> GUMBO_TOKEN_START_TAG \<or> drop_attributes (to_v t) = to_v t) p;
          p = (if \<not> pa_self_closing_flag_acknowledged p then add_error_of GUMBO_ERR_UNACKNOWLEDGED_SELF_CLOSING_TAG p else p)
      in (\<not> success \<or> has_error, p))"

partial_function (option) parse_loop :: "bool \<Rightarrow> int \<Rightarrow> bool \<Rightarrow> parser \<Rightarrow> parser option" where
  "parse_loop stop_on_first_error loop_count has_error p =
     (case next_token has_error p of
        None \<Rightarrow> None
      | Some (has_error, p) \<Rightarrow>
          let (has_error, p) = process_token has_error p;
              p = assert_p (loop_count + 1 < 1000000000) p
          in if (to_type (pa_token p) \<noteq> GUMBO_TOKEN_EOF \<or> pa_reprocess_current_token p) \<and> \<not> (stop_on_first_error \<and> has_error)
             then parse_loop stop_on_first_error (loop_count + 1) has_error p
             else Some p)"

declare parse_loop.simps [code]

definition or_empty :: "byte list option \<Rightarrow> byte list option" where
  "or_empty s = (case s of None \<Rightarrow> Some [] | Some s \<Rightarrow> Some s)"

text \<open>\<open>p\<close> is uninitialised memory; its tokenizer holds the memory of the source and the options.\<close>

definition start_parser :: "int \<Rightarrow> int \<Rightarrow> parser \<Rightarrow> parser" where
  "start_parser buffer len p =
     (let p = output_init p;
          p = p\<lparr>pa_tokenizer := gumbo_tokenizer_state_init buffer len (pa_tokenizer p)\<rparr>;
          p = parser_state_init p
      in p\<lparr>pa_token := (pa_token p)\<lparr>to_type := GUMBO_TOKEN_NULL\<rparr>\<rparr>)"

definition end_parser :: "parser \<Rightarrow> parser" where
  "end_parser p =
     (let p = finish_parsing p;
          p = modify (pa_document p) (map_document (\<lambda>d. d\<lparr>dc_name := or_empty (dc_name d),
                dc_public_identifier := or_empty (dc_public_identifier d),
                dc_system_identifier := or_empty (dc_system_identifier d)\<rparr>)) p
      in p\<lparr>pa_tokenizer := gumbo_tokenizer_state_destroy (pa_tokenizer p)\<rparr>)"

definition gumbo_parse_with_options :: "bool \<Rightarrow> int \<Rightarrow> int \<Rightarrow> parser \<Rightarrow> parser option" where
  "gumbo_parse_with_options stop_on_first_error buffer len p =
     map_option end_parser (parse_loop stop_on_first_error 0 False (start_parser buffer len p))"

text \<open>\<^verbatim>\<open>strlen\<close>, looking at no more than the given number of bytes.\<close>

primrec strlen_at :: "nat \<Rightarrow> memory \<Rightarrow> int \<Rightarrow> int option" where
  "strlen_at 0 mem a = None"
| "strlen_at (Suc k) mem a = (if mem a = 0 then Some 0 else map_option (\<lambda>n. n + 1) (strlen_at k mem (a + 1)))"

definition kGumboDefaultOptions :: "parser \<Rightarrow> parser" where
  "kGumboDefaultOptions p =
     p\<lparr>pa_tokenizer := (pa_tokenizer p)\<lparr>tk_input := (tk_input (pa_tokenizer p))\<lparr>ut_tab_stop := 8, ut_max_errors := -1\<rparr>\<rparr>\<rparr>"

definition gumbo_parse :: "nat \<Rightarrow> int \<Rightarrow> parser \<Rightarrow> parser option" where
  "gumbo_parse limit buffer p =
     (case strlen_at limit (ut_mem (tk_input (pa_tokenizer p))) buffer of
        None \<Rightarrow> None
      | Some len \<Rightarrow> gumbo_parse_with_options False buffer len (kGumboDefaultOptions p))"

definition gumbo_destroy_node :: "node_id \<Rightarrow> parser \<Rightarrow> parser" where
  "gumbo_destroy_node nd p = destroy_node nd p"

definition gumbo_destroy_output :: "parser \<Rightarrow> parser" where
  "gumbo_destroy_output p =
     (let p = destroy_node (pa_document p) p; tok = pa_tokenizer p
      in p\<lparr>pa_tokenizer := tok\<lparr>tk_input := (tk_input tok)\<lparr>ut_errors := []\<rparr>\<rparr>\<rparr>)"

end
