(* ===== verification/GumboInvariant.thy ===== *)
theory GumboInvariant
  imports GumboParse
begin

text \<open>
  Invariants of the tree builder.  An invariant that the primitive operations keep (the creation of a node, a write
  to a node that touches none of its links, the operations that link and unlink nodes, a parse error, a switch of
  the tokenizer to a content state, and any change of the stack, the lists and the flags that adds no dangling
  pointer and does not turn the token into a \<^verbatim>\<open>frameset\<close> start tag) is kept by every handler of every insertion mode.  The locale \<open>tree_invariant\<close> states the laws and has
  the proof for every operation, once; the locale \<open>parser_invariant\<close> adds the release of nodes, which only a
  \<^verbatim>\<open>frameset\<close> start tag in the body does.
\<close>

named_theorems keep \<open>the operations keep an invariant\<close>

section \<open>The laws\<close>

text \<open>The pointers the tree builder holds.\<close>

definition pointers :: "parser \<Rightarrow> node_id set" where
  "pointers p =
     set (pa_open_elements p) \<union> {i. Some i \<in> set (pa_active_formatting_elements p)} \<union> set_option (pa_head_element p)
     \<union> set_option (pa_form_element p) \<union> set_option (pa_root p) \<union> {pa_document p}"

definition frameset_tag :: "parser \<Rightarrow> bool" where
  "frameset_tag p \<longleftrightarrow> tag_is (pa_token p) kStartTag GUMBO_TAG_FRAMESET"

definition same_tree :: "parser \<Rightarrow> parser \<Rightarrow> bool" where
  "same_tree p q \<longleftrightarrow>
     pa_nodes q = pa_nodes p \<and> pa_next q = pa_next p \<and> pa_tokenizer q = pa_tokenizer p
     \<and> (frameset_tag q \<longrightarrow> frameset_tag p)
     \<and> (pa_ok q \<longrightarrow> pa_ok p \<and> pointers q \<subseteq> pointers p \<union> dom (pa_nodes p))"

text \<open>The value of a new node: of its type and without children.\<close>

definition typed :: "gumbo_node \<Rightarrow> bool" where
  "typed n = (case nd_v n of
     Node_document d \<Rightarrow> nd_type n = GUMBO_NODE_DOCUMENT
   | Node_element e \<Rightarrow> nd_type n = GUMBO_NODE_ELEMENT
   | Node_text t \<Rightarrow> nd_type n \<noteq> GUMBO_NODE_DOCUMENT \<and> nd_type n \<noteq> GUMBO_NODE_ELEMENT)"

definition new_value :: "node_type \<Rightarrow> node_value \<Rightarrow> bool" where
  "new_value ty v \<longleftrightarrow> (\<forall>n. typed (n\<lparr>nd_type := ty, nd_v := v\<rparr>) \<and> children_of (n\<lparr>nd_v := v\<rparr>) = [])"

text \<open>A write that leaves the links of a node as they are.\<close>

definition quiet :: "(gumbo_node \<Rightarrow> gumbo_node) \<Rightarrow> bool" where
  "quiet f \<longleftrightarrow> (\<forall>n. nd_type (f n) = nd_type n \<and> nd_parent (f n) = nd_parent n
     \<and> nd_index_within_parent (f n) = nd_index_within_parent n \<and> children_of (f n) = children_of n
     \<and> typed (f n) = typed n)"

locale tree_invariant =
  fixes I :: "parser \<Rightarrow> bool"
  assumes frame: "I p \<Longrightarrow> same_tree p q \<Longrightarrow> I q"
    and new_node: "I p \<Longrightarrow> pa_ok p \<longrightarrow> new_value ty v \<Longrightarrow> I (snd (create_node ty v p))"
    and quiet_write: "I p \<Longrightarrow> quiet f \<Longrightarrow> I (modify i f p)"
    and link_last: "I p \<Longrightarrow> I (append_node parent nd p)"
    and link_at: "I p \<Longrightarrow> I (insert_node parent k nd p)"
    and unlink: "I p \<Longrightarrow> I (remove_from_parent nd p)"
    and move: "I p \<Longrightarrow> children_of (node p new) = [] \<Longrightarrow> is_element p new \<Longrightarrow> I (move_children b new p)"
    and error: "I p \<Longrightarrow> I (add_error_of e p)"
    and lexer: "I p \<Longrightarrow>
      s \<in> {GUMBO_LEX_RCDATA, GUMBO_LEX_RAWTEXT, GUMBO_LEX_SCRIPT, GUMBO_LEX_PLAINTEXT} \<Longrightarrow> I (set_lexer_state s p)"

locale parser_invariant = tree_invariant +
  assumes frameset: "I p \<Longrightarrow> frameset_tag p \<Longrightarrow> I (snd (in_body_frameset p))"

section \<open>Allocation\<close>

text \<open>No operation but the release of a node takes a node out of the heap; what an insertion returns is in it.\<close>

abbreviation heap :: "parser \<Rightarrow> node_id set" where
  "heap p \<equiv> dom (pa_nodes p)"

lemma assert_p_nodes [simp]:
  "pa_nodes (assert_p b p) = pa_nodes p" "pa_nodes (deref i p) = pa_nodes p" "pa_nodes (check_current p) = pa_nodes p"
  "pa_nodes (deref_current p) = pa_nodes p" "pa_nodes (push_open_element nd p) = pa_nodes p"
  "pa_nodes (snd (to_foster_parent p)) = pa_nodes p" "pa_nodes (set_token_value v p) = pa_nodes p"
  by (simp_all add: assert_p_def deref_def check_current_def deref_current_def push_open_element_def to_foster_parent_def
      set_token_value_def Let_def)

lemma modify_heap [simp]: "heap (modify j f p) = heap p"
  by (auto simp: modify_def split: option.split)

lemma create_heap [simp]: "heap (snd (create_node ty v p)) = insert (pa_next p) (heap p)"
  by (simp add: create_node_def)

lemma append_heap [simp]: "heap (append_node parent nd p) = heap p"
  by (simp add: append_node_def Let_def)

lemma reindex_heap [simp]: "heap (reindex k cs p) = heap p"
  by (induction k cs p rule: reindex.induct) simp_all

lemma insert_heap [simp]: "heap (insert_node parent k nd p) = heap p"
  by (simp add: insert_node_def Let_def)

lemma append_current_heap [simp]: "heap (append_to_current nd p) = heap p"
  by (simp add: append_to_current_def split: option.split)

lemma foster_heap [simp]: "heap (foster_append parent nd p) = heap p" "heap (foster_parent_element nd p) = heap p"
proof -
  show f: "heap (foster_append parent nd p) = heap p" for parent nd p by (simp add: foster_append_def)
  show "heap (foster_parent_element nd p) = heap p"
    by (simp add: foster_parent_element_def Let_def f split: option.split)
qed

lemma flush_heap: "heap p \<subseteq> heap (maybe_flush_text_node_buffer p)"
  by (simp add: maybe_flush_text_node_buffer_def Let_def case_prod_unfold subset_insertI)

lemma insert_element_heap: "heap p \<subseteq> heap (insert_element nd b p)"
  using flush_heap [of p] by (simp add: insert_element_def Let_def case_prod_unfold)

lemma create_node_result: "fst (create_node ty v p) \<in> heap (snd (create_node ty v p))"
  by (simp add: create_node_def)

lemma result_heap:
  "fst (create_element tag p) \<in> heap (snd (create_element tag p))"
  "fst (create_element_from_token ns p) \<in> heap (snd (create_element_from_token ns p))"
  "fst (clone_node nd reason p) \<in> heap (snd (clone_node nd reason p))"
  by (simp_all add: create_element_def create_element_from_token_def clone_node_def Let_def case_prod_unfold
      create_node_result del: create_heap)

lemma inserted_heap:
  "fst (insert_element_from_token p) \<in> heap (snd (insert_element_from_token p))"
  "fst (insert_element_of_tag_type tag reason p) \<in> heap (snd (insert_element_of_tag_type tag reason p))"
  using result_heap insert_element_heap
  by (simp_all add: insert_element_from_token_def insert_element_of_tag_type_def Let_def case_prod_unfold subset_iff)

lemma ok_simps [simp]:
  "pa_ok (assert_p b p) \<longleftrightarrow> pa_ok p \<and> b" "pa_ok (push_open_element nd p) \<longleftrightarrow> pa_ok p"
  "pa_ok (deref j p) \<longleftrightarrow> pa_ok p \<and> (case j of None \<Rightarrow> False | Some i \<Rightarrow> i \<in> heap p)"
  "pa_ok (modify i f p) \<longleftrightarrow> pa_ok p \<and> i \<in> heap p"
  by (auto simp: assert_p_def deref_def modify_def push_open_element_def split: option.split)

lemma token_simps [simp]:
  "pa_token (assert_p b p) = pa_token p" "pa_token (deref j p) = pa_token p" "pa_token (modify i f p) = pa_token p"
  "pa_token (snd (create_node ty v p)) = pa_token p" "pa_token (push_open_element i p) = pa_token p"
  by (simp_all add: assert_p_def deref_def modify_def create_node_def push_open_element_def split: option.split)

lemma start_tag_simps [simp]:
  "token_start_tag (drop_attributes v) = token_start_tag v"
  "token_start_tag (map_start_tag_attributes g v) = token_start_tag v"
  "token_start_tag (set_start_tag tag v) = (case v of V_start_tag t as sc \<Rightarrow> tag | _ \<Rightarrow> GUMBO_TAG_LAST)"
  by (cases v; simp)+

lemma quiet_element: "(\<And>e. el_children (f e) = el_children e) \<Longrightarrow> quiet (map_element f)"
  by (simp add: quiet_def map_element_def typed_def split: node_value.split)

lemma quiet_document: "(\<And>d. dc_children (f d) = dc_children d) \<Longrightarrow> quiet (map_document f)"
  by (simp add: quiet_def map_document_def typed_def split: node_value.split)

lemma quiet_rules:
  "quiet (add_flags fl)" "quiet (\<lambda>n. n\<lparr>nd_parse_flags := fl\<rparr>)" "quiet (record_end_of_element t)" "quiet (add_attributes as)"
  "quiet f \<Longrightarrow> quiet g \<Longrightarrow> quiet (f \<circ> g)"
proof -
  show "quiet (record_end_of_element t)" "quiet (add_attributes as)"
    unfolding record_end_of_element_def add_attributes_def by (rule quiet_element, simp)+
qed (simp_all add: quiet_def add_flags_def typed_def split: node_value.split)

lemma modify_children:
  "quiet f \<Longrightarrow> children_of (node (modify i f p) j) = children_of (node p j)"
  "quiet f \<Longrightarrow> is_element (modify i f p) j = is_element p j"
  by (simp_all add: quiet_def modify_def node_def is_element_def split: option.split)

lemma set_parents_heap [simp]: "heap (set_parents q cs p) = heap p"
  by (induction q cs p rule: set_parents.induct) simp_all

lemma move_heap [simp]: "heap (move_children b new p) = heap p"
  by (simp add: move_children_def Let_def)

section \<open>The structure of the handlers\<close>

context tree_invariant
begin

lemma keep_if [keep]:
  "(b \<Longrightarrow> I x) \<Longrightarrow> (\<not> b \<Longrightarrow> I y) \<Longrightarrow> I (if b then x else y)"
  "(b \<Longrightarrow> I (snd u)) \<Longrightarrow> (\<not> b \<Longrightarrow> I (snd v)) \<Longrightarrow> I (snd (if b then u else v))"
  by simp_all

lemma keep_pair [keep]: "I p \<Longrightarrow> I (snd (a, p))"
  by simp

lemma keep_let_state [keep]:
  "I p \<Longrightarrow> (\<And>q. I q \<Longrightarrow> I (f q)) \<Longrightarrow> I (Let p f)"
  "I p \<Longrightarrow> (\<And>q. I q \<Longrightarrow> I (snd (g q))) \<Longrightarrow> I (snd (Let p g))"
  by (simp_all add: Let_def)

lemma keep_let_value: "(\<And>x. I (f x)) \<Longrightarrow> I (Let e f)" "(\<And>x. I (snd (g x))) \<Longrightarrow> I (snd (Let e g))"
  by (simp_all add: Let_def)

lemmas keep_values [keep] =
  keep_let_value [where 'a = bool] keep_let_value [where 'a = token] keep_let_value [where 'a = nat]
  keep_let_value [where 'a = int] keep_let_value [where 'a = gumbo_node] keep_let_value [where 'a = gumbo_namespace]
  keep_let_value [where 'a = insertion_mode] keep_let_value [where 'a = doc_type]
  keep_let_value [where 'a = "gumbo_attribute list"] keep_let_value [where 'a = "nat option"]
  keep_let_value [where 'a = "nat list"] keep_let_value [where 'a = "quirks_mode option"]
  keep_let_value [where 'a = text_node_buffer] keep_let_value [where 'a = "nat option list"]
  keep_let_value [where 'a = "nat \<Rightarrow> bool"]

lemma keep_let_pair:
  "I (snd e) \<Longrightarrow> (\<And>a q. I q \<Longrightarrow> I (f a q)) \<Longrightarrow> I (Let e (case_prod f))"
  "I (snd e) \<Longrightarrow> (\<And>a q. I q \<Longrightarrow> I (snd (g a q))) \<Longrightarrow> I (snd (Let e (case_prod g)))"
  "I (snd e) \<Longrightarrow> (\<And>a q. I q \<Longrightarrow> I (f a q)) \<Longrightarrow> I (case e of (a, q) \<Rightarrow> f a q)"
  "I (snd e) \<Longrightarrow> (\<And>a q. I q \<Longrightarrow> I (snd (g a q))) \<Longrightarrow> I (snd (case e of (a, q) \<Rightarrow> g a q))"
  by (cases e; simp)+

lemmas keep_pairs [keep] =
  keep_let_pair [where 'a = bool] keep_let_pair [where 'a = "nat option"] keep_let_pair [where 'a = "byte list"]

lemma keep_let_node [keep]:
  "I (snd e) \<Longrightarrow> fst e \<in> heap (snd e) \<Longrightarrow> (\<And>a q. I q \<Longrightarrow> a \<in> heap q \<Longrightarrow> I (f a q)) \<Longrightarrow> I (Let e (case_prod f))"
  "I (snd e) \<Longrightarrow> fst e \<in> heap (snd e) \<Longrightarrow> (\<And>a q. I q \<Longrightarrow> a \<in> heap q \<Longrightarrow> I (snd (g a q)))
     \<Longrightarrow> I (snd (Let e (case_prod g)))"
  by (cases e; simp)+

lemma keep_option [keep]:
  "(m = None \<Longrightarrow> I x) \<Longrightarrow> (\<And>a. m = Some a \<Longrightarrow> I (f a)) \<Longrightarrow> I (case m of None \<Rightarrow> x | Some a \<Rightarrow> f a)"
  "(m = None \<Longrightarrow> I (snd u)) \<Longrightarrow> (\<And>a. m = Some a \<Longrightarrow> I (snd (g a))) \<Longrightarrow> I (snd (case m of None \<Rightarrow> u | Some a \<Rightarrow> g a))"
  by (cases m; simp)+

section \<open>Flags, assertions, the stack and the lists\<close>

lemma keep_flags [keep]:
  "I p \<Longrightarrow> I (p\<lparr>pa_insertion_mode := m\<rparr>)" "I p \<Longrightarrow> I (p\<lparr>pa_original_insertion_mode := m\<rparr>)"
  "I p \<Longrightarrow> I (p\<lparr>pa_reprocess_current_token := b\<rparr>)" "I p \<Longrightarrow> I (p\<lparr>pa_self_closing_flag_acknowledged := b\<rparr>)"
  "I p \<Longrightarrow> I (p\<lparr>pa_frameset_ok := b\<rparr>)" "I p \<Longrightarrow> I (p\<lparr>pa_ignore_next_linefeed := b\<rparr>)"
  "I p \<Longrightarrow> I (p\<lparr>pa_foster_parent_insertions := b\<rparr>)" "I p \<Longrightarrow> I (p\<lparr>pa_text_node := tn\<rparr>)"
  "I p \<Longrightarrow> I (p\<lparr>pa_closed_body_tag := b\<rparr>)" "I p \<Longrightarrow> I (p\<lparr>pa_closed_html_tag := b\<rparr>)"
  "I p \<Longrightarrow> I (p\<lparr>pa_form_element := None\<rparr>)"
  by (erule frame, simp add: same_tree_def frameset_tag_def pointers_def, blast?)+

lemma keep_assert [keep]: "I p \<Longrightarrow> I (assert_p b p)"
  by (erule frame) (auto simp: same_tree_def frameset_tag_def pointers_def assert_p_def)

lemma keep_asserts [keep]:
  "I p \<Longrightarrow> I (deref i p)" "I p \<Longrightarrow> I (check_current p)" "I p \<Longrightarrow> I (deref_current p)"
  by (simp_all add: deref_def check_current_def deref_current_def keep_assert)

lemma keep_named_flags [keep]:
  "I p \<Longrightarrow> I (set_frameset_not_ok p)" "I p \<Longrightarrow> I (set_insertion_mode m p)" "I p \<Longrightarrow> I (set_reprocess p)"
  "I p \<Longrightarrow> I (acknowledge_self_closing_tag p)" 
  by (simp_all add: set_frameset_not_ok_def set_insertion_mode_def set_reprocess_def acknowledge_self_closing_tag_def
      keep_flags)

lemma keep_token:
  "I p \<Longrightarrow> token_start_tag v = GUMBO_TAG_FRAMESET \<longrightarrow> token_start_tag (to_v (pa_token p)) = GUMBO_TAG_FRAMESET
     \<Longrightarrow> I (set_token_value v p)"
  by (erule frame) (auto simp: same_tree_def frameset_tag_def pointers_def set_token_value_def tag_is_def)

lemma keep_ignore [keep]: "I p \<Longrightarrow> I (ignore_token p)"
  unfolding ignore_token_def by (intro keep keep_token) simp_all

text \<open>The stack may lose elements and get elements of the heap; so may the list of formatting elements.\<close>

lemma keep_stack:
  "I p \<Longrightarrow> pa_ok p \<longrightarrow> set xs \<subseteq> set (pa_open_elements p) \<union> heap p \<Longrightarrow> I (p\<lparr>pa_open_elements := xs\<rparr>)"
  by (erule frame) (auto simp: same_tree_def frameset_tag_def pointers_def simp del: domIff)

lemma keep_formatting:
  "I p \<Longrightarrow> pa_ok p \<longrightarrow> set xs \<subseteq> set (pa_active_formatting_elements p) \<union> {None} \<union> Some ` heap p
     \<Longrightarrow> I (p\<lparr>pa_active_formatting_elements := xs\<rparr>)"
  by (erule frame) (auto simp: same_tree_def frameset_tag_def pointers_def simp del: domIff)

lemma keep_pointer:
  "I p \<Longrightarrow> nd \<in> heap p \<Longrightarrow> I (p\<lparr>pa_form_element := Some nd\<rparr>)"
  "I p \<Longrightarrow> nd \<in> heap p \<Longrightarrow> I (p\<lparr>pa_head_element := Some nd\<rparr>)"
  "I p \<Longrightarrow> nd \<in> heap p \<Longrightarrow> I (p\<lparr>pa_root := Some nd\<rparr>)"
  by (erule frame, simp add: same_tree_def frameset_tag_def pointers_def, blast)+

lemma keep_push: "I p \<Longrightarrow> pa_ok p \<longrightarrow> nd \<in> heap p \<Longrightarrow> I (push_open_element nd p)"
  unfolding push_open_element_def by (rule keep_stack) auto

lemma keep_push_pointer: "I p \<Longrightarrow> nd \<in> pointers p \<Longrightarrow> I (push_open_element nd p)"
  unfolding push_open_element_def by (erule frame) (auto simp: same_tree_def frameset_tag_def pointers_def)

section \<open>Nodes\<close>

lemma keep_reset [keep]: "I p \<Longrightarrow> I (reset_insertion_mode_appropriately p)"
proof -
  have "I p \<Longrightarrow> I (reset_loop i p)" for i
    by (induction i arbitrary: p; simp only: reset_loop.simps; intro keep) (auto intro: keep)
  then show "I p \<Longrightarrow> I (reset_insertion_mode_appropriately p)" by (simp add: reset_insertion_mode_appropriately_def)
qed

lemma keep_parse_error [keep]: "I p \<Longrightarrow> I (parser_add_parse_error p)"
  by (simp add: parser_add_parse_error_def error)

lemma keep_foster_append: "I p \<Longrightarrow> pa_ok p \<longrightarrow> nd \<in> heap p \<Longrightarrow> I (foster_append parent nd p)"
  unfolding foster_append_def by (intro keep link_last keep_push)

lemma keep_foster [keep]: "I p \<Longrightarrow> I (foster_parent_element nd p)"
  unfolding foster_parent_element_def Let_def
  by (intro keep keep_foster_append link_at quiet_write quiet_rules) auto

lemma keep_to_foster [keep]: "I p \<Longrightarrow> I (snd (to_foster_parent p))"
  unfolding to_foster_parent_def by (intro keep)

lemma keep_append_current [keep]: "I p \<Longrightarrow> I (append_to_current nd p)"
  unfolding append_to_current_def by (intro keep link_last)

lemma keep_flush [keep]: "I p \<Longrightarrow> I (maybe_flush_text_node_buffer p)"
  unfolding maybe_flush_text_node_buffer_def Let_def case_prod_unfold
  by (intro keep new_node) (auto simp: new_value_def typed_def)

lemma keep_pop_node [keep]: "I p \<Longrightarrow> I (snd (pop_current_node p))"
  unfolding pop_current_node_def
  by (intro keep keep_stack quiet_write quiet_rules) (auto dest: in_set_butlastD)

lemma keep_pop [keep]: "I p \<Longrightarrow> I (pop p)"
  by (simp add: pop_def keep_pop_node)

lemma keep_comment [keep]: "I p \<Longrightarrow> I (append_comment_node nd p)"
  unfolding append_comment_node_def
  by (intro keep new_node link_last) (auto simp: new_value_def typed_def create_node_result simp del: create_heap)

section \<open>Tree operations\<close>

lemma keep_pop_while [keep]: "I p \<Longrightarrow> I (pop_while P p)"
proof (induction P p rule: pop_while.induct)
  case (1 P p)
  have "I (deref_current p)" using "1.prems" by (rule keep)
  then have n: "I (snd (pop_current_node (deref_current p)))" by (rule keep)
  show ?case
    using 1 \<open>I (deref_current p)\<close> n
    by (auto simp: pop_while.simps [of P p] Let_def split: prod.split option.split)
qed

lemma keep_pop_until [keep]: "I p \<Longrightarrow> I (pop_until P p)"
proof (induction P p rule: pop_until.induct)
  case (1 P p)
  have n: "I (snd (pop_current_node p))" using "1.prems" by (rule keep)
  show ?case
    using 1 n by (auto simp: pop_until.simps [of P p] keep_assert split: prod.split option.split)
qed

lemma keep_clear_stack [keep]:
  "I p \<Longrightarrow> I (clear_stack_to_table_row_context p)" "I p \<Longrightarrow> I (clear_stack_to_table_context p)"
  "I p \<Longrightarrow> I (clear_stack_to_table_body_context p)" "I p \<Longrightarrow> I (generate_implied_end_tags tag p)" "I p \<Longrightarrow> I (pop_tag tag p)"
  by (simp_all add: clear_stack_to_table_row_context_def clear_stack_to_table_context_def
      clear_stack_to_table_body_context_def generate_implied_end_tags_def pop_tag_def keep_pop_while keep_pop_until)

lemma keep_create [keep]: "I p \<Longrightarrow> I (snd (create_element tag p))" "I p \<Longrightarrow> I (snd (create_element_from_token ns p))"
  "I p \<Longrightarrow> I (snd (clone_node nd reason p))"
  unfolding create_element_def create_element_from_token_def clone_node_def Let_def case_prod_unfold
  by (intro keep keep_token new_node quiet_write quiet_rules; simp add: new_value_def typed_def)+

lemma keep_insert [keep]: "I p \<Longrightarrow> nd \<in> heap p \<Longrightarrow> I (insert_element nd b p)"
proof -
  assume p: "I p" "nd \<in> heap p"
  then have "nd \<in> heap (maybe_flush_text_node_buffer p)" using flush_heap by blast
  then show ?thesis unfolding insert_element_def Let_def case_prod_unfold
    using p by (intro keep keep_push) auto
qed

lemma keep_insert_token [keep]:
  "I p \<Longrightarrow> I (snd (insert_element_from_token p))" "I p \<Longrightarrow> I (snd (insert_element_of_tag_type tag reason p))"
  unfolding insert_element_from_token_def insert_element_of_tag_type_def Let_def case_prod_unfold
  by (intro keep quiet_write quiet_rules; simp add: result_heap)+

lemma keep_foreign_element [keep]: "I p \<Longrightarrow> I (snd (insert_foreign_element ns p))"
  unfolding insert_foreign_element_def by (intro keep result_heap)

lemma keep_text [keep]: "I p \<Longrightarrow> I (insert_text_token p)"
  unfolding insert_text_token_def by (intro keep)

lemma keep_generic [keep]:
  "I p \<Longrightarrow> s \<in> {GUMBO_LEX_RCDATA, GUMBO_LEX_RAWTEXT, GUMBO_LEX_SCRIPT, GUMBO_LEX_PLAINTEXT}
     \<Longrightarrow> I (run_generic_parsing_algorithm s p)"
  unfolding run_generic_parsing_algorithm_def by (intro keep lexer inserted_heap)

section \<open>Formatting elements\<close>

lemma keep_find_anchor [keep]: "I p \<Longrightarrow> I (snd (find_anchor es p))"
proof (induction es p rule: find_anchor.induct)
  case (3 nd es p)
  then show ?case by (simp add: Let_def keep_asserts)
qed simp_all

lemma keep_last_anchor [keep]: "I p \<Longrightarrow> I (snd (find_last_anchor_index p))"
  by (simp add: find_last_anchor_index_def keep_find_anchor)

lemma keep_count [keep]: "I p \<Longrightarrow> I (snd (count_formatting e es n i p))"
proof (induction e es n i p rule: count_formatting.induct)
  case (3 e nd es n i p)
  then show ?case by (simp add: Let_def keep_asserts keep_assert)
qed simp_all

lemma remove_nth_subset: "set (remove_nth i xs) \<subseteq> set xs"
  by (auto simp: remove_nth_def dest: in_set_takeD in_set_dropD)

lemma count_same:
  "pa_nodes (snd (count_formatting e es n i p)) = pa_nodes p \<and> (pa_ok (snd (count_formatting e es n i p)) \<longrightarrow> pa_ok p)"
proof (induction e es n i p rule: count_formatting.induct)
  case (3 e nd es n i p)
  then show ?case by (auto simp: Let_def)
qed simp_all

lemma keep_add_formatting [keep]: "I p \<Longrightarrow> I (add_formatting_element nd p)"
proof -
  assume p: "I p"
  define p' where "p' = (case nd of None \<Rightarrow> p | Some i \<Rightarrow> assert_p (is_element p i) (deref nd p))"
  define q where "q = snd (count_formatting_elements_of_tag nd (length (pa_active_formatting_elements p')) p')"
  have "I p'" unfolding p'_def by (intro keep p)
  then have q: "I q" unfolding q_def count_formatting_elements_of_tag_def by (intro keep)
  have "pa_nodes q = pa_nodes p' \<and> (pa_ok q \<longrightarrow> pa_ok p')"
    unfolding q_def count_formatting_elements_of_tag_def by (rule count_same)
  moreover have "pa_ok p' \<longrightarrow> nd \<in> {None} \<union> Some ` heap p'"
    by (cases nd) (simp_all add: p'_def)
  ultimately have "pa_ok q \<longrightarrow> nd \<in> {None} \<union> Some ` heap q" by simp
  then have "I (q\<lparr>pa_active_formatting_elements := xs @ [nd]\<rparr>)"
    if "set xs \<subseteq> set (pa_active_formatting_elements q)" for xs
    using that by (intro keep_formatting q) auto
  then show ?thesis
    by (auto simp: add_formatting_element_def Let_def case_prod_unfold p'_def [symmetric] q_def [symmetric] remove_nth_subset)
qed

lemma clone_result_open:
  "pa_active_formatting_elements (snd (clone_node nd reason p)) = pa_active_formatting_elements p"
  by (simp add: clone_node_def Let_def case_prod_unfold create_node_def modify_def deref_def assert_p_def)

lemma keep_reconstruct_loop: "I p \<Longrightarrow> I (reconstruct_loop k i p)"
proof (induction k arbitrary: i p)
  case (Suc k)
  show ?case
  proof (cases "pa_active_formatting_elements p ! i")
    case None
    then show ?thesis using Suc.prems by (simp add: keep_assert)
  next
    case (Some nd)
    let ?c = "clone_node nd GUMBO_INSERTION_RECONSTRUCTED_FORMATTING_ELEMENT p"
    let ?q = "insert_element (fst ?c) True (snd ?c)"
    have "I ?q" using Suc.prems by (intro keep result_heap)
    moreover have "fst ?c \<in> heap ?q" using result_heap(3) insert_element_heap by blast
    ultimately have "I (?q\<lparr>pa_active_formatting_elements := (pa_active_formatting_elements ?q)[i := Some (fst ?c)]\<rparr>)"
      by (intro keep_formatting) (auto dest: set_update_subset_insert [THEN subsetD])
    then show ?thesis using Some Suc.IH by (simp add: Let_def case_prod_unfold)
  qed
qed simp

lemma keep_reconstruct [keep]: "I p \<Longrightarrow> I (reconstruct_active_formatting_elements p)"
  unfolding reconstruct_active_formatting_elements_def by (intro keep keep_reconstruct_loop)

lemma drop_to_marker_subset: "set (drop_to_marker es) \<subseteq> set es"
  by (induction es rule: drop_to_marker.induct) auto

lemma keep_clear_formatting [keep]: "I p \<Longrightarrow> I (clear_active_formatting_elements p)"
  unfolding clear_active_formatting_elements_def
  using drop_to_marker_subset [of "rev (pa_active_formatting_elements p)"] by (intro keep_formatting) auto

lemma keep_remove [keep]: "I p \<Longrightarrow> I (remove_open_element nd p)" "I p \<Longrightarrow> I (remove_formatting m p)"
  unfolding remove_open_element_def remove_formatting_def
  by ((rule keep_stack | rule keep_formatting), assumption, auto dest: set_remove1_subset [THEN subsetD])+

section \<open>Closing elements, attributes\<close>

lemma keep_doctype_error [keep]: "I p \<Longrightarrow> I (snd (maybe_add_doctype_error p))"
  unfolding maybe_add_doctype_error_def by (intro keep)

lemma keep_node_in_scope [keep]: "I p \<Longrightarrow> I (snd (has_node_in_scope nd p))"
  unfolding has_node_in_scope_def by (intro keep)

lemma keep_close_table [keep]: "I p \<Longrightarrow> I (snd (close_table p))"
  unfolding close_table_def by (intro keep)

lemma keep_close_cell [keep]: "I p \<Longrightarrow> I (snd (close_table_cell tag p))" "I p \<Longrightarrow> I (snd (close_current_cell p))"
proof -
  show c: "I p \<Longrightarrow> I (snd (close_table_cell tag p))" for tag p
    unfolding close_table_cell_def by (intro keep)
  show "I p \<Longrightarrow> I (snd (close_current_cell p))"
    unfolding close_current_cell_def by (intro keep c)
qed

lemma keep_close_select [keep]: "I p \<Longrightarrow> I (close_current_select p)"
  unfolding close_current_select_def by (intro keep)

lemma keep_implicit [keep]:
  "I p \<Longrightarrow> I (snd (implicitly_close_tags tag p))" "I p \<Longrightarrow> I (snd (maybe_implicitly_close_p_tag p))"
proof -
  show c: "I p \<Longrightarrow> I (snd (implicitly_close_tags tag p))" for tag p
    unfolding implicitly_close_tags_def by (intro keep)
  show "I p \<Longrightarrow> I (snd (maybe_implicitly_close_p_tag p))"
    unfolding maybe_implicitly_close_p_tag_def by (intro keep c)
qed

lemma keep_list_tag [keep]: "I p \<Longrightarrow> I (maybe_implicitly_close_list_tag is_li p)"
proof -
  have "I p \<Longrightarrow> I (list_tag_loop is_li es p)" for es p
    by (induction es arbitrary: p; simp only: list_tag_loop.simps; (intro keep)?) (auto intro: keep)
  then show "I p \<Longrightarrow> I (maybe_implicitly_close_list_tag is_li p)"
    unfolding maybe_implicitly_close_list_tag_def by (simp add: keep_flags)
qed

lemma keep_merge [keep]: "I p \<Longrightarrow> I (merge_attributes nd p)"
  unfolding merge_attributes_def Let_def by (intro keep keep_token quiet_write quiet_element) simp_all

lemma keep_adjust [keep]:
  "I p \<Longrightarrow> I (adjust_foreign_attributes p)" "I p \<Longrightarrow> I (adjust_svg_attributes p)" "I p \<Longrightarrow> I (adjust_mathml_attributes p)"
  unfolding adjust_foreign_attributes_def adjust_svg_attributes_def adjust_mathml_attributes_def adjust_attributes_def
  by (intro keep keep_token; simp)+

section \<open>The adoption agency\<close>

lemma keep_search [keep]: "I p \<Longrightarrow> I (snd (find_formatting tag es p))" "I p \<Longrightarrow> I (snd (find_special ns p))"
proof -
  show "I p \<Longrightarrow> I (snd (find_formatting tag es p))"
  proof (induction tag es p rule: find_formatting.induct)
    case (3 tag nd es p)
    then show ?case by (simp add: Let_def keep_asserts)
  qed simp_all
  show "I p \<Longrightarrow> I (snd (find_special ns p))"
    by (induction ns p rule: find_special.induct) (simp_all add: Let_def keep_asserts keep_assert)
qed

lemma keep_update_both:
  "I p \<Longrightarrow> nd \<in> heap p \<Longrightarrow>
     I (p\<lparr>pa_active_formatting_elements := (pa_active_formatting_elements p)[j := Some nd],
         pa_open_elements := (pa_open_elements p)[i := nd]\<rparr>)"
  by (intro keep_stack keep_formatting) (auto dest: set_update_subset_insert [THEN subsetD])

lemma keep_remove_nth: "I p \<Longrightarrow> I (p\<lparr>pa_open_elements := remove_nth i (pa_open_elements p)\<rparr>)"
  using remove_nth_subset [of i "pa_open_elements p"] by (intro keep_stack) auto

lemma keep_adoption_inner: "I p \<Longrightarrow> I (snd (adoption_inner j f b nd l i k p))"
proof (induction j arbitrary: nd l i k p)
  case (Suc j)
  show ?case
    by (simp only: adoption_inner.simps)
      (intro keep keep_remove_nth keep_update_both quiet_write quiet_rules unlink link_last result_heap Suc.IH Suc.prems;
       assumption)
qed simp

lemma insert_nth_subset: "set (insert_nth i x xs) \<subseteq> insert x (set xs)"
  by (auto simp: insert_nth_def dest: in_set_takeD in_set_dropD)

lemma keep_insert_nth:
  "I p \<Longrightarrow> new \<in> heap p \<Longrightarrow> I (p\<lparr>pa_open_elements := insert_nth i new (pa_open_elements p)\<rparr>)"
  using insert_nth_subset [of i new "pa_open_elements p"] by (intro keep_stack) auto

lemma keep_insert_formatting:
  "I p \<Longrightarrow> new \<in> heap p \<Longrightarrow>
     I (p\<lparr>pa_active_formatting_elements := insert_nth i (Some new) (remove1 m (pa_active_formatting_elements p))\<rparr>)"
  using insert_nth_subset [of i "Some new" "remove1 m (pa_active_formatting_elements p)"]
    set_remove1_subset [of m "pa_active_formatting_elements p"]
  by (intro keep_formatting) auto

lemma assert_formatting [simp]:
  "pa_active_formatting_elements (assert_p b p) = pa_active_formatting_elements p"
  by (simp add: assert_p_def)

lemma keep_replace: "I p \<Longrightarrow> new \<in> heap p \<Longrightarrow> I (replace_formatting f b new k p)"
proof -
  assume p: "I p" "new \<in> heap p"
  define e where "e = pa_active_formatting_elements p"
  have "I (assert_p c (assert_p d p))" for c d using p by (intro keep)
  then have "I ((assert_p c (assert_p d p))\<lparr>pa_active_formatting_elements := insert_nth i (Some new) (remove1 m e)\<rparr>)" for c d i m
    using keep_insert_formatting [of "assert_p c (assert_p d p)" new i m] p(2) by (simp add: e_def)
  then have "I (remove_open_element f
      ((assert_p c (assert_p d p))\<lparr>pa_active_formatting_elements := insert_nth i (Some new) (remove1 m e)\<rparr>))" for c d i m
    by (intro keep)
  from keep_insert_nth [OF this] p(2) show ?thesis
    unfolding replace_formatting_def Let_def e_def by (simp add: remove_open_element_def)
qed

lemma keep_clone_move:
  "I p \<Longrightarrow> I (let (new, p) = clone_node f r p; p = modify f (add_flags fl) p; p = move_children b new p
               in replace_formatting f b new k p)"
proof -
  assume p: "I p"
  let ?new = "fst (clone_node f r p)" and ?q = "modify f (add_flags fl) (snd (clone_node f r p))"
  have q: "I ?q" using p by (intro keep quiet_write quiet_rules)
  have "children_of (node (snd (clone_node f r p)) ?new) = []"
    by (simp add: clone_node_def Let_def case_prod_unfold create_node_def modify_def node_def)
  then have "children_of (node ?q ?new) = []" by (simp add: modify_children quiet_rules del: children_of.simps)
  moreover have "is_element (snd (clone_node f r p)) ?new"
    by (simp add: clone_node_def Let_def case_prod_unfold create_node_def modify_def node_def is_element_def)
  then have "is_element ?q ?new" by (simp add: modify_children quiet_rules del: children_of.simps)
  ultimately have "I (move_children b ?new ?q)" using q move by blast
  moreover have "?new \<in> heap (move_children b ?new ?q)" using result_heap(3) by simp
  ultimately show ?thesis using keep_replace by (simp add: Let_def case_prod_unfold)
qed

lemma keep_split:
  "(\<And>x y. I (g x y q)) \<Longrightarrow> I ((case e of (x, y) \<Rightarrow> g x y) q)"
  by (cases e) simp

lemma keep_adoption_step: "I p \<Longrightarrow> I (adoption_step f b p)"
  unfolding adoption_step_def
  by (intro keep_clone_move keep_split keep_let_pair [where 'a = "nat \<times> int"] keep_if keep_let_state keep_values keep_assert
      keep_asserts keep_adoption_inner unlink quiet_write quiet_rules keep_foster link_last; assumption)

lemma keep_adoption [keep]: "I p \<Longrightarrow> I (snd (adoption_agency_algorithm tag p))"
proof -
  have "I p \<Longrightarrow> I (snd (adoption_loop i tag p))" for i
  proof (induction i arbitrary: p)
    case (Suc i)
    show ?case
      by (simp only: adoption_loop.simps) (intro keep keep_adoption_step Suc.IH Suc.prems; assumption)
  qed simp
  then show "I p \<Longrightarrow> I (snd (adoption_agency_algorithm tag p))" by (simp add: adoption_agency_algorithm_def)
qed

section \<open>The end\<close>

lemma keep_finish_loop: "I p \<Longrightarrow> I (finish_loop p)"
proof (induction p rule: finish_loop.induct)
  case (1 p)
  have "I (snd (pop_current_node p))" using "1.prems" by (rule keep)
  then show ?case
    using 1 by (auto simp: finish_loop.simps [of p] quiet_write quiet_rules split: prod.split option.split)
qed

lemma keep_pop_all: "I p \<Longrightarrow> I (pop_all p)"
proof (induction p rule: pop_all.induct)
  case (1 p)
  have "I (snd (pop_current_node p))" using "1.prems" by (rule keep)
  then show ?case using 1 by (auto simp: pop_all.simps [of p] split: prod.split option.split)
qed

lemma keep_finish [keep]: "I p \<Longrightarrow> I (finish_parsing p)"
  unfolding finish_parsing_def by (intro keep_pop_all keep_finish_loop keep)

end

end
