(* ===== verification/GumboHandlers.thy ===== *)
theory GumboHandlers
  imports GumboInvariant
begin

text \<open>
  Every handler of the tree builder keeps an invariant of the primitive operations: the lemmas of the locale
  \<open>tree_invariant\<close> for \<^verbatim>\<open>handle_token\<close> and the handlers it calls.
\<close>

section \<open>Before the body\<close>

context tree_invariant
begin

lemma keep_error_ignore [keep]: "I p \<Longrightarrow> I (snd (error_ignore p))"
  unfolding error_ignore_def by (intro keep)

lemma keep_comment_in [keep]: "I p \<Longrightarrow> I (snd (comment_in_current p))" "I p \<Longrightarrow> I (snd (comment_in_document p))"
  unfolding comment_in_current_def comment_in_document_def by (intro keep; assumption)+

lemma keep_initial [keep]: "I p \<Longrightarrow> I (snd (handle_initial p))"
  unfolding handle_initial_def by (intro keep quiet_write quiet_document) simp_all

lemma keep_before_html [keep]: "I p \<Longrightarrow> I (snd (handle_before_html p))"
  unfolding handle_before_html_def by (intro keep keep_pointer inserted_heap)

lemma heap_flags [simp]: "heap (set_insertion_mode m p) = heap p"
  by (simp add: set_insertion_mode_def)

lemma keep_set_head:
  "I p \<Longrightarrow> nd \<in> heap p \<Longrightarrow> I ((set_insertion_mode m p)\<lparr>pa_head_element := Some nd\<rparr>)"
  by (intro keep keep_pointer) simp_all

lemma keep_before_head [keep]: "I p \<Longrightarrow> I (snd (handle_before_head p))"
proof -
  assume p: "I p"
  have t: "I (snd (let (nd, p) = insert_element_from_token p; p = set_insertion_mode m p in (b, p\<lparr>pa_head_element := Some nd\<rparr>)))"
    for m and b :: bool
    using keep_set_head [OF keep_insert_token(1) [OF p] inserted_heap(1)] by (simp add: Let_def case_prod_unfold)
  have i: "I (snd (let (nd, p) = insert_element_of_tag_type tag r p; p = set_insertion_mode m p; p = p\<lparr>pa_head_element := Some nd\<rparr>
               in (b, set_reprocess p)))" for m tag r and b :: bool
    using keep_named_flags(3) [OF keep_set_head [OF keep_insert_token(2) [OF p] inserted_heap(2)]]
    by (simp add: Let_def case_prod_unfold)
  show ?thesis
    unfolding handle_before_head_def Let_def [of "pa_token p"] by (intro keep_if keep_pair keep_error_ignore keep_comment_in keep_ignore t i p)
qed

lemma keep_void [keep]: "I p \<Longrightarrow> I (insert_void_element p)"
  unfolding insert_void_element_def by (intro keep)

lemma keep_pop_expecting [keep]: "I p \<Longrightarrow> I (pop_expecting tag p)"
  unfolding pop_expecting_def by (intro keep)

lemma keep_body_html [keep]: "I p \<Longrightarrow> I (snd (handle_in_body_html p))"
  unfolding handle_in_body_html_def by (intro keep)

lemma keep_in_head [keep]: "I p \<Longrightarrow> I (snd (handle_in_head p))"
  unfolding handle_in_head_def by (intro keep) simp_all

lemma keep_in_head_noscript [keep]: "I p \<Longrightarrow> I (snd (handle_in_head_noscript p))"
  unfolding handle_in_head_noscript_def by (intro keep)

lemma keep_after_head [keep]: "I p \<Longrightarrow> I (snd (handle_after_head p))"
  unfolding handle_after_head_def by (intro keep keep_push_pointer) (simp_all add: pointers_def)

section \<open>In the body\<close>

lemma keep_start_body [keep]: "I p \<Longrightarrow> I (snd (in_body_start_body p))"
  unfolding in_body_start_body_def by (intro keep)

lemma keep_body_end [keep]: "I p \<Longrightarrow> I (snd (in_body_eof p))" "I p \<Longrightarrow> I (snd (in_body_end_body p))"
  unfolding in_body_eof_def in_body_end_body_def by (intro keep quiet_write quiet_rules; assumption)+

lemma keep_block [keep]: "I p \<Longrightarrow> I (snd (insert_block p))" "I p \<Longrightarrow> I (snd (in_body_heading p))"
  unfolding insert_block_def in_body_heading_def by (intro keep; assumption)+

lemma keep_form [keep]: "I p \<Longrightarrow> I (snd (in_body_form p))"
  unfolding in_body_form_def by (intro keep keep_pointer inserted_heap)

lemma keep_button [keep]: "I p \<Longrightarrow> I (snd (in_body_button p))"
  unfolding in_body_button_def by (intro keep)

lemma keep_rev_remove: "I p \<Longrightarrow> I (p\<lparr>pa_open_elements := rev (remove1 nd (rev (pa_open_elements p)))\<rparr>)"
  using set_remove1_subset [of nd "rev (pa_open_elements p)"] by (intro keep_stack) auto

lemma keep_end_form [keep]: "I p \<Longrightarrow> I (snd (in_body_end_form p))"
  unfolding in_body_end_form_def by (intro keep keep_rev_remove)

lemma keep_end_p [keep]: "I p \<Longrightarrow> I (snd (in_body_end_p p))" "I p \<Longrightarrow> I (snd (in_body_end_heading p))"
  unfolding in_body_end_p_def in_body_end_heading_def by (intro keep; assumption)+

lemma keep_insert_formatting_element [keep]: "I p \<Longrightarrow> I (insert_formatting_element p)"
  unfolding insert_formatting_element_def by (intro keep inserted_heap)

lemma keep_remove_nth_formatting:
  "I p \<Longrightarrow> I (p\<lparr>pa_active_formatting_elements := remove_nth i (pa_active_formatting_elements p)\<rparr>)"
  using remove_nth_subset [of i "pa_active_formatting_elements p"] by (intro keep_formatting) auto

lemma keep_a [keep]: "I p \<Longrightarrow> I (snd (in_body_a p))"
  unfolding in_body_a_def by (intro keep keep_remove_nth_formatting)

lemma keep_nobr [keep]: "I p \<Longrightarrow> I (snd (in_body_nobr p))"
  unfolding in_body_nobr_def by (intro keep)

lemma quiet_tag: "quiet (map_element (\<lambda>e. e\<lparr>el_tag := tag\<rparr>))"
  by (rule quiet_element) simp

lemma keep_image [keep]: "I p \<Longrightarrow> I (snd (in_body_image p))"
  unfolding in_body_image_def by (intro keep keep_token quiet_write quiet_rules quiet_tag inserted_heap) (simp_all add: GUMBO_TAG_LAST_def split: token_value.split)

lemma keep_isindex_text [keep]: "I p \<Longrightarrow> I (isindex_text t p)"
  unfolding isindex_text_def by (intro keep)

lemma keep_isindex [keep]: "I p \<Longrightarrow> I (snd (in_body_isindex p))"
  unfolding in_body_isindex_def by (intro keep quiet_write quiet_rules inserted_heap)

lemma keep_select [keep]: "I p \<Longrightarrow> I (snd (in_body_select p))" "I p \<Longrightarrow> I (snd (in_body_ruby_text p))"
  unfolding in_body_select_def in_body_ruby_text_def by (intro keep; assumption)+

lemma keep_self_closing [keep]: "I p \<Longrightarrow> I (pop_if_self_closing p)"
  unfolding pop_if_self_closing_def by (intro keep)

lemma keep_math [keep]: "I p \<Longrightarrow> I (snd (in_body_math p))" "I p \<Longrightarrow> I (snd (in_body_svg p))"
  unfolding in_body_math_def in_body_svg_def by (intro keep; assumption)+

lemma keep_any_other [keep]: "I p \<Longrightarrow> I (snd (in_body_any_other_end_tag p))"
proof -
  have l: "I p \<Longrightarrow> I (snd (end_tag_loop tag es p))" for tag es p
  proof (induction tag es p rule: end_tag_loop.induct)
    case (2 tag nd es p)
    show ?case by (simp only: end_tag_loop.simps) (use 2 in \<open>auto simp: Let_def intro!: keep\<close>)
  qed (simp add: keep_assert)
  show "I p \<Longrightarrow> I (snd (in_body_any_other_end_tag p))"
    unfolding in_body_any_other_end_tag_def by (intro keep l)
qed

lemma keep_body_rest [keep]: "I p \<Longrightarrow> I (snd (in_body_rest p))"
  unfolding in_body_rest_def by (intro keep) simp_all

lemma keep_body_tags [keep]: "I p \<Longrightarrow> I (snd (in_body_tags p))"
  unfolding in_body_tags_def by (intro keep lexer) simp_all

end

section \<open>All insertion modes\<close>

context parser_invariant
begin

lemma keep_in_body [keep]: "I p \<Longrightarrow> I (snd (handle_in_body p))"
  unfolding handle_in_body_def Let_def by (intro keep frameset) (simp_all add: frameset_tag_def)

lemma keep_text_mode [keep]: "I p \<Longrightarrow> I (snd (handle_text p))"
  unfolding handle_text_def by (intro keep)

lemma keep_table_parts [keep]: "I p \<Longrightarrow> I (snd (in_table_rows p))" "I p \<Longrightarrow> I (snd (in_table_form p))"
  unfolding in_table_rows_def in_table_form_def by (intro keep keep_pointer inserted_heap; assumption)+

lemma keep_in_table [keep]: "I p \<Longrightarrow> I (snd (handle_in_table p))"
  unfolding handle_in_table_def by (intro keep)

lemma keep_in_table_text [keep]: "I p \<Longrightarrow> I (snd (handle_in_table_text p))"
  unfolding handle_in_table_text_def by (intro keep)

lemma keep_in_caption [keep]: "I p \<Longrightarrow> I (snd (in_caption_close p))" "I p \<Longrightarrow> I (snd (handle_in_caption p))"
proof -
  show c: "I p \<Longrightarrow> I (snd (in_caption_close p))" for p unfolding in_caption_close_def by (intro keep)
  show "I p \<Longrightarrow> I (snd (handle_in_caption p))" unfolding handle_in_caption_def by (intro keep c)
qed

lemma keep_in_column_group [keep]: "I p \<Longrightarrow> I (snd (handle_in_column_group p))"
  unfolding handle_in_column_group_def by (intro keep)

lemma keep_in_table_body [keep]: "I p \<Longrightarrow> I (snd (handle_in_table_body p))"
  unfolding handle_in_table_body_def by (intro keep)

lemma keep_in_row [keep]: "I p \<Longrightarrow> I (snd (in_row_close p))" "I p \<Longrightarrow> I (snd (handle_in_row p))"
proof -
  show c: "I p \<Longrightarrow> I (snd (in_row_close p))" for p unfolding in_row_close_def by (intro keep)
  show "I p \<Longrightarrow> I (snd (handle_in_row p))" unfolding handle_in_row_def by (intro keep c)
qed

lemma keep_in_cell [keep]: "I p \<Longrightarrow> I (snd (handle_in_cell p))"
  unfolding handle_in_cell_def by (intro keep)

lemma keep_pop_if_current [keep]: "I p \<Longrightarrow> I (pop_if_current tag p)" "I p \<Longrightarrow> I (snd (in_select_end_optgroup p))"
  unfolding pop_if_current_def in_select_end_optgroup_def by (intro keep; assumption)+

lemma keep_in_select [keep]: "I p \<Longrightarrow> I (snd (handle_in_select p))"
  unfolding handle_in_select_def by (intro keep)

lemma keep_in_select_in_table [keep]: "I p \<Longrightarrow> I (snd (handle_in_select_in_table p))"
  unfolding handle_in_select_in_table_def by (intro keep)

lemma keep_after_body [keep]: "I p \<Longrightarrow> I (snd (handle_after_body p))"
  unfolding handle_after_body_def by (intro keep quiet_write quiet_rules)

lemma keep_framesets [keep]:
  "I p \<Longrightarrow> I (snd (handle_in_frameset p))" "I p \<Longrightarrow> I (snd (handle_after_frameset p))"
  "I p \<Longrightarrow> I (snd (handle_after_after_body p))" "I p \<Longrightarrow> I (snd (handle_after_after_frameset p))"
  "I p \<Longrightarrow> I (snd (handle_in_template p))"
  unfolding handle_in_frameset_def handle_after_frameset_def handle_after_after_body_def handle_after_after_frameset_def
    handle_in_template_def
  by (intro keep; assumption)+

lemma keep_html_content [keep]: "I p \<Longrightarrow> I (snd (handle_html_content p))"
  unfolding handle_html_content_def by (cases "pa_insertion_mode p"; simp; intro keep)

section \<open>Foreign content\<close>

lemma keep_tagname [keep]: "I p \<Longrightarrow> I (snd (tagname s p))"
  unfolding tagname_def by (auto split: sum.split option.split intro: keep)

lemma keep_foreign_loop: "I p \<Longrightarrow> I (snd (foreign_loop i nd a b p))"
proof (induction i arbitrary: nd a p)
  case (Suc i)
  show ?case by (simp only: foreign_loop.simps) (intro keep Suc.IH Suc.prems; assumption)
qed simp

lemma keep_sum_case:
  "I (snd e) \<Longrightarrow> (\<And>a q. I q \<Longrightarrow> I (snd (f a q))) \<Longrightarrow> (\<And>a q. I q \<Longrightarrow> I (snd (g a q)))
     \<Longrightarrow> I (snd (case e of (Inl a, q) \<Rightarrow> f a q | (Inr a, q) \<Rightarrow> g a q))"
  by (cases e; cases "fst e"; auto)

lemma keep_foreign_end_tag [keep]: "I p \<Longrightarrow> I (snd (foreign_end_tag p))"
  unfolding foreign_end_tag_def by (intro keep keep_sum_case keep_foreign_loop)

lemma keep_pop_foreign [keep]: "I p \<Longrightarrow> I (pop_foreign p)" "I p \<Longrightarrow> I (snd (foreign_start_tag p))"
  unfolding pop_foreign_def foreign_start_tag_def by (intro keep; assumption)+

lemma keep_replacement: "I p \<Longrightarrow> I (p\<lparr>pa_token := t\<lparr>to_type := GUMBO_TOKEN_CHARACTER, to_v := v\<rparr>\<rparr>)"
  by (erule frame) (auto simp: same_tree_def frameset_tag_def pointers_def tag_is_def)

lemma keep_foreign_content [keep]: "I p \<Longrightarrow> I (snd (handle_in_foreign_content p))"
  unfolding handle_in_foreign_content_def by (intro keep keep_replacement)

lemma keep_handle_token [keep]: "I p \<Longrightarrow> I (snd (handle_token p))"
  unfolding handle_token_def by (intro keep)

lemma keep_process [keep]: "I p \<Longrightarrow> I (snd (process_token b p))"
  unfolding process_token_def by (intro keep error)

end

end
