(* ===== verification/GumboLinks.thy ===== *)
theory GumboLinks
  imports GumboHandlers
begin

text \<open>
  The links of the parse tree: the children of a node, and the parent and the index within its parent of a node,
  describe the same tree, and no pointer of the tree builder dangles.  The linking operations are first described
  as updates of two functions, the children of a node and the link of a node to its parent; the proof that they
  keep the two consistent is about these functions only.
\<close>

section \<open>Two views of a tree\<close>

definition consistent :: "(node_id \<Rightarrow> node_id list) \<Rightarrow> (node_id \<Rightarrow> node_id option \<times> int) \<Rightarrow> bool" where
  "consistent kids up \<longleftrightarrow>
     (\<forall>i k. k < length (kids i) \<longrightarrow> up (kids i ! k) = (Some i, int k))
     \<and> (\<forall>c i z. up c = (Some i, z) \<longrightarrow> 0 \<le> z \<and> nat z < length (kids i) \<and> kids i ! nat z = c)
     \<and> (\<forall>c z. up c = (None, z) \<longrightarrow> z = -1)"

lemma consistent_down: "consistent kids up \<Longrightarrow> k < length (kids i) \<Longrightarrow> up (kids i ! k) = (Some i, int k)"
  by (simp add: consistent_def)

lemma consistent_up:
  "consistent kids up \<Longrightarrow> up c = (Some i, z) \<Longrightarrow> 0 \<le> z \<and> nat z < length (kids i) \<and> kids i ! nat z = c"
  by (simp add: consistent_def)

lemma consistent_root: "consistent kids up \<Longrightarrow> fst (up c) = None \<Longrightarrow> up c = (None, -1)"
  by (cases "up c") (simp add: consistent_def)

lemma consistentI:
  assumes "\<And>i k. k < length (kids i) \<Longrightarrow> up (kids i ! k) = (Some i, int k)"
    "\<And>c i z. up c = (Some i, z) \<Longrightarrow> 0 \<le> z \<and> nat z < length (kids i) \<and> kids i ! nat z = c"
    "\<And>c z. up c = (None, z) \<Longrightarrow> z = -1"
  shows "consistent kids up"
  using assms by (simp add: consistent_def)

lemma consistent_distinct: "consistent kids up \<Longrightarrow> distinct (kids i)"
  by (metis consistent_down distinct_conv_nth of_nat_eq_iff snd_conv)

lemma consistent_append:
  assumes "consistent kids up" "fst (up nd) = None"
  shows "consistent (kids(q := kids q @ [nd])) (up(nd := (Some q, int (length (kids q)))))"
proof (rule consistentI)
  fix i k
  assume k: "k < length ((kids(q := kids q @ [nd])) i)"
  have n: "kids i ! k \<noteq> nd" if "k < length (kids i)" using consistent_down [OF assms(1) that] assms(2) by auto
  show "(up(nd := (Some q, int (length (kids q))))) ((kids(q := kids q @ [nd])) i ! k) = (Some i, int k)"
    using k n consistent_down [OF assms(1), of k i] by (auto simp: nth_append less_Suc_eq split: if_splits)
next
  fix c i z
  assume "(up(nd := (Some q, int (length (kids q))))) c = (Some i, z)"
  then show "0 \<le> z \<and> nat z < length ((kids(q := kids q @ [nd])) i) \<and> (kids(q := kids q @ [nd])) i ! nat z = c"
    using consistent_up [OF assms(1), of c i z] by (auto simp: nth_append split: if_splits)
next
  fix c z
  assume "(up(nd := (Some q, int (length (kids q))))) c = (None, z)"
  then show "z = -1" using consistent_root [OF assms(1), of c] by (auto split: if_splits)
qed

definition up_insert :: "node_id \<Rightarrow> nat \<Rightarrow> node_id \<Rightarrow> (node_id \<Rightarrow> node_id option \<times> int) \<Rightarrow> node_id \<Rightarrow> node_id option \<times> int" where
  "up_insert q k nd up c =
     (if c = nd then (Some q, int k)
      else if fst (up c) = Some q \<and> int k \<le> snd (up c) then (Some q, snd (up c) + 1) else up c)"

lemma consistent_insert:
  assumes "consistent kids up" "fst (up nd) = None" "k \<le> length (kids q)"
  shows "consistent (kids(q := take k (kids q) @ nd # drop k (kids q))) (up_insert q k nd up)"
proof (rule consistentI)
  fix i j
  assume j: "j < length ((kids(q := take k (kids q) @ nd # drop k (kids q))) i)"
  have n: "kids i ! m \<noteq> nd" if "m < length (kids i)" for i m using consistent_down [OF assms(1) that] assms(2) by auto
  show "up_insert q k nd up ((kids(q := take k (kids q) @ nd # drop k (kids q))) i ! j) = (Some i, int j)"
  proof (cases "i = q")
    case True
    have "j < k \<or> j = k \<or> (k < j \<and> j - 1 < length (kids q))" using j True assms(3) by auto
    then show ?thesis
      using True assms(3) n [of j q] n [of "j - 1" q] consistent_down [OF assms(1), of j q] consistent_down [OF assms(1), of "j - 1" q]
      by (elim disjE) (auto simp: up_insert_def nth_append nth_Cons')
  next
    case False
    then show ?thesis using j n [of j i] consistent_down [OF assms(1), of j i] by (simp add: up_insert_def)
  qed
next
  fix c i z
  assume c: "up_insert q k nd up c = (Some i, z)"
  show "0 \<le> z \<and> nat z < length ((kids(q := take k (kids q) @ nd # drop k (kids q))) i)
    \<and> (kids(q := take k (kids q) @ nd # drop k (kids q))) i ! nat z = c"
  proof (cases "c = nd")
    case True
    then show ?thesis using c assms(3) by (auto simp: up_insert_def nth_append)
  next
    case False
    obtain i' z' where u: "up c = (Some i', z')" using c False by (cases "up c") (auto simp: up_insert_def split: if_splits)
    show ?thesis using c False u consistent_up [OF assms(1) u] assms(3)
      by (auto simp: up_insert_def nth_append nth_Cons' nat_diff_distrib nat_add_distrib split: if_splits)
  qed
next
  fix c z
  assume "up_insert q k nd up c = (None, z)"
  then show "z = -1" using consistent_root [OF assms(1), of c] by (auto simp: up_insert_def split: if_splits)
qed

definition up_remove :: "node_id \<Rightarrow> nat \<Rightarrow> node_id \<Rightarrow> (node_id \<Rightarrow> node_id option \<times> int) \<Rightarrow> node_id \<Rightarrow> node_id option \<times> int" where
  "up_remove q k nd up c =
     (if c = nd then (None, -1)
      else if fst (up c) = Some q \<and> int k < snd (up c) then (Some q, snd (up c) - 1) else up c)"

lemma nth_remove_nth: "k < length xs \<Longrightarrow> j < length xs - 1 \<Longrightarrow> remove_nth k xs ! j = (if j < k then xs ! j else xs ! (j + 1))"
  by (auto simp: remove_nth_def nth_append)

lemma length_remove_nth: "k < length xs \<Longrightarrow> length (remove_nth k xs) = length xs - 1"
  by (simp add: remove_nth_def)

lemma consistent_remove:
  assumes "consistent kids up" "up nd = (Some q, int k)"
  shows "consistent (kids(q := remove_nth k (kids q))) (up_remove q k nd up)"
proof (rule consistentI)
  have k: "k < length (kids q)" "kids q ! k = nd" using consistent_up [OF assms] by auto
  {
    fix i j
    assume j: "j < length ((kids(q := remove_nth k (kids q))) i)"
    show "up_remove q k nd up ((kids(q := remove_nth k (kids q))) i ! j) = (Some i, int j)"
    proof (cases "i = q")
      case True
      then have j': "j < length (kids q) - 1" "j < length (kids q)" "j + 1 < length (kids q)"
        using j k length_remove_nth [OF k(1)] by simp_all
      then show ?thesis
        using True k assms(2) consistent_down [OF assms(1) j'(2)] consistent_down [OF assms(1) j'(3)]
        by (auto simp: nth_remove_nth up_remove_def)
    next
      case False
      then show ?thesis using j assms(2) consistent_down [OF assms(1), of j i] by (auto simp: up_remove_def)
    qed
  next
    fix c i z
    assume c: "up_remove q k nd up c = (Some i, z)"
    then have n: "c \<noteq> nd" by (auto simp: up_remove_def)
    obtain i' z' where u: "up c = (Some i', z')" using c n by (cases "up c") (auto simp: up_remove_def split: if_splits)
    have "z' \<noteq> int k" if "i' = q" using consistent_up [OF assms(1) u] that k n by auto
    then show "0 \<le> z \<and> nat z < length ((kids(q := remove_nth k (kids q))) i) \<and> (kids(q := remove_nth k (kids q))) i ! nat z = c"
      using c n u consistent_up [OF assms(1) u] k
      by (auto simp: up_remove_def nth_remove_nth length_remove_nth Suc_nat_eq_nat_zadd1 split: if_splits)
  next
    fix c z
    assume "up_remove q k nd up c = (None, z)"
    then show "z = -1" using consistent_root [OF assms(1), of c] by (auto simp: up_remove_def split: if_splits)
  }
qed

lemma consistent_move:
  assumes "consistent kids up" "kids new = []"
  shows "consistent (kids(new := kids b, b := [])) (\<lambda>c. if fst (up c) = Some b then (Some new, snd (up c)) else up c)"
proof (rule consistentI)
  fix i k
  assume "k < length ((kids(new := kids b, b := [])) i)"
  then show "(if fst (up ((kids(new := kids b, b := [])) i ! k)) = Some b
      then (Some new, snd (up ((kids(new := kids b, b := [])) i ! k))) else up ((kids(new := kids b, b := [])) i ! k)) = (Some i, int k)"
    using consistent_down [OF assms(1), of k i] consistent_down [OF assms(1), of k b] by (auto split: if_splits)
next
  fix c i z
  assume "(if fst (up c) = Some b then (Some new, snd (up c)) else up c) = (Some i, z)"
  then show "0 \<le> z \<and> nat z < length ((kids(new := kids b, b := [])) i) \<and> (kids(new := kids b, b := [])) i ! nat z = c"
    using consistent_up [OF assms(1), of c b z] consistent_up [OF assms(1), of c i z] assms(2)
    by (cases "up c") (auto split: if_splits)
next
  fix c z
  assume "(if fst (up c) = Some b then (Some new, snd (up c)) else up c) = (None, z)"
  then show "z = -1" using consistent_root [OF assms(1), of c] by (auto split: if_splits)
qed

lemma in_drop:
  assumes "consistent kids up"
  shows "c \<in> set (drop k (kids q)) \<longleftrightarrow> fst (up c) = Some q \<and> int k \<le> snd (up c)"
proof
  assume "c \<in> set (drop k (kids q))"
  then obtain m where m: "m < length (drop k (kids q))" "c = drop k (kids q) ! m" by (metis in_set_conv_nth)
  then show "fst (up c) = Some q \<and> int k \<le> snd (up c)"
    using consistent_down [OF assms, of "k + m" q] by (simp add: less_diff_conv)
next
  assume c: "fst (up c) = Some q \<and> int k \<le> snd (up c)"
  then have n: "0 \<le> snd (up c)" "nat (snd (up c)) < length (kids q)" "kids q ! nat (snd (up c)) = c"
    using consistent_up [OF assms, of c q "snd (up c)"] by (cases "up c"; simp)+
  moreover have "k \<le> nat (snd (up c))" using c n(1) by (simp add: le_nat_iff)
  ultimately have "drop k (kids q) ! (nat (snd (up c)) - k) = c" "nat (snd (up c)) - k < length (drop k (kids q))"
    by (simp_all add: diff_less_mono)
  then show "c \<in> set (drop k (kids q))" by (metis nth_mem)
qed

lemma drop_numbers:
  "consistent kids up \<Longrightarrow> m < length (drop k (kids q)) \<Longrightarrow> up (drop k (kids q) ! m) = (Some q, int k + int m)"
  using consistent_down [of kids up "k + m" q] by (simp add: less_diff_conv)

section \<open>The links of the heap\<close>

definition kids :: "parser \<Rightarrow> node_id \<Rightarrow> node_id list" where
  "kids p i = (case pa_nodes p i of Some n \<Rightarrow> children_of n | None \<Rightarrow> [])"

definition up :: "parser \<Rightarrow> node_id \<Rightarrow> node_id option \<times> int" where
  "up p i = (case pa_nodes p i of Some n \<Rightarrow> (nd_parent n, nd_index_within_parent n) | None \<Rightarrow> (None, -1))"

definition well_typed :: "parser \<Rightarrow> bool" where
  "well_typed p \<longleftrightarrow> (\<forall>i n. pa_nodes p i = Some n \<longrightarrow> i < pa_next p \<and> typed n)"

definition well_linked :: "parser \<Rightarrow> bool" where
  "well_linked p \<longleftrightarrow> well_typed p \<and> consistent (kids p) (up p) \<and> pointers p \<subseteq> heap p"

lemma node_heap: "i \<in> heap p \<Longrightarrow> pa_nodes p i = Some (node p i)"
  by (auto simp: node_def)

lemma kids_node: "i \<in> heap p \<Longrightarrow> kids p i = children_of (node p i)"
  by (auto simp: kids_def node_def)

lemma up_node: "i \<in> heap p \<Longrightarrow> up p i = (nd_parent (node p i), nd_index_within_parent (node p i))"
  by (auto simp: up_def node_def)

text \<open>The operations that leave nodes and pointers as they are.\<close>

definition same_links :: "parser \<Rightarrow> parser \<Rightarrow> bool" where
  "same_links p q \<longleftrightarrow> kids q = kids p \<and> up q = up p \<and> heap q = heap p \<and> pointers q = pointers p \<and> (well_typed p \<longrightarrow> well_typed q)"

lemma modify_other [simp]:
  "pointers (modify i f p) = pointers p" "pa_next (modify i f p) = pa_next p"
  "pointers (assert_p b p) = pointers p" "pa_next (assert_p b p) = pa_next p"
  "pointers (deref j p) = pointers p" "pa_next (deref j p) = pa_next p"
  by (simp_all add: modify_def assert_p_def deref_def pointers_def split: option.split)

lemma view_assert [simp]:
  "kids (assert_p b p) = kids p" "up (assert_p b p) = up p" "well_typed (assert_p b p) = well_typed p"
  "kids (deref j p) = kids p" "up (deref j p) = up p" "well_typed (deref j p) = well_typed p"
  "node (assert_p b p) = node p" "node (deref j p) = node p"
  "is_element (assert_p b p) = is_element p" "is_element (deref j p) = is_element p"
  by (simp_all add: kids_def up_def well_typed_def node_def is_element_def fun_eq_iff)

lemma modify_typed: "(\<And>n. typed n \<Longrightarrow> typed (f n)) \<Longrightarrow> well_typed p \<Longrightarrow> well_typed (modify i f p)"
  by (auto simp: well_typed_def modify_def split: option.splits if_splits)

lemma typed_links [simp]:
  "typed (x\<lparr>nd_parent := q\<rparr>) = typed x" "typed (x\<lparr>nd_index_within_parent := z\<rparr>) = typed x"
  by (simp_all add: typed_def split: node_value.split)

lemma modify_link:
  assumes "i \<in> heap p"
  shows "kids (modify i (\<lambda>x. x\<lparr>nd_parent := q, nd_index_within_parent := z\<rparr>) p) = kids p"
    "up (modify i (\<lambda>x. x\<lparr>nd_parent := q, nd_index_within_parent := z\<rparr>) p) = (up p)(i := (q, z))"
    "well_typed p \<Longrightarrow> well_typed (modify i (\<lambda>x. x\<lparr>nd_parent := q, nd_index_within_parent := z\<rparr>) p)"
  using assms by (auto simp: kids_def up_def modify_def fun_eq_iff) (simp_all add: well_typed_def)

lemma modify_index:
  assumes "i \<in> heap p"
  shows "kids (modify i (\<lambda>x. x\<lparr>nd_index_within_parent := z\<rparr>) p) = kids p"
    "up (modify i (\<lambda>x. x\<lparr>nd_index_within_parent := z\<rparr>) p) = (up p)(i := (fst (up p i), z))"
    "well_typed p \<Longrightarrow> well_typed (modify i (\<lambda>x. x\<lparr>nd_index_within_parent := z\<rparr>) p)"
  using assms by (auto simp: kids_def up_def modify_def fun_eq_iff) (simp_all add: well_typed_def)

lemma modify_parent:
  assumes "i \<in> heap p"
  shows "kids (modify i (\<lambda>x. x\<lparr>nd_parent := q\<rparr>) p) = kids p"
    "up (modify i (\<lambda>x. x\<lparr>nd_parent := q\<rparr>) p) = (up p)(i := (q, snd (up p i)))"
    "well_typed p \<Longrightarrow> well_typed (modify i (\<lambda>x. x\<lparr>nd_parent := q\<rparr>) p)"
  using assms by (auto simp: kids_def up_def modify_def fun_eq_iff) (simp_all add: well_typed_def)

definition container :: "parser \<Rightarrow> node_id \<Rightarrow> bool" where
  "container p i \<longleftrightarrow> i \<in> heap p \<and> (is_element p i \<or> nd_type (node p i) = GUMBO_NODE_DOCUMENT)"

lemma modify_set_children:
  assumes "container p i" "well_typed p"
  shows "kids (modify i (\<lambda>n. set_children (g n) n) p) = (kids p)(i := g (node p i))"
    "up (modify i (\<lambda>n. set_children (g n) n) p) = up p"
    "well_typed (modify i (\<lambda>n. set_children (g n) n) p)"
proof -
  obtain n where n: "pa_nodes p i = Some n" "typed n" "\<forall>t. nd_v n \<noteq> Node_text t" "node p i = n"
    using assms
    by (cases "nd_v (node p i)") (force simp: container_def well_typed_def node_def is_element_def typed_def split: option.splits)+
  then have "children_of (set_children cs n) = cs" for cs by (auto simp: set_children_def split: node_value.splits)
  then show "kids (modify i (\<lambda>n. set_children (g n) n) p) = (kids p)(i := g (node p i))"
    using n by (auto simp: kids_def modify_def fun_eq_iff)
  show "up (modify i (\<lambda>n. set_children (g n) n) p) = up p"
    using n by (auto simp: up_def modify_def set_children_def fun_eq_iff)
  have "typed n \<Longrightarrow> typed (set_children cs n)" for cs n by (auto simp: typed_def set_children_def split: node_value.splits)
  then show "well_typed (modify i (\<lambda>n. set_children (g n) n) p)" using assms(2) by (intro modify_typed)
qed

section \<open>The linking operations\<close>

text \<open>An assertion that holds changes nothing.\<close>

lemma assert_true [simp]: "assert_p True p = p" "i \<in> heap p \<Longrightarrow> deref (Some i) p = p"
  by (auto simp: deref_def assert_p_def)

lemma append_node_eq:
  assumes "pa_ok (append_node q nd p)"
  shows "append_node q nd p = modify q (\<lambda>n. set_children (children_of n @ [nd]) n)
      (modify nd (\<lambda>x. x\<lparr>nd_parent := Some q, nd_index_within_parent := int (length (kids p q))\<rparr>) p)"
    "nd \<in> heap p" "container p q" "nd_parent (node p nd) = None" "nd_index_within_parent (node p nd) = -1" "pa_ok p"
proof -
  show h: "nd \<in> heap p" "container p q" "nd_parent (node p nd) = None" "nd_index_within_parent (node p nd) = -1" "pa_ok p"
    using assms by (auto simp: append_node_def Let_def container_def)
  show "append_node q nd p = modify q (\<lambda>n. set_children (children_of n @ [nd]) n)
      (modify nd (\<lambda>x. x\<lparr>nd_parent := Some q, nd_index_within_parent := int (length (kids p q))\<rparr>) p)"
    using h by (simp add: append_node_def Let_def container_def kids_node del: children_of.simps)
qed

lemma link_container:
  "nd \<in> heap p \<Longrightarrow> container (modify nd (\<lambda>x. x\<lparr>nd_parent := r, nd_index_within_parent := z\<rparr>) p) q = container p q"
  by (auto simp: container_def modify_def node_def is_element_def split: option.split)

lemma append_linked:
  assumes "well_linked p" "pa_ok (append_node q nd p)"
  shows "well_linked (append_node q nd p)"
proof -
  let ?p = "modify nd (\<lambda>x. x\<lparr>nd_parent := Some q, nd_index_within_parent := int (length (kids p q))\<rparr>) p"
  note h = append_node_eq [OF assms(2)]
  have t: "well_typed p" "consistent (kids p) (up p)" "pointers p \<subseteq> heap p" using assms(1) by (simp_all add: well_linked_def)
  have p: "well_typed ?p" "kids ?p = kids p" "up ?p = (up p)(nd := (Some q, int (length (kids p q))))"
    using modify_link [OF h(2)] t(1) by simp_all
  have c: "container ?p q" using h(2,3) by (simp add: link_container)
  have "fst (up p nd) = None" using h(2,4) by (simp add: up_node)
  note k = consistent_append [OF t(2) this, of q]
  have e: "children_of (node ?p q) = kids p q" using kids_node [of q ?p] c p(2) by (simp add: container_def)
  show ?thesis
    using modify_set_children [OF c p(1), of "\<lambda>n. children_of n @ [nd]"] p(3) k e t(3)
    by (simp add: h(1) well_linked_def p(2) del: children_of.simps)
qed

section \<open>Numbering the siblings\<close>

lemma reindex_other [simp]: "pointers (reindex j cs p) = pointers p" "pa_next (reindex j cs p) = pa_next p"
  by (induction j cs p rule: reindex.induct) simp_all

lemma reindex_ok: "pa_ok (reindex j cs p) \<longleftrightarrow> pa_ok p \<and> set cs \<subseteq> heap p"
  by (induction j cs p rule: reindex.induct) auto

lemma reindex_views:
  assumes "set cs \<subseteq> heap p" "distinct cs" "\<forall>m < length cs. up p (cs ! m) = (Some q, d + int m)"
  shows "kids (reindex j cs p) = kids p"
    "up (reindex j cs p) = (\<lambda>c. if c \<in> set cs then (Some q, snd (up p c) + int j - d) else up p c)"
    "well_typed p \<Longrightarrow> well_typed (reindex j cs p)"
proof -
  have "kids (reindex j cs p) = kids p
    \<and> up (reindex j cs p) = (\<lambda>c. if c \<in> set cs then (Some q, snd (up p c) + int j - d) else up p c)
    \<and> (well_typed p \<longrightarrow> well_typed (reindex j cs p))"
    using assms
  proof (induction cs arbitrary: j p d)
    case (Cons c cs)
    let ?p = "modify c (\<lambda>x. x\<lparr>nd_index_within_parent := int j\<rparr>) p"
    have c: "c \<in> heap p" "up p c = (Some q, d)" using Cons.prems by auto
    note m = modify_index [OF c(1), of "int j"]
    have "up ?p (cs ! m) = (Some q, d + 1 + int m)" if "m < length cs" for m
    proof -
      have "cs ! m \<noteq> c" using Cons.prems(2) that by auto
      then show ?thesis using Cons.prems(3) that by (auto simp: m(2) algebra_simps)
    qed
    then have "kids (reindex (j + 1) cs ?p) = kids ?p
      \<and> up (reindex (j + 1) cs ?p) = (\<lambda>c. if c \<in> set cs then (Some q, snd (up ?p c) + int (j + 1) - (d + 1)) else up ?p c)
      \<and> (well_typed ?p \<longrightarrow> well_typed (reindex (j + 1) cs ?p))"
      using Cons.prems by (intro Cons.IH) simp_all
    then show ?case using Cons.prems(2) c m by (auto simp: fun_eq_iff)
  qed simp
  then show "kids (reindex j cs p) = kids p"
    "up (reindex j cs p) = (\<lambda>c. if c \<in> set cs then (Some q, snd (up p c) + int j - d) else up p c)"
    "well_typed p \<Longrightarrow> well_typed (reindex j cs p)" by simp_all
qed

lemma insert_node_eq:
  assumes "pa_ok (insert_node q z nd p)"
  shows "insert_node q z nd p = reindex (nat z + 1) (drop (nat z) (kids p q))
      (modify q (set_children (take (nat z) (kids p q) @ nd # drop (nat z) (kids p q)))
        (modify nd (\<lambda>x. x\<lparr>nd_parent := Some q, nd_index_within_parent := z\<rparr>) p))"
    "nd \<in> heap p" "container p q" "nd_parent (node p nd) = None" "0 \<le> z" "nat z < length (kids p q)"
    "set (drop (nat z) (kids p q)) \<subseteq> heap p" "pa_ok p"
proof -
  show h: "nd \<in> heap p" "container p q" "nd_parent (node p nd) = None" "0 \<le> z" "nat z < length (kids p q)"
    "set (drop (nat z) (kids p q)) \<subseteq> heap p" "pa_ok p"
    using assms by (auto simp: insert_node_def Let_def container_def kids_node reindex_ok simp del: children_of.simps domIff)
  have x: "nd_index_within_parent (node p nd) = -1" "z < int (length (kids p q))" "is_element p q"
    using assms by (auto simp: insert_node_def Let_def kids_node reindex_ok simp del: children_of.simps domIff)
  show "insert_node q z nd p = reindex (nat z + 1) (drop (nat z) (kids p q))
      (modify q (set_children (take (nat z) (kids p q) @ nd # drop (nat z) (kids p q)))
        (modify nd (\<lambda>x. x\<lparr>nd_parent := Some q, nd_index_within_parent := z\<rparr>) p))"
    using h x by (simp add: insert_node_def Let_def container_def kids_node del: children_of.simps)
qed

lemma numbered_insert:
  assumes "consistent ks u" "fst (u nd) = None" "w = u(nd := (Some q, int k))"
  shows "(\<lambda>c. if c \<in> set (drop k (ks q)) then (Some q, snd (w c) + int (k + 1) - int k) else w c) = up_insert q k nd u"
proof
  fix c
  show "(if c \<in> set (drop k (ks q)) then (Some q, snd (w c) + int (k + 1) - int k) else w c) = up_insert q k nd u c"
    using in_drop [OF assms(1), of c k q] assms(2) by (cases "c = nd") (simp_all add: assms(3) up_insert_def)
qed

lemma insert_linked:
  assumes "well_linked p" "pa_ok (insert_node q z nd p)"
  shows "well_linked (insert_node q z nd p)"
proof -
  define k where "k = nat z"
  define d where "d = drop k (kids p q)"
  define cs where "cs = take k (kids p q) @ nd # d"
  define r where "r = modify nd (\<lambda>x. x\<lparr>nd_parent := Some q, nd_index_within_parent := z\<rparr>) p"
  define s where "s = modify q (set_children cs) r"
  note h = insert_node_eq [OF assms(2), folded k_def, folded d_def, folded cs_def, folded r_def, folded s_def]
  have z: "z = int k" using h(5) by (simp add: k_def)
  have t: "well_typed p" "consistent (kids p) (up p)" "pointers p \<subseteq> heap p" using assms(1) by (simp_all add: well_linked_def)
  have r: "well_typed r" "kids r = kids p" "up r = (up p)(nd := (Some q, int k))"
    unfolding r_def using modify_link [OF h(2)] t(1) z by simp_all
  have c: "container r q" unfolding r_def using h(2,3) by (simp add: link_container)
  have s: "well_typed s" "kids s = (kids p)(q := cs)" "up s = (up p)(nd := (Some q, int k))"
    unfolding s_def using modify_set_children [OF c r(1), of "\<lambda>_. cs"] r by simp_all
  have o: "heap s = heap p" "pointers s = pointers p" by (simp_all add: s_def r_def)
  have u: "fst (up p nd) = None" using h(2,4) by (simp add: up_node)
  then have n: "nd \<notin> set d" using in_drop [OF t(2)] by (simp add: d_def)
  have e: "set d \<subseteq> heap s" "distinct d" using h(7) consistent_distinct [OF t(2)] o by (simp_all add: d_def distinct_drop)
  have m: "\<forall>m < length d. up s (d ! m) = (Some q, int k + int m)"
    using drop_numbers [OF t(2)] n nth_mem [of _ d] by (auto simp: s(3) d_def)
  have "consistent ((kids p)(q := cs)) (up_insert q k nd (up p))"
    using consistent_insert [OF t(2) u, of k q] h(6) by (simp add: cs_def d_def)
  then have "consistent (kids (reindex (k + 1) d s)) (up (reindex (k + 1) d s))"
    unfolding reindex_views(1,2) [OF e m] s(2) numbered_insert [OF t(2) u s(3), folded d_def] .
  then show ?thesis using reindex_views(3) [OF e m s(1)] t(3) o by (simp add: h(1) well_linked_def)
qed

section \<open>Unlinking\<close>

lemma index_of_nth: "x \<in> set xs \<Longrightarrow> nat (index_of x xs) < length xs \<and> xs ! nat (index_of x xs) = x"
  by (induction xs) (auto simp: index_of_def nat_add_distrib split: if_splits)

lemma numbered_remove:
  assumes "consistent ks u" "u nd = (Some q, int k)" "w = u(nd := (None, -1))"
  shows "(\<lambda>c. if c \<in> set (drop (k + 1) (ks q)) then (Some q, snd (w c) + int k - int (k + 1)) else w c) = up_remove q k nd u"
proof
  fix c
  show "(if c \<in> set (drop (k + 1) (ks q)) then (Some q, snd (w c) + int k - int (k + 1)) else w c) = up_remove q k nd u c"
    using in_drop [OF assms(1), of c "k + 1" q] assms(2) by (cases "c = nd") (auto simp: assms(3) up_remove_def)
qed

lemma remove_eq:
  assumes "pa_ok (remove_from_parent nd p)" "nd_parent (node p nd) = Some q"
  defines "k \<equiv> nat (index_of nd (kids p q))"
  shows "remove_from_parent nd p = reindex k (drop (k + 1) (kids p q))
      (modify nd (\<lambda>x. x\<lparr>nd_parent := None, nd_index_within_parent := -1\<rparr>) (modify q (set_children (remove_nth k (kids p q))) p))"
    "nd \<in> heap p" "container p q" "nd \<in> set (kids p q)" "set (drop (k + 1) (kids p q)) \<subseteq> heap p"
proof -
  show h: "nd \<in> heap p" "container p q" "nd \<in> set (kids p q)" "set (drop (k + 1) (kids p q)) \<subseteq> heap p"
    using assms by (auto simp: remove_from_parent_def Let_def container_def kids_node reindex_ok simp del: children_of.simps domIff split: if_splits)
  have "is_element p q"
    using assms by (auto simp: remove_from_parent_def Let_def kids_node reindex_ok simp del: children_of.simps domIff split: if_splits)
  then show "remove_from_parent nd p = reindex k (drop (k + 1) (kids p q))
      (modify nd (\<lambda>x. x\<lparr>nd_parent := None, nd_index_within_parent := -1\<rparr>) (modify q (set_children (remove_nth k (kids p q))) p))"
    using h assms(2) by (simp add: remove_from_parent_def Let_def container_def kids_node k_def del: children_of.simps)
qed

lemma remove_linked:
  assumes "well_linked p" "pa_ok (remove_from_parent nd p)"
  shows "well_linked (remove_from_parent nd p)"
proof (cases "nd_parent (node p nd)")
  case None
  then have "remove_from_parent nd p = p" using assms(2) by (auto simp: remove_from_parent_def Let_def)
  then show ?thesis using assms(1) by simp
next
  case (Some q)
  define k where "k = nat (index_of nd (kids p q))"
  define d where "d = drop (k + 1) (kids p q)"
  define r where "r = modify q (set_children (remove_nth k (kids p q))) p"
  define s where "s = modify nd (\<lambda>x. x\<lparr>nd_parent := None, nd_index_within_parent := -1\<rparr>) r"
  note h = remove_eq [OF assms(2) Some, folded k_def, folded d_def, folded r_def, folded s_def]
  have t: "well_typed p" "consistent (kids p) (up p)" "pointers p \<subseteq> heap p" using assms(1) by (simp_all add: well_linked_def)
  have u: "up p nd = (Some q, int k)" using index_of_nth [OF h(4)] consistent_down [OF t(2), of k q] by (simp add: k_def)
  have r: "well_typed r" "kids r = (kids p)(q := remove_nth k (kids p q))" "up r = up p"
    unfolding r_def using modify_set_children [OF h(3) t(1), of "\<lambda>_. remove_nth k (kids p q)"] by simp_all
  have "nd \<in> heap r" using h(2) by (simp add: r_def)
  note l = modify_link [OF this, where q = None and z = "-1", folded s_def]
  have s: "well_typed s" "kids s = (kids p)(q := remove_nth k (kids p q))" "up s = (up p)(nd := (None, -1))"
    using l r by simp_all
  have o: "heap s = heap p" "pointers s = pointers p" by (simp_all add: s_def r_def)
  have n: "nd \<notin> set d" using in_drop [OF t(2), of nd "k + 1" q] u by (simp add: d_def)
  have e: "set d \<subseteq> heap s" "distinct d" using h(5) consistent_distinct [OF t(2)] o by (simp_all add: d_def distinct_drop)
  have m: "\<forall>m < length d. up s (d ! m) = (Some q, int (k + 1) + int m)"
    using drop_numbers [OF t(2), of _ "k + 1" q] n nth_mem [of _ d] by (auto simp: s(3) d_def)
  have "consistent (kids (reindex k d s)) (up (reindex k d s))"
    unfolding reindex_views(1,2) [OF e m] s(2) numbered_remove [OF t(2) u s(3), folded d_def]
    by (rule consistent_remove [OF t(2) u])
  then show ?thesis using reindex_views(3) [OF e m s(1)] t(3) o by (simp add: h(1) well_linked_def)
qed

section \<open>Moving children\<close>

lemma set_parents_other [simp]: "pointers (set_parents q cs p) = pointers p" "pa_next (set_parents q cs p) = pa_next p"
  by (induction q cs p rule: set_parents.induct) simp_all

lemma set_parents_ok: "pa_ok (set_parents q cs p) \<longleftrightarrow> pa_ok p \<and> set cs \<subseteq> heap p"
  by (induction q cs p rule: set_parents.induct) auto

lemma set_parents_views:
  "set cs \<subseteq> heap p \<Longrightarrow> kids (set_parents q cs p) = kids p
    \<and> up (set_parents q cs p) = (\<lambda>c. if c \<in> set cs then (Some q, snd (up p c)) else up p c)
    \<and> (well_typed p \<longrightarrow> well_typed (set_parents q cs p))"
proof (induction q cs p rule: set_parents.induct)
  case (2 q c cs p)
  then have "c \<in> heap p" by simp
  then show ?case using 2 modify_parent [of c p "Some q"] by (auto simp: fun_eq_iff)
qed simp

lemma typed_set_children: "typed n \<Longrightarrow> typed (set_children cs n)"
  by (auto simp: typed_def set_children_def split: node_value.splits)

lemma modify_clear_children:
  assumes "i \<in> heap p"
  shows "kids (modify i (set_children []) p) = (kids p)(i := [])" "up (modify i (set_children []) p) = up p"
    "well_typed p \<Longrightarrow> well_typed (modify i (set_children []) p)"
proof -
  show "kids (modify i (set_children []) p) = (kids p)(i := [])" "up (modify i (set_children []) p) = up p"
    using assms by (auto simp: kids_def up_def modify_def set_children_def fun_eq_iff split: node_value.split)
qed (simp add: modify_typed typed_set_children)

lemma append_ok: "pa_ok (append_node q nd p) \<Longrightarrow> pa_ok p"
  by (rule append_node_eq)

lemma move_linked:
  assumes "well_linked p" "pa_ok (move_children b new p)" "children_of (node p new) = []" "is_element p new"
  shows "well_linked (move_children b new p)"
proof -
  define cs where "cs = children_of (node p b)"
  define r where "r = modify new (set_children cs) p"
  define s where "s = modify b (set_children []) r"
  define v where "v = set_parents new cs s"
  have e: "move_children b new p = append_node b new v" by (simp add: move_children_def Let_def v_def s_def r_def cs_def)
  have v: "pa_ok v" using assms(2) e append_ok by simp
  then have h: "new \<in> heap p" "b \<in> heap p" "set cs \<subseteq> heap s" by (auto simp: v_def s_def r_def set_parents_ok simp del: domIff)
  have t: "well_typed p" "consistent (kids p) (up p)" "pointers p \<subseteq> heap p" using assms(1) by (simp_all add: well_linked_def)
  have k: "kids p new = []" "kids p b = cs" using assms(3) h by (simp_all add: kids_node cs_def del: children_of.simps)
  have c: "container p new" using h assms(4) by (simp add: container_def)
  have r: "well_typed r" "kids r = (kids p)(new := cs)" "up r = up p"
    unfolding r_def using modify_set_children [OF c t(1), of "\<lambda>_. cs"] by simp_all
  have s: "well_typed s" "kids s = (kids p)(new := cs, b := [])" "up s = up p"
    unfolding s_def using modify_clear_children [of b r] r h(2) by (simp_all add: r_def)
  have o: "pointers v = pointers p" "heap v = heap p" by (simp_all add: v_def s_def r_def)
  have m: "c \<in> set cs \<longleftrightarrow> fst (up p c) = Some b" for c using in_drop [OF t(2), of c 0 b] k(2) consistent_up [OF t(2), of c b "snd (up p c)"] by (cases "up p c") auto
  have "kids v = (kids p)(new := kids p b, b := [])" "well_typed v"
    "up v = (\<lambda>c. if fst (up p c) = Some b then (Some new, snd (up p c)) else up p c)"
    using set_parents_views [OF h(3), of new] s(1) by (simp_all add: v_def m s(2,3) k(2) cong: if_cong)
  then have "well_linked v" using consistent_move [OF t(2) k(1), of b] t(3) o by (simp add: well_linked_def)
  then show ?thesis using append_linked assms(2) e by simp
qed

section \<open>The invariant of the handlers\<close>

definition linked_state :: "parser \<Rightarrow> bool" where
  "linked_state p \<longleftrightarrow> \<not> frameset_tag p \<and> (pa_ok p \<longrightarrow> well_linked p)"

lemma link_token [simp]:
  "pa_token (append_node q nd p) = pa_token p" "pa_token (reindex k cs p) = pa_token p"
  "pa_token (insert_node q z nd p) = pa_token p" "pa_token (remove_from_parent nd p) = pa_token p"
  "pa_token (set_parents q cs p) = pa_token p" "pa_token (move_children b new p) = pa_token p"
proof -
  show a: "pa_token (append_node q nd p) = pa_token p" for q p by (simp add: append_node_def Let_def)
  show r: "pa_token (reindex k cs p) = pa_token p" for k cs p by (induction k cs p rule: reindex.induct) simp_all
  show s: "pa_token (set_parents q cs p) = pa_token p" for q cs p by (induction q cs p rule: set_parents.induct) simp_all
  show "pa_token (insert_node q z nd p) = pa_token p" by (simp add: insert_node_def Let_def r)
  show "pa_token (remove_from_parent nd p) = pa_token p" by (simp add: remove_from_parent_def Let_def r split: option.split)
  show "pa_token (move_children b new p) = pa_token p" by (simp add: move_children_def Let_def append_node_def s)
qed

lemma link_ok:
  "pa_ok (insert_node q z nd p) \<Longrightarrow> pa_ok p" "pa_ok (remove_from_parent nd p) \<Longrightarrow> pa_ok p"
  "pa_ok (move_children b new p) \<Longrightarrow> pa_ok p"
proof -
  show "pa_ok (insert_node q z nd p) \<Longrightarrow> pa_ok p" by (rule insert_node_eq)
  show "pa_ok (remove_from_parent nd p) \<Longrightarrow> pa_ok p"
    by (auto simp: remove_from_parent_def Let_def reindex_ok split: option.splits if_splits)
  show "pa_ok (move_children b new p) \<Longrightarrow> pa_ok p"
    unfolding move_children_def Let_def by (drule append_ok) (auto simp: set_parents_ok)
qed

lemma frame_linked: "linked_state p \<Longrightarrow> same_tree p q \<Longrightarrow> linked_state q"
  by (auto simp: linked_state_def same_tree_def well_linked_def well_typed_def kids_def [abs_def] up_def [abs_def])

lemma create_views:
  assumes "well_typed p" "new_value ty v"
  shows "kids (snd (create_node ty v p)) = kids p" "up (snd (create_node ty v p)) = up p"
    "well_typed (snd (create_node ty v p))" "pointers (snd (create_node ty v p)) = pointers p"
proof -
  have f: "pa_nodes p (pa_next p) = None" using assms(1) by (auto simp: well_typed_def) (metis less_irrefl not_None_eq)
  let ?n = "\<lparr>nd_type = ty, nd_parent = None, nd_index_within_parent = -1, nd_parse_flags = GUMBO_INSERTION_NORMAL, nd_v = v\<rparr>"
  have n: "typed ?n" "children_of ?n = []"
    using assms(2) unfolding new_value_def by (metis gumbo_node.update_convs(1,5))+
  show "kids (snd (create_node ty v p)) = kids p" using f n(2) by (auto simp: kids_def create_node_def fun_eq_iff)
  show "up (snd (create_node ty v p)) = up p" using f by (auto simp: up_def create_node_def fun_eq_iff)
  show "well_typed (snd (create_node ty v p))" using assms(1) n(1) by (auto simp: well_typed_def create_node_def less_SucI)
  show "pointers (snd (create_node ty v p)) = pointers p" by (simp add: create_node_def pointers_def)
qed

lemma create_linked:
  "linked_state p \<Longrightarrow> pa_ok p \<longrightarrow> new_value ty v \<Longrightarrow> linked_state (snd (create_node ty v p))"
  by (auto simp: linked_state_def frameset_tag_def well_linked_def create_views) (auto simp: create_node_def well_linked_def create_views)

lemma quiet_views:
  assumes "quiet f"
  shows "kids (modify i f p) = kids p" "up (modify i f p) = up p" "well_typed p \<Longrightarrow> well_typed (modify i f p)"
proof -
  show "kids (modify i f p) = kids p" "up (modify i f p) = up p"
    using assms by (auto simp: quiet_def kids_def up_def modify_def assert_p_def fun_eq_iff simp del: children_of.simps split: option.split)
  show "well_typed p \<Longrightarrow> well_typed (modify i f p)" using assms by (simp add: modify_typed quiet_def)
qed

lemma quiet_linked: "linked_state p \<Longrightarrow> quiet f \<Longrightarrow> linked_state (modify i f p)"
  by (auto simp: linked_state_def frameset_tag_def well_linked_def quiet_views)

text \<open>What a parse error and a switch of the tokenizer change.\<close>

lemma error_tree:
  "pa_nodes (add_error_of e p) = pa_nodes p" "pa_next (add_error_of e p) = pa_next p" "pointers (add_error_of e p) = pointers p"
  "pa_token (add_error_of e p) = pa_token p" "pa_ok (add_error_of e p) \<Longrightarrow> pa_ok p"
  by (auto simp: add_error_of_def Let_def assert_p_def pointers_def split: if_splits)

lemma lexer_tree:
  "pa_nodes (set_lexer_state s p) = pa_nodes p" "pa_next (set_lexer_state s p) = pa_next p"
  "pointers (set_lexer_state s p) = pointers p" "pa_token (set_lexer_state s p) = pa_token p" "pa_ok (set_lexer_state s p) = pa_ok p"
  by (simp_all add: set_lexer_state_def pointers_def)

lemma same_nodes_linked:
  assumes "pa_nodes q = pa_nodes p" "pa_next q = pa_next p" "pointers q = pointers p" "well_linked p"
  shows "well_linked q"
  using assms by (simp add: well_linked_def well_typed_def kids_def [abs_def] up_def [abs_def])

lemma error_linked: "linked_state p \<Longrightarrow> linked_state (add_error_of e p)"
  using same_nodes_linked [OF error_tree(1-3) [of e p]] error_tree(5) [of e p]
  by (simp add: linked_state_def frameset_tag_def error_tree(4))

lemma lexer_linked: "linked_state p \<Longrightarrow> linked_state (set_lexer_state s p)"
  using same_nodes_linked [OF lexer_tree(1-3) [of s p]] by (simp add: linked_state_def frameset_tag_def lexer_tree(4,5))

interpretation links: parser_invariant linked_state
proof unfold_locales
  fix p q nd k new b f i ty v e s parent
  show "linked_state p \<Longrightarrow> same_tree p q \<Longrightarrow> linked_state q" by (rule frame_linked)
  show "linked_state p \<Longrightarrow> pa_ok p \<longrightarrow> new_value ty v \<Longrightarrow> linked_state (snd (create_node ty v p))" by (rule create_linked)
  show "linked_state p \<Longrightarrow> quiet f \<Longrightarrow> linked_state (modify i f p)" by (rule quiet_linked)
  show "linked_state p \<Longrightarrow> linked_state (append_node parent nd p)"
    using append_linked [of p parent nd] append_ok [of parent nd p] by (simp add: linked_state_def frameset_tag_def)
  show "linked_state p \<Longrightarrow> linked_state (insert_node parent k nd p)"
    using insert_linked [of p parent k nd] link_ok(1) [of parent k nd p] by (simp add: linked_state_def frameset_tag_def)
  show "linked_state p \<Longrightarrow> linked_state (remove_from_parent nd p)"
    using remove_linked [of p nd] link_ok(2) [of nd p] by (simp add: linked_state_def frameset_tag_def)
  show "linked_state p \<Longrightarrow> children_of (node p new) = [] \<Longrightarrow> is_element p new \<Longrightarrow> linked_state (move_children b new p)"
    using move_linked [of p b new] link_ok(3) [of b new p] by (simp add: linked_state_def frameset_tag_def del: children_of.simps)
  show "linked_state p \<Longrightarrow> linked_state (add_error_of e p)" by (rule error_linked)
  show "linked_state p \<Longrightarrow> s \<in> {GUMBO_LEX_RCDATA, GUMBO_LEX_RAWTEXT, GUMBO_LEX_SCRIPT, GUMBO_LEX_PLAINTEXT}
    \<Longrightarrow> linked_state (set_lexer_state s p)" by (rule lexer_linked)
  show "linked_state p \<Longrightarrow> frameset_tag p \<Longrightarrow> linked_state (snd (in_body_frameset p))" by (simp add: linked_state_def)
qed

end
