(* ===== verification/GumboFrame.thy ===== *)
theory GumboFrame
  imports GumboLex
begin

text \<open>
  What each helper of the tokenizer leaves unchanged and what it writes, as rewrite rules on the fields
  of the result.  With these rules the effect of a handler on any field is computed by the simplifier
  without unfolding a helper.
\<close>

lemma set_state_frame [simp]:
  "tk_state (gumbo_tokenizer_set_state s p) = s"
  "tk_reconsume_current_input (gumbo_tokenizer_set_state s p) = tk_reconsume_current_input p"
  "tk_buffered_emit_char (gumbo_tokenizer_set_state s p) = tk_buffered_emit_char p"
  "tk_temporary_buffer (gumbo_tokenizer_set_state s p) = tk_temporary_buffer p"
  "tk_temporary_buffer_emit (gumbo_tokenizer_set_state s p) = tk_temporary_buffer_emit p"
  "tk_script_data_buffer (gumbo_tokenizer_set_state s p) = tk_script_data_buffer p"
  "tk_token_start (gumbo_tokenizer_set_state s p) = tk_token_start p"
  "tk_output (gumbo_tokenizer_set_state s p) = tk_output p"
  "tk_is_current_node_foreign (gumbo_tokenizer_set_state s p) = tk_is_current_node_foreign p"
  "tk_tag_state (gumbo_tokenizer_set_state s p) = tk_tag_state p"
  "tk_input (gumbo_tokenizer_set_state s p) = tk_input p"
  by (simp_all add: gumbo_tokenizer_set_state_def)

lemma reconsume_frame [simp]:
  "tk_state (reconsume b p) = tk_state p" "tk_reconsume_current_input (reconsume b p) = b"
  "tk_buffered_emit_char (reconsume b p) = tk_buffered_emit_char p"
  "tk_temporary_buffer (reconsume b p) = tk_temporary_buffer p"
  "tk_temporary_buffer_emit (reconsume b p) = tk_temporary_buffer_emit p"
  "tk_script_data_buffer (reconsume b p) = tk_script_data_buffer p"
  "tk_token_start (reconsume b p) = tk_token_start p" "tk_output (reconsume b p) = tk_output p"
  "tk_is_current_node_foreign (reconsume b p) = tk_is_current_node_foreign p"
  "tk_tag_state (reconsume b p) = tk_tag_state p" "tk_input (reconsume b p) = tk_input p"
  by (simp_all add: reconsume_def)

lemma set_foreign_frame [simp]:
  "tk_state (gumbo_tokenizer_set_is_current_node_foreign b p) = tk_state p"
  "tk_reconsume_current_input (gumbo_tokenizer_set_is_current_node_foreign b p) = tk_reconsume_current_input p"
  "tk_buffered_emit_char (gumbo_tokenizer_set_is_current_node_foreign b p) = tk_buffered_emit_char p"
  "tk_temporary_buffer (gumbo_tokenizer_set_is_current_node_foreign b p) = tk_temporary_buffer p"
  "tk_temporary_buffer_emit (gumbo_tokenizer_set_is_current_node_foreign b p) = tk_temporary_buffer_emit p"
  "tk_script_data_buffer (gumbo_tokenizer_set_is_current_node_foreign b p) = tk_script_data_buffer p"
  "tk_token_start (gumbo_tokenizer_set_is_current_node_foreign b p) = tk_token_start p"
  "tk_output (gumbo_tokenizer_set_is_current_node_foreign b p) = tk_output p"
  "tk_is_current_node_foreign (gumbo_tokenizer_set_is_current_node_foreign b p) = b"
  "tk_tag_state (gumbo_tokenizer_set_is_current_node_foreign b p) = tk_tag_state p"
  "tk_input (gumbo_tokenizer_set_is_current_node_foreign b p) = tk_input p"
  by (simp_all add: gumbo_tokenizer_set_is_current_node_foreign_def)

lemma set_force_quirks_frame [simp]:
  "tk_state (set_force_quirks b p) = tk_state p"
  "tk_reconsume_current_input (set_force_quirks b p) = tk_reconsume_current_input p"
  "tk_buffered_emit_char (set_force_quirks b p) = tk_buffered_emit_char p"
  "tk_temporary_buffer (set_force_quirks b p) = tk_temporary_buffer p"
  "tk_temporary_buffer_emit (set_force_quirks b p) = tk_temporary_buffer_emit p"
  "tk_script_data_buffer (set_force_quirks b p) = tk_script_data_buffer p"
  "tk_token_start (set_force_quirks b p) = tk_token_start p" "tk_output (set_force_quirks b p) = tk_output p"
  "tk_is_current_node_foreign (set_force_quirks b p) = tk_is_current_node_foreign p"
  "tk_tag_state (set_force_quirks b p) = tk_tag_state p" "tk_input (set_force_quirks b p) = tk_input p"
  by (simp_all add: set_force_quirks_def)

lemma doc_type_state_init_frame [simp]:
  "tk_state (doc_type_state_init p) = tk_state p"
  "tk_reconsume_current_input (doc_type_state_init p) = tk_reconsume_current_input p"
  "tk_buffered_emit_char (doc_type_state_init p) = tk_buffered_emit_char p"
  "tk_temporary_buffer (doc_type_state_init p) = tk_temporary_buffer p"
  "tk_temporary_buffer_emit (doc_type_state_init p) = tk_temporary_buffer_emit p"
  "tk_script_data_buffer (doc_type_state_init p) = tk_script_data_buffer p"
  "tk_token_start (doc_type_state_init p) = tk_token_start p" "tk_output (doc_type_state_init p) = tk_output p"
  "tk_is_current_node_foreign (doc_type_state_init p) = tk_is_current_node_foreign p"
  "tk_tag_state (doc_type_state_init p) = tk_tag_state p" "tk_input (doc_type_state_init p) = tk_input p"
  by (simp_all add: doc_type_state_init_def)

lemma add_parse_error_frame [simp]:
  "tk_state (add_parse_error e p) = tk_state p"
  "tk_reconsume_current_input (add_parse_error e p) = tk_reconsume_current_input p"
  "tk_buffered_emit_char (add_parse_error e p) = tk_buffered_emit_char p"
  "tk_temporary_buffer (add_parse_error e p) = tk_temporary_buffer p"
  "tk_temporary_buffer_emit (add_parse_error e p) = tk_temporary_buffer_emit p"
  "tk_script_data_buffer (add_parse_error e p) = tk_script_data_buffer p"
  "tk_token_start (add_parse_error e p) = tk_token_start p" "tk_output (add_parse_error e p) = tk_output p"
  "tk_is_current_node_foreign (add_parse_error e p) = tk_is_current_node_foreign p"
  "tk_tag_state (add_parse_error e p) = tk_tag_state p"
  "ut_start (tk_input (add_parse_error e p)) = ut_start (tk_input p)"
  "ut_end (tk_input (add_parse_error e p)) = ut_end (tk_input p)"
  "ut_mem (tk_input (add_parse_error e p)) = ut_mem (tk_input p)"
  "ut_current (tk_input (add_parse_error e p)) = ut_current (tk_input p)"
  "ut_width (tk_input (add_parse_error e p)) = ut_width (tk_input p)"
  "ut_mark (tk_input (add_parse_error e p)) = ut_mark (tk_input p)"
  "ut_ok (tk_input (add_parse_error e p)) = ut_ok (tk_input p)"
  "it_ok (tk_input (add_parse_error e p)) = it_ok (tk_input p)"
  by (simp_all add: add_parse_error_def it_ok_def)

lemma assert_tk_frame [simp]:
  "tk_state (assert_tk b p) = tk_state p"
  "tk_reconsume_current_input (assert_tk b p) = tk_reconsume_current_input p"
  "tk_buffered_emit_char (assert_tk b p) = tk_buffered_emit_char p"
  "tk_temporary_buffer (assert_tk b p) = tk_temporary_buffer p"
  "tk_temporary_buffer_emit (assert_tk b p) = tk_temporary_buffer_emit p"
  "tk_script_data_buffer (assert_tk b p) = tk_script_data_buffer p"
  "tk_token_start (assert_tk b p) = tk_token_start p" "tk_output (assert_tk b p) = tk_output p"
  "tk_is_current_node_foreign (assert_tk b p) = tk_is_current_node_foreign p"
  "tk_tag_state (assert_tk b p) = tk_tag_state p" "ut_start (tk_input (assert_tk b p)) = ut_start (tk_input p)"
  "ut_end (tk_input (assert_tk b p)) = ut_end (tk_input p)"
  "ut_mem (tk_input (assert_tk b p)) = ut_mem (tk_input p)"
  "ut_current (tk_input (assert_tk b p)) = ut_current (tk_input p)"
  "ut_width (tk_input (assert_tk b p)) = ut_width (tk_input p)"
  "ut_mark (tk_input (assert_tk b p)) = ut_mark (tk_input p)"
  "ut_ok (tk_input (assert_tk b p)) = (ut_ok (tk_input p) \<and> b)"
  "it_ok (tk_input (assert_tk b p)) = it_ok (tk_input p)"
  by (simp_all add: assert_tk_def it_ok_def)

lemma clear_temporary_buffer_frame [simp]:
  "tk_state (clear_temporary_buffer p) = tk_state p"
  "tk_reconsume_current_input (clear_temporary_buffer p) = tk_reconsume_current_input p"
  "tk_buffered_emit_char (clear_temporary_buffer p) = tk_buffered_emit_char p"
  "tk_temporary_buffer (clear_temporary_buffer p) = []"
  "tk_temporary_buffer_emit (clear_temporary_buffer p) = tk_temporary_buffer_emit p"
  "tk_script_data_buffer (clear_temporary_buffer p) = []"
  "tk_token_start (clear_temporary_buffer p) = tk_token_start p"
  "tk_output (clear_temporary_buffer p) = tk_output p"
  "tk_is_current_node_foreign (clear_temporary_buffer p) = tk_is_current_node_foreign p"
  "tk_tag_state (clear_temporary_buffer p) = tk_tag_state p"
  "ut_start (tk_input (clear_temporary_buffer p)) = ut_start (tk_input p)"
  "ut_end (tk_input (clear_temporary_buffer p)) = ut_end (tk_input p)"
  "ut_mem (tk_input (clear_temporary_buffer p)) = ut_mem (tk_input p)"
  "ut_current (tk_input (clear_temporary_buffer p)) = ut_current (tk_input p)"
  "ut_width (tk_input (clear_temporary_buffer p)) = ut_width (tk_input p)"
  "ut_mark (tk_input (clear_temporary_buffer p)) = ut_start (tk_input p)"
  "ut_ok (tk_input (clear_temporary_buffer p)) = (ut_ok (tk_input p) \<and> tk_temporary_buffer_emit p = None)"
  "it_ok (tk_input (clear_temporary_buffer p)) = it_ok (tk_input p)"
  by (simp_all add: clear_temporary_buffer_def assert_tk_def utf8iterator_mark_def it_ok_def)

lemma append_temporary_frame [simp]:
  "tk_state (append_char_to_temporary_buffer c p) = tk_state p"
  "tk_reconsume_current_input (append_char_to_temporary_buffer c p) = tk_reconsume_current_input p"
  "tk_buffered_emit_char (append_char_to_temporary_buffer c p) = tk_buffered_emit_char p"
  "tk_temporary_buffer (append_char_to_temporary_buffer c p) = tk_temporary_buffer p @ utf8_bytes c"
  "tk_temporary_buffer_emit (append_char_to_temporary_buffer c p) = tk_temporary_buffer_emit p"
  "tk_script_data_buffer (append_char_to_temporary_buffer c p) = tk_script_data_buffer p"
  "tk_token_start (append_char_to_temporary_buffer c p) = tk_token_start p"
  "tk_output (append_char_to_temporary_buffer c p) = tk_output p"
  "tk_is_current_node_foreign (append_char_to_temporary_buffer c p) = tk_is_current_node_foreign p"
  "tk_tag_state (append_char_to_temporary_buffer c p) = tk_tag_state p"
  "tk_input (append_char_to_temporary_buffer c p) = tk_input p"
  by (simp_all add: append_char_to_temporary_buffer_def)

lemma append_script_frame [simp]:
  "tk_state (append_char_to_script_data_buffer c p) = tk_state p"
  "tk_reconsume_current_input (append_char_to_script_data_buffer c p) = tk_reconsume_current_input p"
  "tk_buffered_emit_char (append_char_to_script_data_buffer c p) = tk_buffered_emit_char p"
  "tk_temporary_buffer (append_char_to_script_data_buffer c p) = tk_temporary_buffer p"
  "tk_temporary_buffer_emit (append_char_to_script_data_buffer c p) = tk_temporary_buffer_emit p"
  "tk_script_data_buffer (append_char_to_script_data_buffer c p) = tk_script_data_buffer p @ utf8_bytes c"
  "tk_token_start (append_char_to_script_data_buffer c p) = tk_token_start p"
  "tk_output (append_char_to_script_data_buffer c p) = tk_output p"
  "tk_is_current_node_foreign (append_char_to_script_data_buffer c p) = tk_is_current_node_foreign p"
  "tk_tag_state (append_char_to_script_data_buffer c p) = tk_tag_state p"
  "tk_input (append_char_to_script_data_buffer c p) = tk_input p"
  by (simp_all add: append_char_to_script_data_buffer_def)

lemma reset_token_start_frame [simp]:
  "tk_state (reset_token_start_point p) = tk_state p"
  "tk_reconsume_current_input (reset_token_start_point p) = tk_reconsume_current_input p"
  "tk_buffered_emit_char (reset_token_start_point p) = tk_buffered_emit_char p"
  "tk_temporary_buffer (reset_token_start_point p) = tk_temporary_buffer p"
  "tk_temporary_buffer_emit (reset_token_start_point p) = tk_temporary_buffer_emit p"
  "tk_script_data_buffer (reset_token_start_point p) = tk_script_data_buffer p"
  "tk_token_start (reset_token_start_point p) = ut_start (tk_input p)"
  "tk_output (reset_token_start_point p) = tk_output p"
  "tk_is_current_node_foreign (reset_token_start_point p) = tk_is_current_node_foreign p"
  "tk_tag_state (reset_token_start_point p) = tk_tag_state p" "tk_input (reset_token_start_point p) = tk_input p"
  by (simp_all add: reset_token_start_point_def)

lemma reset_tag_start_frame [simp]:
  "tk_state (reset_tag_buffer_start_point p) = tk_state p"
  "tk_reconsume_current_input (reset_tag_buffer_start_point p) = tk_reconsume_current_input p"
  "tk_buffered_emit_char (reset_tag_buffer_start_point p) = tk_buffered_emit_char p"
  "tk_temporary_buffer (reset_tag_buffer_start_point p) = tk_temporary_buffer p"
  "tk_temporary_buffer_emit (reset_tag_buffer_start_point p) = tk_temporary_buffer_emit p"
  "tk_script_data_buffer (reset_tag_buffer_start_point p) = tk_script_data_buffer p"
  "tk_token_start (reset_tag_buffer_start_point p) = tk_token_start p"
  "tk_output (reset_tag_buffer_start_point p) = tk_output p"
  "tk_is_current_node_foreign (reset_tag_buffer_start_point p) = tk_is_current_node_foreign p"
  "tg_buffer (tk_tag_state (reset_tag_buffer_start_point p)) = tg_buffer (tk_tag_state p)"
  "tg_tag (tk_tag_state (reset_tag_buffer_start_point p)) = tg_tag (tk_tag_state p)"
  "tg_attributes (tk_tag_state (reset_tag_buffer_start_point p)) = tg_attributes (tk_tag_state p)"
  "tg_drop_next_attr_value (tk_tag_state (reset_tag_buffer_start_point p)) = tg_drop_next_attr_value (tk_tag_state p)"
  "tg_attr_value_state (tk_tag_state (reset_tag_buffer_start_point p)) = tg_attr_value_state (tk_tag_state p)"
  "tg_is_start_tag (tk_tag_state (reset_tag_buffer_start_point p)) = tg_is_start_tag (tk_tag_state p)"
  "tk_input (reset_tag_buffer_start_point p) = tk_input p"
  by (simp_all add: reset_tag_buffer_start_point_def)

lemma initialize_tag_buffer_frame [simp]:
  "tk_state (initialize_tag_buffer p) = tk_state p"
  "tk_reconsume_current_input (initialize_tag_buffer p) = tk_reconsume_current_input p"
  "tk_buffered_emit_char (initialize_tag_buffer p) = tk_buffered_emit_char p"
  "tk_temporary_buffer (initialize_tag_buffer p) = tk_temporary_buffer p"
  "tk_temporary_buffer_emit (initialize_tag_buffer p) = tk_temporary_buffer_emit p"
  "tk_script_data_buffer (initialize_tag_buffer p) = tk_script_data_buffer p"
  "tk_token_start (initialize_tag_buffer p) = tk_token_start p"
  "tk_output (initialize_tag_buffer p) = tk_output p"
  "tk_is_current_node_foreign (initialize_tag_buffer p) = tk_is_current_node_foreign p"
  "tg_buffer (tk_tag_state (initialize_tag_buffer p)) = []"
  "tg_tag (tk_tag_state (initialize_tag_buffer p)) = tg_tag (tk_tag_state p)"
  "tg_attributes (tk_tag_state (initialize_tag_buffer p)) = tg_attributes (tk_tag_state p)"
  "tg_drop_next_attr_value (tk_tag_state (initialize_tag_buffer p)) = tg_drop_next_attr_value (tk_tag_state p)"
  "tg_attr_value_state (tk_tag_state (initialize_tag_buffer p)) = tg_attr_value_state (tk_tag_state p)"
  "tg_is_start_tag (tk_tag_state (initialize_tag_buffer p)) = tg_is_start_tag (tk_tag_state p)"
  "tk_input (initialize_tag_buffer p) = tk_input p"
  by (simp_all add: initialize_tag_buffer_def)

lemma reinitialize_tag_buffer_frame [simp]:
  "tk_state (reinitialize_tag_buffer p) = tk_state p"
  "tk_reconsume_current_input (reinitialize_tag_buffer p) = tk_reconsume_current_input p"
  "tk_buffered_emit_char (reinitialize_tag_buffer p) = tk_buffered_emit_char p"
  "tk_temporary_buffer (reinitialize_tag_buffer p) = tk_temporary_buffer p"
  "tk_temporary_buffer_emit (reinitialize_tag_buffer p) = tk_temporary_buffer_emit p"
  "tk_script_data_buffer (reinitialize_tag_buffer p) = tk_script_data_buffer p"
  "tk_token_start (reinitialize_tag_buffer p) = tk_token_start p"
  "tk_output (reinitialize_tag_buffer p) = tk_output p"
  "tk_is_current_node_foreign (reinitialize_tag_buffer p) = tk_is_current_node_foreign p"
  "tg_buffer (tk_tag_state (reinitialize_tag_buffer p)) = []"
  "tg_tag (tk_tag_state (reinitialize_tag_buffer p)) = tg_tag (tk_tag_state p)"
  "tg_attributes (tk_tag_state (reinitialize_tag_buffer p)) = tg_attributes (tk_tag_state p)"
  "tg_drop_next_attr_value (tk_tag_state (reinitialize_tag_buffer p)) = tg_drop_next_attr_value (tk_tag_state p)"
  "tg_attr_value_state (tk_tag_state (reinitialize_tag_buffer p)) = tg_attr_value_state (tk_tag_state p)"
  "tg_is_start_tag (tk_tag_state (reinitialize_tag_buffer p)) = tg_is_start_tag (tk_tag_state p)"
  "tk_input (reinitialize_tag_buffer p) = tk_input p"
  by (simp_all add: reinitialize_tag_buffer_def)

lemma mark_tag_empty_frame [simp]:
  "tk_state (mark_tag_state_as_empty p) = tk_state p"
  "tk_reconsume_current_input (mark_tag_state_as_empty p) = tk_reconsume_current_input p"
  "tk_buffered_emit_char (mark_tag_state_as_empty p) = tk_buffered_emit_char p"
  "tk_temporary_buffer (mark_tag_state_as_empty p) = tk_temporary_buffer p"
  "tk_temporary_buffer_emit (mark_tag_state_as_empty p) = tk_temporary_buffer_emit p"
  "tk_script_data_buffer (mark_tag_state_as_empty p) = tk_script_data_buffer p"
  "tk_token_start (mark_tag_state_as_empty p) = tk_token_start p"
  "tk_output (mark_tag_state_as_empty p) = tk_output p"
  "tk_is_current_node_foreign (mark_tag_state_as_empty p) = tk_is_current_node_foreign p"
  "tg_buffer (tk_tag_state (mark_tag_state_as_empty p)) = tg_buffer (tk_tag_state p)"
  "tg_tag (tk_tag_state (mark_tag_state_as_empty p)) = tg_tag (tk_tag_state p)"
  "tg_attributes (tk_tag_state (mark_tag_state_as_empty p)) = None"
  "tg_drop_next_attr_value (tk_tag_state (mark_tag_state_as_empty p)) = tg_drop_next_attr_value (tk_tag_state p)"
  "tg_attr_value_state (tk_tag_state (mark_tag_state_as_empty p)) = tg_attr_value_state (tk_tag_state p)"
  "tg_is_start_tag (tk_tag_state (mark_tag_state_as_empty p)) = tg_is_start_tag (tk_tag_state p)"
  "tk_input (mark_tag_state_as_empty p) = tk_input p"
  by (simp_all add: mark_tag_state_as_empty_def)

lemma abandon_current_tag_frame [simp]:
  "tk_state (abandon_current_tag p) = tk_state p"
  "tk_reconsume_current_input (abandon_current_tag p) = tk_reconsume_current_input p"
  "tk_buffered_emit_char (abandon_current_tag p) = tk_buffered_emit_char p"
  "tk_temporary_buffer (abandon_current_tag p) = tk_temporary_buffer p"
  "tk_temporary_buffer_emit (abandon_current_tag p) = tk_temporary_buffer_emit p"
  "tk_script_data_buffer (abandon_current_tag p) = tk_script_data_buffer p"
  "tk_token_start (abandon_current_tag p) = tk_token_start p" "tk_output (abandon_current_tag p) = tk_output p"
  "tk_is_current_node_foreign (abandon_current_tag p) = tk_is_current_node_foreign p"
  "tg_buffer (tk_tag_state (abandon_current_tag p)) = tg_buffer (tk_tag_state p)"
  "tg_tag (tk_tag_state (abandon_current_tag p)) = tg_tag (tk_tag_state p)"
  "tg_attributes (tk_tag_state (abandon_current_tag p)) = None"
  "tg_drop_next_attr_value (tk_tag_state (abandon_current_tag p)) = tg_drop_next_attr_value (tk_tag_state p)"
  "tg_attr_value_state (tk_tag_state (abandon_current_tag p)) = tg_attr_value_state (tk_tag_state p)"
  "tg_is_start_tag (tk_tag_state (abandon_current_tag p)) = tg_is_start_tag (tk_tag_state p)"
  "tk_input (abandon_current_tag p) = tk_input p"
  by (simp_all add: abandon_current_tag_def)

lemma append_tag_frame [simp]:
  "tk_state (append_char_to_tag_buffer c b p) = tk_state p"
  "tk_reconsume_current_input (append_char_to_tag_buffer c b p) = tk_reconsume_current_input p"
  "tk_buffered_emit_char (append_char_to_tag_buffer c b p) = tk_buffered_emit_char p"
  "tk_temporary_buffer (append_char_to_tag_buffer c b p) = tk_temporary_buffer p"
  "tk_temporary_buffer_emit (append_char_to_tag_buffer c b p) = tk_temporary_buffer_emit p"
  "tk_script_data_buffer (append_char_to_tag_buffer c b p) = tk_script_data_buffer p"
  "tk_token_start (append_char_to_tag_buffer c b p) = tk_token_start p"
  "tk_output (append_char_to_tag_buffer c b p) = tk_output p"
  "tk_is_current_node_foreign (append_char_to_tag_buffer c b p) = tk_is_current_node_foreign p"
  "tg_buffer (tk_tag_state (append_char_to_tag_buffer c b p)) = tg_buffer (tk_tag_state p) @ utf8_bytes c"
  "tg_tag (tk_tag_state (append_char_to_tag_buffer c b p)) = tg_tag (tk_tag_state p)"
  "tg_attributes (tk_tag_state (append_char_to_tag_buffer c b p)) = tg_attributes (tk_tag_state p)"
  "tg_drop_next_attr_value (tk_tag_state (append_char_to_tag_buffer c b p)) = tg_drop_next_attr_value (tk_tag_state p)"
  "tg_attr_value_state (tk_tag_state (append_char_to_tag_buffer c b p)) = tg_attr_value_state (tk_tag_state p)"
  "tg_is_start_tag (tk_tag_state (append_char_to_tag_buffer c b p)) = tg_is_start_tag (tk_tag_state p)"
  "tk_input (append_char_to_tag_buffer c b p) = tk_input p"
  by (simp_all add: append_char_to_tag_buffer_def Let_def)

lemma finish_doctype_name_frame [simp]:
  "tk_state (finish_doctype_name p) = tk_state p"
  "tk_reconsume_current_input (finish_doctype_name p) = tk_reconsume_current_input p"
  "tk_buffered_emit_char (finish_doctype_name p) = tk_buffered_emit_char p"
  "tk_temporary_buffer (finish_doctype_name p) = []"
  "tk_temporary_buffer_emit (finish_doctype_name p) = tk_temporary_buffer_emit p"
  "tk_script_data_buffer (finish_doctype_name p) = []"
  "tk_token_start (finish_doctype_name p) = tk_token_start p" "tk_output (finish_doctype_name p) = tk_output p"
  "tk_is_current_node_foreign (finish_doctype_name p) = tk_is_current_node_foreign p"
  "tk_tag_state (finish_doctype_name p) = tk_tag_state p"
  "ut_start (tk_input (finish_doctype_name p)) = ut_start (tk_input p)"
  "ut_end (tk_input (finish_doctype_name p)) = ut_end (tk_input p)"
  "ut_mem (tk_input (finish_doctype_name p)) = ut_mem (tk_input p)"
  "ut_current (tk_input (finish_doctype_name p)) = ut_current (tk_input p)"
  "ut_width (tk_input (finish_doctype_name p)) = ut_width (tk_input p)"
  "ut_mark (tk_input (finish_doctype_name p)) = ut_start (tk_input p)"
  "ut_ok (tk_input (finish_doctype_name p)) = (ut_ok (tk_input p) \<and> tk_temporary_buffer_emit p = None)"
  "it_ok (tk_input (finish_doctype_name p)) = it_ok (tk_input p)"
  by (simp_all add: finish_doctype_name_def finish_temporary_buffer_def)

lemma finish_doctype_public_id_frame [simp]:
  "tk_state (finish_doctype_public_id p) = tk_state p"
  "tk_reconsume_current_input (finish_doctype_public_id p) = tk_reconsume_current_input p"
  "tk_buffered_emit_char (finish_doctype_public_id p) = tk_buffered_emit_char p"
  "tk_temporary_buffer (finish_doctype_public_id p) = []"
  "tk_temporary_buffer_emit (finish_doctype_public_id p) = tk_temporary_buffer_emit p"
  "tk_script_data_buffer (finish_doctype_public_id p) = []"
  "tk_token_start (finish_doctype_public_id p) = tk_token_start p"
  "tk_output (finish_doctype_public_id p) = tk_output p"
  "tk_is_current_node_foreign (finish_doctype_public_id p) = tk_is_current_node_foreign p"
  "tk_tag_state (finish_doctype_public_id p) = tk_tag_state p"
  "ut_start (tk_input (finish_doctype_public_id p)) = ut_start (tk_input p)"
  "ut_end (tk_input (finish_doctype_public_id p)) = ut_end (tk_input p)"
  "ut_mem (tk_input (finish_doctype_public_id p)) = ut_mem (tk_input p)"
  "ut_current (tk_input (finish_doctype_public_id p)) = ut_current (tk_input p)"
  "ut_width (tk_input (finish_doctype_public_id p)) = ut_width (tk_input p)"
  "ut_mark (tk_input (finish_doctype_public_id p)) = ut_start (tk_input p)"
  "ut_ok (tk_input (finish_doctype_public_id p)) = (ut_ok (tk_input p) \<and> tk_temporary_buffer_emit p = None)"
  "it_ok (tk_input (finish_doctype_public_id p)) = it_ok (tk_input p)"
  by (simp_all add: finish_doctype_public_id_def finish_temporary_buffer_def)

lemma finish_doctype_system_id_frame [simp]:
  "tk_state (finish_doctype_system_id p) = tk_state p"
  "tk_reconsume_current_input (finish_doctype_system_id p) = tk_reconsume_current_input p"
  "tk_buffered_emit_char (finish_doctype_system_id p) = tk_buffered_emit_char p"
  "tk_temporary_buffer (finish_doctype_system_id p) = []"
  "tk_temporary_buffer_emit (finish_doctype_system_id p) = tk_temporary_buffer_emit p"
  "tk_script_data_buffer (finish_doctype_system_id p) = []"
  "tk_token_start (finish_doctype_system_id p) = tk_token_start p"
  "tk_output (finish_doctype_system_id p) = tk_output p"
  "tk_is_current_node_foreign (finish_doctype_system_id p) = tk_is_current_node_foreign p"
  "tk_tag_state (finish_doctype_system_id p) = tk_tag_state p"
  "ut_start (tk_input (finish_doctype_system_id p)) = ut_start (tk_input p)"
  "ut_end (tk_input (finish_doctype_system_id p)) = ut_end (tk_input p)"
  "ut_mem (tk_input (finish_doctype_system_id p)) = ut_mem (tk_input p)"
  "ut_current (tk_input (finish_doctype_system_id p)) = ut_current (tk_input p)"
  "ut_width (tk_input (finish_doctype_system_id p)) = ut_width (tk_input p)"
  "ut_mark (tk_input (finish_doctype_system_id p)) = ut_start (tk_input p)"
  "ut_ok (tk_input (finish_doctype_system_id p)) = (ut_ok (tk_input p) \<and> tk_temporary_buffer_emit p = None)"
  "it_ok (tk_input (finish_doctype_system_id p)) = it_ok (tk_input p)"
  by (simp_all add: finish_doctype_system_id_def finish_temporary_buffer_def)

lemma set_output_frame [simp]:
  "tk_state (set_output ty v p) = tk_state p"
  "tk_reconsume_current_input (set_output ty v p) = tk_reconsume_current_input p"
  "tk_buffered_emit_char (set_output ty v p) = tk_buffered_emit_char p"
  "tk_temporary_buffer (set_output ty v p) = tk_temporary_buffer p"
  "tk_temporary_buffer_emit (set_output ty v p) = tk_temporary_buffer_emit p"
  "tk_script_data_buffer (set_output ty v p) = tk_script_data_buffer p"
  "tk_token_start (set_output ty v p) = tk_token_start p"
  "tk_output (set_output ty v p) = (tk_output p)\<lparr>to_type := ty, to_v := v\<rparr>"
  "tk_is_current_node_foreign (set_output ty v p) = tk_is_current_node_foreign p"
  "tk_tag_state (set_output ty v p) = tk_tag_state p" "tk_input (set_output ty v p) = tk_input p"
  by (simp_all add: set_output_def)

lemma is_alpha_lowercase: "is_alpha (ensure_lowercase c) = is_alpha c"
  by (auto simp: is_alpha_def ensure_lowercase_def)

lemma start_new_tag_frame [simp]:
  "tk_state (start_new_tag b p) = tk_state p"
  "tk_reconsume_current_input (start_new_tag b p) = tk_reconsume_current_input p"
  "tk_buffered_emit_char (start_new_tag b p) = tk_buffered_emit_char p"
  "tk_temporary_buffer (start_new_tag b p) = tk_temporary_buffer p"
  "tk_temporary_buffer_emit (start_new_tag b p) = tk_temporary_buffer_emit p"
  "tk_script_data_buffer (start_new_tag b p) = tk_script_data_buffer p"
  "tk_token_start (start_new_tag b p) = tk_token_start p" "tk_output (start_new_tag b p) = tk_output p"
  "tk_is_current_node_foreign (start_new_tag b p) = tk_is_current_node_foreign p"
  "tg_buffer (tk_tag_state (start_new_tag b p)) = utf8_bytes (ensure_lowercase (ut_current (tk_input p)))"
  "tg_tag (tk_tag_state (start_new_tag b p)) = tg_tag (tk_tag_state p)"
  "tg_attributes (tk_tag_state (start_new_tag b p)) = Some []"
  "tg_drop_next_attr_value (tk_tag_state (start_new_tag b p)) = False"
  "tg_attr_value_state (tk_tag_state (start_new_tag b p)) = tg_attr_value_state (tk_tag_state p)"
  "tg_is_start_tag (tk_tag_state (start_new_tag b p)) = b"
  "ut_start (tk_input (start_new_tag b p)) = ut_start (tk_input p)"
  "ut_end (tk_input (start_new_tag b p)) = ut_end (tk_input p)"
  "ut_mem (tk_input (start_new_tag b p)) = ut_mem (tk_input p)"
  "ut_current (tk_input (start_new_tag b p)) = ut_current (tk_input p)"
  "ut_width (tk_input (start_new_tag b p)) = ut_width (tk_input p)"
  "ut_mark (tk_input (start_new_tag b p)) = ut_mark (tk_input p)"
  "ut_ok (tk_input (start_new_tag b p)) = (ut_ok (tk_input p) \<and> is_alpha (ut_current (tk_input p)) \<and> tg_attributes (tk_tag_state p) = None)"
  "it_ok (tk_input (start_new_tag b p)) = it_ok (tk_input p)"
  by (auto simp: start_new_tag_def Let_def is_alpha_lowercase)

lemma finish_tag_name_frame [simp]:
  "tk_state (finish_tag_name p) = tk_state p"
  "tk_reconsume_current_input (finish_tag_name p) = tk_reconsume_current_input p"
  "tk_buffered_emit_char (finish_tag_name p) = tk_buffered_emit_char p"
  "tk_temporary_buffer (finish_tag_name p) = tk_temporary_buffer p"
  "tk_temporary_buffer_emit (finish_tag_name p) = tk_temporary_buffer_emit p"
  "tk_script_data_buffer (finish_tag_name p) = tk_script_data_buffer p"
  "tk_token_start (finish_tag_name p) = tk_token_start p" "tk_output (finish_tag_name p) = tk_output p"
  "tk_is_current_node_foreign (finish_tag_name p) = tk_is_current_node_foreign p"
  "tg_buffer (tk_tag_state (finish_tag_name p)) = []"
  "tg_tag (tk_tag_state (finish_tag_name p)) = gumbo_tag_enum (c_string (tg_buffer (tk_tag_state p)))"
  "tg_attributes (tk_tag_state (finish_tag_name p)) = tg_attributes (tk_tag_state p)"
  "tg_drop_next_attr_value (tk_tag_state (finish_tag_name p)) = tg_drop_next_attr_value (tk_tag_state p)"
  "tg_attr_value_state (tk_tag_state (finish_tag_name p)) = tg_attr_value_state (tk_tag_state p)"
  "tg_is_start_tag (tk_tag_state (finish_tag_name p)) = tg_is_start_tag (tk_tag_state p)"
  "tk_input (finish_tag_name p) = tk_input p"
  by (simp_all add: finish_tag_name_def Let_def)

lemma next_input_frame [simp]:
  "tk_state (next_input p) = tk_state p"
  "tk_reconsume_current_input (next_input p) = tk_reconsume_current_input p"
  "tk_buffered_emit_char (next_input p) = tk_buffered_emit_char p"
  "tk_temporary_buffer (next_input p) = tk_temporary_buffer p"
  "tk_temporary_buffer_emit (next_input p) = tk_temporary_buffer_emit p"
  "tk_script_data_buffer (next_input p) = tk_script_data_buffer p"
  "tk_token_start (next_input p) = tk_token_start p" "tk_output (next_input p) = tk_output p"
  "tk_is_current_node_foreign (next_input p) = tk_is_current_node_foreign p"
  "tk_tag_state (next_input p) = tk_tag_state p"
  "ut_start (tk_input (next_input p)) = ut_start (utf8iterator_next (tk_input p))"
  "ut_end (tk_input (next_input p)) = ut_end (tk_input p)"
  "ut_mem (tk_input (next_input p)) = ut_mem (tk_input p)"
  "ut_current (tk_input (next_input p)) = ut_current (utf8iterator_next (tk_input p))"
  "ut_width (tk_input (next_input p)) = ut_width (utf8iterator_next (tk_input p))"
  "ut_mark (tk_input (next_input p)) = ut_mark (tk_input p)"
  "ut_ok (tk_input (next_input p)) = ut_ok (utf8iterator_next (tk_input p))"
  "it_ok (tk_input (next_input p)) = it_ok (utf8iterator_next (tk_input p))"
  by (simp_all add: next_input_def)

end
