(* ===== verification/GumboLexInv.thy ===== *)
theory GumboLexInv
  imports GumboFrame
begin

text \<open>
  The invariant of the tokenizer.  Every lexer state belongs to a class, and a class says what holds of
  the tokenizer when its handler is called: which of the buffers mirrors the source, whether a tag is
  open, whether the attribute whose value is read exists.  One step of the loop of \<open>gumbo_lex\<close> either
  continues in a state whose class holds again, with a smaller measure, or returns a token and leaves
  the tokenizer at rest.
\<close>

section \<open>Classes of states\<close>

datatype phase_class =
    Text | Char_ref | Less_than | Less_than_script | Slash | End_name | Tag_name | Attr_name | After_name
  | Value | Value_ref | Other | Empty_buffer

definition class_of :: "lexer_state \<Rightarrow> phase_class" where
  "class_of s = (case s of
     GUMBO_LEX_CHAR_REF_IN_DATA \<Rightarrow> Char_ref | GUMBO_LEX_CHAR_REF_IN_RCDATA \<Rightarrow> Char_ref
   | GUMBO_LEX_TAG_OPEN \<Rightarrow> Less_than | GUMBO_LEX_RCDATA_LT \<Rightarrow> Less_than | GUMBO_LEX_RAWTEXT_LT \<Rightarrow> Less_than
   | GUMBO_LEX_SCRIPT_LT \<Rightarrow> Less_than | GUMBO_LEX_SCRIPT_ESCAPED_LT \<Rightarrow> Less_than_script
   | GUMBO_LEX_END_TAG_OPEN \<Rightarrow> Slash | GUMBO_LEX_RCDATA_END_TAG_OPEN \<Rightarrow> Slash
   | GUMBO_LEX_RAWTEXT_END_TAG_OPEN \<Rightarrow> Slash | GUMBO_LEX_SCRIPT_END_TAG_OPEN \<Rightarrow> Slash
   | GUMBO_LEX_SCRIPT_ESCAPED_END_TAG_OPEN \<Rightarrow> Slash
   | GUMBO_LEX_RCDATA_END_TAG_NAME \<Rightarrow> End_name | GUMBO_LEX_RAWTEXT_END_TAG_NAME \<Rightarrow> End_name
   | GUMBO_LEX_SCRIPT_END_TAG_NAME \<Rightarrow> End_name | GUMBO_LEX_SCRIPT_ESCAPED_END_TAG_NAME \<Rightarrow> End_name
   | GUMBO_LEX_TAG_NAME \<Rightarrow> Tag_name
   | GUMBO_LEX_BEFORE_ATTR_NAME \<Rightarrow> Attr_name | GUMBO_LEX_ATTR_NAME \<Rightarrow> Attr_name
   | GUMBO_LEX_SELF_CLOSING_START_TAG \<Rightarrow> Attr_name
   | GUMBO_LEX_AFTER_ATTR_NAME \<Rightarrow> After_name
   | GUMBO_LEX_BEFORE_ATTR_VALUE \<Rightarrow> Value | GUMBO_LEX_ATTR_VALUE_DOUBLE_QUOTED \<Rightarrow> Value
   | GUMBO_LEX_ATTR_VALUE_SINGLE_QUOTED \<Rightarrow> Value | GUMBO_LEX_ATTR_VALUE_UNQUOTED \<Rightarrow> Value
   | GUMBO_LEX_AFTER_ATTR_VALUE_QUOTED \<Rightarrow> Value
   | GUMBO_LEX_CHAR_REF_IN_ATTR_VALUE \<Rightarrow> Value_ref
   | GUMBO_LEX_BOGUS_COMMENT \<Rightarrow> Other | GUMBO_LEX_COMMENT_START \<Rightarrow> Other
   | GUMBO_LEX_COMMENT_START_DASH \<Rightarrow> Other | GUMBO_LEX_COMMENT \<Rightarrow> Other | GUMBO_LEX_COMMENT_END_DASH \<Rightarrow> Other
   | GUMBO_LEX_COMMENT_END \<Rightarrow> Other | GUMBO_LEX_COMMENT_END_BANG \<Rightarrow> Other
   | GUMBO_LEX_BEFORE_DOCTYPE_NAME \<Rightarrow> Other | GUMBO_LEX_DOCTYPE_NAME \<Rightarrow> Other
   | GUMBO_LEX_DOCTYPE_PUBLIC_ID_DOUBLE_QUOTED \<Rightarrow> Other | GUMBO_LEX_DOCTYPE_PUBLIC_ID_SINGLE_QUOTED \<Rightarrow> Other
   | GUMBO_LEX_DOCTYPE_SYSTEM_ID_DOUBLE_QUOTED \<Rightarrow> Other | GUMBO_LEX_DOCTYPE_SYSTEM_ID_SINGLE_QUOTED \<Rightarrow> Other
   | GUMBO_LEX_AFTER_DOCTYPE_SYSTEM_ID \<Rightarrow> Other | GUMBO_LEX_BOGUS_DOCTYPE \<Rightarrow> Other | GUMBO_LEX_CDATA \<Rightarrow> Other
   | GUMBO_LEX_MARKUP_DECLARATION \<Rightarrow> Empty_buffer | GUMBO_LEX_DOCTYPE \<Rightarrow> Empty_buffer
   | GUMBO_LEX_AFTER_DOCTYPE_NAME \<Rightarrow> Empty_buffer | GUMBO_LEX_AFTER_DOCTYPE_PUBLIC_KEYWORD \<Rightarrow> Empty_buffer
   | GUMBO_LEX_BEFORE_DOCTYPE_PUBLIC_ID \<Rightarrow> Empty_buffer | GUMBO_LEX_AFTER_DOCTYPE_PUBLIC_ID \<Rightarrow> Empty_buffer
   | GUMBO_LEX_BETWEEN_DOCTYPE_PUBLIC_SYSTEM_ID \<Rightarrow> Empty_buffer
   | GUMBO_LEX_AFTER_DOCTYPE_SYSTEM_KEYWORD \<Rightarrow> Empty_buffer | GUMBO_LEX_BEFORE_DOCTYPE_SYSTEM_ID \<Rightarrow> Empty_buffer
   | _ \<Rightarrow> Text)"

text \<open>The states in which a call of \<open>gumbo_lex\<close> may leave the tokenizer.\<close>

definition rest_state :: "lexer_state \<Rightarrow> bool" where
  "rest_state s \<longleftrightarrow> class_of s = Text \<or> s = GUMBO_LEX_CDATA \<or> s = GUMBO_LEX_BOGUS_DOCTYPE"

text \<open>A state hands a character it does not consume only to a state of smaller rank.\<close>

definition rank :: "lexer_state \<Rightarrow> nat" where
  "rank s = (case s of
     GUMBO_LEX_CHAR_REF_IN_DATA \<Rightarrow> 0 | GUMBO_LEX_CHAR_REF_IN_RCDATA \<Rightarrow> 0
   | GUMBO_LEX_DATA \<Rightarrow> 1 | GUMBO_LEX_RCDATA \<Rightarrow> 1 | GUMBO_LEX_RAWTEXT \<Rightarrow> 1 | GUMBO_LEX_SCRIPT \<Rightarrow> 1
   | GUMBO_LEX_PLAINTEXT \<Rightarrow> 1
   | GUMBO_LEX_ATTR_VALUE_DOUBLE_QUOTED \<Rightarrow> 3 | GUMBO_LEX_ATTR_VALUE_SINGLE_QUOTED \<Rightarrow> 3
   | GUMBO_LEX_ATTR_VALUE_UNQUOTED \<Rightarrow> 3 | GUMBO_LEX_BEFORE_ATTR_VALUE \<Rightarrow> 4
   | GUMBO_LEX_AFTER_ATTR_VALUE_QUOTED \<Rightarrow> 3 | GUMBO_LEX_SELF_CLOSING_START_TAG \<Rightarrow> 3
   | GUMBO_LEX_SCRIPT_DOUBLE_ESCAPED_START \<Rightarrow> 3 | GUMBO_LEX_SCRIPT_DOUBLE_ESCAPED_LT \<Rightarrow> 3
   | GUMBO_LEX_SCRIPT_DOUBLE_ESCAPED_END \<Rightarrow> 3
   | GUMBO_LEX_MARKUP_DECLARATION \<Rightarrow> 4 | GUMBO_LEX_DOCTYPE \<Rightarrow> 3
   | _ \<Rightarrow> 2)"

definition lex_measure :: "tokenizer \<Rightarrow> nat" where
  "lex_measure p = 8 * bytes_left (tk_input p) + rank (tk_state p)"

section \<open>The invariant\<close>

text \<open>The byte at the start of the current token is a less-than sign.\<close>

definition at_lt :: "tokenizer \<Rightarrow> bool" where
  "at_lt p \<longleftrightarrow> ut_mem (tk_input p) (tk_token_start p) = 0x3C"

text \<open>Bytes the iterator shows as themselves and that end no line.\<close>

definition plain :: "byte \<Rightarrow> bool" where
  "plain b \<longleftrightarrow> 0x21 \<le> uint b \<and> uint b < 0x7F"

text \<open>The temporary buffer holds the bytes of the source from the mark up to the cursor.\<close>

definition mirror :: "tokenizer \<Rightarrow> bool" where
  "mirror p \<longleftrightarrow>
     (let it = tk_input p; n = int (length (tk_temporary_buffer p)) in
      at_lt p \<and> tk_token_start p \<le> ut_mark it \<and> ut_mark it + n \<le> ut_end it \<and> ut_mark it + n \<le> ut_start it
      \<and> holds_at (ut_mem it) (ut_mark it) (tk_temporary_buffer p) \<and> list_all plain (tk_temporary_buffer p)
      \<and> (ut_current it \<noteq> C_LF \<longrightarrow> ut_start it = ut_mark it + n))"

text \<open>The same one character earlier, when the last byte of the buffer is still under the cursor.\<close>

definition mirror_next :: "tokenizer \<Rightarrow> bool" where
  "mirror_next p \<longleftrightarrow>
     (let it = tk_input p; n = int (length (tk_temporary_buffer p)) in
      at_lt p \<and> tk_token_start p \<le> ut_mark it \<and> tk_temporary_buffer p \<noteq> []
      \<and> ut_start it < ut_end it \<and> ut_start it + 1 = ut_mark it + n
      \<and> holds_at (ut_mem it) (ut_mark it) (tk_temporary_buffer p) \<and> list_all plain (tk_temporary_buffer p))"

text \<open>No two attributes of a tag have the same name, and no name contains a zero byte.\<close>

definition attrs_ok :: "gumbo_attribute list \<Rightarrow> bool" where
  "attrs_ok as \<longleftrightarrow> distinct (map at_name as) \<and> (\<forall>a \<in> set as. 0 \<notin> set (at_name a))"

definition tag_open :: "tokenizer \<Rightarrow> bool" where
  "tag_open p \<longleftrightarrow> at_lt p \<and> (\<exists>as. tg_attributes (tk_tag_state p) = Some as \<and> attrs_ok as)"

definition attr_ready :: "tokenizer \<Rightarrow> bool" where
  "attr_ready p \<longleftrightarrow> tg_drop_next_attr_value (tk_tag_state p) \<or> tg_attributes (tk_tag_state p) \<noteq> Some []"

abbreviation no_tag :: "tokenizer \<Rightarrow> bool" where
  "no_tag p \<equiv> tg_attributes (tk_tag_state p) = None"

abbreviation tag_known :: "tokenizer \<Rightarrow> bool" where
  "tag_known p \<equiv> tg_tag (tk_tag_state p) \<le> GUMBO_TAG_UNKNOWN"

abbreviation name_clean :: "tokenizer \<Rightarrow> bool" where
  "name_clean p \<equiv> 0 \<notin> set (tg_buffer (tk_tag_state p))"

abbreviation value_state :: "tokenizer \<Rightarrow> bool" where
  "value_state p \<equiv> tg_attr_value_state (tk_tag_state p) \<in>
     {GUMBO_LEX_ATTR_VALUE_DOUBLE_QUOTED, GUMBO_LEX_ATTR_VALUE_SINGLE_QUOTED, GUMBO_LEX_ATTR_VALUE_UNQUOTED}"

abbreviation before_end :: "tokenizer \<Rightarrow> bool" where
  "before_end p \<equiv> ut_start (tk_input p) < ut_end (tk_input p)"

abbreviation past_start :: "tokenizer \<Rightarrow> bool" where
  "past_start p \<equiv> tk_token_start p < ut_start (tk_input p)"

fun phase :: "phase_class \<Rightarrow> tokenizer \<Rightarrow> bool" where
  "phase Text p \<longleftrightarrow>
     no_tag p \<and> (ut_current (tk_input p) = C_LT \<longrightarrow> tk_token_start p = ut_start (tk_input p) \<or> at_lt p)"
| "phase Char_ref p \<longleftrightarrow> no_tag p \<and> before_end p"
| "phase Less_than p \<longleftrightarrow> no_tag p \<and> tk_temporary_buffer p = [0x3C] \<and> mirror p"
| "phase Less_than_script p \<longleftrightarrow> no_tag p \<and> tk_temporary_buffer p = [0x3C] \<and> mirror p \<and> tk_script_data_buffer p = []"
| "phase Slash p \<longleftrightarrow> no_tag p \<and> tk_temporary_buffer p = [0x3C, 0x2F] \<and> mirror p"
| "phase End_name p \<longleftrightarrow> past_start p \<and> tag_open p \<and> mirror p \<and> 2 \<le> length (tk_temporary_buffer p)
     \<and> \<not> tg_is_start_tag (tk_tag_state p)"
| "phase Tag_name p \<longleftrightarrow> past_start p \<and> tag_open p"
| "phase Attr_name p \<longleftrightarrow> past_start p \<and> tag_open p \<and> tag_known p \<and> name_clean p"
| "phase After_name p \<longleftrightarrow> past_start p \<and> tag_open p \<and> tag_known p \<and> name_clean p \<and> attr_ready p"
| "phase Value p \<longleftrightarrow> past_start p \<and> tag_open p \<and> tag_known p \<and> attr_ready p"
| "phase Value_ref p \<longleftrightarrow> past_start p \<and> tag_open p \<and> tag_known p \<and> attr_ready p \<and> value_state p \<and> before_end p"
| "phase Other p \<longleftrightarrow> no_tag p"
| "phase Empty_buffer p \<longleftrightarrow> no_tag p \<and> tk_temporary_buffer p = []"

text \<open>What must hold before the cursor moves on for the class to hold afterwards.\<close>

fun phase_next :: "phase_class \<Rightarrow> tokenizer \<Rightarrow> bool" where
  "phase_next Text p \<longleftrightarrow> no_tag p \<and> (before_end p \<longrightarrow> at_lt p)"
| "phase_next Char_ref p \<longleftrightarrow> False"
| "phase_next Less_than p \<longleftrightarrow> no_tag p \<and> tk_temporary_buffer p = [0x3C] \<and> mirror_next p"
| "phase_next Less_than_script p \<longleftrightarrow>
     no_tag p \<and> tk_temporary_buffer p = [0x3C] \<and> mirror_next p \<and> tk_script_data_buffer p = []"
| "phase_next Slash p \<longleftrightarrow> no_tag p \<and> tk_temporary_buffer p = [0x3C, 0x2F] \<and> mirror_next p"
| "phase_next End_name p \<longleftrightarrow> (before_end p \<or> past_start p) \<and> tag_open p \<and> mirror_next p \<and> 2 \<le> length (tk_temporary_buffer p)
     \<and> \<not> tg_is_start_tag (tk_tag_state p)"
| "phase_next Tag_name p \<longleftrightarrow> (before_end p \<or> past_start p) \<and> tag_open p"
| "phase_next Attr_name p \<longleftrightarrow> (before_end p \<or> past_start p) \<and> tag_open p \<and> tag_known p \<and> name_clean p"
| "phase_next After_name p \<longleftrightarrow> (before_end p \<or> past_start p) \<and> tag_open p \<and> tag_known p \<and> name_clean p \<and> attr_ready p"
| "phase_next Value p \<longleftrightarrow> (before_end p \<or> past_start p) \<and> tag_open p \<and> tag_known p \<and> attr_ready p"
| "phase_next Value_ref p \<longleftrightarrow> False"
| "phase_next Other p \<longleftrightarrow> no_tag p"
| "phase_next Empty_buffer p \<longleftrightarrow> no_tag p \<and> tk_temporary_buffer p = []"

text \<open>No overlong sequence starts between two addresses.\<close>

definition clean :: "memory \<Rightarrow> int \<Rightarrow> int \<Rightarrow> bool" where
  "clean mem a b \<longleftrightarrow> (\<forall>i. a \<le> i \<longrightarrow> i < b \<longrightarrow> no_overlong mem i)"

lemma clean_later: "clean mem a b \<Longrightarrow> a \<le> a' \<Longrightarrow> clean mem a' b"
  by (simp add: clean_def)

text \<open>The cursor is sound, the rest of the source is clean, no assertion has failed, and the token starts at or before the cursor.\<close>

definition sound :: "tokenizer \<Rightarrow> bool" where
  "sound p \<longleftrightarrow> it_ok (tk_input p) \<and> clean (ut_mem (tk_input p)) (tk_token_start p) (ut_end (tk_input p)) \<and> ut_ok (tk_input p)
     \<and> tk_token_start p \<le> ut_start (tk_input p)"

definition idle :: "tokenizer \<Rightarrow> bool" where
  "idle p \<longleftrightarrow> tk_temporary_buffer_emit p = None \<and> tk_buffered_emit_char p = kGumboNoChar"

definition loop_inv :: "tokenizer \<Rightarrow> bool" where
  "loop_inv p \<longleftrightarrow> sound p \<and> idle p \<and> \<not> tk_reconsume_current_input p \<and> phase (class_of (tk_state p)) p"

text \<open>Characters waiting in the temporary buffer are those under and after the cursor.\<close>

definition pending :: "tokenizer \<Rightarrow> bool" where
  "pending p \<longleftrightarrow> (case tk_temporary_buffer_emit p of
     None \<Rightarrow> True
   | Some i \<Rightarrow> tk_buffered_emit_char p = kGumboNoChar \<and>
       (i < length (tk_temporary_buffer p) \<longrightarrow>
          ut_start (tk_input p) + int (length (tk_temporary_buffer p) - i) \<le> ut_end (tk_input p)
          \<and> holds_at (ut_mem (tk_input p)) (ut_start (tk_input p)) (drop i (tk_temporary_buffer p))
          \<and> list_all plain (tk_temporary_buffer p)))"

definition rest :: "tokenizer \<Rightarrow> bool" where
  "rest p \<longleftrightarrow> sound p \<and> \<not> tk_reconsume_current_input p
     \<and> (tk_token_start p = ut_start (tk_input p) \<or> ut_current (tk_input p) = C_LF)
     \<and> no_tag p \<and> rest_state (tk_state p) \<and> pending p"

text \<open>A token whose value fits its type.\<close>

fun token_ok :: "token_type \<Rightarrow> token_value \<Rightarrow> bool" where
  "token_ok ty (V_doc_type d) \<longleftrightarrow> ty = GUMBO_TOKEN_DOCTYPE"
| "token_ok ty (V_start_tag tag attrs self_closing) \<longleftrightarrow>
     ty = GUMBO_TOKEN_START_TAG \<and> tag \<le> GUMBO_TAG_UNKNOWN \<and> (\<exists>as. attrs = Some as \<and> attrs_ok as)"
| "token_ok ty (V_end_tag tag) \<longleftrightarrow> ty = GUMBO_TOKEN_END_TAG \<and> tag \<le> GUMBO_TAG_UNKNOWN"
| "token_ok ty (V_text t) \<longleftrightarrow> ty = GUMBO_TOKEN_COMMENT"
| "token_ok ty (V_character c) \<longleftrightarrow> ty = get_char_token_type c"

text \<open>The token of \<open>q\<close> covers the source from address \<open>s\<close> to the cursor of \<open>q\<close>, a carriage return
  before the cursor apart.\<close>

definition emitted :: "int \<Rightarrow> tokenizer \<Rightarrow> bool" where
  "emitted s q \<longleftrightarrow>
     (let out = tk_output q; e = to_text_data out + to_text_length out in
      token_ok (to_type out) (to_v out) \<and> to_text_data out = s \<and> s \<le> e
      \<and> tk_token_start q = ut_start (tk_input q)
      \<and> (e = ut_start (tk_input q) \<or> e + 1 = ut_start (tk_input q) \<and> ut_mem (tk_input q) e = 0x0D)
      \<and> (s < ut_start (tk_input q) \<or> ut_end (tk_input q) \<le> s))"

text \<open>Two tokenizers on the same source; a CDATA section starts only in foreign content.\<close>

definition linked :: "tokenizer \<Rightarrow> tokenizer \<Rightarrow> bool" where
  "linked p q \<longleftrightarrow> ut_end (tk_input q) = ut_end (tk_input p) \<and> ut_mem (tk_input q) = ut_mem (tk_input p)
     \<and> tk_is_current_node_foreign q = tk_is_current_node_foreign p
     \<and> (tk_state q = GUMBO_LEX_CDATA \<longrightarrow> tk_state p = GUMBO_LEX_CDATA \<or> tk_is_current_node_foreign p)"

definition step_ok :: "tokenizer \<Rightarrow> state_result \<times> tokenizer \<Rightarrow> bool" where
  "step_ok p rq \<longleftrightarrow> (case rq of (r, q) \<Rightarrow> linked p q \<and>
     (if r = NEXT_CHAR
      then loop_inv (advance q) \<and> lex_measure (advance q) < lex_measure p
        \<and> (tk_token_start q = tk_token_start p \<or> tk_state p = GUMBO_LEX_CDATA \<and> tk_token_start p \<le> tk_token_start q)
      else rest (reconsume False q) \<and> emitted (tk_token_start p) q))"

section \<open>The cursor\<close>

lemma soundD:
  assumes "sound p"
  shows "it_ok (tk_input p)" "clean (ut_mem (tk_input p)) (tk_token_start p) (ut_end (tk_input p))" "ut_ok (tk_input p)" "tk_token_start p \<le> ut_start (tk_input p)"
  using assms by (simp_all add: sound_def)

lemma sound_clean: "sound p \<Longrightarrow> clean (ut_mem (tk_input p)) (ut_start (tk_input p)) (ut_end (tk_input p))"
  by (auto simp: sound_def intro: clean_later [of _ "tk_token_start p"])

lemma cur_byte:
  assumes "sound p" "ut_current (tk_input p) = c" "0x21 \<le> c" "c < 0x7F"
  shows "ut_mem (tk_input p) (ut_start (tk_input p)) = word_of_int c" "before_end p"
    "uint (ut_mem (tk_input p) (ut_start (tk_input p))) = c"
proof -
  note s = soundD [OF assms(1)]
  show b: "before_end p" using it_ok_EOF [OF s(1)] assms(2,3) by auto
  then have "no_overlong (ut_mem (tk_input p)) (ut_start (tk_input p))" using s(2,4) by (simp add: clean_def)
  then have "ut_mem (tk_input p) (ut_start (tk_input p)) < 0x80"
    "c = ascii_value (ut_mem (tk_input p) (ut_start (tk_input p)))"
    using s(1) assms(2-4) b by (auto simp: it_ok_def)
  then show "uint (ut_mem (tk_input p) (ut_start (tk_input p))) = c"
    using assms(3,4) by (auto simp: ascii_value_def kUtf8ReplacementChar_def split: if_splits)
  then show "ut_mem (tk_input p) (ut_start (tk_input p)) = word_of_int c" by (metis word_of_int_uint)
qed

lemma next_start:
  assumes "it_ok it" "clean (ut_mem it) (ut_start it) (ut_end it)" "ut_start it < ut_end it" "ut_mem it (ut_start it) < 0x80"
  shows "ut_start (utf8iterator_next it) = ut_start it + 1 \<or>
    ut_start (utf8iterator_next it) = ut_start it + 2 \<and> ut_mem it (ut_start it + 1) = 0x0D
      \<and> ut_current (utf8iterator_next it) = C_LF"
proof -
  let ?it = "update_position (it\<lparr>ut_start := ut_start it + ut_width it\<rparr>)"
  have w: "ut_width it = 1" using assms by (simp add: it_ok_def)
  have n: "utf8iterator_next it = (if ut_start it + 1 < ut_end it then read_char ?it else ?it\<lparr>ut_current := C_EOF\<rparr>)"
    by (simp add: utf8iterator_next_def Let_def w)
  show ?thesis
  proof (cases "ut_start it + 1 < ut_end it \<and> decoded (ut_mem it) (ut_start it + 1) (ut_end it) = C_CR")
    case True
    then have "ut_mem it (ut_start it + 1) < 0x80"
      using decoded_small [of "ut_mem it" "ut_start it + 1" "ut_end it"] assms(2) by (simp add: clean_def)
    then have "ut_mem it (ut_start it + 1) = 0x0D"
      using True decoded_ascii(2) [of "ut_start it + 1" "ut_end it" "ut_mem it"]
      by (auto simp: kUtf8ReplacementChar_def word_uint_eq_iff split: if_splits)
    then show ?thesis using True by (simp add: n read_char_result w)
  qed (auto simp: n read_char_result w)
qed

lemma sound_next: "sound p \<Longrightarrow> sound (next_input p)"
  using it_ok_next [of "tk_input p"] by (auto simp: sound_def)

lemma at_lt_next [simp]: "at_lt (next_input p) = at_lt p"
  by (simp add: at_lt_def)

lemma past_start_next:
  assumes "sound p" "before_end p \<or> past_start p"
  shows "past_start (next_input p)"
  using it_ok_next(4,5) [of "tk_input p"] assms by (auto simp: sound_def)

lemma tag_open_next [simp]: "tag_open (next_input p) = tag_open p"
  by (simp add: tag_open_def)

lemma attr_ready_next [simp]: "attr_ready (next_input p) = attr_ready p"
  by (simp add: attr_ready_def)

lemma before_end_next: "sound p \<Longrightarrow> before_end (next_input p) \<Longrightarrow> before_end p"
  using it_ok_next(5) [of "tk_input p"] by (auto simp: sound_def)

lemma mirror_next_next:
  assumes "sound p" "mirror_next p"
  shows "mirror (next_input p)"
proof -
  let ?it = "tk_input p" and ?n = "int (length (tk_temporary_buffer p))"
  have m: "ut_start ?it < ut_end ?it" "ut_start ?it + 1 = ut_mark ?it + ?n" "tk_temporary_buffer p \<noteq> []"
    "holds_at (ut_mem ?it) (ut_mark ?it) (tk_temporary_buffer p)" "list_all plain (tk_temporary_buffer p)"
    using assms by (auto simp: mirror_next_def sound_def Let_def)
  then have "ut_start ?it = ut_mark ?it + int (length (tk_temporary_buffer p) - 1)" by (cases "tk_temporary_buffer p") auto
  then have "ut_mem ?it (ut_start ?it) = last (tk_temporary_buffer p)"
    using m(3,4) by (simp add: holds_at_def last_conv_nth)
  then have "plain (ut_mem ?it (ut_start ?it))" using m(3,5) by (simp add: list_all_iff)
  then have "ut_mem ?it (ut_start ?it) < 0x80" by (simp add: plain_def word_less_def)
  from next_start [OF _ sound_clean [OF assms(1)] m(1) this] assms show ?thesis
    by (auto simp: mirror_def mirror_next_def sound_def Let_def)
qed

lemma next_lt: "sound p \<Longrightarrow> ut_current (utf8iterator_next (tk_input p)) = C_LT \<Longrightarrow> before_end p"
  using it_ok_EOF [OF soundD(1) [OF sound_next], of p] before_end_next [of p] by fastforce

lemma phase_next_next:
  assumes "sound p" "phase_next k p"
  shows "phase k (next_input p)"
  using assms past_start_next [OF assms(1)] next_lt [OF assms(1)] mirror_next_next [OF assms(1)]
  by (cases k) auto

section \<open>Steps that continue\<close>

lemma reconsume_simps [simp]:
  "sound (reconsume b p) = sound p" "idle (reconsume b p) = idle p" "at_lt (reconsume b p) = at_lt p"
  "tag_open (reconsume b p) = tag_open p" "attr_ready (reconsume b p) = attr_ready p"
  "mirror (reconsume b p) = mirror p"
  by (simp_all add: sound_def idle_def at_lt_def tag_open_def attr_ready_def mirror_def)

lemma phase_reconsume [simp]: "phase k (reconsume b p) = phase k p"
  by (cases k) simp_all

lemma phase_next_reconsume [simp]: "phase_next k (reconsume b p) = phase_next k p"
  by (cases k) (simp_all add: mirror_next_def)

lemma rank_less: "rank s < 8"
  by (simp add: rank_def split: lexer_state.split)

lemma next_step:
  assumes "loop_inv p" "linked p q" "sound q" "idle q"
    and "tk_token_start q = tk_token_start p \<or> tk_state p = GUMBO_LEX_CDATA \<and> tk_token_start p \<le> tk_token_start q"
    and "if tk_reconsume_current_input q
         then phase (class_of (tk_state q)) q \<and> lex_measure q < lex_measure p
         else ut_start (tk_input p) \<le> ut_start (tk_input q) \<and> phase_next (class_of (tk_state q)) q
           \<and> (before_end p \<or> rank (tk_state q) < rank (tk_state p))"
  shows "step_ok p (NEXT_CHAR, q)"
proof (cases "tk_reconsume_current_input q")
  case True
  then show ?thesis using assms by (simp add: step_ok_def advance_def loop_inv_def lex_measure_def)
next
  case False
  let ?r = "next_input (reconsume False q)"
  have q: "phase_next (class_of (tk_state q)) q" "ut_start (tk_input p) \<le> ut_start (tk_input q)"
    "before_end p \<or> rank (tk_state q) < rank (tk_state p)" "ut_end (tk_input q) = ut_end (tk_input p)"
    using assms(2,6) False by (simp_all add: linked_def)
  have n: "ut_start (tk_input q) \<le> ut_start (utf8iterator_next (tk_input q))"
    "before_end q \<Longrightarrow> ut_start (tk_input q) < ut_start (utf8iterator_next (tk_input q))"
    using it_ok_next(4,5) soundD(1) [OF assms(3)] by blast+
  have "loop_inv ?r"
    using assms(3,4) sound_next [of "reconsume False q"] phase_next_next [of "reconsume False q"] q(1)
    by (simp add: loop_inv_def idle_def)
  moreover have "ut_start (tk_input p) < ut_start (utf8iterator_next (tk_input q))" if "before_end p"
    using n q(2,4) that by (cases "before_end q") auto
  then have "lex_measure ?r < lex_measure p"
    using n q rank_less [of "tk_state q"] by (cases "before_end p") (auto simp: lex_measure_def bytes_left_def)
  ultimately show ?thesis
    using assms False by (simp add: step_ok_def advance_def linked_def)
qed

section \<open>Steps that return a token\<close>

lemma finish_token_frame [simp]:
  "tk_state (finish_token p) = tk_state p" "tk_tag_state (finish_token p) = tk_tag_state p"
  "tk_reconsume_current_input (finish_token p) = tk_reconsume_current_input p"
  "tk_buffered_emit_char (finish_token p) = tk_buffered_emit_char p"
  "tk_is_current_node_foreign (finish_token p) = tk_is_current_node_foreign p"
  "tk_temporary_buffer (finish_token p) = tk_temporary_buffer p"
  "tk_temporary_buffer_emit (finish_token p) = tk_temporary_buffer_emit p"
  "tk_input (finish_token p) = (if tk_reconsume_current_input p then tk_input p else utf8iterator_next (tk_input p))"
  "tk_token_start (finish_token p) = ut_start (tk_input (finish_token p))"
  "to_type (tk_output (finish_token p)) = to_type (tk_output p)" "to_v (tk_output (finish_token p)) = to_v (tk_output p)"
  "to_text_data (tk_output (finish_token p)) = tk_token_start p"
  by (auto simp: finish_token_def Let_def reset_token_start_point_def next_input_def)

lemma finish_token_length:
  "to_text_length (tk_output (finish_token p)) =
     (let e = ut_start (tk_input (finish_token p)) in
      if e - tk_token_start p > 0 \<and> ut_mem (tk_input p) (e - 1) = 0x0D then e - tk_token_start p - 1
      else e - tk_token_start p)"
  by (auto simp: finish_token_def Let_def reset_token_start_point_def next_input_def)

lemma finish_sound: "sound p \<Longrightarrow> sound (finish_token p)"
  using it_ok_next [of "tk_input p"] clean_later [of "ut_mem (tk_input p)" "tk_token_start p" "ut_end (tk_input p)"]
  by (auto simp: sound_def)

lemma finish_emitted:
  assumes "sound p" "token_ok (to_type (tk_output p)) (to_v (tk_output p))"
    and "tk_reconsume_current_input p \<Longrightarrow> past_start p \<or> ut_end (tk_input p) \<le> tk_token_start p"
  shows "emitted (tk_token_start p) (finish_token p)"
proof -
  let ?e = "ut_start (tk_input (finish_token p))"
  have e: "tk_token_start p \<le> ?e" "tk_token_start p < ?e \<or> ut_end (tk_input p) \<le> tk_token_start p"
    using soundD [OF assms(1)] it_ok_next(4,5) [of "tk_input p"] assms(3) by force+
  have "ut_mem (tk_input (finish_token p)) = ut_mem (tk_input p)" "ut_end (tk_input (finish_token p)) = ut_end (tk_input p)"
    by simp_all
  with e assms(2) show ?thesis
    unfolding emitted_def Let_def finish_token_length by (simp del: finish_token_frame(8))
qed

text \<open>What the tokenizer must satisfy before a token is written.\<close>

definition ready :: "tokenizer \<Rightarrow> tokenizer \<Rightarrow> bool" where
  "ready p q \<longleftrightarrow> linked p q \<and> tk_token_start q = tk_token_start p \<and> sound q
     \<and> tk_temporary_buffer_emit q = None \<and> no_tag q \<and> rest_state (tk_state q)
     \<and> (tk_reconsume_current_input q \<longrightarrow> past_start q)"

lemma finish_step:
  assumes "ready p q" "token_ok (to_type (tk_output q)) (to_v (tk_output q))" "r \<noteq> NEXT_CHAR"
  shows "step_ok p (r, finish_token q)"
proof -
  have q: "sound q" "linked p q" "tk_token_start q = tk_token_start p"
    using assms(1) by (simp_all add: ready_def)
  have "emitted (tk_token_start q) (finish_token q)"
    by (rule finish_emitted) (use assms in \<open>auto simp: ready_def\<close>)
  moreover have "rest (reconsume False (finish_token q))"
    using assms(1) finish_sound [OF q(1)] by (simp add: rest_def ready_def pending_def)
  ultimately show ?thesis
    using assms(3) q(2,3) by (auto simp: step_ok_def linked_def)
qed

lemma ready_set_output [simp]: "ready p (set_output ty v q) = ready p q"
  by (auto simp: ready_def sound_def linked_def)

lemma emit_step:
  "ready p q \<Longrightarrow> token_ok ty v \<Longrightarrow> r \<noteq> NEXT_CHAR \<Longrightarrow> step_ok p (r, finish_token (set_output ty v q))"
  by (rule finish_step) simp_all

lemma step_doc_type_init: "r \<noteq> NEXT_CHAR \<Longrightarrow> step_ok p (r, doc_type_state_init q) = step_ok p (r, q)"
  by (simp add: step_ok_def rest_def sound_def pending_def emitted_def linked_def split: option.split)

lemma emit_char_step:
  assumes "ready p q"
  shows "r \<noteq> NEXT_CHAR \<Longrightarrow> step_ok p (r, emit_char c q)" "step_ok p (emit_eof q)" "step_ok p (emit_current_char q)"
  using assms emit_step by (simp_all add: emit_char_def emit_eof_def emit_current_char_def)

lemma emit_replacement_step:
  assumes "ready p q"
  shows "step_ok p (emit_replacement_char q)"
  using emit_char_step(1) [of p "add_parse_error GUMBO_ERR_UTF8_NULL q"] assms
  by (auto simp: emit_replacement_char_def ready_def sound_def linked_def)

lemma emit_doctype_step: "ready p q \<Longrightarrow> r \<noteq> NEXT_CHAR \<Longrightarrow> step_ok p (r, emit_doctype q)"
  unfolding emit_doctype_def by (simp add: step_doc_type_init emit_step)

lemma emit_comment_step:
  assumes "ready p q"
  shows "step_ok p (emit_comment q)" "r \<noteq> NEXT_CHAR \<Longrightarrow> step_ok p (r, snd (emit_comment q))"
proof -
  have "ready p (clear_temporary_buffer q)" using assms by (auto simp: ready_def sound_def linked_def)
  then have "r \<noteq> NEXT_CHAR \<Longrightarrow> step_ok p (r, finish_token (set_output GUMBO_TOKEN_COMMENT (V_text (tk_temporary_buffer q))
      (clear_temporary_buffer q)))" for r by (rule emit_step) simp_all
  then show "step_ok p (emit_comment q)" "r \<noteq> NEXT_CHAR \<Longrightarrow> step_ok p (r, snd (emit_comment q))"
    by (simp_all add: emit_comment_def finish_temporary_buffer_def)
qed

lemma emit_tag_step:
  assumes "linked p q" "tk_token_start q = tk_token_start p" "sound q" "idle q" "\<not> tk_reconsume_current_input q"
    and "past_start q" "tag_open q" "tag_known q" "ut_current (tk_input q) = C_GT" "rest_state (tk_state q)"
  shows "step_ok p (emit_current_tag q)" "r \<noteq> NEXT_CHAR \<Longrightarrow> step_ok p (r, snd (emit_current_tag q))"
proof -
  let ?t = "tk_tag_state q" and ?it = "tk_input q"
  obtain as where as: "tg_attributes ?t = Some as" "attrs_ok as" using assms(7) by (auto simp: tag_open_def)
  define q1 where "q1 = (if tg_is_start_tag ?t
    then mark_tag_state_as_empty
      ((set_output GUMBO_TOKEN_START_TAG (V_start_tag (tg_tag ?t) (tg_attributes ?t) (tg_is_self_closing ?t)) q)
         \<lparr>tk_tag_state := ?t\<lparr>tg_last_start_tag := tg_tag ?t\<rparr>\<rparr>)
    else mark_tag_state_as_empty (set_output GUMBO_TOKEN_END_TAG (V_end_tag (tg_tag ?t)) q))"
  define q2 where "q2 = finish_token q1"
  have e: "emit_current_tag q = (RETURN_SUCCESS, assert_tk (2 \<le> to_text_length (tk_output q2)
      \<and> ut_mem (tk_input q2) (to_text_data (tk_output q2)) = 0x3C
      \<and> ut_mem (tk_input q2) (to_text_data (tk_output q2) + to_text_length (tk_output q2) - 1) = 0x3E) q2)"
    by (simp only: emit_current_tag_def Let_def q2_def q1_def)
  have q1: "tk_input q1 = ?it" "tk_token_start q1 = tk_token_start p" "tk_state q1 = tk_state q"
    "tk_temporary_buffer_emit q1 = tk_temporary_buffer_emit q" "no_tag q1" "\<not> tk_reconsume_current_input q1"
    "token_ok (to_type (tk_output q1)) (to_v (tk_output q1))"
    "tk_is_current_node_foreign q1 = tk_is_current_node_foreign q"
    using assms(2,5,8) as by (simp_all add: q1_def)
  then have "ready p q1" using assms by (simp add: ready_def sound_def linked_def idle_def)
  then have step: "step_ok p (r, q2)" if "r \<noteq> NEXT_CHAR" for r
    unfolding q2_def by (rule finish_step) (use q1(7) that in simp_all)
  have c: "ut_mem ?it (ut_start ?it) = 0x3E" "before_end q" using cur_byte [OF assms(3,9)] by simp_all
  have n: "ut_start (utf8iterator_next ?it) = ut_start ?it + 1 \<or>
    ut_start (utf8iterator_next ?it) = ut_start ?it + 2 \<and> ut_mem ?it (ut_start ?it + 1) = 0x0D"
    using next_start [of ?it] sound_clean [OF assms(3)] assms(3) c by (auto simp: sound_def)
  have "ut_mem ?it (ut_start ?it) \<noteq> 0x0D" using c(1) by simp
  then have len: "to_text_length (tk_output q2) = ut_start ?it + 1 - tk_token_start p"
    using n assms(2,6) q1 unfolding q2_def finish_token_length Let_def by (auto simp: add.commute)
  moreover have "to_text_data (tk_output q2) = tk_token_start p" "ut_mem (tk_input q2) = ut_mem ?it"
    using q1 by (simp_all add: q2_def)
  ultimately have "emit_current_tag q = (RETURN_SUCCESS, assert_tk True q2)"
    using assms(2,6,7) c by (simp add: e tag_open_def at_lt_def)
  moreover have "assert_tk True q2 = q2" by (simp add: assert_tk_def assert_it_def)
  ultimately show "r \<noteq> NEXT_CHAR \<Longrightarrow> step_ok p (r, snd (emit_current_tag q))" "step_ok p (emit_current_tag q)"
    using step by simp_all
qed

lemma plain_ascii: "plain b \<Longrightarrow> b < 0x80 \<and> b \<noteq> 0x0D \<and> ascii_value b = uint b"
  by (auto simp: plain_def word_less_def ascii_value_def utf8_is_invalid_code_point_def and_FFFF)

lemma emitted_cong: "tk_output q' = tk_output q \<Longrightarrow> tk_token_start q' = tk_token_start q \<Longrightarrow> tk_input q' = tk_input q \<Longrightarrow> emitted s q' = emitted s q"
  by (simp add: emitted_def)

lemma step_buffered:
  "r \<noteq> NEXT_CHAR \<Longrightarrow> tk_temporary_buffer_emit q = None \<Longrightarrow>
    step_ok p (r, q\<lparr>tk_buffered_emit_char := b\<rparr>) = step_ok p (r, q)"
  by (simp add: step_ok_def rest_def sound_def pending_def emitted_def linked_def)

text \<open>A character of the temporary buffer is emitted.\<close>

lemma maybe_emit_rest:
  assumes "sound p" "tk_temporary_buffer_emit p = Some i" "i < length (tk_temporary_buffer p)" "pending p" "no_tag p"
    "rest_state (tk_state p)"
  shows "\<exists>q. maybe_emit_from_temporary_buffer p = (True, q) \<and> rest (reconsume False q)
    \<and> emitted (tk_token_start p) q \<and> linked p q
    \<and> tk_reconsume_current_input q = tk_reconsume_current_input p"
proof -
  let ?b = "tk_temporary_buffer p" and ?it = "tk_input p"
  let ?c = "uint (?b ! i)"
  have pd: "ut_start ?it + int (length ?b - i) \<le> ut_end ?it" "holds_at (ut_mem ?it) (ut_start ?it) (drop i ?b)"
    "list_all plain ?b" "tk_buffered_emit_char p = kGumboNoChar"
    using assms(2-4) by (simp_all add: pending_def)
  have be: "before_end p" using pd(1) assms(3) by linarith
  have m: "ut_mem ?it (ut_start ?it + int j) = ?b ! (i + j)" if "i + j < length ?b" for j
    using pd(2) that by (auto simp: holds_at_def)
  have pl: "plain (?b ! k)" if "k < length ?b" for k using pd(3) that by (simp add: list_all_length)
  have m0: "ut_mem ?it (ut_start ?it) = ?b ! i" using m [of 0] assms(3) by simp
  have cur: "?c = ut_current ?it"
    using soundD(1) [OF assms(1)] be m0 plain_ascii [OF pl [OF assms(3)]] by (simp add: it_ok_def)
  define p1 where "p1 = set_output (get_char_token_type ?c) (V_character ?c)
     (reconsume False (assert_tk (?c = ut_current ?it) p))"
  define q where "q = reconsume (tk_reconsume_current_input p) ((finish_token p1)\<lparr>tk_temporary_buffer_emit := Some (i + 1)\<rparr>)"
  have q: "maybe_emit_from_temporary_buffer p = (True, q)"
    using assms(2,3) by (simp add: maybe_emit_from_temporary_buffer_def Let_def q_def p1_def emit_char_def)
  have p1: "sound p1" "tk_token_start p1 = tk_token_start p" using assms(1) cur by (simp_all add: p1_def sound_def)
  then have "emitted (tk_token_start p) (finish_token p1)"
    using finish_emitted [of p1] by (simp add: p1_def)
  then have e: "emitted (tk_token_start p) q"
    by (subst emitted_cong [of _ "finish_token p1"]) (simp_all add: q_def)
  have f: "tk_input (finish_token p1) = utf8iterator_next (tk_input p1)" by (simp add: p1_def)
  have t: "tk_input p1 = assert_it True ?it" using cur by (simp add: p1_def assert_tk_def)
  have s: "sound (finish_token p1)" using finish_sound [OF p1(1)] .
  have "pending (reconsume False q)"
  proof (cases "i + 1 < length ?b")
    case True
    have "ut_start (utf8iterator_next (tk_input p1)) = ut_start ?it + 1"
      using next_ascii(1) [of "tk_input p1"] soundD(1) [OF p1(1)] True pd(1) m0 m [of 1]
        plain_ascii [OF pl [OF assms(3)]] plain_ascii [OF pl [OF True]] by (simp add: t)
    moreover have "holds_at (ut_mem ?it) (ut_start ?it + 1) (drop (i + 1) ?b)"
      using pd(2) True by (simp add: Cons_nth_drop_Suc [symmetric] holds_at_Cons)
    ultimately show ?thesis
      using True pd(1,3,4) f t by (simp add: pending_def q_def) (simp add: p1_def)
  qed (use pd(4) in \<open>simp add: pending_def q_def p1_def\<close>)
  then have "rest (reconsume False q)"
    using s assms(5,6) by (simp add: rest_def q_def sound_def) (simp add: p1_def)
  moreover have "tk_state p1 = tk_state p" "tk_is_current_node_foreign p1 = tk_is_current_node_foreign p"
    by (simp_all add: p1_def)
  ultimately show ?thesis using q e f t by (simp add: linked_def q_def)
qed

lemma reset_plain:
  assumes "ut_mark it < ut_end it" "plain (ut_mem it (ut_mark it))"
  shows "ut_start (utf8iterator_reset it) = ut_mark it"
proof -
  note a = plain_ascii [OF assms(2)]
  have "decoded (ut_mem it) (ut_mark it) (ut_end it) \<noteq> C_CR"
    using decoded_ascii(2) [of "ut_mark it" "ut_end it" "ut_mem it"] assms a
    by (auto simp: kUtf8ReplacementChar_def word_uint_eq_iff)
  then show ?thesis by (simp add: utf8iterator_reset_def read_char_result)
qed

text \<open>The temporary buffer, still equal to the source from the mark on, is flushed.\<close>

definition flushable :: "tokenizer \<Rightarrow> bool" where
  "flushable p \<longleftrightarrow>
     (let it = tk_input p; b = tk_temporary_buffer p in
      tk_token_start p \<le> ut_mark it \<and> ut_mark it + int (length b) \<le> ut_end it
      \<and> holds_at (ut_mem it) (ut_mark it) b \<and> list_all plain b)"

lemma mirror_flushable: "mirror p \<Longrightarrow> flushable p" "mirror_next p \<Longrightarrow> flushable p"
  by (auto simp: mirror_def mirror_next_def flushable_def Let_def)

lemma flush_step:
  assumes "linked p q" "tk_token_start q = tk_token_start p" "sound q" "idle q" "no_tag q" "rest_state (tk_state q)"
    and "flushable q" "tk_temporary_buffer q \<noteq> []"
  shows "step_ok p (flush_temporary_buffer q)" "r \<noteq> NEXT_CHAR \<Longrightarrow> step_ok p (r, snd (emit_temporary_buffer q))"
proof -
  let ?it = "tk_input q" and ?b = "tk_temporary_buffer q"
  have m: "tk_token_start q \<le> ut_mark ?it" "ut_mark ?it + int (length ?b) \<le> ut_end ?it"
    "holds_at (ut_mem ?it) (ut_mark ?it) ?b" "list_all plain ?b"
    using assms(7) by (simp_all add: flushable_def Let_def)
  have "?b ! 0 = ut_mem ?it (ut_mark ?it)" "plain (?b ! 0)"
    using m(3,4) assms(8) by (auto simp: holds_at_def list_all_length)
  then have pl: "plain (ut_mem ?it (ut_mark ?it))" by simp
  have lt: "ut_mark ?it < ut_end ?it" using m(2) assms(8) by (cases ?b) auto
  define q1 where "q1 = q\<lparr>tk_input := utf8iterator_reset ?it, tk_temporary_buffer_emit := Some 0\<rparr>"
  note r = forward_reset [OF lt] reset_plain [OF lt pl]
  have "sound q1" using assms(3) r m(1) by (simp add: q1_def sound_def)
  moreover have "pending q1" using m r assms(4) by (simp add: pending_def q1_def idle_def)
  ultimately obtain q2 where q2: "maybe_emit_from_temporary_buffer q1 = (True, q2)" "rest (reconsume False q2)"
    "emitted (tk_token_start q1) q2" "linked q1 q2"
    using maybe_emit_rest [of q1 0] assms(5,6,8) by (auto simp: q1_def)
  moreover have e: "emit_temporary_buffer q = maybe_emit_from_temporary_buffer q1"
    by (simp add: emit_temporary_buffer_def q1_def)
  ultimately show "r \<noteq> NEXT_CHAR \<Longrightarrow> step_ok p (r, snd (emit_temporary_buffer q))" "step_ok p (flush_temporary_buffer q)"
    using assms(1,2) r by (auto simp: flush_temporary_buffer_def step_ok_def linked_def q1_def)
qed

lemma char_ref_step:
  assumes "ready p q" "\<not> tk_reconsume_current_input q" "before_end q"
  shows "step_ok p (emit_char_ref add attr q)"
proof -
  obtain st a b it where c: "consume_char_ref add False (tk_input q) = (st, (a, b), it)" by (metis prod_cases3 prod.exhaust)
  have q: "sound q" "linked p q" using assms(1) by (simp_all add: ready_def)
  have o: "it_ok it" "ut_ok it = ut_ok (tk_input q)" "ut_end it = ut_end (tk_input q)" "ut_mem it = ut_mem (tk_input q)"
    "ut_start (tk_input q) \<le> ut_start it" "a \<noteq> kGumboNoChar \<Longrightarrow> ut_start (tk_input q) < ut_start it"
    using consume_char_ref_ok [OF soundD(1) [OF q(1)] assms(3) c] by blast+
  let ?r = "if st then RETURN_SUCCESS else RETURN_ERROR" and ?q = "q\<lparr>tk_input := it\<rparr>"
  have s: "sound ?q" using q(1) o by (simp add: sound_def)
  show ?thesis
  proof (cases "a = kGumboNoChar")
    case True
    have "ready p ?q" using assms s o(3,4) by (simp add: ready_def linked_def)
    then have "step_ok p (?r, emit_char C_AMP ?q)" by (rule emit_char_step) simp
    then show ?thesis using True by (simp add: emit_char_ref_def c)
  next
    case False
    have "ready p (reconsume True ?q)" using assms s o(3,4) o(6) [OF False] soundD(4) [OF q(1)]
      by (simp add: ready_def linked_def)
    then have "step_ok p (?r, emit_char a (reconsume True ?q))" by (rule emit_char_step) simp
    moreover have "tk_temporary_buffer_emit (emit_char a (reconsume True ?q)) = None"
      using assms(1) by (simp add: emit_char_def ready_def)
    ultimately have "step_ok p (?r, (emit_char a (reconsume True ?q))\<lparr>tk_buffered_emit_char := b\<rparr>)"
      by (simp add: step_buffered)
    then show ?thesis using False by (simp add: emit_char_ref_def c)
  qed
qed

section \<open>Attributes\<close>

lemma duplicate_attr_frame [simp]:
  "tk_state (add_duplicate_attr_error i j p) = tk_state p"
  "tk_reconsume_current_input (add_duplicate_attr_error i j p) = tk_reconsume_current_input p"
  "tk_buffered_emit_char (add_duplicate_attr_error i j p) = tk_buffered_emit_char p"
  "tk_temporary_buffer (add_duplicate_attr_error i j p) = tk_temporary_buffer p"
  "tk_temporary_buffer_emit (add_duplicate_attr_error i j p) = tk_temporary_buffer_emit p"
  "tk_script_data_buffer (add_duplicate_attr_error i j p) = tk_script_data_buffer p"
  "tk_token_start (add_duplicate_attr_error i j p) = tk_token_start p"
  "tk_output (add_duplicate_attr_error i j p) = tk_output p"
  "tk_is_current_node_foreign (add_duplicate_attr_error i j p) = tk_is_current_node_foreign p"
  "tg_buffer (tk_tag_state (add_duplicate_attr_error i j p)) = (if errors_full (tk_input p) then tg_buffer (tk_tag_state p) else [])"
  "tg_tag (tk_tag_state (add_duplicate_attr_error i j p)) = tg_tag (tk_tag_state p)"
  "tg_attributes (tk_tag_state (add_duplicate_attr_error i j p)) = tg_attributes (tk_tag_state p)"
  "tg_drop_next_attr_value (tk_tag_state (add_duplicate_attr_error i j p)) = tg_drop_next_attr_value (tk_tag_state p)"
  "tg_attr_value_state (tk_tag_state (add_duplicate_attr_error i j p)) = tg_attr_value_state (tk_tag_state p)"
  "tg_is_start_tag (tk_tag_state (add_duplicate_attr_error i j p)) = tg_is_start_tag (tk_tag_state p)"
  "ut_start (tk_input (add_duplicate_attr_error i j p)) = ut_start (tk_input p)"
  "ut_end (tk_input (add_duplicate_attr_error i j p)) = ut_end (tk_input p)"
  "ut_mem (tk_input (add_duplicate_attr_error i j p)) = ut_mem (tk_input p)"
  "ut_current (tk_input (add_duplicate_attr_error i j p)) = ut_current (tk_input p)"
  "ut_width (tk_input (add_duplicate_attr_error i j p)) = ut_width (tk_input p)"
  "ut_mark (tk_input (add_duplicate_attr_error i j p)) = ut_mark (tk_input p)"
  "ut_ok (tk_input (add_duplicate_attr_error i j p)) = ut_ok (tk_input p)"
  "it_ok (tk_input (add_duplicate_attr_error i j p)) = it_ok (tk_input p)"
  by (simp_all add: add_duplicate_attr_error_def Let_def it_ok_def)

lemma finish_attribute_name_frame [simp]:
  "tk_state (snd (finish_attribute_name p)) = tk_state p"
  "tk_reconsume_current_input (snd (finish_attribute_name p)) = tk_reconsume_current_input p"
  "tk_buffered_emit_char (snd (finish_attribute_name p)) = tk_buffered_emit_char p"
  "tk_temporary_buffer (snd (finish_attribute_name p)) = tk_temporary_buffer p"
  "tk_temporary_buffer_emit (snd (finish_attribute_name p)) = tk_temporary_buffer_emit p"
  "tk_script_data_buffer (snd (finish_attribute_name p)) = tk_script_data_buffer p"
  "tk_token_start (snd (finish_attribute_name p)) = tk_token_start p"
  "tk_output (snd (finish_attribute_name p)) = tk_output p"
  "tk_is_current_node_foreign (snd (finish_attribute_name p)) = tk_is_current_node_foreign p"
  "tg_tag (tk_tag_state (snd (finish_attribute_name p))) = tg_tag (tk_tag_state p)"
  "tg_attr_value_state (tk_tag_state (snd (finish_attribute_name p))) = tg_attr_value_state (tk_tag_state p)"
  "tg_is_start_tag (tk_tag_state (snd (finish_attribute_name p))) = tg_is_start_tag (tk_tag_state p)"
  "ut_start (tk_input (snd (finish_attribute_name p))) = ut_start (tk_input p)"
  "ut_end (tk_input (snd (finish_attribute_name p))) = ut_end (tk_input p)"
  "ut_mem (tk_input (snd (finish_attribute_name p))) = ut_mem (tk_input p)"
  "ut_current (tk_input (snd (finish_attribute_name p))) = ut_current (tk_input p)"
  "ut_width (tk_input (snd (finish_attribute_name p))) = ut_width (tk_input p)"
  "ut_mark (tk_input (snd (finish_attribute_name p))) = ut_mark (tk_input p)"
  "ut_ok (tk_input (snd (finish_attribute_name p))) = (ut_ok (tk_input p) \<and> tg_attributes (tk_tag_state p) \<noteq> None)"
  "it_ok (tk_input (snd (finish_attribute_name p))) = it_ok (tk_input p)"
  by (auto simp: finish_attribute_name_def Let_def case_prod_unfold split: option.split)

lemma finish_attribute_value_frame [simp]:
  "tk_state (finish_attribute_value p) = tk_state p"
  "tk_reconsume_current_input (finish_attribute_value p) = tk_reconsume_current_input p"
  "tk_buffered_emit_char (finish_attribute_value p) = tk_buffered_emit_char p"
  "tk_temporary_buffer (finish_attribute_value p) = tk_temporary_buffer p"
  "tk_temporary_buffer_emit (finish_attribute_value p) = tk_temporary_buffer_emit p"
  "tk_script_data_buffer (finish_attribute_value p) = tk_script_data_buffer p"
  "tk_token_start (finish_attribute_value p) = tk_token_start p"
  "tk_output (finish_attribute_value p) = tk_output p"
  "tk_is_current_node_foreign (finish_attribute_value p) = tk_is_current_node_foreign p"
  "tg_buffer (tk_tag_state (finish_attribute_value p)) = []"
  "tg_tag (tk_tag_state (finish_attribute_value p)) = tg_tag (tk_tag_state p)"
  "tg_attr_value_state (tk_tag_state (finish_attribute_value p)) = tg_attr_value_state (tk_tag_state p)"
  "tg_is_start_tag (tk_tag_state (finish_attribute_value p)) = tg_is_start_tag (tk_tag_state p)"
  "ut_start (tk_input (finish_attribute_value p)) = ut_start (tk_input p)"
  "ut_end (tk_input (finish_attribute_value p)) = ut_end (tk_input p)"
  "ut_mem (tk_input (finish_attribute_value p)) = ut_mem (tk_input p)"
  "ut_current (tk_input (finish_attribute_value p)) = ut_current (tk_input p)"
  "ut_width (tk_input (finish_attribute_value p)) = ut_width (tk_input p)"
  "ut_mark (tk_input (finish_attribute_value p)) = ut_mark (tk_input p)"
  "it_ok (tk_input (finish_attribute_value p)) = it_ok (tk_input p)"
  by (auto simp: finish_attribute_value_def Let_def case_prod_unfold neq_Nil_conv split: option.split)

lemma find_attribute_None: "find_attribute i as b = None \<Longrightarrow> a \<in> set as \<Longrightarrow> \<not> same_name (at_name a) b"
  by (induction as arbitrary: i) (auto split: if_splits)

lemma c_string_clean: "0 \<notin> set b \<Longrightarrow> c_string b = b"
  by (auto simp: c_string_def takeWhile_eq_all_conv)

lemma finish_attribute_name_open:
  assumes "tag_open p" "name_clean p"
  shows "tag_open (snd (finish_attribute_name p))" "name_clean (snd (finish_attribute_name p))"
    "attr_ready (snd (finish_attribute_name p))"
proof -
  let ?t = "tk_tag_state p" and ?q = "snd (finish_attribute_name p)"
  obtain as where as: "tg_attributes ?t = Some as" "attrs_ok as" "at_lt p" using assms(1) by (auto simp: tag_open_def)
  have l: "at_lt ?q" using as(3) by (simp add: at_lt_def)
  have "tag_open ?q \<and> name_clean ?q \<and> attr_ready ?q"
  proof (cases "find_attribute 0 as (tg_buffer ?t)")
    case (Some i)
    then have "tg_attributes (tk_tag_state ?q) = Some as" "name_clean ?q" "tg_drop_next_attr_value (tk_tag_state ?q)"
      using as(1) assms(2) by (simp_all add: finish_attribute_name_def Let_def)
    then show ?thesis using as(2) l by (simp_all add: tag_open_def attr_ready_def)
  next
    case None
    obtain a where a: "tg_attributes (tk_tag_state ?q) = Some (as @ [a])" "at_name a = tg_buffer ?t" "tg_buffer (tk_tag_state ?q) = []"
      using None as(1) by (auto simp: finish_attribute_name_def Let_def case_prod_unfold)
    have "at_name x \<noteq> tg_buffer ?t" if "x \<in> set as" for x
      using find_attribute_None [OF None that] as(2) assms(2) that by (auto simp: same_name_def c_string_clean)
    then have "tg_buffer ?t \<notin> at_name ` set as" by (metis imageE)
    then have "attrs_ok (as @ [a])" using as(2) a(2) assms(2) by (auto simp: attrs_ok_def)
    then show ?thesis using a l by (simp add: tag_open_def attr_ready_def)
  qed
  then show "tag_open ?q" "name_clean ?q" "attr_ready ?q" by simp_all
qed

lemma attrs_ok_names: "map at_name as = map at_name bs \<Longrightarrow> attrs_ok as = attrs_ok bs"
proof -
  have "attrs_ok cs \<longleftrightarrow> distinct (map at_name cs) \<and> (\<forall>n \<in> set (map at_name cs). 0 \<notin> set n)" for cs
    by (simp add: attrs_ok_def)
  then show "map at_name as = map at_name bs \<Longrightarrow> attrs_ok as = attrs_ok bs" by (simp only:)
qed

lemma finish_attribute_value_open:
  assumes "tag_open p" "attr_ready p"
  shows "tag_open (finish_attribute_value p)"
proof -
  let ?t = "tk_tag_state p" and ?q = "finish_attribute_value p"
  obtain as where as: "tg_attributes ?t = Some as" "attrs_ok as" "at_lt p" using assms(1) by (auto simp: tag_open_def)
  have l: "at_lt ?q" using as(3) by (simp add: at_lt_def)
  show ?thesis
  proof (cases "tg_drop_next_attr_value ?t")
    case True
    then show ?thesis using as l by (simp add: tag_open_def finish_attribute_value_def Let_def)
  next
    case False
    then have ne: "as \<noteq> []" using as(1) assms(2) by (auto simp: attr_ready_def)
    obtain a where a: "tg_attributes (tk_tag_state ?q) = Some (butlast as @ [a])" "at_name a = at_name (last as)"
      using False as(1) by (simp add: finish_attribute_value_def Let_def case_prod_unfold)
    have "map at_name (butlast as @ [a]) = map at_name (butlast as @ [last as])" using a(2) by simp
    then have "attrs_ok (butlast as @ [a])" using as(2) ne attrs_ok_names by (metis append_butlast_last_id)
    then show ?thesis using a l by (simp add: tag_open_def)
  qed
qed

lemma finish_attribute_value_ok [simp]:
  assumes "tag_open p" "attr_ready p"
  shows "ut_ok (tk_input (finish_attribute_value p)) = ut_ok (tk_input p)"
  using assms by (auto simp: finish_attribute_value_def tag_open_def attr_ready_def Let_def case_prod_unfold)

end
