(* ===== verification/GumboLexSteps.thy ===== *)
theory GumboLexSteps
  imports GumboLexInv
begin

text \<open>
  Every handler keeps the invariant: one lemma per handler.  The lemmas on the shapes of branches that
  several handlers share come first.
\<close>

section \<open>Tables\<close>

lemma class_of_simps [simp]:
  "class_of GUMBO_LEX_DATA = Text" "class_of GUMBO_LEX_CHAR_REF_IN_DATA = Char_ref" "class_of GUMBO_LEX_RCDATA = Text"
  "class_of GUMBO_LEX_CHAR_REF_IN_RCDATA = Char_ref" "class_of GUMBO_LEX_RAWTEXT = Text"
  "class_of GUMBO_LEX_SCRIPT = Text" "class_of GUMBO_LEX_PLAINTEXT = Text" "class_of GUMBO_LEX_TAG_OPEN = Less_than"
  "class_of GUMBO_LEX_END_TAG_OPEN = Slash" "class_of GUMBO_LEX_TAG_NAME = Tag_name"
  "class_of GUMBO_LEX_RCDATA_LT = Less_than" "class_of GUMBO_LEX_RCDATA_END_TAG_OPEN = Slash"
  "class_of GUMBO_LEX_RCDATA_END_TAG_NAME = End_name" "class_of GUMBO_LEX_RAWTEXT_LT = Less_than"
  "class_of GUMBO_LEX_RAWTEXT_END_TAG_OPEN = Slash" "class_of GUMBO_LEX_RAWTEXT_END_TAG_NAME = End_name"
  "class_of GUMBO_LEX_SCRIPT_LT = Less_than" "class_of GUMBO_LEX_SCRIPT_END_TAG_OPEN = Slash"
  "class_of GUMBO_LEX_SCRIPT_END_TAG_NAME = End_name" "class_of GUMBO_LEX_SCRIPT_ESCAPED_START = Text"
  "class_of GUMBO_LEX_SCRIPT_ESCAPED_START_DASH = Text" "class_of GUMBO_LEX_SCRIPT_ESCAPED = Text"
  "class_of GUMBO_LEX_SCRIPT_ESCAPED_DASH = Text" "class_of GUMBO_LEX_SCRIPT_ESCAPED_DASH_DASH = Text"
  "class_of GUMBO_LEX_SCRIPT_ESCAPED_LT = Less_than_script" "class_of GUMBO_LEX_SCRIPT_ESCAPED_END_TAG_OPEN = Slash"
  "class_of GUMBO_LEX_SCRIPT_ESCAPED_END_TAG_NAME = End_name" "class_of GUMBO_LEX_SCRIPT_DOUBLE_ESCAPED_START = Text"
  "class_of GUMBO_LEX_SCRIPT_DOUBLE_ESCAPED = Text" "class_of GUMBO_LEX_SCRIPT_DOUBLE_ESCAPED_DASH = Text"
  "class_of GUMBO_LEX_SCRIPT_DOUBLE_ESCAPED_DASH_DASH = Text" "class_of GUMBO_LEX_SCRIPT_DOUBLE_ESCAPED_LT = Text"
  "class_of GUMBO_LEX_SCRIPT_DOUBLE_ESCAPED_END = Text" "class_of GUMBO_LEX_BEFORE_ATTR_NAME = Attr_name"
  "class_of GUMBO_LEX_ATTR_NAME = Attr_name" "class_of GUMBO_LEX_AFTER_ATTR_NAME = After_name"
  "class_of GUMBO_LEX_BEFORE_ATTR_VALUE = Value" "class_of GUMBO_LEX_ATTR_VALUE_DOUBLE_QUOTED = Value"
  "class_of GUMBO_LEX_ATTR_VALUE_SINGLE_QUOTED = Value" "class_of GUMBO_LEX_ATTR_VALUE_UNQUOTED = Value"
  "class_of GUMBO_LEX_CHAR_REF_IN_ATTR_VALUE = Value_ref" "class_of GUMBO_LEX_AFTER_ATTR_VALUE_QUOTED = Value"
  "class_of GUMBO_LEX_SELF_CLOSING_START_TAG = Attr_name" "class_of GUMBO_LEX_BOGUS_COMMENT = Other"
  "class_of GUMBO_LEX_MARKUP_DECLARATION = Empty_buffer" "class_of GUMBO_LEX_COMMENT_START = Other"
  "class_of GUMBO_LEX_COMMENT_START_DASH = Other" "class_of GUMBO_LEX_COMMENT = Other"
  "class_of GUMBO_LEX_COMMENT_END_DASH = Other" "class_of GUMBO_LEX_COMMENT_END = Other"
  "class_of GUMBO_LEX_COMMENT_END_BANG = Other" "class_of GUMBO_LEX_DOCTYPE = Empty_buffer"
  "class_of GUMBO_LEX_BEFORE_DOCTYPE_NAME = Other" "class_of GUMBO_LEX_DOCTYPE_NAME = Other"
  "class_of GUMBO_LEX_AFTER_DOCTYPE_NAME = Empty_buffer"
  "class_of GUMBO_LEX_AFTER_DOCTYPE_PUBLIC_KEYWORD = Empty_buffer"
  "class_of GUMBO_LEX_BEFORE_DOCTYPE_PUBLIC_ID = Empty_buffer"
  "class_of GUMBO_LEX_DOCTYPE_PUBLIC_ID_DOUBLE_QUOTED = Other"
  "class_of GUMBO_LEX_DOCTYPE_PUBLIC_ID_SINGLE_QUOTED = Other"
  "class_of GUMBO_LEX_AFTER_DOCTYPE_PUBLIC_ID = Empty_buffer"
  "class_of GUMBO_LEX_BETWEEN_DOCTYPE_PUBLIC_SYSTEM_ID = Empty_buffer"
  "class_of GUMBO_LEX_AFTER_DOCTYPE_SYSTEM_KEYWORD = Empty_buffer"
  "class_of GUMBO_LEX_BEFORE_DOCTYPE_SYSTEM_ID = Empty_buffer"
  "class_of GUMBO_LEX_DOCTYPE_SYSTEM_ID_DOUBLE_QUOTED = Other"
  "class_of GUMBO_LEX_DOCTYPE_SYSTEM_ID_SINGLE_QUOTED = Other" "class_of GUMBO_LEX_AFTER_DOCTYPE_SYSTEM_ID = Other"
  "class_of GUMBO_LEX_BOGUS_DOCTYPE = Other" "class_of GUMBO_LEX_CDATA = Other"
  by (simp_all add: class_of_def)

lemma rank_simps [simp]:
  "rank GUMBO_LEX_DATA = 1" "rank GUMBO_LEX_CHAR_REF_IN_DATA = 0" "rank GUMBO_LEX_RCDATA = 1"
  "rank GUMBO_LEX_CHAR_REF_IN_RCDATA = 0" "rank GUMBO_LEX_RAWTEXT = 1" "rank GUMBO_LEX_SCRIPT = 1"
  "rank GUMBO_LEX_PLAINTEXT = 1" "rank GUMBO_LEX_TAG_OPEN = 2" "rank GUMBO_LEX_END_TAG_OPEN = 2"
  "rank GUMBO_LEX_TAG_NAME = 2" "rank GUMBO_LEX_RCDATA_LT = 2" "rank GUMBO_LEX_RCDATA_END_TAG_OPEN = 2"
  "rank GUMBO_LEX_RCDATA_END_TAG_NAME = 2" "rank GUMBO_LEX_RAWTEXT_LT = 2" "rank GUMBO_LEX_RAWTEXT_END_TAG_OPEN = 2"
  "rank GUMBO_LEX_RAWTEXT_END_TAG_NAME = 2" "rank GUMBO_LEX_SCRIPT_LT = 2" "rank GUMBO_LEX_SCRIPT_END_TAG_OPEN = 2"
  "rank GUMBO_LEX_SCRIPT_END_TAG_NAME = 2" "rank GUMBO_LEX_SCRIPT_ESCAPED_START = 2"
  "rank GUMBO_LEX_SCRIPT_ESCAPED_START_DASH = 2" "rank GUMBO_LEX_SCRIPT_ESCAPED = 2"
  "rank GUMBO_LEX_SCRIPT_ESCAPED_DASH = 2" "rank GUMBO_LEX_SCRIPT_ESCAPED_DASH_DASH = 2"
  "rank GUMBO_LEX_SCRIPT_ESCAPED_LT = 2" "rank GUMBO_LEX_SCRIPT_ESCAPED_END_TAG_OPEN = 2"
  "rank GUMBO_LEX_SCRIPT_ESCAPED_END_TAG_NAME = 2" "rank GUMBO_LEX_SCRIPT_DOUBLE_ESCAPED_START = 3"
  "rank GUMBO_LEX_SCRIPT_DOUBLE_ESCAPED = 2" "rank GUMBO_LEX_SCRIPT_DOUBLE_ESCAPED_DASH = 2"
  "rank GUMBO_LEX_SCRIPT_DOUBLE_ESCAPED_DASH_DASH = 2" "rank GUMBO_LEX_SCRIPT_DOUBLE_ESCAPED_LT = 3"
  "rank GUMBO_LEX_SCRIPT_DOUBLE_ESCAPED_END = 3" "rank GUMBO_LEX_BEFORE_ATTR_NAME = 2" "rank GUMBO_LEX_ATTR_NAME = 2"
  "rank GUMBO_LEX_AFTER_ATTR_NAME = 2" "rank GUMBO_LEX_BEFORE_ATTR_VALUE = 4"
  "rank GUMBO_LEX_ATTR_VALUE_DOUBLE_QUOTED = 3" "rank GUMBO_LEX_ATTR_VALUE_SINGLE_QUOTED = 3"
  "rank GUMBO_LEX_ATTR_VALUE_UNQUOTED = 3" "rank GUMBO_LEX_CHAR_REF_IN_ATTR_VALUE = 2"
  "rank GUMBO_LEX_AFTER_ATTR_VALUE_QUOTED = 3" "rank GUMBO_LEX_SELF_CLOSING_START_TAG = 3"
  "rank GUMBO_LEX_BOGUS_COMMENT = 2" "rank GUMBO_LEX_MARKUP_DECLARATION = 4" "rank GUMBO_LEX_COMMENT_START = 2"
  "rank GUMBO_LEX_COMMENT_START_DASH = 2" "rank GUMBO_LEX_COMMENT = 2" "rank GUMBO_LEX_COMMENT_END_DASH = 2"
  "rank GUMBO_LEX_COMMENT_END = 2" "rank GUMBO_LEX_COMMENT_END_BANG = 2" "rank GUMBO_LEX_DOCTYPE = 3"
  "rank GUMBO_LEX_BEFORE_DOCTYPE_NAME = 2" "rank GUMBO_LEX_DOCTYPE_NAME = 2" "rank GUMBO_LEX_AFTER_DOCTYPE_NAME = 2"
  "rank GUMBO_LEX_AFTER_DOCTYPE_PUBLIC_KEYWORD = 2" "rank GUMBO_LEX_BEFORE_DOCTYPE_PUBLIC_ID = 2"
  "rank GUMBO_LEX_DOCTYPE_PUBLIC_ID_DOUBLE_QUOTED = 2" "rank GUMBO_LEX_DOCTYPE_PUBLIC_ID_SINGLE_QUOTED = 2"
  "rank GUMBO_LEX_AFTER_DOCTYPE_PUBLIC_ID = 2" "rank GUMBO_LEX_BETWEEN_DOCTYPE_PUBLIC_SYSTEM_ID = 2"
  "rank GUMBO_LEX_AFTER_DOCTYPE_SYSTEM_KEYWORD = 2" "rank GUMBO_LEX_BEFORE_DOCTYPE_SYSTEM_ID = 2"
  "rank GUMBO_LEX_DOCTYPE_SYSTEM_ID_DOUBLE_QUOTED = 2" "rank GUMBO_LEX_DOCTYPE_SYSTEM_ID_SINGLE_QUOTED = 2"
  "rank GUMBO_LEX_AFTER_DOCTYPE_SYSTEM_ID = 2" "rank GUMBO_LEX_BOGUS_DOCTYPE = 2" "rank GUMBO_LEX_CDATA = 2"
  by (simp_all add: rank_def)

section \<open>Shared branches\<close>

lemmas inv_simps = loop_inv_def sound_def idle_def linked_def ready_def lex_measure_def at_lt_def

lemma rest_state_simps [simp]: "class_of s = Text \<Longrightarrow> rest_state s" "rest_state GUMBO_LEX_CDATA" "rest_state GUMBO_LEX_BOGUS_DOCTYPE"
  by (simp_all add: rest_state_def)

lemma utf8_ascii [simp]: "c \<le> 0x7F \<Longrightarrow> utf8_bytes c = [word_of_int c]"
  by (simp add: utf8_bytes_def utf8_shape_def)

lemma assert_tk_True [simp]: "assert_tk True p = p"
  by (simp add: assert_tk_def assert_it_def)

lemma open_step:
  assumes "loop_inv p" "class_of (tk_state p) = Text" "ut_current (tk_input p) = C_LT"
    "class_of s = Less_than \<or> class_of s = Less_than_script"
  shows "step_ok p (NEXT_CHAR, append_char_to_temporary_buffer C_LT (clear_temporary_buffer (gumbo_tokenizer_set_state s p)))"
proof (rule next_step [OF assms(1)])
  let ?q = "append_char_to_temporary_buffer C_LT (clear_temporary_buffer (gumbo_tokenizer_set_state s p))"
  have "sound p" using assms(1) by (simp add: loop_inv_def)
  note c = cur_byte [OF this assms(3)]
  have "mirror_next ?q"
    using c assms by (auto simp: mirror_next_def inv_simps holds_at_Cons holds_at_Nil plain_def)
  then show "if tk_reconsume_current_input ?q then phase (class_of (tk_state ?q)) ?q \<and> lex_measure ?q < lex_measure p
     else ut_start (tk_input p) \<le> ut_start (tk_input ?q) \<and> phase_next (class_of (tk_state ?q)) ?q
       \<and> (before_end p \<or> rank (tk_state ?q) < rank (tk_state p))"
    using assms c by (auto simp: inv_simps)
qed (use assms(1,4) in \<open>auto simp: inv_simps\<close>)

lemma loop_inv_end: "loop_inv p \<Longrightarrow> before_end p \<longleftrightarrow> ut_current (tk_input p) \<noteq> -1"
  using it_ok_EOF [of "tk_input p"] by (auto simp: loop_inv_def sound_def)

lemma it_ok_range:
  assumes "it_ok it"
  shows "- 1 \<le> ut_current it" "ut_current it \<le> 0x10FFFF"
proof -
  have "(ut_start it < ut_end it \<and> 0 \<le> ut_current it \<and> ut_current it \<le> 0x10FFFF) \<or> ut_current it = C_EOF"
    using assms unfolding it_ok_def by presburger
  then show "- 1 \<le> ut_current it" "ut_current it \<le> 0x10FFFF" by auto
qed

lemma loop_inv_range:
  assumes "loop_inv p"
  shows "- 1 \<le> ut_current (tk_input p)" "ut_current (tk_input p) \<le> 0x10FFFF"
  using it_ok_range [of "tk_input p"] assms by (simp_all only: loop_inv_def sound_def)

lemma mirror_append:
  assumes "sound p" "mirror p" "ut_current (tk_input p) = c" "0x21 \<le> c" "c < 0x7F"
  shows "mirror_next (append_char_to_temporary_buffer c p)"
proof -
  note c = cur_byte [OF assms(1,3-5)]
  have m: "ut_start (tk_input p) = ut_mark (tk_input p) + int (length (tk_temporary_buffer p))" "at_lt p"
    "tk_token_start p \<le> ut_mark (tk_input p)" "list_all plain (tk_temporary_buffer p)"
    "holds_at (ut_mem (tk_input p)) (ut_mark (tk_input p)) (tk_temporary_buffer p)"
    using assms(2-4) by (auto simp: mirror_def Let_def)
  have "holds_at (ut_mem (tk_input p)) (ut_mark (tk_input p)) (tk_temporary_buffer p @ [word_of_int c])"
    using m(1,5) c(1) by (auto simp: holds_at_def nth_append less_Suc_eq)
  moreover have "plain (word_of_int c)" using c(1,3) assms(4,5) by (simp add: plain_def)
  ultimately show ?thesis using m c(2) assms(5) by (simp add: mirror_next_def Let_def at_lt_def)
qed

lemma mirror_simps [simp]:
  "mirror (gumbo_tokenizer_set_state s p) = mirror p" "mirror (add_parse_error e p) = mirror p"
  "mirror (start_new_tag b p) = mirror p" "mirror (append_char_to_tag_buffer c b p) = mirror p"
  "mirror (abandon_current_tag p) = mirror p" "mirror (append_char_to_script_data_buffer c p) = mirror p"
  "mirror_next (append_char_to_script_data_buffer c p) = mirror_next p"
  by (simp_all add: mirror_def mirror_next_def at_lt_def Let_def)

lemma tag_open_simps [simp]:
  "tag_open (gumbo_tokenizer_set_state s p) = tag_open p" "tag_open (add_parse_error e p) = tag_open p"
  "tag_open (append_char_to_tag_buffer c b p) = tag_open p" "tag_open (append_char_to_temporary_buffer c p) = tag_open p"
  "tag_open (finish_tag_name p) = tag_open p" "tag_open (reset_tag_buffer_start_point p) = tag_open p"
  "tag_open (start_new_tag b p) = at_lt p"
  by (simp_all add: tag_open_def at_lt_def attrs_ok_def)

lemma attr_ready_simps [simp]:
  "attr_ready (gumbo_tokenizer_set_state s p) = attr_ready p" "attr_ready (add_parse_error e p) = attr_ready p"
  "attr_ready (append_char_to_tag_buffer c b p) = attr_ready p" "attr_ready (reset_tag_buffer_start_point p) = attr_ready p"
  by (simp_all add: attr_ready_def)

lemma word_of_int_nonzero: "0 < v \<Longrightarrow> v < 256 \<Longrightarrow> word_of_int v \<noteq> (0 :: byte)"
  using uint_byte [of v] by auto

lemma uint_nonzero: "0 < uint b \<Longrightarrow> b \<noteq> 0"
  by auto

lemma utf8_bytes_nonzero:
  assumes "0 < c" "c \<le> 0x10FFFF"
  shows "0 \<notin> set (utf8_bytes c)"
proof -
  have k: "word_of_int (0x80 OR (0x3F AND y)) \<noteq> (0 :: byte)" for y
    using uint_cont_byte [of y] by (intro uint_nonzero) simp
  have d: "0 \<le> c div k" if "0 < k" for k using assms(1) that by (simp add: pos_imp_zdiv_nonneg_iff)
  consider "c \<le> 0x7F" | "0x80 \<le> c \<and> c \<le> 0x7FF" | "0x800 \<le> c \<and> c \<le> 0xFFFF" | "0x10000 \<le> c" by linarith
  then show ?thesis
  proof cases
    case 1
    then show ?thesis using assms word_of_int_nonzero [of c] by (auto dest: sym)
  next
    case 2
    have "uint (word_of_int (0xC0 OR (c div 64)) :: byte) = 6 * 2 ^ 5 + c div 64"
      by (rule uint_or_byte) (use 2 in auto)
    then have "word_of_int (0xC0 OR (c div 64)) \<noteq> (0 :: byte)" using d [of 64] by (intro uint_nonzero) simp
    then show ?thesis using 2 k by (auto simp: utf8_bytes_def utf8_shape_def drop_bit_int dest: sym)
  next
    case 3
    have "uint (word_of_int (0xE0 OR (c div 4096)) :: byte) = 14 * 2 ^ 4 + c div 4096"
      by (rule uint_or_byte) (use 3 in auto)
    then have "word_of_int (0xE0 OR (c div 4096)) \<noteq> (0 :: byte)" using d [of 4096] by (intro uint_nonzero) simp
    then show ?thesis using 3 k by (auto simp: utf8_bytes_def utf8_shape_def drop_bit_int numeral_2_eq_2 dest: sym)
  next
    case 4
    have "uint (word_of_int (0xF0 OR (c div 262144)) :: byte) = 30 * 2 ^ 3 + c div 262144"
      by (rule uint_or_byte) (use 4 assms in auto)
    then have "word_of_int (0xF0 OR (c div 262144)) \<noteq> (0 :: byte)" using d [of 262144] by (intro uint_nonzero) simp
    then show ?thesis using 4 k by (auto simp: utf8_bytes_def utf8_shape_def drop_bit_int numeral_3_eq_3 dest: sym)
  qed
qed

lemma lowercase_range: "0 < c \<Longrightarrow> c \<le> 0x10FFFF \<Longrightarrow> 0 < ensure_lowercase c \<and> ensure_lowercase c \<le> 0x10FFFF"
  by (auto simp: ensure_lowercase_def)

lemma replacement_nonzero: "0 \<notin> set (utf8_bytes kUtf8ReplacementChar)"
  by (rule utf8_bytes_nonzero) (simp_all add: kUtf8ReplacementChar_def)

lemmas emit_steps = emit_char_step emit_replacement_step emit_doctype_step emit_comment_step emit_tag_step
  flush_step char_ref_step

lemma buffer_equals_simps [simp]:
  "temporary_buffer_equals ''<'' p \<longleftrightarrow> tk_temporary_buffer p = [0x3C]"
  "temporary_buffer_equals ''</'' p \<longleftrightarrow> tk_temporary_buffer p = [0x3C, 0x2F]"
  "temporary_buffer_equals '''' p \<longleftrightarrow> tk_temporary_buffer p = []"
  by (simp_all add: temporary_buffer_equals_def bytes_of_def)

lemma is_alphaD: "is_alpha c \<Longrightarrow> 0x41 \<le> c \<and> c \<le> 0x7A"
  by (auto simp: is_alpha_def)

lemma not_alpha_EOF [simp]: "\<not> is_alpha (- 1)"
  by (simp add: is_alpha_def)

lemma mirror_lt: "mirror p \<Longrightarrow> ut_mem (tk_input p) (tk_token_start p) = 0x3C"
  by (simp add: mirror_def Let_def at_lt_def)

lemma mirror_past: "mirror p \<Longrightarrow> tk_temporary_buffer p \<noteq> [] \<Longrightarrow> past_start p"
  by (cases "tk_temporary_buffer p") (auto simp: mirror_def Let_def)

lemma is_appropriate_end_tag_same:
  "\<not> tg_is_start_tag (tk_tag_state p) \<Longrightarrow> \<exists>b. is_appropriate_end_tag p = (b, p)"
  by (simp add: is_appropriate_end_tag_def Let_def)

declare gumbo_tag_enum_range [simp]

lemma alpha_bounds [simp]: "is_alpha c \<Longrightarrow> 0x21 \<le> c" "is_alpha c \<Longrightarrow> c < 0x7F"
  by (auto simp: is_alpha_def)

lemma flushable_simps [simp]:
  "flushable (append_char_to_script_data_buffer c p) = flushable p" "mirror p \<Longrightarrow> flushable p"
  by (simp add: flushable_def Let_def) (rule mirror_flushable)

lemma flushable_append:
  "sound p \<Longrightarrow> mirror p \<Longrightarrow> ut_current (tk_input p) = c \<Longrightarrow> 0x21 \<le> c \<Longrightarrow> c < 0x7F \<Longrightarrow>
    flushable (append_char_to_temporary_buffer c p)"
  by (rule mirror_flushable(2), rule mirror_append)

lemma bytes_left_simps [simp]:
  "bytes_left (tk_input (add_parse_error e p)) = bytes_left (tk_input p)"
  "bytes_left (tk_input (clear_temporary_buffer p)) = bytes_left (tk_input p)"
  "bytes_left (tk_input (finish_attribute_value p)) = bytes_left (tk_input p)"
  by (simp_all add: bytes_left_def)

lemma lowercase_nonzero [simp]: "0 < c \<Longrightarrow> c \<le> 0x10FFFF \<Longrightarrow> 0 \<notin> set (utf8_bytes (ensure_lowercase c))"
  using utf8_bytes_nonzero lowercase_range by blast

declare replacement_nonzero [simp] finish_attribute_name_open [simp] finish_attribute_value_open [simp]

lemma open_step_cur:
  assumes "loop_inv p" "class_of (tk_state p) = Text" "ut_current (tk_input p) = C_LT"
    "class_of s = Less_than \<or> class_of s = Less_than_script"
  shows "step_ok p (NEXT_CHAR, append_char_to_temporary_buffer (ut_current (tk_input p))
    (clear_temporary_buffer (gumbo_tokenizer_set_state s p)))"
  using open_step [OF assms] by (simp only: assms(3))

lemma tag_open_Some [simp]: "tag_open p \<Longrightarrow> \<exists>as. tg_attributes (tk_tag_state p) = Some as"
  by (auto simp: tag_open_def)

lemma attr_value_state_simps [simp]:
  "tag_open (p\<lparr>tk_tag_state := (tk_tag_state p)\<lparr>tg_attr_value_state := s\<rparr>\<rparr>) = tag_open p"
  "attr_ready (p\<lparr>tk_tag_state := (tk_tag_state p)\<lparr>tg_attr_value_state := s\<rparr>\<rparr>) = attr_ready p"
  by (simp_all add: tag_open_def at_lt_def attr_ready_def)

lemma if_step: "(b \<Longrightarrow> step_ok p x) \<Longrightarrow> (\<not> b \<Longrightarrow> step_ok p y) \<Longrightarrow> step_ok p (if b then x else y)"
  by simp

lemma space_not_EOF: "c = 9 \<or> c = 10 \<or> c = 12 \<or> c = 32 \<Longrightarrow> c \<noteq> (- 1 :: int)"
  by auto

lemmas handler_simps = inv_simps mirror_lt mirror_past


lemmas branch_steps = if_step open_step open_step_cur emit_steps next_step

section \<open>Text and tags\<close>

lemma data_ok:
  assumes "loop_inv p" "tk_state p = GUMBO_LEX_DATA"
  shows "step_ok p (handle_data_state p (ut_current (tk_input p)))"
  unfolding handle_data_state_def Let_def
  using assms loop_inv_end [OF assms(1)] loop_inv_range [OF assms(1)]
  by (intro branch_steps; auto simp: handler_simps intro!: mirror_append flushable_append)

lemma char_ref_in_data_ok:
  assumes "loop_inv p" "tk_state p = GUMBO_LEX_CHAR_REF_IN_DATA"
  shows "step_ok p (handle_char_ref_in_data_state p (ut_current (tk_input p)))"
  unfolding handle_char_ref_in_data_state_def Let_def
  using assms loop_inv_end [OF assms(1)] loop_inv_range [OF assms(1)]
  by (intro branch_steps; auto simp: handler_simps intro!: mirror_append flushable_append)

lemma rcdata_ok:
  assumes "loop_inv p" "tk_state p = GUMBO_LEX_RCDATA"
  shows "step_ok p (handle_rcdata_state p (ut_current (tk_input p)))"
  unfolding handle_rcdata_state_def Let_def
  using assms loop_inv_end [OF assms(1)] loop_inv_range [OF assms(1)]
  by (intro branch_steps; auto simp: handler_simps intro!: mirror_append flushable_append)

lemma char_ref_in_rcdata_ok:
  assumes "loop_inv p" "tk_state p = GUMBO_LEX_CHAR_REF_IN_RCDATA"
  shows "step_ok p (handle_char_ref_in_rcdata_state p (ut_current (tk_input p)))"
  unfolding handle_char_ref_in_rcdata_state_def Let_def
  using assms loop_inv_end [OF assms(1)] loop_inv_range [OF assms(1)]
  by (intro branch_steps; auto simp: handler_simps intro!: mirror_append flushable_append)

lemma rawtext_ok:
  assumes "loop_inv p" "tk_state p = GUMBO_LEX_RAWTEXT"
  shows "step_ok p (handle_rawtext_state p (ut_current (tk_input p)))"
  unfolding handle_rawtext_state_def Let_def
  using assms loop_inv_end [OF assms(1)] loop_inv_range [OF assms(1)]
  by (intro branch_steps; auto simp: handler_simps intro!: mirror_append flushable_append)

lemma script_ok:
  assumes "loop_inv p" "tk_state p = GUMBO_LEX_SCRIPT"
  shows "step_ok p (handle_script_state p (ut_current (tk_input p)))"
  unfolding handle_script_state_def Let_def
  using assms loop_inv_end [OF assms(1)] loop_inv_range [OF assms(1)]
  by (intro branch_steps; auto simp: handler_simps intro!: mirror_append flushable_append)

lemma plaintext_ok:
  assumes "loop_inv p" "tk_state p = GUMBO_LEX_PLAINTEXT"
  shows "step_ok p (handle_plaintext_state p (ut_current (tk_input p)))"
  unfolding handle_plaintext_state_def Let_def
  using assms loop_inv_end [OF assms(1)] loop_inv_range [OF assms(1)]
  by (intro branch_steps; auto simp: handler_simps intro!: mirror_append flushable_append)

lemma tag_open_ok:
  assumes "loop_inv p" "tk_state p = GUMBO_LEX_TAG_OPEN"
  shows "step_ok p (handle_tag_open_state p (ut_current (tk_input p)))"
  unfolding handle_tag_open_state_def Let_def
  using assms loop_inv_end [OF assms(1)] loop_inv_range [OF assms(1)]
  by (intro branch_steps; auto simp: handler_simps intro!: mirror_append flushable_append)

lemma end_tag_open_ok:
  assumes "loop_inv p" "tk_state p = GUMBO_LEX_END_TAG_OPEN"
  shows "step_ok p (handle_end_tag_open_state p (ut_current (tk_input p)))"
  unfolding handle_end_tag_open_state_def Let_def
  using assms loop_inv_end [OF assms(1)] loop_inv_range [OF assms(1)]
  by (intro branch_steps; auto simp: handler_simps intro!: mirror_append flushable_append)

lemma tag_name_ok:
  assumes "loop_inv p" "tk_state p = GUMBO_LEX_TAG_NAME"
  shows "step_ok p (handle_tag_name_state p (ut_current (tk_input p)))"
  unfolding handle_tag_name_state_def Let_def
  using assms loop_inv_end [OF assms(1)] loop_inv_range [OF assms(1)]
  by (intro branch_steps; auto simp: handler_simps intro!: mirror_append flushable_append)

lemma rcdata_lt_ok:
  assumes "loop_inv p" "tk_state p = GUMBO_LEX_RCDATA_LT"
  shows "step_ok p (handle_rcdata_lt_state p (ut_current (tk_input p)))"
  unfolding handle_rcdata_lt_state_def Let_def
  using assms loop_inv_end [OF assms(1)] loop_inv_range [OF assms(1)]
  by (intro branch_steps; auto simp: handler_simps intro!: mirror_append flushable_append)

lemma rcdata_end_tag_open_ok:
  assumes "loop_inv p" "tk_state p = GUMBO_LEX_RCDATA_END_TAG_OPEN"
  shows "step_ok p (handle_rcdata_end_tag_open_state p (ut_current (tk_input p)))"
  unfolding handle_rcdata_end_tag_open_state_def Let_def
  using assms loop_inv_end [OF assms(1)] loop_inv_range [OF assms(1)]
  by (intro branch_steps; auto simp: handler_simps intro!: mirror_append flushable_append)

lemma rawtext_lt_ok:
  assumes "loop_inv p" "tk_state p = GUMBO_LEX_RAWTEXT_LT"
  shows "step_ok p (handle_rawtext_lt_state p (ut_current (tk_input p)))"
  unfolding handle_rawtext_lt_state_def Let_def
  using assms loop_inv_end [OF assms(1)] loop_inv_range [OF assms(1)]
  by (intro branch_steps; auto simp: handler_simps intro!: mirror_append flushable_append)

lemma rawtext_end_tag_open_ok:
  assumes "loop_inv p" "tk_state p = GUMBO_LEX_RAWTEXT_END_TAG_OPEN"
  shows "step_ok p (handle_rawtext_end_tag_open_state p (ut_current (tk_input p)))"
  unfolding handle_rawtext_end_tag_open_state_def Let_def
  using assms loop_inv_end [OF assms(1)] loop_inv_range [OF assms(1)]
  by (intro branch_steps; auto simp: handler_simps intro!: mirror_append flushable_append)

lemma script_lt_ok:
  assumes "loop_inv p" "tk_state p = GUMBO_LEX_SCRIPT_LT"
  shows "step_ok p (handle_script_lt_state p (ut_current (tk_input p)))"
  unfolding handle_script_lt_state_def Let_def
  using assms loop_inv_end [OF assms(1)] loop_inv_range [OF assms(1)]
  by (intro branch_steps; auto simp: handler_simps intro!: mirror_append flushable_append)

lemma script_end_tag_open_ok:
  assumes "loop_inv p" "tk_state p = GUMBO_LEX_SCRIPT_END_TAG_OPEN"
  shows "step_ok p (handle_script_end_tag_open_state p (ut_current (tk_input p)))"
  unfolding handle_script_end_tag_open_state_def Let_def
  using assms loop_inv_end [OF assms(1)] loop_inv_range [OF assms(1)]
  by (intro branch_steps; auto simp: handler_simps intro!: mirror_append flushable_append)

section \<open>Escaped scripts\<close>

lemma script_escaped_start_ok:
  assumes "loop_inv p" "tk_state p = GUMBO_LEX_SCRIPT_ESCAPED_START"
  shows "step_ok p (handle_script_escaped_start_state p (ut_current (tk_input p)))"
  unfolding handle_script_escaped_start_state_def Let_def
  using assms loop_inv_end [OF assms(1)] loop_inv_range [OF assms(1)]
  by (intro branch_steps; auto simp: handler_simps intro!: mirror_append flushable_append)

lemma script_escaped_start_dash_ok:
  assumes "loop_inv p" "tk_state p = GUMBO_LEX_SCRIPT_ESCAPED_START_DASH"
  shows "step_ok p (handle_script_escaped_start_dash_state p (ut_current (tk_input p)))"
  unfolding handle_script_escaped_start_dash_state_def Let_def
  using assms loop_inv_end [OF assms(1)] loop_inv_range [OF assms(1)]
  by (intro branch_steps; auto simp: handler_simps intro!: mirror_append flushable_append)

lemma script_escaped_ok:
  assumes "loop_inv p" "tk_state p = GUMBO_LEX_SCRIPT_ESCAPED"
  shows "step_ok p (handle_script_escaped_state p (ut_current (tk_input p)))"
  unfolding handle_script_escaped_state_def Let_def
  using assms loop_inv_end [OF assms(1)] loop_inv_range [OF assms(1)]
  by (intro branch_steps; auto simp: handler_simps intro!: mirror_append flushable_append)

lemma script_escaped_dash_ok:
  assumes "loop_inv p" "tk_state p = GUMBO_LEX_SCRIPT_ESCAPED_DASH"
  shows "step_ok p (handle_script_escaped_dash_state p (ut_current (tk_input p)))"
  unfolding handle_script_escaped_dash_state_def Let_def
  using assms loop_inv_end [OF assms(1)] loop_inv_range [OF assms(1)]
  by (intro branch_steps; auto simp: handler_simps intro!: mirror_append flushable_append)

lemma script_escaped_dash_dash_ok:
  assumes "loop_inv p" "tk_state p = GUMBO_LEX_SCRIPT_ESCAPED_DASH_DASH"
  shows "step_ok p (handle_script_escaped_dash_dash_state p (ut_current (tk_input p)))"
  unfolding handle_script_escaped_dash_dash_state_def Let_def
  using assms loop_inv_end [OF assms(1)] loop_inv_range [OF assms(1)]
  by (intro branch_steps; auto simp: handler_simps intro!: mirror_append flushable_append)

lemma script_escaped_lt_ok:
  assumes "loop_inv p" "tk_state p = GUMBO_LEX_SCRIPT_ESCAPED_LT"
  shows "step_ok p (handle_script_escaped_lt_state p (ut_current (tk_input p)))"
  unfolding handle_script_escaped_lt_state_def Let_def
  using assms loop_inv_end [OF assms(1)] loop_inv_range [OF assms(1)]
  by (intro branch_steps; auto simp: handler_simps intro!: mirror_append flushable_append)

lemma script_escaped_end_tag_open_ok:
  assumes "loop_inv p" "tk_state p = GUMBO_LEX_SCRIPT_ESCAPED_END_TAG_OPEN"
  shows "step_ok p (handle_script_escaped_end_tag_open_state p (ut_current (tk_input p)))"
  unfolding handle_script_escaped_end_tag_open_state_def Let_def
  using assms loop_inv_end [OF assms(1)] loop_inv_range [OF assms(1)]
  by (intro branch_steps; auto simp: handler_simps intro!: mirror_append flushable_append)

lemma script_double_escaped_start_ok:
  assumes "loop_inv p" "tk_state p = GUMBO_LEX_SCRIPT_DOUBLE_ESCAPED_START"
  shows "step_ok p (handle_script_double_escaped_start_state p (ut_current (tk_input p)))"
  unfolding handle_script_double_escaped_start_state_def Let_def
  using assms loop_inv_end [OF assms(1)] loop_inv_range [OF assms(1)]
  by (intro branch_steps; auto simp: handler_simps intro!: mirror_append flushable_append)

lemma script_double_escaped_ok:
  assumes "loop_inv p" "tk_state p = GUMBO_LEX_SCRIPT_DOUBLE_ESCAPED"
  shows "step_ok p (handle_script_double_escaped_state p (ut_current (tk_input p)))"
  unfolding handle_script_double_escaped_state_def Let_def
  using assms loop_inv_end [OF assms(1)] loop_inv_range [OF assms(1)]
  by (intro branch_steps; auto simp: handler_simps intro!: mirror_append flushable_append)

lemma script_double_escaped_dash_ok:
  assumes "loop_inv p" "tk_state p = GUMBO_LEX_SCRIPT_DOUBLE_ESCAPED_DASH"
  shows "step_ok p (handle_script_double_escaped_dash_state p (ut_current (tk_input p)))"
  unfolding handle_script_double_escaped_dash_state_def Let_def
  using assms loop_inv_end [OF assms(1)] loop_inv_range [OF assms(1)]
  by (intro branch_steps; auto simp: handler_simps intro!: mirror_append flushable_append)

lemma script_double_escaped_dash_dash_ok:
  assumes "loop_inv p" "tk_state p = GUMBO_LEX_SCRIPT_DOUBLE_ESCAPED_DASH_DASH"
  shows "step_ok p (handle_script_double_escaped_dash_dash_state p (ut_current (tk_input p)))"
  unfolding handle_script_double_escaped_dash_dash_state_def Let_def
  using assms loop_inv_end [OF assms(1)] loop_inv_range [OF assms(1)]
  by (intro branch_steps; auto simp: handler_simps intro!: mirror_append flushable_append)

lemma script_double_escaped_lt_ok:
  assumes "loop_inv p" "tk_state p = GUMBO_LEX_SCRIPT_DOUBLE_ESCAPED_LT"
  shows "step_ok p (handle_script_double_escaped_lt_state p (ut_current (tk_input p)))"
  unfolding handle_script_double_escaped_lt_state_def Let_def
  using assms loop_inv_end [OF assms(1)] loop_inv_range [OF assms(1)]
  by (intro branch_steps; auto simp: handler_simps intro!: mirror_append flushable_append)

lemma script_double_escaped_end_ok:
  assumes "loop_inv p" "tk_state p = GUMBO_LEX_SCRIPT_DOUBLE_ESCAPED_END"
  shows "step_ok p (handle_script_double_escaped_end_state p (ut_current (tk_input p)))"
  unfolding handle_script_double_escaped_end_state_def Let_def
  using assms loop_inv_end [OF assms(1)] loop_inv_range [OF assms(1)]
  by (intro branch_steps; auto simp: handler_simps intro!: mirror_append flushable_append)

section \<open>Attributes\<close>

lemma before_attr_name_ok:
  assumes "loop_inv p" "tk_state p = GUMBO_LEX_BEFORE_ATTR_NAME"
  shows "step_ok p (handle_before_attr_name_state p (ut_current (tk_input p)))"
  unfolding handle_before_attr_name_state_def Let_def
  using assms loop_inv_end [OF assms(1)] loop_inv_range [OF assms(1)]
  by (intro branch_steps; auto simp: handler_simps intro!: mirror_append flushable_append)

lemma attr_name_ok:
  assumes "loop_inv p" "tk_state p = GUMBO_LEX_ATTR_NAME"
  shows "step_ok p (handle_attr_name_state p (ut_current (tk_input p)))"
  unfolding handle_attr_name_state_def Let_def
  using assms loop_inv_end [OF assms(1)] loop_inv_range [OF assms(1)]
  by (intro branch_steps; auto simp: handler_simps intro!: mirror_append flushable_append)

lemma after_attr_name_ok:
  assumes "loop_inv p" "tk_state p = GUMBO_LEX_AFTER_ATTR_NAME"
  shows "step_ok p (handle_after_attr_name_state p (ut_current (tk_input p)))"
  unfolding handle_after_attr_name_state_def Let_def
  using assms loop_inv_end [OF assms(1)] loop_inv_range [OF assms(1)]
  by (intro branch_steps; auto simp: handler_simps intro!: mirror_append flushable_append)

lemma before_attr_value_ok:
  assumes "loop_inv p" "tk_state p = GUMBO_LEX_BEFORE_ATTR_VALUE"
  shows "step_ok p (handle_before_attr_value_state p (ut_current (tk_input p)))"
  unfolding handle_before_attr_value_state_def Let_def
  using assms loop_inv_end [OF assms(1)] loop_inv_range [OF assms(1)]
  by (intro branch_steps; auto simp: handler_simps intro!: mirror_append flushable_append)

lemma attr_value_double_quoted_ok:
  assumes "loop_inv p" "tk_state p = GUMBO_LEX_ATTR_VALUE_DOUBLE_QUOTED"
  shows "step_ok p (handle_attr_value_double_quoted_state p (ut_current (tk_input p)))"
  unfolding handle_attr_value_double_quoted_state_def Let_def
  using assms loop_inv_end [OF assms(1)] loop_inv_range [OF assms(1)]
  by (intro branch_steps; auto simp: handler_simps intro!: mirror_append flushable_append)

lemma attr_value_single_quoted_ok:
  assumes "loop_inv p" "tk_state p = GUMBO_LEX_ATTR_VALUE_SINGLE_QUOTED"
  shows "step_ok p (handle_attr_value_single_quoted_state p (ut_current (tk_input p)))"
  unfolding handle_attr_value_single_quoted_state_def Let_def
  using assms loop_inv_end [OF assms(1)] loop_inv_range [OF assms(1)]
  by (intro branch_steps; auto simp: handler_simps intro!: mirror_append flushable_append)

lemma attr_value_unquoted_ok:
  assumes "loop_inv p" "tk_state p = GUMBO_LEX_ATTR_VALUE_UNQUOTED"
  shows "step_ok p (handle_attr_value_unquoted_state p (ut_current (tk_input p)))"
  unfolding handle_attr_value_unquoted_state_def Let_def
  using assms loop_inv_end [OF assms(1)] loop_inv_range [OF assms(1)]
  by (intro branch_steps; auto simp: handler_simps intro!: mirror_append flushable_append)

lemma after_attr_value_quoted_ok:
  assumes "loop_inv p" "tk_state p = GUMBO_LEX_AFTER_ATTR_VALUE_QUOTED"
  shows "step_ok p (handle_after_attr_value_quoted_state p (ut_current (tk_input p)))"
  unfolding handle_after_attr_value_quoted_state_def Let_def
  using assms loop_inv_end [OF assms(1)] loop_inv_range [OF assms(1)]
  by (intro branch_steps; auto simp: handler_simps intro!: mirror_append flushable_append)

lemma self_closing_start_tag_ok:
  assumes "loop_inv p" "tk_state p = GUMBO_LEX_SELF_CLOSING_START_TAG"
  shows "step_ok p (handle_self_closing_start_tag_state p (ut_current (tk_input p)))"
  unfolding handle_self_closing_start_tag_state_def Let_def
  using assms loop_inv_end [OF assms(1)] loop_inv_range [OF assms(1)]
  by (intro branch_steps; auto simp: handler_simps tag_open_def attr_ready_def intro!: mirror_append flushable_append)

section \<open>Comments and doctypes\<close>

lemma comment_start_ok:
  assumes "loop_inv p" "tk_state p = GUMBO_LEX_COMMENT_START"
  shows "step_ok p (handle_comment_start_state p (ut_current (tk_input p)))"
  unfolding handle_comment_start_state_def Let_def
  using assms loop_inv_end [OF assms(1)] loop_inv_range [OF assms(1)]
  by (intro branch_steps; auto simp: handler_simps intro!: mirror_append flushable_append)

lemma comment_start_dash_ok:
  assumes "loop_inv p" "tk_state p = GUMBO_LEX_COMMENT_START_DASH"
  shows "step_ok p (handle_comment_start_dash_state p (ut_current (tk_input p)))"
  unfolding handle_comment_start_dash_state_def Let_def
  using assms loop_inv_end [OF assms(1)] loop_inv_range [OF assms(1)]
  by (intro branch_steps; auto simp: handler_simps intro!: mirror_append flushable_append)

lemma comment_ok:
  assumes "loop_inv p" "tk_state p = GUMBO_LEX_COMMENT"
  shows "step_ok p (handle_comment_state p (ut_current (tk_input p)))"
  unfolding handle_comment_state_def Let_def
  using assms loop_inv_end [OF assms(1)] loop_inv_range [OF assms(1)]
  by (intro branch_steps; auto simp: handler_simps intro!: mirror_append flushable_append)

lemma comment_end_dash_ok:
  assumes "loop_inv p" "tk_state p = GUMBO_LEX_COMMENT_END_DASH"
  shows "step_ok p (handle_comment_end_dash_state p (ut_current (tk_input p)))"
  unfolding handle_comment_end_dash_state_def Let_def
  using assms loop_inv_end [OF assms(1)] loop_inv_range [OF assms(1)]
  by (intro branch_steps; auto simp: handler_simps intro!: mirror_append flushable_append)

lemma comment_end_ok:
  assumes "loop_inv p" "tk_state p = GUMBO_LEX_COMMENT_END"
  shows "step_ok p (handle_comment_end_state p (ut_current (tk_input p)))"
  unfolding handle_comment_end_state_def Let_def
  using assms loop_inv_end [OF assms(1)] loop_inv_range [OF assms(1)]
  by (intro branch_steps; auto simp: handler_simps intro!: mirror_append flushable_append)

lemma comment_end_bang_ok:
  assumes "loop_inv p" "tk_state p = GUMBO_LEX_COMMENT_END_BANG"
  shows "step_ok p (handle_comment_end_bang_state p (ut_current (tk_input p)))"
  unfolding handle_comment_end_bang_state_def Let_def
  using assms loop_inv_end [OF assms(1)] loop_inv_range [OF assms(1)]
  by (intro branch_steps; auto simp: handler_simps intro!: mirror_append flushable_append)

lemma doctype_ok:
  assumes "loop_inv p" "tk_state p = GUMBO_LEX_DOCTYPE"
  shows "step_ok p (handle_doctype_state p (ut_current (tk_input p)))"
  unfolding handle_doctype_state_def Let_def
  using assms loop_inv_end [OF assms(1)] loop_inv_range [OF assms(1)]
  by (intro branch_steps; auto simp: handler_simps intro!: mirror_append flushable_append)

lemma before_doctype_name_ok:
  assumes "loop_inv p" "tk_state p = GUMBO_LEX_BEFORE_DOCTYPE_NAME"
  shows "step_ok p (handle_before_doctype_name_state p (ut_current (tk_input p)))"
  unfolding handle_before_doctype_name_state_def Let_def
  using assms loop_inv_end [OF assms(1)] loop_inv_range [OF assms(1)]
  by (intro branch_steps; auto simp: handler_simps intro!: mirror_append flushable_append)

lemma doctype_name_ok:
  assumes "loop_inv p" "tk_state p = GUMBO_LEX_DOCTYPE_NAME"
  shows "step_ok p (handle_doctype_name_state p (ut_current (tk_input p)))"
  unfolding handle_doctype_name_state_def Let_def
  using assms loop_inv_end [OF assms(1)] loop_inv_range [OF assms(1)]
  by (intro branch_steps; auto simp: handler_simps intro!: mirror_append flushable_append)

lemma after_doctype_public_keyword_ok:
  assumes "loop_inv p" "tk_state p = GUMBO_LEX_AFTER_DOCTYPE_PUBLIC_KEYWORD"
  shows "step_ok p (handle_after_doctype_public_keyword_state p (ut_current (tk_input p)))"
  unfolding handle_after_doctype_public_keyword_state_def Let_def
  using assms loop_inv_end [OF assms(1)] loop_inv_range [OF assms(1)]
  by (intro branch_steps; auto simp: handler_simps intro!: mirror_append flushable_append)

lemma before_doctype_public_id_ok:
  assumes "loop_inv p" "tk_state p = GUMBO_LEX_BEFORE_DOCTYPE_PUBLIC_ID"
  shows "step_ok p (handle_before_doctype_public_id_state p (ut_current (tk_input p)))"
  unfolding handle_before_doctype_public_id_state_def Let_def
  using assms loop_inv_end [OF assms(1)] loop_inv_range [OF assms(1)]
  by (intro branch_steps; auto simp: handler_simps intro!: mirror_append flushable_append)

lemma doctype_public_id_double_quoted_ok:
  assumes "loop_inv p" "tk_state p = GUMBO_LEX_DOCTYPE_PUBLIC_ID_DOUBLE_QUOTED"
  shows "step_ok p (handle_doctype_public_id_double_quoted_state p (ut_current (tk_input p)))"
  unfolding handle_doctype_public_id_double_quoted_state_def Let_def
  using assms loop_inv_end [OF assms(1)] loop_inv_range [OF assms(1)]
  by (intro branch_steps; auto simp: handler_simps intro!: mirror_append flushable_append)

lemma doctype_public_id_single_quoted_ok:
  assumes "loop_inv p" "tk_state p = GUMBO_LEX_DOCTYPE_PUBLIC_ID_SINGLE_QUOTED"
  shows "step_ok p (handle_doctype_public_id_single_quoted_state p (ut_current (tk_input p)))"
  unfolding handle_doctype_public_id_single_quoted_state_def Let_def
  using assms loop_inv_end [OF assms(1)] loop_inv_range [OF assms(1)]
  by (intro branch_steps; auto simp: handler_simps intro!: mirror_append flushable_append)

lemma after_doctype_public_id_ok:
  assumes "loop_inv p" "tk_state p = GUMBO_LEX_AFTER_DOCTYPE_PUBLIC_ID"
  shows "step_ok p (handle_after_doctype_public_id_state p (ut_current (tk_input p)))"
  unfolding handle_after_doctype_public_id_state_def Let_def
  using assms loop_inv_end [OF assms(1)] loop_inv_range [OF assms(1)]
  by (intro branch_steps; auto simp: handler_simps intro!: mirror_append flushable_append)

lemma between_doctype_public_system_id_ok:
  assumes "loop_inv p" "tk_state p = GUMBO_LEX_BETWEEN_DOCTYPE_PUBLIC_SYSTEM_ID"
  shows "step_ok p (handle_between_doctype_public_system_id_state p (ut_current (tk_input p)))"
  unfolding handle_between_doctype_public_system_id_state_def Let_def
  using assms loop_inv_end [OF assms(1)] loop_inv_range [OF assms(1)]
  by (intro branch_steps; auto simp: handler_simps intro!: mirror_append flushable_append)

lemma after_doctype_system_keyword_ok:
  assumes "loop_inv p" "tk_state p = GUMBO_LEX_AFTER_DOCTYPE_SYSTEM_KEYWORD"
  shows "step_ok p (handle_after_doctype_system_keyword_state p (ut_current (tk_input p)))"
  unfolding handle_after_doctype_system_keyword_state_def Let_def
  using assms loop_inv_end [OF assms(1)] loop_inv_range [OF assms(1)]
  by (intro branch_steps; auto simp: handler_simps intro!: mirror_append flushable_append)

lemma before_doctype_system_id_ok:
  assumes "loop_inv p" "tk_state p = GUMBO_LEX_BEFORE_DOCTYPE_SYSTEM_ID"
  shows "step_ok p (handle_before_doctype_system_id_state p (ut_current (tk_input p)))"
  unfolding handle_before_doctype_system_id_state_def Let_def
  using assms loop_inv_end [OF assms(1)] loop_inv_range [OF assms(1)]
  by (intro branch_steps; auto simp: handler_simps intro!: mirror_append flushable_append)

lemma doctype_system_id_double_quoted_ok:
  assumes "loop_inv p" "tk_state p = GUMBO_LEX_DOCTYPE_SYSTEM_ID_DOUBLE_QUOTED"
  shows "step_ok p (handle_doctype_system_id_double_quoted_state p (ut_current (tk_input p)))"
  unfolding handle_doctype_system_id_double_quoted_state_def Let_def
  using assms loop_inv_end [OF assms(1)] loop_inv_range [OF assms(1)]
  by (intro branch_steps; auto simp: handler_simps intro!: mirror_append flushable_append)

lemma doctype_system_id_single_quoted_ok:
  assumes "loop_inv p" "tk_state p = GUMBO_LEX_DOCTYPE_SYSTEM_ID_SINGLE_QUOTED"
  shows "step_ok p (handle_doctype_system_id_single_quoted_state p (ut_current (tk_input p)))"
  unfolding handle_doctype_system_id_single_quoted_state_def Let_def
  using assms loop_inv_end [OF assms(1)] loop_inv_range [OF assms(1)]
  by (intro branch_steps; auto simp: handler_simps intro!: mirror_append flushable_append)

lemma after_doctype_system_id_ok:
  assumes "loop_inv p" "tk_state p = GUMBO_LEX_AFTER_DOCTYPE_SYSTEM_ID"
  shows "step_ok p (handle_after_doctype_system_id_state p (ut_current (tk_input p)))"
  unfolding handle_after_doctype_system_id_state_def Let_def
  using assms loop_inv_end [OF assms(1)] loop_inv_range [OF assms(1)]
  by (intro branch_steps; auto simp: handler_simps intro!: mirror_append flushable_append)

lemma bogus_doctype_ok:
  assumes "loop_inv p" "tk_state p = GUMBO_LEX_BOGUS_DOCTYPE"
  shows "step_ok p (handle_bogus_doctype_state p (ut_current (tk_input p)))"
  unfolding handle_bogus_doctype_state_def Let_def
  using assms loop_inv_end [OF assms(1)] loop_inv_range [OF assms(1)]
  by (intro branch_steps; auto simp: handler_simps intro!: mirror_append flushable_append)

text \<open>The common body of the four handlers of an end tag name inside text.\<close>

definition end_name_body :: "lexer_state \<Rightarrow> handler" where
  "end_name_body s p c =
     (if is_alpha c then
        (NEXT_CHAR, append_char_to_temporary_buffer c (append_char_to_tag_buffer (ensure_lowercase c) True p))
      else
        let appropriate = fst (is_appropriate_end_tag p)
        in if appropriate \<and> (c = C_TAB \<or> c = C_LF \<or> c = C_FF \<or> c = C_SPACE) then
             (NEXT_CHAR, gumbo_tokenizer_set_state GUMBO_LEX_BEFORE_ATTR_NAME (finish_tag_name p))
           else if appropriate \<and> c = C_SLASH then
             (NEXT_CHAR, gumbo_tokenizer_set_state GUMBO_LEX_SELF_CLOSING_START_TAG (finish_tag_name p))
           else if appropriate \<and> c = C_GT then
             emit_current_tag (gumbo_tokenizer_set_state GUMBO_LEX_DATA (finish_tag_name p))
           else flush_temporary_buffer (abandon_current_tag (gumbo_tokenizer_set_state s p)))"

lemma end_name_handlers:
  assumes "2 \<le> length (tk_temporary_buffer p)" "\<not> tg_is_start_tag (tk_tag_state p)"
  shows "handle_rcdata_end_tag_name_state p c = end_name_body GUMBO_LEX_RCDATA p c"
    "handle_rawtext_end_tag_name_state p c = end_name_body GUMBO_LEX_RAWTEXT p c"
    "handle_script_end_tag_name_state p c = end_name_body GUMBO_LEX_SCRIPT p c"
    "handle_script_escaped_end_tag_name_state p c = end_name_body GUMBO_LEX_SCRIPT_ESCAPED p c"
proof -
  obtain b where "is_appropriate_end_tag p = (b, p)" using is_appropriate_end_tag_same [OF assms(2)] by blast
  with assms(1) show "handle_rcdata_end_tag_name_state p c = end_name_body GUMBO_LEX_RCDATA p c"
    "handle_rawtext_end_tag_name_state p c = end_name_body GUMBO_LEX_RAWTEXT p c"
    "handle_script_end_tag_name_state p c = end_name_body GUMBO_LEX_SCRIPT p c"
    "handle_script_escaped_end_tag_name_state p c = end_name_body GUMBO_LEX_SCRIPT_ESCAPED p c"
    by (simp_all only: end_name_body_def Let_def assert_tk_True prod.case fst_conv handle_rcdata_end_tag_name_state_def handle_rawtext_end_tag_name_state_def
      handle_script_end_tag_name_state_def handle_script_escaped_end_tag_name_state_def)
qed

lemma end_name_step:
  assumes "loop_inv p" "class_of (tk_state p) = End_name" "class_of s = Text"
  shows "step_ok p (end_name_body s p (ut_current (tk_input p)))"
  unfolding end_name_body_def Let_def
  using assms loop_inv_end [OF assms(1)]
  by (intro if_step emit_steps next_step; auto simp: handler_simps intro!: mirror_append)

lemma end_name_ok:
  assumes "loop_inv p"
  shows "tk_state p = GUMBO_LEX_RCDATA_END_TAG_NAME \<Longrightarrow> step_ok p (handle_rcdata_end_tag_name_state p (ut_current (tk_input p)))"
    "tk_state p = GUMBO_LEX_RAWTEXT_END_TAG_NAME \<Longrightarrow> step_ok p (handle_rawtext_end_tag_name_state p (ut_current (tk_input p)))"
    "tk_state p = GUMBO_LEX_SCRIPT_END_TAG_NAME \<Longrightarrow> step_ok p (handle_script_end_tag_name_state p (ut_current (tk_input p)))"
    "tk_state p = GUMBO_LEX_SCRIPT_ESCAPED_END_TAG_NAME \<Longrightarrow>
      step_ok p (handle_script_escaped_end_tag_name_state p (ut_current (tk_input p)))"
  using end_name_step [OF assms] assms by (simp_all add: end_name_handlers loop_inv_def)

section \<open>Handlers that move the cursor\<close>

lemma maybe_consume_cases:
  assumes "loop_inv p" "s \<noteq> []"
  obtains "maybe_consume s cs p = (False, p)"
  | q where "maybe_consume s cs p = (True, q)" "sound q" "idle q" "linked p q" "tk_state q = tk_state p"
      "tk_token_start q = tk_token_start p" "tk_tag_state q = tk_tag_state p" "tk_temporary_buffer q = tk_temporary_buffer p"
      "bytes_left (tk_input q) < bytes_left (tk_input p)"
proof -
  obtain m it where m: "utf8iterator_maybe_consume_match (bytes_of s) cs (tk_input p) = (m, it)" by fastforce
  have p: "sound p" "idle p" using assms(1) by (simp_all add: loop_inv_def)
  note f = consume_match_forward [OF soundD(1) [OF p(1)] m]
  show ?thesis
  proof (cases m)
    case False
    then show ?thesis using that(1) m f(3) by (simp add: maybe_consume_def)
  next
    case True
    then have lt: "ut_start (tk_input p) < ut_start it" using f(2) assms(2) by (simp add: bytes_of_def)
    have "ut_start (tk_input p) + int (length s) \<le> ut_end (tk_input p)"
      using m True by (simp add: utf8iterator_maybe_consume_match_def bytes_of_def split: if_splits)
    then have "before_end p" using assms(2) by (cases s) auto
    then show ?thesis
      using that(2) [of "p\<lparr>tk_input := it\<rparr>"] m True f(1) p lt
      by (simp add: maybe_consume_def forward_def sound_def idle_def linked_def bytes_left_def)
  qed
qed

lemma measure_less: "b < b' \<Longrightarrow> 8 * b + rank s < 8 * b' + rank s'"
  using rank_less [of s] by linarith

lemma consume_step:
  assumes "loop_inv p" "sound q" "idle q" "linked p q" "tk_token_start q = tk_token_start p" "no_tag q"
    and "bytes_left (tk_input q) < bytes_left (tk_input p)" "tk_reconsume_current_input q"
    and "class_of (tk_state q) = Other \<or> class_of (tk_state q) = Empty_buffer \<and> tk_temporary_buffer q = []"
  shows "step_ok p (NEXT_CHAR, q)"
  by (rule next_step [OF assms(1,4,2,3)]) (use assms measure_less [OF assms(7)] in \<open>auto simp: lex_measure_def\<close>)

lemma markup_declaration_ok:
  assumes "loop_inv p" "tk_state p = GUMBO_LEX_MARKUP_DECLARATION"
  shows "step_ok p (handle_markup_declaration_state p (ut_current (tk_input p)))"
proof -
  have p: "no_tag p" "tk_temporary_buffer p = []" using assms by (simp_all add: loop_inv_def)
  have other: "step_ok p (NEXT_CHAR, clear_temporary_buffer (reconsume True (gumbo_tokenizer_set_state
      GUMBO_LEX_BOGUS_COMMENT (add_parse_error GUMBO_ERR_DASHES_OR_DOCTYPE p))))"
    using assms by (intro next_step; auto simp: handler_simps)
  show ?thesis
  proof (rule maybe_consume_cases [OF assms(1), of "''--''" True])
    assume d: "maybe_consume ''--'' True p = (False, p)"
    show ?thesis
    proof (rule maybe_consume_cases [OF assms(1), of "''DOCTYPE''" False])
      assume t: "maybe_consume ''DOCTYPE'' False p = (False, p)"
      show ?thesis
      proof (rule maybe_consume_cases [OF assms(1), of "''[CDATA[''" True])
        assume "maybe_consume ''[CDATA['' True p = (False, p)"
        then show ?thesis using d t other by (simp add: handle_markup_declaration_state_def Let_def)
      qed (use d t p other in \<open>auto simp: handle_markup_declaration_state_def Let_def linked_def sound_def idle_def
             intro!: consume_step [OF assms(1)]\<close>)
    qed (use d p in \<open>auto simp: handle_markup_declaration_state_def Let_def linked_def sound_def idle_def
             intro!: consume_step [OF assms(1)]\<close>)
  qed (use p in \<open>auto simp: handle_markup_declaration_state_def Let_def linked_def sound_def idle_def
             intro!: consume_step [OF assms(1)]\<close>)
qed

lemma after_doctype_name_ok:
  assumes "loop_inv p" "tk_state p = GUMBO_LEX_AFTER_DOCTYPE_NAME"
  shows "step_ok p (handle_after_doctype_name_state p (ut_current (tk_input p)))"
proof -
  have p: "no_tag p" "tk_temporary_buffer p = []" using assms by (simp_all add: loop_inv_def)
  note e = loop_inv_end [OF assms(1)]
  have keyword: "step_ok p (case maybe_consume ''PUBLIC'' False p of (public, q) \<Rightarrow>
      if public then (NEXT_CHAR, reconsume True (gumbo_tokenizer_set_state GUMBO_LEX_AFTER_DOCTYPE_PUBLIC_KEYWORD q))
      else case maybe_consume ''SYSTEM'' False q of (system, q) \<Rightarrow>
        if system then (NEXT_CHAR, reconsume True (gumbo_tokenizer_set_state GUMBO_LEX_AFTER_DOCTYPE_SYSTEM_KEYWORD q))
        else (NEXT_CHAR, set_force_quirks True (gumbo_tokenizer_set_state GUMBO_LEX_BOGUS_DOCTYPE
               (add_parse_error GUMBO_ERR_DOCTYPE_SPACE_OR_RIGHT_BRACKET q))))"
    if ne: "ut_current (tk_input p) \<noteq> C_EOF"
  proof (rule maybe_consume_cases [OF assms(1), of "''PUBLIC''" False])
    assume d: "maybe_consume ''PUBLIC'' False p = (False, p)"
    show ?thesis
    proof (rule maybe_consume_cases [OF assms(1), of "''SYSTEM''" False])
      assume "maybe_consume ''SYSTEM'' False p = (False, p)"
      then show ?thesis using d assms e ne by (auto intro!: next_step simp: handler_simps)
    qed (use d p in \<open>auto simp: linked_def sound_def idle_def intro!: consume_step [OF assms(1)]\<close>)
  qed (use p in \<open>auto simp: linked_def sound_def idle_def intro!: consume_step [OF assms(1)]\<close>)
  show ?thesis
    unfolding handle_after_doctype_name_state_def Let_def
    by (intro if_step keyword emit_steps next_step; use assms e in \<open>auto simp: handler_simps\<close>)
qed

lemma cdata_ok:
  assumes "loop_inv p" "tk_state p = GUMBO_LEX_CDATA"
  shows "step_ok p (handle_cdata_state p (ut_current (tk_input p)))"
proof -
  have p: "no_tag p" "sound p" "idle p" "\<not> tk_reconsume_current_input p" using assms by (simp_all add: loop_inv_def)
  have fin: "step_ok p (NEXT_CHAR, gumbo_tokenizer_set_state GUMBO_LEX_DATA (reset_token_start_point (reconsume True q)))"
    if "sound q" "idle q" "linked p q" "no_tag q" "tk_token_start p \<le> ut_start (tk_input q)"
      "bytes_left (tk_input q) \<le> bytes_left (tk_input p)" for q
    using that assms sound_clean [OF that(1)] by (intro next_step [OF assms(1)]; auto simp: sound_def idle_def linked_def lex_measure_def)
  show ?thesis
  proof (cases "ut_current (tk_input p) = C_EOF")
    case True
    then show ?thesis using fin [of p] p soundD(4) [OF p(2)] by (simp add: handle_cdata_state_def Let_def linked_def)
  next
    case False
    show ?thesis
    proof (rule maybe_consume_cases [OF assms(1), of "'']]>''" True])
      assume "maybe_consume '']]>'' True p = (False, p)"
      then show ?thesis using False p assms(2)
        by (simp add: handle_cdata_state_def Let_def emit_char_step ready_def linked_def idle_def)
    next
      fix q
      assume "maybe_consume '']]>'' True p = (True, q)" "sound q" "idle q" "linked p q"
        "tk_token_start q = tk_token_start p" "tk_tag_state q = tk_tag_state p"
        "bytes_left (tk_input q) < bytes_left (tk_input p)"
      then show ?thesis using fin [of q] False p(1) soundD(4) [of q] by (simp add: handle_cdata_state_def Let_def)
    qed simp
  qed
qed

lemma bogus_comment_loop_ready:
  "sound q \<Longrightarrow> linked p q \<Longrightarrow> tk_token_start q = t \<Longrightarrow> idle q \<Longrightarrow> no_tag q \<Longrightarrow> \<not> tk_reconsume_current_input q \<Longrightarrow>
    bytes_left (tk_input q) \<le> fuel \<Longrightarrow> q' = bogus_comment_loop fuel q (ut_current (tk_input q)) \<Longrightarrow>
    sound q' \<and> linked p q' \<and> tk_token_start q' = t \<and> idle q' \<and> no_tag q' \<and> \<not> tk_reconsume_current_input q'"
proof (induction fuel arbitrary: q)
  case 0
  then have "ut_current (tk_input q) = C_EOF" using it_ok_EOF [of "tk_input q"] by (simp add: sound_def bytes_left_def)
  then show ?case using 0 by simp
next
  case (Suc fuel)
  let ?c = "ut_current (tk_input q)"
  let ?q = "next_input (append_char_to_temporary_buffer (if ?c = 0 then 0xFFFD else ?c) q)"
  show ?case
  proof (cases "?c \<noteq> C_GT \<and> ?c \<noteq> C_EOF")
    case True
    have s: "it_ok (tk_input q)" using Suc.prems(1) by (simp add: sound_def)
    have be: "before_end q" using it_ok_EOF [OF s] True by simp
    note n = it_ok_next [OF s]
    have "bytes_left (tk_input ?q) \<le> fuel" using Suc.prems(7) n(4) [OF be] be by (simp add: bytes_left_def)
    moreover have "q' = bogus_comment_loop fuel ?q (ut_current (tk_input ?q))" using Suc.prems(8) True by (simp add: Let_def)
    ultimately show ?thesis
      using Suc.prems n by (intro Suc.IH [of ?q]) (simp_all add: sound_def linked_def idle_def)
  qed (use Suc.prems in auto)
qed

lemma bogus_comment_ok:
  assumes "loop_inv p" "tk_state p = GUMBO_LEX_BOGUS_COMMENT"
  shows "step_ok p (handle_bogus_comment_state p (ut_current (tk_input p)))"
proof -
  define q where "q = bogus_comment_loop (bytes_left (tk_input p)) p (ut_current (tk_input p))"
  have "sound q \<and> linked p q \<and> tk_token_start q = tk_token_start p \<and> idle q \<and> no_tag q
      \<and> \<not> tk_reconsume_current_input q"
    using assms by (intro bogus_comment_loop_ready [OF _ _ _ _ _ _ order_refl q_def]) (simp_all add: loop_inv_def linked_def)
  then have "ready p (gumbo_tokenizer_set_state GUMBO_LEX_DATA q)"
    by (auto simp: ready_def sound_def linked_def idle_def)
  then show ?thesis by (simp add: handle_bogus_comment_state_def Let_def emit_comment_step q_def [symmetric])
qed

lemma char_ref_in_attr_value_ok:
  assumes "loop_inv p" "tk_state p = GUMBO_LEX_CHAR_REF_IN_ATTR_VALUE"
  shows "step_ok p (handle_char_ref_in_attr_value_state p (ut_current (tk_input p)))"
proof -
  let ?s = "tg_attr_value_state (tk_tag_state p)"
  have p: "past_start p" "tag_open p" "tag_known p" "attr_ready p" "value_state p" "before_end p" "sound p" "idle p"
    "\<not> tk_reconsume_current_input p"
    using assms by (simp_all add: loop_inv_def)
  have k: "class_of ?s = Value" "rank ?s = 3" using p(5) by auto
  define a where "a = (if ?s = GUMBO_LEX_ATTR_VALUE_DOUBLE_QUOTED then C_QUOT
    else if ?s = GUMBO_LEX_ATTR_VALUE_SINGLE_QUOTED then C_APOS else if ?s = GUMBO_LEX_ATTR_VALUE_UNQUOTED then C_GT else C_SPACE)"
  have e: "assert_tk (?s = GUMBO_LEX_ATTR_VALUE_DOUBLE_QUOTED \<or> ?s = GUMBO_LEX_ATTR_VALUE_SINGLE_QUOTED
      \<or> ?s = GUMBO_LEX_ATTR_VALUE_UNQUOTED) p = p"
    using p(5) by auto
  obtain st first second it where c: "consume_char_ref a True (tk_input p) = (st, (first, second), it)"
    by (metis prod_cases3 prod.exhaust)
  have o: "it_ok it" "ut_ok it = ut_ok (tk_input p)" "ut_end it = ut_end (tk_input p)" "ut_mem it = ut_mem (tk_input p)"
    "ut_start (tk_input p) \<le> ut_start it" "first \<noteq> kGumboNoChar \<Longrightarrow> ut_start (tk_input p) < ut_start it"
    using consume_char_ref_ok [OF soundD(1) [OF p(7)] p(6) c] by blast+
  let ?q = "p\<lparr>tk_input := it\<rparr>"
  have q: "sound ?q" "idle ?q" "linked p ?q" "tag_open ?q" "attr_ready ?q" "past_start ?q"
    using p o by (simp_all add: sound_def idle_def linked_def tag_open_def at_lt_def attr_ready_def)
  have lt: "bytes_left it < bytes_left (tk_input p)" if "first \<noteq> kGumboNoChar"
    using o(3) o(6) [OF that] p(6) by (simp add: bytes_left_def)
  show ?thesis
    unfolding handle_char_ref_in_attr_value_state_def Let_def e a_def [symmetric] c prod.case
    by (intro next_step [OF assms(1)]; use q k lt o p in \<open>auto simp: sound_def idle_def linked_def lex_measure_def\<close>)
qed

section \<open>All handlers\<close>

lemmas handlers_ok = data_ok char_ref_in_data_ok rcdata_ok char_ref_in_rcdata_ok rawtext_ok script_ok plaintext_ok 
  tag_open_ok end_tag_open_ok tag_name_ok rcdata_lt_ok rcdata_end_tag_open_ok end_name_ok 
  rawtext_lt_ok rawtext_end_tag_open_ok script_lt_ok script_end_tag_open_ok script_escaped_start_ok 
  script_escaped_start_dash_ok script_escaped_ok script_escaped_dash_ok script_escaped_dash_dash_ok 
  script_escaped_lt_ok script_escaped_end_tag_open_ok script_double_escaped_start_ok 
  script_double_escaped_ok script_double_escaped_dash_ok script_double_escaped_dash_dash_ok 
  script_double_escaped_lt_ok script_double_escaped_end_ok before_attr_name_ok attr_name_ok 
  after_attr_name_ok before_attr_value_ok attr_value_double_quoted_ok attr_value_single_quoted_ok 
  attr_value_unquoted_ok char_ref_in_attr_value_ok after_attr_value_quoted_ok 
  self_closing_start_tag_ok bogus_comment_ok markup_declaration_ok comment_start_ok 
  comment_start_dash_ok comment_ok comment_end_dash_ok comment_end_ok comment_end_bang_ok doctype_ok 
  before_doctype_name_ok doctype_name_ok after_doctype_name_ok after_doctype_public_keyword_ok 
  before_doctype_public_id_ok doctype_public_id_double_quoted_ok doctype_public_id_single_quoted_ok 
  after_doctype_public_id_ok between_doctype_public_system_id_ok after_doctype_system_keyword_ok 
  before_doctype_system_id_ok doctype_system_id_double_quoted_ok doctype_system_id_single_quoted_ok 
  after_doctype_system_id_ok bogus_doctype_ok cdata_ok

text \<open>One iteration of the loop.\<close>

lemma dispatch_ok:
  assumes "loop_inv p"
  shows "step_ok p (dispatch_table (tk_state p) p (ut_current (tk_input p)))"
  by (cases "tk_state p"; simp; rule handlers_ok; use assms in simp)

end
