(* ===== verification/GumboLexRuns.thy ===== *)
theory GumboLexRuns
  imports GumboLexSteps
begin

text \<open>
  Runs of the tokenizer: the calls the tree builder makes on it, in any order.  Every call of
  \<open>gumbo_lex\<close> returns, no assertion fails as long as the source has no overlong UTF-8 sequence, the tokens
  are well-typed and follow each other without a gap, and the end-of-file token comes after a bounded number
  of calls.
\<close>

section \<open>One call\<close>

lemma linked_refl: "linked p p"
  by (simp add: linked_def)

lemma linked_trans: "linked p q \<Longrightarrow> linked q r \<Longrightarrow> linked p r"
  by (auto simp: linked_def)

lemma linked_advance [simp]: "linked p (advance q) = linked p q"
  by (simp add: linked_def advance_def)

lemma advance_token_start [simp]: "tk_token_start (advance q) = tk_token_start q"
  by (simp add: advance_def)

lemma lex_loop_step:
  assumes "loop_inv p"
  shows "lex_loop p = (case dispatch_table (tk_state p) p (ut_current (tk_input p)) of (r, q) \<Rightarrow>
    if r = RETURN_SUCCESS then Some (True, reconsume False q)
    else if r = RETURN_ERROR then Some (False, reconsume False q)
    else lex_loop (advance q))"
  using assms by (subst lex_loop.simps) (simp add: loop_inv_def idle_def Let_def)

text \<open>What a call leaves behind, when the token it returned started at \<open>s\<close>.\<close>

definition returned :: "tokenizer \<Rightarrow> int \<Rightarrow> tokenizer \<Rightarrow> bool" where
  "returned p s q \<longleftrightarrow> rest q \<and> emitted s q \<and> linked p q \<and> tk_token_start p \<le> s
     \<and> (s = tk_token_start p \<or> tk_state p = GUMBO_LEX_CDATA \<or> tk_is_current_node_foreign p)"

lemma returned_advance:
  assumes "linked p q" "returned (advance q) s r"
    "tk_token_start q = tk_token_start p \<or> tk_state p = GUMBO_LEX_CDATA \<and> tk_token_start p \<le> tk_token_start q"
  shows "returned p s r"
proof -
  have a: "tk_state (advance q) = tk_state q" "tk_is_current_node_foreign (advance q) = tk_is_current_node_foreign q"
    by (simp_all add: advance_def)
  have "linked p r" using assms(1,2) linked_trans [of p "advance q" r] by (simp add: returned_def)
  moreover have "tk_token_start p \<le> s" using assms(2,3) by (auto simp: returned_def)
  moreover have "s = tk_token_start p \<or> tk_state p = GUMBO_LEX_CDATA \<or> tk_is_current_node_foreign p"
    using assms a by (auto simp: returned_def linked_def)
  ultimately show ?thesis using assms(2) by (simp add: returned_def)
qed

lemma lex_loop_returns:
  "loop_inv p \<Longrightarrow> \<exists>b s q. lex_loop p = Some (b, q) \<and> returned p s q"
proof (induction "lex_measure p" arbitrary: p rule: less_induct)
  case less
  obtain r q where d: "dispatch_table (tk_state p) p (ut_current (tk_input p)) = (r, q)" by fastforce
  have st: "step_ok p (r, q)" using dispatch_ok [OF less.prems] by (simp add: d)
  show ?case
  proof (cases "r = NEXT_CHAR")
    case True
    then have n: "linked p q" "loop_inv (advance q)" "lex_measure (advance q) < lex_measure p"
      "tk_token_start q = tk_token_start p \<or> tk_state p = GUMBO_LEX_CDATA \<and> tk_token_start p \<le> tk_token_start q"
      using st by (simp_all add: step_ok_def)
    obtain b s q' where "lex_loop (advance q) = Some (b, q')" "returned (advance q) s q'"
      using less.hyps [OF n(3,2)] by blast
    then show ?thesis
      using returned_advance [OF n(1) _ n(4)] True lex_loop_step [OF less.prems] by (auto simp: d)
  next
    case False
    then have "rest (reconsume False q)" "emitted (tk_token_start p) q" "linked p q"
      using st by (simp_all add: step_ok_def)
    moreover have "emitted s (reconsume False q) = emitted s q" for s by (rule emitted_cong) simp_all
    ultimately have "returned p (tk_token_start p) (reconsume False q)"
      by (simp add: returned_def linked_def)
    then show ?thesis using False lex_loop_step [OF less.prems] by (cases r) (auto simp: d)
  qed
qed


section \<open>The end of the source\<close>

definition eof_out :: "tokenizer \<Rightarrow> bool" where
  "eof_out p \<longleftrightarrow> (\<exists>b q. lex_loop p = Some (b, q) \<and> to_type (tk_output q) = GUMBO_TOKEN_EOF)"

lemma next_EOF: "it_ok it \<Longrightarrow> ut_current it = C_EOF \<Longrightarrow> ut_current (utf8iterator_next it) = C_EOF"
  using it_ok_EOF [of it] it_ok_EOF [OF it_ok_next(1), of it] it_ok_next(5) [of it] by simp

lemma eof_next:
  assumes "loop_inv p" "dispatch_table (tk_state p) p (ut_current (tk_input p)) = (NEXT_CHAR, q)"
    "loop_inv (advance q) \<Longrightarrow> eof_out (advance q)"
  shows "eof_out p"
  using assms(3) dispatch_ok [OF assms(1)] lex_loop_step [OF assms(1)]
  by (simp add: eof_out_def step_ok_def assms(2))

lemma eof_return:
  assumes "loop_inv p" "dispatch_table (tk_state p) p (ut_current (tk_input p)) = (r, q)" "r \<noteq> NEXT_CHAR"
    "to_type (tk_output q) = GUMBO_TOKEN_EOF"
  shows "eof_out p"
  using assms(2-4) lex_loop_step [OF assms(1)] by (cases r) (auto simp: eof_out_def)

lemma emit_EOF_type: "to_type (tk_output (emit_char (- 1) p)) = GUMBO_TOKEN_EOF"
  by (simp add: emit_char_def get_char_token_type_def)

lemma eof_text:
  assumes "loop_inv p" "ut_current (tk_input p) = C_EOF"
    "tk_state p \<in> {GUMBO_LEX_DATA, GUMBO_LEX_RCDATA, GUMBO_LEX_RAWTEXT, GUMBO_LEX_SCRIPT, GUMBO_LEX_PLAINTEXT,
      GUMBO_LEX_SCRIPT_ESCAPED}"
  shows "eof_out p"
  using assms(3)
  by (auto intro!: eof_return [OF assms(1)] simp: assms(2) handle_data_state_def handle_rcdata_state_def
      handle_rawtext_state_def handle_script_state_def handle_plaintext_state_def handle_script_escaped_state_def
      emit_current_char_def emit_eof_def Let_def emit_EOF_type)

lemma eof_script:
  assumes "loop_inv p" "ut_current (tk_input p) = C_EOF"
    "tk_state p \<in> {GUMBO_LEX_SCRIPT_ESCAPED_START, GUMBO_LEX_SCRIPT_ESCAPED_START_DASH, GUMBO_LEX_SCRIPT_ESCAPED_DASH,
      GUMBO_LEX_SCRIPT_ESCAPED_DASH_DASH, GUMBO_LEX_SCRIPT_DOUBLE_ESCAPED_START, GUMBO_LEX_SCRIPT_DOUBLE_ESCAPED,
      GUMBO_LEX_SCRIPT_DOUBLE_ESCAPED_DASH, GUMBO_LEX_SCRIPT_DOUBLE_ESCAPED_DASH_DASH, GUMBO_LEX_CDATA}"
  shows "eof_out p"
proof -
  have it: "it_ok (tk_input p)" using assms(1) by (simp add: loop_inv_def sound_def)
  show ?thesis
    by (insert assms(3), elim insertE emptyE; rule eof_next [OF assms(1)])
      (auto intro!: eof_text simp: assms(2) advance_def next_EOF it Let_def
        handle_script_escaped_start_state_def handle_script_escaped_start_dash_state_def handle_script_escaped_dash_state_def
        handle_script_escaped_dash_dash_state_def handle_script_double_escaped_start_state_def
        handle_script_double_escaped_state_def handle_script_double_escaped_dash_state_def
        handle_script_double_escaped_dash_dash_state_def handle_cdata_state_def)
qed

lemma eof_double_escaped:
  assumes "loop_inv p" "ut_current (tk_input p) = C_EOF"
    "tk_state p \<in> {GUMBO_LEX_SCRIPT_DOUBLE_ESCAPED_LT, GUMBO_LEX_SCRIPT_DOUBLE_ESCAPED_END}"
  shows "eof_out p"
  using assms(3)
  by (auto intro!: eof_next [OF assms(1)] eof_script simp: assms(2) advance_def Let_def
      handle_script_double_escaped_lt_state_def handle_script_double_escaped_end_state_def)

lemma eof_at_end:
  assumes "loop_inv p" "ut_current (tk_input p) = C_EOF" "rest_state (tk_state p)" "tk_state p \<noteq> GUMBO_LEX_BOGUS_DOCTYPE"
  shows "eof_out p"
  using assms(3,4) eof_text [OF assms(1,2)] eof_script [OF assms(1,2)] eof_double_escaped [OF assms(1,2)]
  by (cases "tk_state p") (simp_all add: rest_state_def)

lemma bogus_at_end:
  assumes "loop_inv p" "ut_current (tk_input p) = C_EOF" "tk_state p = GUMBO_LEX_BOGUS_DOCTYPE" "lex_loop p = Some (b, q)"
  shows "tk_state q = GUMBO_LEX_DATA \<and> tk_buffered_emit_char q = kGumboNoChar"
  using assms lex_loop_step [OF assms(1)]
  by (auto simp: handle_bogus_doctype_state_def Let_def emit_doctype_def loop_inv_def idle_def)

section \<open>Calls of gumbo\_lex\<close>

text \<open>The token of \<open>q\<close> starts at \<open>s\<close> and ends at the cursor, before a carriage return that the decoder
  skipped.\<close>

definition covers :: "int \<Rightarrow> tokenizer \<Rightarrow> bool" where
  "covers s q \<longleftrightarrow>
     (let out = tk_output q; e = to_text_data out + to_text_length out in
      to_text_data out = s \<and> s \<le> e \<and> tk_token_start q = ut_start (tk_input q)
      \<and> (e = ut_start (tk_input q) \<or> e + 1 = ut_start (tk_input q) \<and> ut_mem (tk_input q) e = 0x0D))"

text \<open>A bound on the number of tokens still to come.\<close>

definition remaining :: "tokenizer \<Rightarrow> nat" where
  "remaining p = 3 * nat (ut_end (tk_input p) - tk_token_start p)
     + (if tk_buffered_emit_char p \<noteq> kGumboNoChar then 1 else 0)
     + (if tk_state p = GUMBO_LEX_BOGUS_DOCTYPE then 1 else 0)"

definition call_ok :: "tokenizer \<Rightarrow> tokenizer \<Rightarrow> bool" where
  "call_ok p q \<longleftrightarrow> rest q \<and> linked p q \<and> token_ok (to_type (tk_output q)) (to_v (tk_output q))
     \<and> (\<exists>s \<ge> tk_token_start p. covers s q
         \<and> (s = tk_token_start p \<or> tk_state p = GUMBO_LEX_CDATA \<or> tk_is_current_node_foreign p))
     \<and> (to_type (tk_output q) = GUMBO_TOKEN_EOF \<or> remaining q < remaining p)"

lemma emitted_covers: "emitted s q \<Longrightarrow> covers s q \<and> token_ok (to_type (tk_output q)) (to_v (tk_output q))"
  by (auto simp: emitted_def covers_def Let_def)

lemma emitted_start: "emitted s q \<Longrightarrow> s < tk_token_start q \<or> ut_end (tk_input q) \<le> s"
  by (auto simp: emitted_def Let_def)

lemma weight_less: "x < y \<Longrightarrow> b \<le> 1 \<Longrightarrow> c \<le> 1 \<Longrightarrow> 3 * x + b + c < 3 * y + d + (e :: nat)"
  by simp

lemma remaining_less:
  assumes "linked p q" "tk_token_start p < tk_token_start q \<or> ut_end (tk_input p) \<le> tk_token_start q"
    "tk_token_start p < ut_end (tk_input p)"
  shows "remaining q < remaining p"
proof -
  have "nat (ut_end (tk_input q) - tk_token_start q) < nat (ut_end (tk_input p) - tk_token_start p)"
    using assms by (auto simp: linked_def)
  then show ?thesis unfolding remaining_def by (rule weight_less) simp_all
qed

lemma call_buffered:
  assumes "rest p" "tk_buffered_emit_char p \<noteq> kGumboNoChar"
  shows "\<exists>q. gumbo_lex p = Some (True, q) \<and> call_ok p q"
proof -
  let ?c = "tk_buffered_emit_char p"
  define p1 where "p1 = set_output (get_char_token_type ?c) (V_character ?c) (reconsume True p)"
  define q where "q = (reconsume False (finish_token p1))\<lparr>tk_buffered_emit_char := kGumboNoChar\<rparr>"
  have q: "gumbo_lex p = Some (True, q)" using assms(2) by (simp add: gumbo_lex_def Let_def emit_char_def q_def p1_def)
  have p1: "tk_input p1 = tk_input p" "tk_token_start p1 = tk_token_start p" "tk_state p1 = tk_state p"
    "tk_tag_state p1 = tk_tag_state p" "tk_reconsume_current_input p1"
    "tk_temporary_buffer_emit p1 = tk_temporary_buffer_emit p" "tk_is_current_node_foreign p1 = tk_is_current_node_foreign p"
    "to_type (tk_output p1) = get_char_token_type ?c" "to_v (tk_output p1) = V_character ?c"
    by (simp_all add: p1_def)
  have none: "tk_temporary_buffer_emit p = None" using assms by (auto simp: rest_def pending_def split: option.splits)
  have le: "tk_token_start p \<le> ut_start (tk_input p)" using assms(1) by (simp add: rest_def sound_def)
  have "sound p1" using assms(1) p1 by (simp add: rest_def sound_def)
  then have "sound q" using finish_sound [of p1] by (simp add: q_def sound_def)
  then have "rest q" using assms(1) p1 none by (simp add: rest_def q_def pending_def)
  moreover have "covers (tk_token_start p) q"
    using le p1 finish_token_length [of p1] by (simp add: covers_def q_def Let_def)
  moreover have "linked p q" "remaining q < remaining p" using p1 le assms(2) by (auto simp: linked_def q_def remaining_def)
  moreover have "token_ok (to_type (tk_output q)) (to_v (tk_output q))" using p1 by (simp add: q_def)
  ultimately show ?thesis using q by (auto simp: call_ok_def)
qed

lemma call_pending:
  assumes "rest p" "tk_buffered_emit_char p = kGumboNoChar" "tk_temporary_buffer_emit p = Some i"
    "i < length (tk_temporary_buffer p)"
  shows "\<exists>q. gumbo_lex p = Some (True, q) \<and> call_ok p q"
proof -
  have r: "sound p" "pending p" "no_tag p" "rest_state (tk_state p)" "\<not> tk_reconsume_current_input p"
    using assms(1) by (simp_all add: rest_def)
  obtain q where q: "maybe_emit_from_temporary_buffer p = (True, q)" "rest (reconsume False q)"
    "emitted (tk_token_start p) q" "linked p q" "tk_reconsume_current_input q = tk_reconsume_current_input p"
    using maybe_emit_rest [OF r(1) assms(3,4) r(2-4)] by blast
  have "rest q" using q(2,5) r(5) by (simp add: rest_def sound_def pending_def split: option.splits)
  moreover have "ut_start (tk_input p) + int (length (tk_temporary_buffer p) - i) \<le> ut_end (tk_input p)"
    using r(2) assms(3,4) by (simp add: pending_def)
  then have "tk_token_start p < ut_end (tk_input p)" using soundD(4) [OF r(1)] assms(4) by linarith
  then have "remaining q < remaining p"
    using emitted_start [OF q(3)] q(4) by (intro remaining_less) (auto simp: linked_def)
  ultimately have "call_ok p q" using emitted_covers [OF q(3)] q(4) by (auto simp: call_ok_def)
  then show ?thesis using q(1) assms(2) by (simp add: gumbo_lex_def)
qed

lemma rest_class: "rest_state s \<Longrightarrow> class_of s = Text \<or> class_of s = Other"
  by (auto simp: rest_state_def class_of_def)

lemma rest_phase: "rest p \<Longrightarrow> phase (class_of (tk_state p)) (p\<lparr>tk_temporary_buffer_emit := None\<rparr>)"
  using rest_class [of "tk_state p"] by (auto simp: rest_def)

lemma rest_loop_inv:
  "rest p \<Longrightarrow> tk_buffered_emit_char p = kGumboNoChar \<Longrightarrow> loop_inv (p\<lparr>tk_temporary_buffer_emit := None\<rparr>)"
  using rest_phase [of p] by (simp add: loop_inv_def idle_def rest_def sound_def)

lemma call_end:
  assumes "rest p" "tk_buffered_emit_char p = kGumboNoChar" "ut_end (tk_input p) \<le> tk_token_start p"
    "lex_loop (p\<lparr>tk_temporary_buffer_emit := None\<rparr>) = Some (b, q)" "tk_token_start p \<le> tk_token_start q" "linked p q"
  shows "to_type (tk_output q) = GUMBO_TOKEN_EOF \<or> remaining q < remaining p"
proof -
  let ?p = "p\<lparr>tk_temporary_buffer_emit := None\<rparr>"
  have r: "rest_state (tk_state p)" "sound p" using assms(1) by (simp_all add: rest_def)
  have eof: "ut_current (tk_input ?p) = C_EOF"
    using it_ok_EOF [OF soundD(1) [OF r(2)]] soundD(4) [OF r(2)] assms(3) by simp
  show ?thesis
  proof (cases "tk_state p = GUMBO_LEX_BOGUS_DOCTYPE")
    case True
    then have "remaining q = 0" "remaining p = 1"
      using bogus_at_end [OF rest_loop_inv [OF assms(1,2)] eof _ assms(4)] assms(2,3,5,6)
      by (simp_all add: remaining_def linked_def)
    then show ?thesis by simp
  next
    case False
    then show ?thesis
      using eof_at_end [OF rest_loop_inv [OF assms(1,2)] eof] r(1) assms(4) by (simp add: eof_out_def)
  qed
qed

lemma call_loop:
  assumes "rest p" "tk_buffered_emit_char p = kGumboNoChar"
    "\<And>i. tk_temporary_buffer_emit p = Some i \<Longrightarrow> length (tk_temporary_buffer p) \<le> i"
  shows "\<exists>b q. gumbo_lex p = Some (b, q) \<and> call_ok p q"
proof -
  let ?p = "p\<lparr>tk_temporary_buffer_emit := None\<rparr>"
  have l: "gumbo_lex p = lex_loop ?p"
    using assms(2,3) by (auto simp: gumbo_lex_def maybe_emit_from_temporary_buffer_def Let_def split: option.split)
  obtain b s q where q: "lex_loop ?p = Some (b, q)" "returned ?p s q" using lex_loop_returns [OF rest_loop_inv [OF assms(1,2)]] by blast
  have q': "rest q" "emitted s q" "linked p q" "tk_token_start p \<le> s"
    "s = tk_token_start p \<or> tk_state p = GUMBO_LEX_CDATA \<or> tk_is_current_node_foreign p"
    using q(2) by (simp_all add: returned_def linked_def)
  have qs: "s \<le> tk_token_start q" using emitted_covers [OF q'(2)] by (auto simp: covers_def Let_def)
  have "to_type (tk_output q) = GUMBO_TOKEN_EOF \<or> remaining q < remaining p"
  proof (cases "tk_token_start p < ut_end (tk_input p)")
    case True
    have "tk_token_start p < tk_token_start q \<or> ut_end (tk_input p) \<le> tk_token_start q"
      using emitted_start [OF q'(2)] q'(3,4) qs by (auto simp: linked_def)
    then show ?thesis using remaining_less [OF q'(3) _ True] by blast
  next
    case False
    then show ?thesis using call_end [OF assms(1,2) _ q(1) _ q'(3)] q'(4) qs by simp
  qed
  then have "call_ok p q" using q' emitted_covers [OF q'(2)] by (auto simp: call_ok_def)
  then show ?thesis using l q(1) by auto
qed

lemma gumbo_lex_call:
  assumes "rest p"
  shows "\<exists>b q. gumbo_lex p = Some (b, q) \<and> call_ok p q"
  using call_buffered [OF assms] call_pending [OF assms] call_loop [OF assms]
  by (cases "tk_buffered_emit_char p = kGumboNoChar") (meson not_le)+

section \<open>Runs\<close>

text \<open>What the tree builder does with the tokenizer, with the tokens it gets: it asks for the next token, it
  switches to one of the states of an element's content, and it says whether the current node is foreign, with
  one of the values of \<open>fs\<close>.\<close>

inductive run :: "bool set \<Rightarrow> tokenizer \<Rightarrow> token list \<Rightarrow> tokenizer \<Rightarrow> bool" for fs where
  run_nil: "run fs p [] p"
| run_lex: "run fs p ts q \<Longrightarrow> gumbo_lex q = Some (b, r) \<Longrightarrow> run fs p (ts @ [tk_output r]) r"
| run_state: "run fs p ts q \<Longrightarrow>
    s \<in> {GUMBO_LEX_RCDATA, GUMBO_LEX_RAWTEXT, GUMBO_LEX_SCRIPT, GUMBO_LEX_PLAINTEXT} \<Longrightarrow>
    run fs p ts (gumbo_tokenizer_set_state s q)"
| run_foreign: "run fs p ts q \<Longrightarrow> f \<in> fs \<Longrightarrow>
    run fs p ts (gumbo_tokenizer_set_is_current_node_foreign f q)"

text \<open>The source of \<open>n\<close> bytes at \<open>a\<close> is free of overlong sequences, and nothing has failed.\<close>

definition source_ok :: "int \<Rightarrow> int \<Rightarrow> tokenizer \<Rightarrow> bool" where
  "source_ok a n p \<longleftrightarrow> 0 \<le> n \<and> ut_ok (tk_input p) \<and> clean (ut_mem (tk_input p)) a (a + n)"

text \<open>The texts of the tokens follow each other from \<open>a\<close> to \<open>b\<close>; between two of them there may be a carriage
  return.\<close>

fun tiles :: "memory \<Rightarrow> int \<Rightarrow> token list \<Rightarrow> int \<Rightarrow> bool" where
  "tiles mem a [] b \<longleftrightarrow> a = b"
| "tiles mem a (t # ts) b \<longleftrightarrow> to_text_data t = a \<and> 0 \<le> to_text_length t
     \<and> (tiles mem (a + to_text_length t) ts b
        \<or> mem (a + to_text_length t) = 0x0D \<and> tiles mem (a + to_text_length t + 1) ts b)"

lemma tiles_snoc:
  assumes "tiles mem a ts b" "to_text_data t = b" "0 \<le> to_text_length t"
    "b + to_text_length t = c \<or> b + to_text_length t + 1 = c \<and> mem (b + to_text_length t) = 0x0D"
  shows "tiles mem a (ts @ [t]) c"
  using assms by (induction ts arbitrary: a) auto

lemma init_start:
  "ut_start (utf8iterator_init a n it) = a \<or> ut_current (utf8iterator_init a n it) = C_LF"
  by (auto simp: utf8iterator_init_def Let_def read_char_result)

lemma init_rest: "source_ok a n p \<Longrightarrow> rest (gumbo_tokenizer_state_init a n p)"
  using init_start [of a n "tk_input p"] it_ok_init(1,4) [of n a "tk_input p"]
  by (auto simp: source_ok_def rest_def sound_def gumbo_tokenizer_state_init_def doc_type_state_init_def
      mark_tag_state_as_empty_def Let_def pending_def rest_state_def class_of_def it_ok_init)

lemma init_remaining: "remaining (gumbo_tokenizer_state_init a n p) = 3 * nat n"
  by (simp add: remaining_def gumbo_tokenizer_state_init_def doc_type_state_init_def
      mark_tag_state_as_empty_def Let_def it_ok_init)

lemma init_fields:
  "tk_token_start (gumbo_tokenizer_state_init a n p) = a" "tk_state (gumbo_tokenizer_state_init a n p) = GUMBO_LEX_DATA"
  "\<not> tk_is_current_node_foreign (gumbo_tokenizer_state_init a n p)"
  "ut_mem (tk_input (gumbo_tokenizer_state_init a n p)) = ut_mem (tk_input p)"
  by (simp_all add: gumbo_tokenizer_state_init_def doc_type_state_init_def mark_tag_state_as_empty_def Let_def it_ok_init)

lemma call_inv: "rest p \<Longrightarrow> gumbo_lex p = Some (b, q) \<Longrightarrow> call_ok p q"
  using gumbo_lex_call [of p] by auto

lemma set_state_rest: "rest p \<Longrightarrow> rest_state s \<Longrightarrow> rest (gumbo_tokenizer_set_state s p)"
  by (simp add: rest_def sound_def pending_def split: option.splits)

lemma set_foreign_rest: "rest p \<Longrightarrow> rest (gumbo_tokenizer_set_is_current_node_foreign f p)"
  by (simp add: rest_def sound_def pending_def split: option.splits)

lemma content_states:
  "s \<in> {GUMBO_LEX_RCDATA, GUMBO_LEX_RAWTEXT, GUMBO_LEX_SCRIPT, GUMBO_LEX_PLAINTEXT} \<Longrightarrow> rest_state s"
  by (elim insertE emptyE; simp add: rest_state_def class_of_def)

lemma run_rest: "run fs p ts q \<Longrightarrow> rest p \<Longrightarrow> rest q"
proof (induction rule: run.induct)
  case (run_lex p ts q b r)
  then show ?case using call_inv by (auto simp: call_ok_def)
next
  case (run_state p ts q s)
  then show ?case using set_state_rest content_states by simp
next
  case (run_foreign p ts q f)
  then show ?case using set_foreign_rest by simp
qed simp

lemma run_tokens: "run fs p ts q \<Longrightarrow> rest p \<Longrightarrow> t \<in> set ts \<Longrightarrow> token_ok (to_type t) (to_v t)"
proof (induction rule: run.induct)
  case (run_lex p ts q b r)
  then show ?case using call_inv [OF run_rest [OF run_lex.hyps(1)]] by (auto simp: call_ok_def)
qed simp_all

lemma run_remaining:
  "run fs p ts q \<Longrightarrow> rest p \<Longrightarrow> \<forall>t \<in> set ts. to_type t \<noteq> GUMBO_TOKEN_EOF \<Longrightarrow> length ts + remaining q \<le> remaining p"
proof (induction rule: run.induct)
  case (run_lex p ts q b r)
  then show ?case using call_inv [OF run_rest [OF run_lex.hyps(1)] run_lex.hyps(2)] by (auto simp: call_ok_def)
next
  case (run_state p ts q s)
  then show ?case by (auto simp: remaining_def)
next
  case (run_foreign p ts q f)
  then show ?case by (simp add: remaining_def)
qed simp

lemma run_html:
  assumes "run {False} p ts q" "rest p" "tk_state p \<noteq> GUMBO_LEX_CDATA" "\<not> tk_is_current_node_foreign p"
  shows "tk_state q \<noteq> GUMBO_LEX_CDATA \<and> \<not> tk_is_current_node_foreign q
    \<and> ut_mem (tk_input q) = ut_mem (tk_input p) \<and> tiles (ut_mem (tk_input p)) (tk_token_start p) ts (tk_token_start q)"
  using assms
proof (induction rule: run.induct)
  case (run_lex p ts q b r)
  then have "call_ok q r" using call_inv run_rest by blast
  then show ?case
    using run_lex by (auto simp: call_ok_def covers_def linked_def Let_def intro!: tiles_snoc [of _ _ _ "tk_token_start q"])
qed auto

section \<open>Properties\<close>

text \<open>Memory holding a source at address 0, before the tokenizer is initialised.\<close>

definition loaded :: "byte list \<Rightarrow> tokenizer" where
  "loaded bs =
     \<lparr>tk_state = GUMBO_LEX_DATA, tk_reconsume_current_input = False, tk_is_current_node_foreign = False,
      tk_buffered_emit_char = 0, tk_temporary_buffer = [], tk_temporary_buffer_emit = None,
      tk_script_data_buffer = [], tk_token_start = 0, tk_token_start_pos = blank_position,
      tk_tag_state = \<lparr>tg_buffer = [], tg_original_text = 0, tg_tag = 0, tg_start_pos = blank_position,
        tg_attributes = None, tg_drop_next_attr_value = False, tg_attr_value_state = GUMBO_LEX_DATA,
        tg_last_start_tag = 0, tg_is_start_tag = False, tg_is_self_closing = False\<rparr>,
      tk_doc_type_state = empty_doc_type, tk_input = iter_on bs,
      tk_output = \<lparr>to_type = GUMBO_TOKEN_EOF, to_position = blank_position, to_text_data = 0, to_text_length = 0,
        to_v = V_character 0\<rparr>\<rparr>"

definition started :: "byte list \<Rightarrow> tokenizer" where
  "started bs = gumbo_tokenizer_state_init 0 (int (length bs)) (loaded bs)"


text \<open>The source \<open><a>\<close>; the tag \<open>a\<close> has number 39.\<close>

abbreviation "demo \<equiv> [0x3C, 0x61, 0x3E] :: byte list"

lemma demo_source: "source_ok 0 3 (loaded demo)"
proof -
  have "no_overlong (ut_mem (tk_input (loaded demo))) i" if "0 \<le> i" "i < 3" for i
  proof -
    have "i = 0 \<or> i = 1 \<or> i = 2" using that by arith
    then show ?thesis by (elim disjE) (simp_all add: no_overlong_def loaded_def iter_on_def mem_of_def)
  qed
  then show ?thesis by (simp add: source_ok_def clean_def) (simp add: loaded_def iter_on_def)
qed

lemma demo_first:
  "case gumbo_lex (started demo) of None \<Rightarrow> False
   | Some (b, q) \<Rightarrow> b \<and> to_v (tk_output q) = V_start_tag 39 (Some []) False \<and> to_text_length (tk_output q) = 3"
  by code_simp

lemma demo_run:
  obtains q where "run fs (gumbo_tokenizer_state_init 0 3 (loaded demo)) [tk_output q] q"
    "to_v (tk_output q) = V_start_tag 39 (Some []) False" "to_text_length (tk_output q) = 3"
proof -
  obtain b q where q: "gumbo_lex (started demo) = Some (b, q)"
    "to_v (tk_output q) = V_start_tag 39 (Some []) False" "to_text_length (tk_output q) = 3"
    using demo_first by (auto split: option.splits)
  have "run fs (gumbo_tokenizer_state_init 0 3 (loaded demo)) [tk_output q] q"
    using run_lex [OF run_nil q(1)] by (simp add: started_def)
  then show ?thesis using q that by blast
qed

text \<open>C2: Safety: whatever the tree builder does with the tokenizer after its initialisation on a source without overlong
  UTF-8 sequences, in whatever order, no assertion of the tokenizer, the character references or the decoder fails.\<close>

theorem tokenizer_never_fails:
  assumes "source_ok a n p" "run UNIV (gumbo_tokenizer_state_init a n p) ts q"
  shows "ut_ok (tk_input q)"
  using run_rest [OF assms(2) init_rest [OF assms(1)]] by (simp add: rest_def sound_def)

theorem tokenizer_never_fails_witness:
  "\<exists>t q. run UNIV (gumbo_tokenizer_state_init 0 3 (loaded demo)) [t] q
     \<and> to_v t = V_start_tag 39 (Some []) False \<and> ut_ok (tk_input q)"
  by (rule demo_run [of UNIV]) (use tokenizer_never_fails [OF demo_source] in blast)

text \<open>C3: Termination: after any run on a source without overlong sequences, the next call of gumbo_lex returns: its
  loop over the state handlers ends with a token.\<close>

theorem gumbo_lex_returns:
  assumes "source_ok a n p" "run UNIV (gumbo_tokenizer_state_init a n p) ts q"
  shows "\<exists>b r. gumbo_lex q = Some (b, r) \<and> rest_state (tk_state r)"
  using gumbo_lex_call [OF run_rest [OF assms(2) init_rest [OF assms(1)]]] by (auto simp: call_ok_def rest_def)

theorem gumbo_lex_returns_witness:
  "\<exists>t q b r. run UNIV (gumbo_tokenizer_state_init 0 3 (loaded demo)) [t] q \<and> gumbo_lex q = Some (b, r)"
  by (rule demo_run [of UNIV]) (use gumbo_lex_returns [OF demo_source] in blast)

text \<open>C10: Typing: every token of a run carries the value its type announces. A start tag has a known tag number
  and an attribute list whose names are pairwise distinct, an end tag a known tag number, and a character token has
  the type of its character.\<close>

theorem tokens_well_typed:
  assumes "source_ok a n p" "run UNIV (gumbo_tokenizer_state_init a n p) ts q" "t \<in> set ts"
  shows "token_ok (to_type t) (to_v t)"
  using run_tokens [OF assms(2) init_rest [OF assms(1)] assms(3)] .

theorem tokens_well_typed_witness:
  "\<exists>t q. run UNIV (gumbo_tokenizer_state_init 0 3 (loaded demo)) [t] q
     \<and> token_ok (to_type t) (V_start_tag 39 (Some []) False)"
proof (rule demo_run [of UNIV])
  fix q assume q: "run UNIV (gumbo_tokenizer_state_init 0 3 (loaded demo)) [tk_output q] q"
    "to_v (tk_output q) = V_start_tag 39 (Some []) False"
  show ?thesis using tokens_well_typed [OF demo_source q(1)] q by (metis list.set_intros(1))
qed



text \<open>C6: Liveness: a run on a source of \<open>n\<close> bytes that has not yet produced the end-of-file token has produced at
  most \<open>3 * n\<close> tokens; since every call returns, the loop of the parser sees the end of the file.\<close>

theorem eof_token_comes:
  assumes "source_ok a n p" "run UNIV (gumbo_tokenizer_state_init a n p) ts q"
    "\<forall>t \<in> set ts. to_type t \<noteq> GUMBO_TOKEN_EOF"
  shows "length ts \<le> 3 * nat n"
  using run_remaining [OF assms(2) init_rest [OF assms(1)] assms(3)] by (simp add: init_remaining)

theorem eof_token_comes_witness:
  "\<exists>t q. run UNIV (gumbo_tokenizer_state_init 0 3 (loaded demo)) [t] q \<and> to_type t \<noteq> GUMBO_TOKEN_EOF
     \<and> length [t] \<le> 9"
proof (rule demo_run [of UNIV])
  fix q assume q: "run UNIV (gumbo_tokenizer_state_init 0 3 (loaded demo)) [tk_output q] q"
    "to_v (tk_output q) = V_start_tag 39 (Some []) False"
  have "to_type (tk_output q) \<noteq> GUMBO_TOKEN_EOF"
    using run_tokens [OF q(1) init_rest [OF demo_source]] q(2) by auto
  then show ?thesis using eof_token_comes [OF demo_source q(1)] q(1) by auto
qed


end
