(* ===== verification/GumboParseRuns.thy ===== *)
theory GumboParseRuns
  imports GumboLinks GumboLexRuns
begin

text \<open>
  Runs of the parser: the states at the start of the iterations of the main loop of
  \<^verbatim>\<open>gumbo_parse_with_options\<close>, with the tokens read so far.  The invariants of the handlers give the
  properties of all of them: the tree is well linked, and the tokenizer is always in a state from which
  \<^verbatim>\<open>gumbo_lex\<close> returns.
\<close>

section \<open>The tokenizer inside the parser\<close>

text \<open>The handlers leave the tokenizer between two tokens, with nothing consumed.\<close>

definition lexes :: "nat \<Rightarrow> parser \<Rightarrow> bool" where
  "lexes m p \<longleftrightarrow> rest (pa_tokenizer p) \<and> remaining (pa_tokenizer p) \<le> m"

lemma tokenizer_simps [simp]:
  "pa_tokenizer (assert_p b p) = pa_tokenizer p" "pa_tokenizer (deref j p) = pa_tokenizer p"
  "pa_tokenizer (modify i f p) = pa_tokenizer p" "pa_tokenizer (snd (create_node ty v p)) = pa_tokenizer p"
  by (simp_all add: assert_p_def deref_def modify_def create_node_def split: option.split)

lemma tokenizer_links [simp]:
  "pa_tokenizer (append_node q nd p) = pa_tokenizer p" "pa_tokenizer (reindex k cs p) = pa_tokenizer p"
  "pa_tokenizer (insert_node q z nd p) = pa_tokenizer p" "pa_tokenizer (remove_from_parent nd p) = pa_tokenizer p"
  "pa_tokenizer (set_parents q cs p) = pa_tokenizer p" "pa_tokenizer (move_children b new p) = pa_tokenizer p"
proof -
  show "pa_tokenizer (append_node q nd p) = pa_tokenizer p" by (simp add: append_node_def Let_def)
  show r: "pa_tokenizer (reindex k cs p) = pa_tokenizer p" for k cs p by (induction k cs p rule: reindex.induct) simp_all
  show s: "pa_tokenizer (set_parents q cs p) = pa_tokenizer p" for q cs p
    by (induction q cs p rule: set_parents.induct) simp_all
  show "pa_tokenizer (insert_node q z nd p) = pa_tokenizer p" by (simp add: insert_node_def Let_def r)
  show "pa_tokenizer (remove_from_parent nd p) = pa_tokenizer p"
    by (simp add: remove_from_parent_def Let_def r split: option.split)
  show "pa_tokenizer (move_children b new p) = pa_tokenizer p" by (simp add: move_children_def Let_def append_node_def s)
qed

lemma error_lexes: "lexes m p \<Longrightarrow> lexes m (add_error_of e p)"
  by (simp add: lexes_def add_error_of_def Let_def rest_def sound_def pending_def remaining_def split: option.splits)

lemma lexer_lexes:
  assumes "lexes m p" "s \<in> {GUMBO_LEX_RCDATA, GUMBO_LEX_RAWTEXT, GUMBO_LEX_SCRIPT, GUMBO_LEX_PLAINTEXT}"
  shows "lexes m (set_lexer_state s p)"
proof -
  have "remaining (gumbo_tokenizer_set_state s (pa_tokenizer p)) \<le> remaining (pa_tokenizer p)"
    using assms(2) by (auto simp: remaining_def)
  then show ?thesis
    using assms set_state_rest [OF _ content_states [OF assms(2)]] by (simp add: lexes_def set_lexer_state_def)
qed

interpretation lexing: tree_invariant "lexes m" for m
proof unfold_locales
  fix p q nd k new b f i ty v e s parent
  show "lexes m p \<Longrightarrow> same_tree p q \<Longrightarrow> lexes m q" by (simp add: lexes_def same_tree_def)
  show "lexes m p \<Longrightarrow> s \<in> {GUMBO_LEX_RCDATA, GUMBO_LEX_RAWTEXT, GUMBO_LEX_SCRIPT, GUMBO_LEX_PLAINTEXT}
    \<Longrightarrow> lexes m (set_lexer_state s p)" by (rule lexer_lexes)
  show "lexes m p \<Longrightarrow> lexes m (add_error_of e p)" by (rule error_lexes)
qed (simp_all add: lexes_def)

lemma destroy_tokenizer [simp]: "pa_tokenizer (destroy_node nd p) = pa_tokenizer p"
proof -
  have "pa_tokenizer (destroy_below k nd p) = pa_tokenizer p" for k nd p
  proof (induction k arbitrary: nd p)
    case (Suc k)
    have "pa_tokenizer (fold (destroy_below k) cs p) = pa_tokenizer p" for cs p
      by (induction cs arbitrary: p) (simp_all add: Suc.IH)
    then show ?case by (simp add: Let_def split: option.split)
  qed simp
  then show ?thesis by (simp add: destroy_node_def)
qed

lemma frameset_lexes: "lexes m p \<Longrightarrow> lexes m (snd (in_body_frameset p))"
proof -
  assume "lexes m p"
  then have e: "lexes m (parser_add_parse_error p)" by (rule lexing.keep_parse_error)
  have d: "lexes m (snd (insert_element_from_token (destroy_node nd (modify i f q))))" "lexes m (snd (insert_element_from_token (destroy_node nd q)))"
    if "lexes m q" for q nd i f
    using that by (intro lexing.keep_insert_token; simp add: lexes_def)+
  have "lexes m (deref j (pop_until P (parser_add_parse_error p)))" for j P
    by (intro lexing.keep_asserts lexing.keep_pop_until e)
  then show ?thesis
    using e d by (auto simp: in_body_frameset_def Let_def lexing.keep_ignore lexing.keep_named_flags split: option.split)
qed

interpretation lexed: parser_invariant "lexes m" for m
  by unfold_locales (rule frameset_lexes)

section \<open>Runs\<close>

text \<open>The states at the start of an iteration, with the tokens read so far; only tokens with the property \<open>P\<close> are
  read.  The assertion on the number of iterations may hold or not.\<close>

inductive parsing :: "(token \<Rightarrow> bool) \<Rightarrow> parser \<Rightarrow> token list \<Rightarrow> parser \<Rightarrow> bool" for P p where
  parsing_start: "parsing P p [] p"
| parsing_again: "parsing P p ts q \<Longrightarrow> pa_reprocess_current_token q \<Longrightarrow> next_token b q = Some (b', r) \<Longrightarrow>
    parsing P p ts (assert_p c (snd (process_token b' r)))"
| parsing_token: "parsing P p ts q \<Longrightarrow> \<not> pa_reprocess_current_token q \<Longrightarrow> next_token b q = Some (b', r) \<Longrightarrow> P (pa_token r) \<Longrightarrow>
    parsing P p (ts @ [pa_token r]) (assert_p c (snd (process_token b' r)))"

lemma parsing_step:
  "parsing (\<lambda>t. True) p ts q \<Longrightarrow> next_token b q = Some (b', r) \<Longrightarrow>
     \<exists>us. parsing (\<lambda>t. True) p us (assert_p c (snd (process_token b' r)))"
  using parsing_again parsing_token by (cases "pa_reprocess_current_token q") blast+

lemma next_again: "pa_reprocess_current_token q \<Longrightarrow> next_token b q = Some (b', r) \<Longrightarrow> r = q\<lparr>pa_reprocess_current_token := False\<rparr>"
  by (simp add: next_token_def)

text \<open>Before a token is read, the current node is looked at.\<close>

definition looked :: "parser \<Rightarrow> parser" where
  "looked p = (let p = check_current p in if get_current_node p = None then p else deref (get_current_node p) p)"

lemma next_read:
  assumes "\<not> pa_reprocess_current_token q" "next_token b q = Some (b', r)"
  shows "\<exists>f c tok. gumbo_lex (gumbo_tokenizer_set_is_current_node_foreign f (pa_tokenizer q)) = Some (c, tok)
    \<and> r = (looked q)\<lparr>pa_tokenizer := tok, pa_token := tk_output tok\<rparr>"
  using assms
  by (auto simp: next_token_def looked_def Let_def check_current_def split: option.splits if_splits)

lemma next_returns: "rest (pa_tokenizer q) \<Longrightarrow> \<exists>x. next_token b q = Some x"
proof -
  assume q: "rest (pa_tokenizer q)"
  have "\<exists>c t. gumbo_lex (gumbo_tokenizer_set_is_current_node_foreign f (pa_tokenizer q)) = Some (c, t)" for f
    using gumbo_lex_call [OF set_foreign_rest [OF q]] by blast
  then show ?thesis
    by (auto simp: next_token_def Let_def check_current_def split: option.split) (metis option.distinct(1))+
qed

lemma looked_same [simp]:
  "pa_nodes (looked p) = pa_nodes p" "pa_next (looked p) = pa_next p" "pointers (looked p) = pointers p"
  "pa_tokenizer (looked p) = pa_tokenizer p" "pa_ok (looked p) \<Longrightarrow> pa_ok p"
  by (auto simp: looked_def Let_def check_current_def split: if_splits)

lemma pointers_token [simp]:
  "pointers (p\<lparr>pa_token := t\<rparr>) = pointers p" "pointers (p\<lparr>pa_tokenizer := k\<rparr>) = pointers p"
  by (simp_all add: pointers_def)

section \<open>The links in a run\<close>

abbreviation not_frameset :: "token \<Rightarrow> bool" where
  "not_frameset t \<equiv> \<not> tag_is t kStartTag GUMBO_TAG_FRAMESET"

lemma parsing_linked: "parsing not_frameset p ts q \<Longrightarrow> linked_state p \<Longrightarrow> linked_state q"
proof (induction rule: parsing.induct)
  case (parsing_again ts q b b' r c)
  then have "linked_state r" using next_again [OF parsing_again.hyps(2,3)] by (simp add: links.keep_flags)
  then show ?case by (intro links.keep_assert links.keep_process)
next
  case (parsing_token ts q b b' r c)
  obtain tok where r: "r = (looked q)\<lparr>pa_tokenizer := tok, pa_token := tk_output tok\<rparr>"
    using next_read [OF parsing_token.hyps(2,3)] by blast
  have "well_linked q \<Longrightarrow> well_linked r" by (rule same_nodes_linked) (simp_all add: r)
  then have "linked_state r"
    using parsing_token looked_same(5) [of q] by (auto simp: linked_state_def frameset_tag_def r)
  then show ?case by (intro links.keep_assert links.keep_process)
qed

lemma start_views:
  assumes "pa_nodes p = Map.empty"
  shows "pa_nodes (start_parser a n p) = [pa_next p \<mapsto>
      \<lparr>nd_type = GUMBO_NODE_DOCUMENT, nd_parent = None, nd_index_within_parent = -1, nd_parse_flags = GUMBO_INSERTION_BY_PARSER,
       nd_v = Node_document \<lparr>dc_children = [], dc_has_doctype = False, dc_name = None, dc_public_identifier = None,
                            dc_system_identifier = None, dc_doc_type_quirks_mode = None\<rparr>\<rparr>]"
    "pointers (start_parser a n p) = {pa_next p}" "pa_next (start_parser a n p) = pa_next p + 1"
  using assms
  by (simp_all add: start_parser_def output_init_def new_document_node_def create_node_def modify_def parser_state_init_def
      pointers_def Let_def)

lemma start_linked: "pa_nodes p = Map.empty \<Longrightarrow> linked_state (start_parser a n p)"
proof -
  assume p: "pa_nodes p = Map.empty"
  have "consistent (kids (start_parser a n p)) (up (start_parser a n p))"
    by (rule consistentI) (simp_all add: kids_def up_def start_views [OF p] split: if_splits)
  then have "well_linked (start_parser a n p)"
    by (simp add: well_linked_def well_typed_def start_views [OF p] typed_def)
  moreover have "\<not> frameset_tag (start_parser a n p)" by (simp add: frameset_tag_def tag_is_def start_parser_def Let_def)
  ultimately show ?thesis by (simp add: linked_state_def)
qed

lemma end_linked: "linked_state p \<Longrightarrow> linked_state (end_parser p)"
proof -
  assume "linked_state p"
  then have "linked_state (finish_parsing p)" by (rule links.keep_finish)
  moreover define q where "q = modify (pa_document (finish_parsing p)) (map_document (\<lambda>d. d\<lparr>dc_name := or_empty (dc_name d),
      dc_public_identifier := or_empty (dc_public_identifier d), dc_system_identifier := or_empty (dc_system_identifier d)\<rparr>))
      (finish_parsing p)"
  ultimately have q: "linked_state q" unfolding q_def by (intro quiet_linked quiet_document) simp_all
  have e: "end_parser p = q\<lparr>pa_tokenizer := gumbo_tokenizer_state_destroy (pa_tokenizer q)\<rparr>"
    by (simp add: end_parser_def Let_def q_def)
  have "well_linked q \<Longrightarrow> well_linked (end_parser p)" by (rule same_nodes_linked) (simp_all add: e)
  then show ?thesis using q by (simp add: linked_state_def frameset_tag_def e)
qed

section \<open>The tokenizer in a run\<close>

lemma start_tokenizer:
  "pa_tokenizer (start_parser a n p) = gumbo_tokenizer_state_init a n
     ((pa_tokenizer p)\<lparr>tk_input := (tk_input (pa_tokenizer p))\<lparr>ut_errors := []\<rparr>\<rparr>)"
  by (simp add: start_parser_def output_init_def new_document_node_def create_node_def modify_def parser_state_init_def Let_def)

lemma start_lexes: "source_ok a n (pa_tokenizer p) \<Longrightarrow> lexes (3 * nat n) (start_parser a n p)"
  by (simp add: lexes_def start_tokenizer init_remaining init_rest source_ok_def)

lemma next_lexes:
  assumes "lexes m q" "\<not> pa_reprocess_current_token q" "next_token b q = Some (b', r)"
  shows "if to_type (pa_token r) = GUMBO_TOKEN_EOF then \<exists>k. lexes k r else lexes (m - 1) r \<and> 0 < m"
proof -
  obtain f c tok where t: "gumbo_lex (gumbo_tokenizer_set_is_current_node_foreign f (pa_tokenizer q)) = Some (c, tok)"
    "r = (looked q)\<lparr>pa_tokenizer := tok, pa_token := tk_output tok\<rparr>"
    using next_read [OF assms(2,3)] by blast
  let ?q = "gumbo_tokenizer_set_is_current_node_foreign f (pa_tokenizer q)"
  have "rest ?q" using assms(1) set_foreign_rest by (simp add: lexes_def)
  then have "call_ok ?q tok" using t(1) call_inv by blast
  moreover have "remaining ?q = remaining (pa_tokenizer q)" by (simp add: remaining_def)
  ultimately show ?thesis using assms(1) by (auto simp: t(2) lexes_def call_ok_def)
qed

lemma parsing_lexes:
  assumes "parsing P p ts q" "lexes m p"
  shows "(\<exists>k. lexes k q) \<and> ((\<forall>t \<in> set ts. to_type t \<noteq> GUMBO_TOKEN_EOF) \<longrightarrow> length ts \<le> m \<and> lexes (m - length ts) q)"
  using assms
proof (induction rule: parsing.induct)
  case (parsing_again ts q b b' r c)
  then have "lexes k q \<Longrightarrow> lexes k (assert_p c (snd (process_token b' r)))" for k
    using next_again [OF parsing_again.hyps(2,3)] by (simp add: lexing.keep_assert lexed.keep_process lexing.keep_flags)
  then show ?case using parsing_again by blast
next
  case (parsing_token ts q b b' r c)
  note n = next_lexes [OF _ parsing_token.hyps(2,3)]
  note k = lexing.keep_assert [OF lexed.keep_process [of _ r b'], where b = c]
  obtain j where "lexes j q" using parsing_token by blast
  then have "\<exists>k. lexes k (assert_p c (snd (process_token b' r)))" using n [of j] k by (auto split: if_splits)
  moreover have "length ts + 1 \<le> m \<and> lexes (m - (length ts + 1)) (assert_p c (snd (process_token b' r)))"
    if "\<forall>t \<in> set ts. to_type t \<noteq> GUMBO_TOKEN_EOF" "to_type (pa_token r) \<noteq> GUMBO_TOKEN_EOF"
    using parsing_token.IH [OF parsing_token.prems] that n [of "m - length ts"] k by auto
  ultimately show ?case by simp
qed auto

section \<open>Concrete runs\<close>

definition blank_parser :: "tokenizer \<Rightarrow> parser" where
  "blank_parser tok =
     \<lparr>pa_nodes = Map.empty, pa_next = 0, pa_document = 0, pa_root = None, pa_tokenizer = tok,
      pa_insertion_mode = GUMBO_INSERTION_MODE_INITIAL, pa_original_insertion_mode = GUMBO_INSERTION_MODE_INITIAL,
      pa_open_elements = [], pa_active_formatting_elements = [], pa_template_insertion_modes = [], pa_head_element = None,
      pa_form_element = None, pa_reprocess_current_token = False, pa_self_closing_flag_acknowledged = False,
      pa_frameset_ok = False, pa_ignore_next_linefeed = False, pa_foster_parent_insertions = False,
      pa_text_node = \<lparr>tb_buffer = [], tb_start_original_text = 0, tb_start_position = blank_position,
        tb_type = GUMBO_NODE_WHITESPACE\<rparr>,
      pa_token = tk_output tok, pa_closed_body_tag = False, pa_closed_html_tag = False, pa_ok = True\<rparr>"

primrec iterate :: "nat \<Rightarrow> parser \<Rightarrow> (token list \<times> parser) option" where
  "iterate 0 p = Some ([], p)"
| "iterate (Suc k) p =
     (case iterate k p of
        None \<Rightarrow> None
      | Some (ts, q) \<Rightarrow>
          (case next_token False q of
             None \<Rightarrow> None
           | Some (b, r) \<Rightarrow> Some (if pa_reprocess_current_token q then ts else ts @ [pa_token r], snd (process_token b r))))"

lemma iterate_parsing: "iterate k p = Some (ts, q) \<Longrightarrow> \<forall>t \<in> set ts. P t \<Longrightarrow> parsing P p ts q"
proof (induction k arbitrary: ts q)
  case (Suc k)
  then obtain us r b x where i: "iterate k p = Some (us, r)" "next_token False r = Some (b, x)"
    "ts = (if pa_reprocess_current_token r then us else us @ [pa_token x])" "q = snd (process_token b x)"
    by (auto split: option.splits if_splits)
  show ?case
    using Suc.IH [OF i(1)] Suc.prems(2) parsing_again [OF _ _ i(2), where c = True] parsing_token [OF _ _ i(2), where c = True]
    by (auto simp: i(3,4) split: if_splits)
qed (auto intro: parsing_start)

abbreviation "demo_parser \<equiv> blank_parser (loaded demo)"

text \<open>The start tag of the demo source has opened the document, its head and its body and is to be taken again.\<close>

lemma demo_iterate:
  "case iterate 5 (start_parser 0 3 demo_parser) of None \<Rightarrow> False
   | Some (ts, q) \<Rightarrow> pa_ok q \<and> list_all (\<lambda>t. not_frameset t \<and> to_type t \<noteq> GUMBO_TOKEN_EOF) ts \<and> length ts = 1
       \<and> kids q 0 = [1] \<and> kids q 1 = [2, 3] \<and> kids q 3 = [] \<and> pa_open_elements q = [1, 3]"
  by code_simp

lemma demo_parsing:
  assumes "\<And>t. not_frameset t \<and> to_type t \<noteq> GUMBO_TOKEN_EOF \<Longrightarrow> P t"
  obtains ts q where "parsing P (start_parser 0 3 demo_parser) ts q" "pa_ok q" "length ts = 1"
    "\<forall>t \<in> set ts. to_type t \<noteq> GUMBO_TOKEN_EOF" "kids q 0 = [1] \<and> kids q 1 = [2, 3] \<and> kids q 3 = []" "pa_open_elements q = [1, 3]"
proof -
  obtain ts q where i: "iterate 5 (start_parser 0 3 demo_parser) = Some (ts, q)" "pa_ok q"
    "\<forall>t \<in> set ts. not_frameset t \<and> to_type t \<noteq> GUMBO_TOKEN_EOF" "length ts = 1"
    "kids q 0 = [1] \<and> kids q 1 = [2, 3] \<and> kids q 3 = []" "pa_open_elements q = [1, 3]"
    using demo_iterate by (auto simp only: list_all_iff option.case prod.case split: option.splits prod.splits)
  then show ?thesis using iterate_parsing [OF i(1), of P] assms that by blast
qed

section \<open>Properties\<close>

text \<open>C1: The parse tree is well linked: in every state of a run of the parser in which no frameset start tag is read, and
  at the end of the parse, unless an assertion has failed before, the children of every node know it as their parent and
  their own place among its children, every node with a parent is the child it claims to be, every node has the payload of
  its type, and no pointer on the stack, in the list of formatting elements or to the head, form and root dangles.\<close>

theorem parse_tree_well_linked:
  assumes "pa_nodes p = Map.empty" "parsing not_frameset (start_parser a n p) ts q"
  shows "(pa_ok q \<longrightarrow> well_linked q) \<and> (pa_ok (end_parser q) \<longrightarrow> well_linked (end_parser q))"
proof -
  have "linked_state q" using parsing_linked [OF assms(2) start_linked [OF assms(1)]] .
  then show ?thesis using end_linked by (simp add: linked_state_def)
qed

theorem parse_tree_well_linked_witness:
  "\<exists>ts q. parsing not_frameset (start_parser 0 3 demo_parser) ts q \<and> pa_open_elements q = [1, 3]
     \<and> kids q 0 = [1] \<and> kids q 1 = [2, 3] \<and> kids q 3 = [] \<and> well_linked q"
proof (rule demo_parsing [of not_frameset])
  fix ts q
  assume q: "parsing not_frameset (start_parser 0 3 demo_parser) ts q" "pa_ok q" "pa_open_elements q = [1, 3]"
    "kids q 0 = [1] \<and> kids q 1 = [2, 3] \<and> kids q 3 = []"
  have "well_linked q" using parse_tree_well_linked [OF _ q(1)] q(2) by (simp add: blank_parser_def)
  then show ?thesis using q by blast
qed simp

text \<open>C4: The parser reads every source without overlong sequences: in every state of a run no assertion of the tokenizer has
  failed, and the next iteration of the main loop gets a token, whatever the tree builder did with the tokens before.\<close>

theorem parser_gets_tokens:
  assumes "source_ok a n (pa_tokenizer p)" "parsing P (start_parser a n p) ts q"
  shows "ut_ok (tk_input (pa_tokenizer q)) \<and> (\<exists>x. next_token b q = Some x)"
proof -
  have "rest (pa_tokenizer q)" using parsing_lexes [OF assms(2) start_lexes [OF assms(1)]] by (auto simp: lexes_def)
  then show ?thesis using next_returns by (simp add: rest_def sound_def)
qed

theorem parser_gets_tokens_witness:
  "\<exists>ts q x. parsing (\<lambda>t. True) (start_parser 0 3 demo_parser) ts q \<and> length ts = 1 \<and> next_token False q = Some x"
proof (rule demo_parsing [of "\<lambda>t. True"])
  fix ts q
  assume q: "parsing (\<lambda>t. True) (start_parser 0 3 demo_parser) ts q" "length ts = 1"
  have "source_ok 0 3 (pa_tokenizer demo_parser)" using demo_source by (simp add: blank_parser_def)
  then show ?thesis using parser_gets_tokens [OF _ q(1), of False] q by blast
qed simp

text \<open>C7: A run of the parser on a source of \<open>n\<close> bytes that has not read the end-of-file token has read at most \<open>3 * n\<close>
  tokens: the main loop can run longer only by taking one token again and again.\<close>

theorem parser_tokens_bounded:
  assumes "source_ok a n (pa_tokenizer p)" "parsing P (start_parser a n p) ts q"
    "\<forall>t \<in> set ts. to_type t \<noteq> GUMBO_TOKEN_EOF"
  shows "length ts \<le> 3 * nat n"
  using parsing_lexes [OF assms(2) start_lexes [OF assms(1)]] assms(3) by simp

theorem parser_tokens_bounded_witness:
  "\<exists>ts q. parsing (\<lambda>t. True) (start_parser 0 3 demo_parser) ts q \<and> 0 < length ts \<and> length ts \<le> 9"
proof (rule demo_parsing [of "\<lambda>t. True"])
  fix ts q
  assume q: "parsing (\<lambda>t. True) (start_parser 0 3 demo_parser) ts q" "length ts = 1"
    "\<forall>t \<in> set ts. to_type t \<noteq> GUMBO_TOKEN_EOF"
  have "source_ok 0 3 (pa_tokenizer demo_parser)" using demo_source by (simp add: blank_parser_def)
  then have "length ts \<le> 9" using parser_tokens_bounded [OF _ q(1,3)] by simp
  then show ?thesis using q by (metis less_numeral_extra(1))
qed simp

lemma parse_loop_parsing:
  assumes "parse_loop stop k b q = Some r" "parsing (\<lambda>t. True) p ts q"
  shows "\<exists>us. parsing (\<lambda>t. True) p us r"
proof -
  have "\<forall>ts. parsing (\<lambda>t. True) p ts q \<longrightarrow> (\<exists>us. parsing (\<lambda>t. True) p us r)"
  proof (rule parse_loop.raw_induct [where P = "\<lambda>stop k b q r. \<forall>ts. parsing (\<lambda>t. True) p ts q \<longrightarrow> (\<exists>us. parsing (\<lambda>t. True) p us r)"])
    show "parse_loop stop k b q = Some r" by (rule assms(1))
  next
    fix loop s k b q r
    assume IH: "\<And>s k b q r. loop s k b q = Some r \<Longrightarrow> \<forall>ts. parsing (\<lambda>t. True) p ts q \<longrightarrow> (\<exists>us. parsing (\<lambda>t. True) p us r)"
      and e: "(case next_token b q of None \<Rightarrow> None | Some (has_error, p) \<Rightarrow>
          let (has_error, p) = process_token has_error p; p = assert_p (k + 1 < 1000000000) p
          in if (to_type (pa_token p) \<noteq> GUMBO_TOKEN_EOF \<or> pa_reprocess_current_token p) \<and> \<not> (s \<and> has_error)
             then loop s (k + 1) has_error p else Some p) = Some r"
    then obtain b' x where n: "next_token b q = Some (b', x)" by (auto split: option.splits)
    show "\<forall>ts. parsing (\<lambda>t. True) p ts q \<longrightarrow> (\<exists>us. parsing (\<lambda>t. True) p us r)"
      using e n parsing_step [OF _ n, of p _ "k + 1 < 1000000000"] IH
      by (auto simp: Let_def case_prod_unfold split: if_splits)
  qed
  then show ?thesis using assms by blast
qed


lemma empty_parse:
  "case gumbo_parse_with_options False 0 0 (blank_parser (loaded [])) of None \<Rightarrow> False
   | Some r \<Rightarrow> pa_ok r \<and> kids r 0 = [1] \<and> kids r 1 = [2, 3]"
  by code_simp


end
