(* ===== verification/Spec2Isabelle.thy ===== *)
theory Spec2Isabelle
  imports HttpUrl HttpFaults Cookie Policy TaskRace GumboParseRuns
begin

text \<open>
  A verification library for the web scanner \<^verbatim>\<open>learnandtraining\<close>: the scanner's own
  HTTP tools (\<^verbatim>\<open>src/scaner_test\<close>) and the HTML parser it is built on
  (\<^verbatim>\<open>src/html_parser\<close>).

  \<^item> \<open>Prelude\<close>: characters, \<^verbatim>\<open>std::string\<close> searches and trimming.
  \<^item> \<open>HttpUrl\<close>: URLs, request heads and request packages
    (\<^verbatim>\<open>src/scaner_test/http_tools.cpp\<close>).
\<close>

end
